theory Spec2Isabelle
  imports Main "HOL-Library.Monad_Syntax"
begin

section \<open>Query templates of the postgres execution-maps plugin\<close>

text \<open>
  The Go file builds its SQL text once, at package initialisation, with
  \<^verbatim>\<open>fmt.Sprintf\<close> over four templates. The templates are kept as the literal strings of
  the source; \<open>Sprintf\<close> models the two verbs they use, \<^verbatim>\<open>%v\<close> (the next operand) and
  \<^verbatim>\<open>%[n]v\<close> (operand \<open>n\<close>, counted from one, after which the next operand is \<open>n + 1\<close>).
  A missing operand prints as Go prints it. Any other use of the percent sign is copied
  unchanged; the templates contain none.
\<close>

definition is_digit :: "char \<Rightarrow> bool" where
  "is_digit c = (48 \<le> (of_char c :: nat) \<and> (of_char c :: nat) \<le> 57)"

definition digit_value :: "char \<Rightarrow> nat" where
  "digit_value c = of_char c - 48"

definition verb_v :: "nat \<Rightarrow> string list \<Rightarrow> string" where
  "verb_v argNum a = (if argNum < length a then a ! argNum else ''%!v(MISSING)'')"

definition index_directive :: "string \<Rightarrow> nat option" where
  "index_directive f =
     (case f of
        lb # d # rb # v # f' \<Rightarrow>
          if lb = CHR ''['' \<and> is_digit d \<and> rb = CHR '']'' \<and> v = CHR ''v''
          then Some (digit_value d) else None
      | _ \<Rightarrow> None)"

function Sprintf :: "string \<Rightarrow> nat \<Rightarrow> string list \<Rightarrow> string" where
  "Sprintf [] argNum a = []"
| "Sprintf (c # f) argNum a =
    (if c \<noteq> CHR ''%'' then c # Sprintf f argNum a
     else if f = [] then ''%!(NOVERB)''
     else if hd f = CHR ''v'' then verb_v argNum a @ Sprintf (tl f) (Suc argNum) a
     else if index_directive f = None then c # Sprintf f argNum a
     else if 1 \<le> the (index_directive f) \<and> the (index_directive f) \<le> length a
       then a ! (the (index_directive f) - 1) @ Sprintf (drop 4 f) (the (index_directive f)) a
       else ''%!v(BADINDEX)'' @ Sprintf (drop 4 f) argNum a)"
  by pat_completeness auto
termination
  by (relation "measure (\<lambda>(f, argNum, a). length f)") auto

text \<open>\<^verbatim>\<open>strings.Join\<close>.\<close>

fun Join :: "string list \<Rightarrow> string \<Rightarrow> string" where
  "Join [] sep = []"
| "Join [x] sep = x"
| "Join (x # y # zs) sep = x @ sep @ Join (y # zs) sep"

definition stringMap :: "string list \<Rightarrow> (string \<Rightarrow> string) \<Rightarrow>
    string list" where
  "stringMap a f = map f a"

definition deleteMapQueryTemplate :: string where
  "deleteMapQueryTemplate =
     ''DELETE FROM %v\<newline>'' @
     ''WHERE\<newline>'' @
     ''shard_id = $1 AND\<newline>'' @
     ''domain_id = $2 AND\<newline>'' @
     ''workflow_id = $3 AND\<newline>'' @
     ''run_id = $4''"

definition setKeyInMapQueryTemplate :: string where
  "setKeyInMapQueryTemplate =
     ''INSERT INTO %[1]v\<newline>'' @
     ''(shard_id, domain_id, workflow_id, run_id, %[4]v, %[2]v)\<newline>'' @
     ''VALUES\<newline>'' @
     ''(:shard_id, :domain_id, :workflow_id, :run_id, :%[4]v, %[3]v)\<newline>'' @
     ''ON CONFLICT (shard_id, domain_id, workflow_id, run_id, %[4]v) DO UPDATE\<newline>'' @
     [CHR 0x09] @ ''SET (shard_id, domain_id, workflow_id, run_id, %[4]v, %[2]v)\<newline>'' @
     ''  '' @ [CHR 0x09] @
     ''  = (excluded.shard_id, excluded.domain_id, excluded.workflow_id, excluded.run_id, '' @
     ''excluded.%[4]v, %[5]v)''"

definition deleteKeyInMapQueryTemplate :: string where
  "deleteKeyInMapQueryTemplate =
     ''DELETE FROM %[1]v\<newline>'' @
     ''WHERE\<newline>'' @
     ''shard_id = ? AND\<newline>'' @
     ''domain_id = ? AND\<newline>'' @
     ''workflow_id = ? AND\<newline>'' @
     ''run_id = ? AND\<newline>'' @
     ''%[2]v IN ( ? )''"

definition getMapQueryTemplate :: string where
  "getMapQueryTemplate =
     ''SELECT %[2]v, %[3]v FROM %[1]v\<newline>'' @
     ''WHERE\<newline>'' @
     ''shard_id = $1 AND\<newline>'' @
     ''domain_id = $2 AND\<newline>'' @
     ''workflow_id = $3 AND\<newline>'' @
     ''run_id = $4''"

definition deleteAllSignalsRequestedSetQuery :: string where
  "deleteAllSignalsRequestedSetQuery =
     ''DELETE FROM signals_requested_sets\<newline>'' @
     ''WHERE\<newline>'' @
     ''shard_id = $1 AND\<newline>'' @
     ''domain_id = $2 AND\<newline>'' @
     ''workflow_id = $3 AND\<newline>'' @
     ''run_id = $4\<newline>''"

definition createSignalsRequestedSetQuery :: string where
  "createSignalsRequestedSetQuery =
     ''INSERT INTO signals_requested_sets\<newline>'' @
     ''(shard_id, domain_id, workflow_id, run_id, signal_id) VALUES\<newline>'' @
     ''(:shard_id, :domain_id, :workflow_id, :run_id, :signal_id)\<newline>'' @
     ''ON CONFLICT (shard_id, domain_id, workflow_id, run_id, signal_id) DO NOTHING''"

definition deleteSignalsRequestedSetQuery :: string where
  "deleteSignalsRequestedSetQuery =
     ''DELETE FROM signals_requested_sets\<newline>'' @
     ''WHERE\<newline>'' @
     ''shard_id = ? AND\<newline>'' @
     ''domain_id = ? AND\<newline>'' @
     ''workflow_id = ? AND\<newline>'' @
     ''run_id = ? AND\<newline>'' @
     ''signal_id IN ( ? )''"

definition getSignalsRequestedSetQuery :: string where
  "getSignalsRequestedSetQuery =
     ''SELECT signal_id FROM signals_requested_sets WHERE\<newline>'' @
     ''shard_id = $1 AND\<newline>'' @
     ''domain_id = $2 AND\<newline>'' @
     ''workflow_id = $3 AND\<newline>'' @
     ''run_id = $4''"

definition makeDeleteMapQry :: "string \<Rightarrow> string" where
  "makeDeleteMapQry tableName = Sprintf deleteMapQueryTemplate 0 [tableName]"

definition makeSetKeyInMapQry :: "string \<Rightarrow> string list \<Rightarrow> string
    \<Rightarrow> string" where
  "makeSetKeyInMapQry tableName nonPrimaryKeyColumns mapKeyName =
     Sprintf setKeyInMapQueryTemplate 0
       [tableName,
        Join nonPrimaryKeyColumns '','',
        Join (stringMap nonPrimaryKeyColumns (\<lambda>x. '':'' @ x)) '','',
        mapKeyName,
        Join (stringMap nonPrimaryKeyColumns (\<lambda>x. ''excluded.'' @ x)) '','']"

definition makeDeleteKeyInMapQry :: "string \<Rightarrow> string \<Rightarrow> string" where
  "makeDeleteKeyInMapQry tableName mapKeyName =
     Sprintf deleteKeyInMapQueryTemplate 0 [tableName, mapKeyName]"

definition makeGetMapQryTemplate :: "string \<Rightarrow> string list \<Rightarrow> string
    \<Rightarrow> string" where
  "makeGetMapQryTemplate tableName nonPrimaryKeyColumns mapKeyName =
     Sprintf getMapQueryTemplate 0
       [tableName, mapKeyName, Join nonPrimaryKeyColumns '','']"

subsection \<open>The package-level query variables\<close>

definition activityInfoColumns :: "string list" where
  "activityInfoColumns =
     [''data'', ''data_encoding'', ''last_heartbeat_details'', ''last_heartbeat_updated_time'']"

definition activityInfoTableName :: string where
  "activityInfoTableName = ''activity_info_maps''"

definition activityInfoKey :: string where
  "activityInfoKey = ''schedule_id''"

definition deleteActivityInfoMapQry :: string where
  "deleteActivityInfoMapQry = makeDeleteMapQry activityInfoTableName"

definition setKeyInActivityInfoMapQry :: string where
  "setKeyInActivityInfoMapQry =
     makeSetKeyInMapQry activityInfoTableName activityInfoColumns activityInfoKey"

definition deleteKeyInActivityInfoMapQry :: string where
  "deleteKeyInActivityInfoMapQry = makeDeleteKeyInMapQry activityInfoTableName activityInfoKey"

definition getActivityInfoMapQry :: string where
  "getActivityInfoMapQry =
     makeGetMapQryTemplate activityInfoTableName activityInfoColumns activityInfoKey"

definition timerInfoColumns :: "string list" where
  "timerInfoColumns = [''data'', ''data_encoding'']"

definition timerInfoTableName :: string where
  "timerInfoTableName = ''timer_info_maps''"

definition timerInfoKey :: string where
  "timerInfoKey = ''timer_id''"

definition deleteTimerInfoMapSQLQuery :: string where
  "deleteTimerInfoMapSQLQuery = makeDeleteMapQry timerInfoTableName"

definition setKeyInTimerInfoMapSQLQuery :: string where
  "setKeyInTimerInfoMapSQLQuery =
     makeSetKeyInMapQry timerInfoTableName timerInfoColumns timerInfoKey"

definition deleteKeyInTimerInfoMapSQLQuery :: string where
  "deleteKeyInTimerInfoMapSQLQuery = makeDeleteKeyInMapQry timerInfoTableName timerInfoKey"

definition getTimerInfoMapSQLQuery :: string where
  "getTimerInfoMapSQLQuery =
     makeGetMapQryTemplate timerInfoTableName timerInfoColumns timerInfoKey"

definition childExecutionInfoColumns :: "string list" where
  "childExecutionInfoColumns = [''data'', ''data_encoding'']"

definition childExecutionInfoTableName :: string where
  "childExecutionInfoTableName = ''child_execution_info_maps''"

definition childExecutionInfoKey :: string where
  "childExecutionInfoKey = ''initiated_id''"

definition deleteChildExecutionInfoMapQry :: string where
  "deleteChildExecutionInfoMapQry = makeDeleteMapQry childExecutionInfoTableName"

definition setKeyInChildExecutionInfoMapQry :: string where
  "setKeyInChildExecutionInfoMapQry =
     makeSetKeyInMapQry childExecutionInfoTableName childExecutionInfoColumns childExecutionInfoKey"

definition deleteKeyInChildExecutionInfoMapQry :: string where
  "deleteKeyInChildExecutionInfoMapQry =
     makeDeleteKeyInMapQry childExecutionInfoTableName childExecutionInfoKey"

definition getChildExecutionInfoMapQry :: string where
  "getChildExecutionInfoMapQry =
     makeGetMapQryTemplate childExecutionInfoTableName childExecutionInfoColumns
         childExecutionInfoKey"

definition requestCancelInfoColumns :: "string list" where
  "requestCancelInfoColumns = [''data'', ''data_encoding'']"

definition requestCancelInfoTableName :: string where
  "requestCancelInfoTableName = ''request_cancel_info_maps''"

definition requestCancelInfoKey :: string where
  "requestCancelInfoKey = ''initiated_id''"

definition deleteRequestCancelInfoMapQry :: string where
  "deleteRequestCancelInfoMapQry = makeDeleteMapQry requestCancelInfoTableName"

definition setKeyInRequestCancelInfoMapQry :: string where
  "setKeyInRequestCancelInfoMapQry =
     makeSetKeyInMapQry requestCancelInfoTableName requestCancelInfoColumns requestCancelInfoKey"

definition deleteKeyInRequestCancelInfoMapQry :: string where
  "deleteKeyInRequestCancelInfoMapQry =
     makeDeleteKeyInMapQry requestCancelInfoTableName requestCancelInfoKey"

definition getRequestCancelInfoMapQry :: string where
  "getRequestCancelInfoMapQry =
     makeGetMapQryTemplate requestCancelInfoTableName requestCancelInfoColumns requestCancelInfoKey"

definition signalInfoColumns :: "string list" where
  "signalInfoColumns = [''data'', ''data_encoding'']"

definition signalInfoTableName :: string where
  "signalInfoTableName = ''signal_info_maps''"

definition signalInfoKey :: string where
  "signalInfoKey = ''initiated_id''"

definition deleteSignalInfoMapQry :: string where
  "deleteSignalInfoMapQry = makeDeleteMapQry signalInfoTableName"

definition setKeyInSignalInfoMapQry :: string where
  "setKeyInSignalInfoMapQry =
     makeSetKeyInMapQry signalInfoTableName signalInfoColumns signalInfoKey"

definition deleteKeyInSignalInfoMapQry :: string where
  "deleteKeyInSignalInfoMapQry = makeDeleteKeyInMapQry signalInfoTableName signalInfoKey"

definition getSignalInfoMapQry :: string where
  "getSignalInfoMapQry =
     makeGetMapQryTemplate signalInfoTableName signalInfoColumns signalInfoKey"

section \<open>Values, errors and the libraries the file calls\<close>

text \<open>
  Go values that cross the driver boundary: \<^verbatim>\<open>int64\<close>, \<^verbatim>\<open>string\<close>, byte slices (also the
  UUID columns) and \<^verbatim>\<open>time.Time\<close>. The time type is a parameter \<open>'t\<close>: the file never looks
  inside a time value, it only hands it to the converter.
\<close>

datatype 't val = VInt64 int | VString string | VBytes string | VTime 't

datatype error =
    EmptySliceInQuery
  | BindVarsExceedArguments
  | BindVarsLessThanArguments
  | SyntaxError
  | BadParameter
  | MissingName
  | CardinalityViolation
  | ScanError
  | OtherError string

text \<open>
  \<^verbatim>\<open>sql.Result\<close> is an opaque handle; a Go result pair \<^verbatim>\<open>(nil, nil)\<close> is \<open>Inr None\<close>,
  \<^verbatim>\<open>(res, nil)\<close> is \<open>Inr (Some Result)\<close> and \<^verbatim>\<open>(nil, err)\<close> is \<open>Inl err\<close>.
\<close>

datatype sql_result = Result

subsection \<open>sqlx.In and sqlx.Rebind\<close>

text \<open>
  \<^verbatim>\<open>sqlx.In(query, args...)\<close> of the sqlx library: an argument that is a slice stands for
  a list of bound values. An empty slice is an error; with no slice at all the query and the
  arguments come back unchanged; otherwise every question mark takes the next argument, and
  the question mark of a slice of length \<open>n\<close> becomes \<open>n\<close> question marks separated by a
  comma and a space, its elements taking the place of the slice in the argument list.
\<close>

datatype 't arg = Scalar "'t val" | Slice "'t val list"

fun is_Slice :: "'t arg \<Rightarrow> bool" where
  "is_Slice (Slice vs) = True"
| "is_Slice (Scalar v) = False"

fun flat :: "'t arg \<Rightarrow> 't val list" where
  "flat (Scalar v) = [v]"
| "flat (Slice vs) = vs"

fun expandIn :: "string \<Rightarrow> 't arg list \<Rightarrow> error + (string \<times> 't val
    list)" where
  "expandIn [] meta =
     (if meta = [] then Inr ([], []) else Inl BindVarsLessThanArguments)"
| "expandIn (c # query) meta =
     (if c \<noteq> CHR ''?'' then map_sum id (\<lambda>(q, as). (c # q, as)) (expandIn query meta)
      else case meta of
         [] \<Rightarrow> Inl BindVarsExceedArguments
       | a # meta' \<Rightarrow>
           map_sum id
             (\<lambda>(q, as). (c # concat (replicate (length (flat a) - 1) '', ?'') @ q, flat a @
                 as))
             (expandIn query meta'))"

definition sqlx_In :: "string \<Rightarrow> 't arg list \<Rightarrow> error + (string \<times> 't
    val list)" where
  "sqlx_In query args =
     (if list_ex (\<lambda>a. a = Slice []) args then Inl EmptySliceInQuery
      else if \<not> list_ex is_Slice args then Inr (query, concat (map flat args))
      else expandIn query args)"

text \<open>\<^verbatim>\<open>strconv.AppendInt(_, j, 10)\<close> for a non-negative number.\<close>

definition digit_char :: "nat \<Rightarrow> char" where
  "digit_char n = ''0123456789'' ! n"

function Itoa :: "nat \<Rightarrow> string" where
  "Itoa n = (if n < 10 then [digit_char n] else Itoa (n div 10) @ [digit_char (n mod 10)])"
  by pat_completeness auto
termination
  by (relation "measure id") auto

declare Itoa.simps [simp del]

text \<open>
  \<^verbatim>\<open>sqlx.Rebind(sqlx.BindType(PluginName), query)\<close>: the plugin is the postgres one, whose
  bind type is \<^verbatim>\<open>DOLLAR\<close>, so the \<open>j\<close>-th question mark becomes a dollar sign followed by
  \<open>j\<close> in decimal. The loop counter of the source starts at zero and is incremented before
  it is printed.
\<close>

fun Rebind_from :: "nat \<Rightarrow> string \<Rightarrow> string" where
  "Rebind_from j [] = []"
| "Rebind_from j (c # query) =
     (if c = CHR ''?'' then CHR ''$'' # Itoa (Suc j) @ Rebind_from (Suc j) query
      else c # Rebind_from j query)"

definition Rebind :: "string \<Rightarrow> string" where
  "Rebind query = Rebind_from 0 query"

section \<open>The relational backend\<close>

text \<open>
  The statements are executed by PostgreSQL, behind the driver. The backend below reads
  the statement text the way SQL does (a sequence of tokens, white space insignificant)
  and gives the four statement shapes of the file their SQL meaning on tables of rows.
  A row maps column names to values; an absent column is NULL.
\<close>

type_synonym 't sqlrow = "string \<rightharpoonup> 't val"

datatype token =
    TWord string | TDollar string | TColon string
  | TLParen | TRParen | TComma | TEquals | TOther char

datatype lexstate = Idle | InWord string | InDollar string | InColon string

fun emit :: "lexstate \<Rightarrow> token list" where
  "emit Idle = []"
| "emit (InWord w) = [TWord w]"
| "emit (InDollar d) = [TDollar d]"
| "emit (InColon n) = [TColon n]"

fun grow :: "lexstate \<Rightarrow> char \<Rightarrow> lexstate" where
  "grow Idle c = InWord [c]"
| "grow (InWord w) c = InWord (w @ [c])"
| "grow (InDollar d) c = InDollar (d @ [c])"
| "grow (InColon n) c = InColon (n @ [c])"

definition word_code :: "nat \<Rightarrow> bool" where
  "word_code n =
     ((97 \<le> n \<and> n \<le> 122) \<or> (65 \<le> n \<and> n \<le> 90) \<or> (48 \<le> n \<and>
         n \<le> 57) \<or> n = 95 \<or> n = 46)"

text \<open>Letters, digits, the underscore and the dot (as in \<^verbatim>\<open>excluded.data\<close>) make up a word.\<close>

definition is_word_char :: "char \<Rightarrow> bool" where
  "is_word_char c = word_code (of_char c)"

definition is_space :: "char \<Rightarrow> bool" where
  "is_space c = (c = CHR '' '' \<or> c = CHR 0x09 \<or> c = CHR 0x0A \<or> c = CHR 0x0D)"

definition punct :: "char \<Rightarrow> token" where
  "punct c =
     (if c = CHR ''('' then TLParen else if c = CHR '')'' then TRParen
      else if c = CHR '','' then TComma else if c = CHR ''='' then TEquals else TOther c)"

fun tokens_from :: "lexstate \<Rightarrow> string \<Rightarrow> token list" where
  "tokens_from st [] = emit st"
| "tokens_from st (c # cs) =
     (if is_word_char c then tokens_from (grow st c) cs
      else emit st @
        (if is_space c then tokens_from Idle cs
         else if c = CHR ''$'' then tokens_from (InDollar []) cs
         else if c = CHR '':'' then tokens_from (InColon []) cs
         else punct c # tokens_from Idle cs))"

definition tokens :: "string \<Rightarrow> token list" where
  "tokens q = tokens_from Idle q"

subsection \<open>Statements\<close>

datatype cond = CEq string nat | CIn string "nat list"

datatype conflict = DoNothing | DoUpdate "string list" "string list"

datatype stmt =
    Delete string "cond list"
  | Select "string list" string "cond list"
  | Insert string "string list" "string list" "string list" conflict

definition decimal :: "string \<Rightarrow> nat" where
  "decimal d = foldl (\<lambda>n c. 10 * n + digit_value c) 0 d"

definition param_index :: "string \<Rightarrow> nat option" where
  "param_index d = (if d \<noteq> [] \<and> list_all is_digit d then Some (decimal d) else None)"

fun word_of :: "token \<Rightarrow> string option" where
  "word_of (TWord w) = Some w"
| "word_of _ = None"

fun colon_of :: "token \<Rightarrow> string option" where
  "colon_of (TColon n) = Some n"
| "colon_of _ = None"

definition excluded_of :: "token \<Rightarrow> string option" where
  "excluded_of t =
     (case word_of t of
        None \<Rightarrow> None
      | Some w \<Rightarrow> if take 9 w = ''excluded.'' then Some (drop 9 w) else None)"

fun parse_list ::
  "(token \<Rightarrow> string option) \<Rightarrow> token \<Rightarrow> token list \<Rightarrow>
      (string list \<times> token list) option" where
  "parse_list item stop (x # sep # ts) =
     (case item x of
        None \<Rightarrow> None
      | Some a \<Rightarrow>
          if sep = stop then Some ([a], ts)
          else if sep = TComma
            then map_option (\<lambda>(as, r). (a # as, r)) (parse_list item stop ts)
            else None)"
| "parse_list item stop ts = None"

fun parse_params :: "token list \<Rightarrow> nat list option" where
  "parse_params (TDollar d # sep # ts) =
     (case param_index d of
        None \<Rightarrow> None
      | Some n \<Rightarrow>
          if sep = TRParen then (if ts = [] then Some [n] else None)
          else if sep = TComma then map_option ((#) n) (parse_params ts)
          else None)"
| "parse_params ts = None"

fun parse_conds :: "token list \<Rightarrow> cond list option" where
  "parse_conds (TWord c # TEquals # TDollar d # ts) =
     (case param_index d of
        None \<Rightarrow> None
      | Some n \<Rightarrow>
          (case ts of
             [] \<Rightarrow> Some [CEq c n]
           | a # ts' \<Rightarrow>
               if a = TWord ''AND'' then map_option ((#) (CEq c n)) (parse_conds ts')
               else None))"
| "parse_conds (TWord c # TWord i # TLParen # ts) =
     (if i = ''IN'' then map_option (\<lambda>ns. [CIn c ns]) (parse_params ts) else None)"
| "parse_conds ts = None"

definition expect :: "token list \<Rightarrow> token list \<Rightarrow> token list option" where
  "expect ks ts = (if take (length ks) ts = ks then Some (drop (length ks) ts) else None)"

definition table_name :: "token list \<Rightarrow> (string \<times> token list) option" where
  "table_name ts = (case ts of TWord t # r \<Rightarrow> Some (t, r) | _ \<Rightarrow> None)"

definition parse_insert :: "token list \<Rightarrow> stmt option" where
  "parse_insert ts = do {
     ts0 \<leftarrow> expect [TWord ''INTO''] ts;
     (t, ts1) \<leftarrow> table_name ts0;
     ts2 \<leftarrow> expect [TLParen] ts1;
     (cols, ts3) \<leftarrow> parse_list word_of TRParen ts2;
     ts4 \<leftarrow> expect [TWord ''VALUES'', TLParen] ts3;
     (params, ts5) \<leftarrow> parse_list colon_of TRParen ts4;
     ts6 \<leftarrow> expect [TWord ''ON'', TWord ''CONFLICT'', TLParen] ts5;
     (tgt, ts7) \<leftarrow> parse_list word_of TRParen ts6;
     ts8 \<leftarrow> expect [TWord ''DO''] ts7;
     if ts8 = [TWord ''NOTHING''] then Some (Insert t cols params tgt DoNothing)
     else do {
       ts9 \<leftarrow> expect [TWord ''UPDATE'', TWord ''SET'', TLParen] ts8;
       (tcols, ts10) \<leftarrow> parse_list word_of TRParen ts9;
       ts11 \<leftarrow> expect [TEquals, TLParen] ts10;
       (ecols, ts12) \<leftarrow> parse_list excluded_of TRParen ts11;
       if ts12 = [] then Some (Insert t cols params tgt (DoUpdate tcols ecols)) else None
     }
   }"

definition parse_delete :: "token list \<Rightarrow> stmt option" where
  "parse_delete ts = do {
     ts0 \<leftarrow> expect [TWord ''FROM''] ts;
     (t, ts1) \<leftarrow> table_name ts0;
     ts2 \<leftarrow> expect [TWord ''WHERE''] ts1;
     conds \<leftarrow> parse_conds ts2;
     Some (Delete t conds)
   }"

definition parse_select :: "token list \<Rightarrow> stmt option" where
  "parse_select ts = do {
     (cols, ts1) \<leftarrow> parse_list word_of (TWord ''FROM'') ts;
     (t, ts2) \<leftarrow> table_name ts1;
     ts3 \<leftarrow> expect [TWord ''WHERE''] ts2;
     conds \<leftarrow> parse_conds ts3;
     Some (Select cols t conds)
   }"

definition parse :: "token list \<Rightarrow> stmt option" where
  "parse ts =
     (case ts of
        [] \<Rightarrow> None
      | k # rest \<Rightarrow>
          if k = TWord ''DELETE'' then parse_delete rest
          else if k = TWord ''SELECT'' then parse_select rest
          else if k = TWord ''INSERT'' then parse_insert rest
          else None)"

definition prepare :: "string \<Rightarrow> stmt option" where
  "prepare query = parse (tokens query)"

subsection \<open>Meaning of the statements\<close>

text \<open>
  Parameters \<open>$n\<close> are counted from one. A comparison with a NULL column does not hold.
\<close>

definition arg_ok :: "'t val list \<Rightarrow> nat \<Rightarrow> bool" where
  "arg_ok args n = (1 \<le> n \<and> n \<le> length args)"

fun cond_ok :: "'t val list \<Rightarrow> cond \<Rightarrow> bool" where
  "cond_ok args (CEq c n) = arg_ok args n"
| "cond_ok args (CIn c ns) = list_all (arg_ok args) ns"

fun holds :: "'t val list \<Rightarrow> 't sqlrow \<Rightarrow> cond \<Rightarrow> bool" where
  "holds args r (CEq c n) = (r c = Some (args ! (n - 1)))"
| "holds args r (CIn c ns) = list_ex (\<lambda>n. r c = Some (args ! (n - 1))) ns"

definition matches :: "'t val list \<Rightarrow> cond list \<Rightarrow> 't sqlrow \<Rightarrow>
    bool" where
  "matches args conds r = list_all (holds args r) conds"

text \<open>
  \<^verbatim>\<open>INSERT ... ON CONFLICT\<close>: the proposed row gives each listed column the value bound to
  the parameter at the same position. It conflicts with a stored row that has the same
  (non-NULL) values in the conflict target, which names the primary key of the table. With
  \<^verbatim>\<open>DO NOTHING\<close> the proposed row is dropped; with \<^verbatim>\<open>DO UPDATE SET (cs) = (excluded.ds)\<close>
  the stored row gets, in each column of \<open>cs\<close>, the value the proposed row has in the
  column of \<open>ds\<close> at the same position. PostgreSQL refuses a \<^verbatim>\<open>DO UPDATE\<close> command in
  which two proposed rows have the same conflict target (it would affect a row twice), and
  a statement is atomic: on an error nothing is stored.
\<close>

definition agree :: "string list \<Rightarrow> 't sqlrow \<Rightarrow> 't sqlrow \<Rightarrow> bool"
    where
  "agree tgt p e = list_all (\<lambda>c. p c \<noteq> None \<and> e c = p c) tgt"

fun assign :: "(string \<times> string) list \<Rightarrow> 't sqlrow \<Rightarrow> 't sqlrow
    \<Rightarrow> 't sqlrow" where
  "assign [] p e = e"
| "assign ((tc, ec) # as) p e = (assign as p e)(tc := p ec)"

definition insert_row ::
  "conflict \<Rightarrow> string list \<Rightarrow> 't sqlrow \<Rightarrow> 't sqlrow list
      \<Rightarrow> 't sqlrow list" where
  "insert_row act tgt p tbl =
     (if \<not> list_ex (agree tgt p) tbl then tbl @ [p]
      else case act of
             DoNothing \<Rightarrow> tbl
           | DoUpdate tcols ecols \<Rightarrow>
               map (\<lambda>e. if agree tgt p e then assign (zip tcols ecols) p e else e) tbl)"

fun affects_twice :: "string list \<Rightarrow> 't sqlrow list \<Rightarrow> bool" where
  "affects_twice tgt [] = False"
| "affects_twice tgt (p # ps) = (list_ex (agree tgt p) ps \<or> affects_twice tgt ps)"

fun conflict_ok :: "conflict \<Rightarrow> bool" where
  "conflict_ok DoNothing = True"
| "conflict_ok (DoUpdate tcols ecols) = (distinct tcols \<and> length tcols = length ecols)"

fun is_update :: "conflict \<Rightarrow> bool" where
  "is_update DoNothing = False"
| "is_update (DoUpdate tcols ecols) = True"

text \<open>
  PostgreSQL keeps a timestamp with its own precision: \<open>timestamp_column\<close> is what a
  timestamp column holds after a time value is written to it.
\<close>

fun column_value :: "('t \<Rightarrow> 't) \<Rightarrow> 't val \<Rightarrow> 't val" where
  "column_value timestamp_column (VTime t) = VTime (timestamp_column t)"
| "column_value timestamp_column v = v"

fun those_opt :: "'a option list \<Rightarrow> 'a list option" where
  "those_opt [] = Some []"
| "those_opt (x # xs) =
     (case x of None \<Rightarrow> None | Some y \<Rightarrow> map_option ((#) y) (those_opt xs))"

definition proposed ::
  "('t \<Rightarrow> 't) \<Rightarrow> string list \<Rightarrow> string list \<Rightarrow> 't sqlrow
      \<Rightarrow> 't sqlrow option" where
  "proposed timestamp_column cols params b =
     map_option (\<lambda>vs. map_of (zip cols (map (column_value timestamp_column) vs)))
       (those_opt (map b params))"

definition exec_insert ::
  "('t \<Rightarrow> 't) \<Rightarrow> string list \<Rightarrow> string list \<Rightarrow> string
      list \<Rightarrow> conflict
     \<Rightarrow> 't sqlrow list \<Rightarrow> 't sqlrow list \<Rightarrow> error + 't sqlrow list"
         where
  "exec_insert timestamp_column cols params tgt act binds tbl =
     (if \<not> (distinct cols \<and> length cols = length params \<and> conflict_ok act) then Inl
         SyntaxError
      else case those_opt (map (proposed timestamp_column cols params) binds) of
             None \<Rightarrow> Inl MissingName
           | Some ps \<Rightarrow>
               if is_update act \<and> affects_twice tgt ps then Inl CardinalityViolation
               else Inr (fold (insert_row act tgt) ps tbl))"

section \<open>The plugin handle and the driver\<close>

text \<open>
  The receiver \<^verbatim>\<open>pdb\<close> of every operation. Its parts are declared in files of the
  repository that are not among the sources at hand, so they are parameters here: the
  number of database shards, the shard routing function of package \<^verbatim>\<open>sqlplugin\<close>, the two
  functions of the data converter, the \<^verbatim>\<open>sqlx.In\<close> the plugin links against, and the
  timestamp precision of the database behind the driver.
\<close>

record 't db =
  GetTotalNumDBShards :: int
  GetDBShardIDFromHistoryShardID :: "int \<Rightarrow> int \<Rightarrow> int"
  ToPostgresDateTime :: "'t \<Rightarrow> 't"
  FromPostgresDateTime :: "'t \<Rightarrow> 't"
  sqlxIn :: "string \<Rightarrow> 't arg list \<Rightarrow> error + (string \<times> 't val list)"
  timestamp_column :: "'t \<Rightarrow> 't"

text \<open>
  Modelled from the spec: the driver behind \<^verbatim>\<open>pdb.driver\<close>, with the three functions the
  file calls, is declared outside the sources at hand. It hands one parameterised statement
  to the database of the given shard and returns the result handle or the error of the
  backend. The state behind the driver is every statement handed to it, in order, and the
  tables of each database shard.
\<close>

datatype 't call =
    ExecCall int string "'t val list"
  | NamedExecCall int string "'t sqlrow list"
  | SelectCall int string "'t val list"

record 't backend =
  issued :: "'t call list"
  tables :: "int \<times> string \<Rightarrow> 't sqlrow list"

definition ExecContext ::
  "'t db \<Rightarrow> int \<Rightarrow> string \<Rightarrow> 't val list \<Rightarrow> 't backend
     \<Rightarrow> (error + sql_result option) \<times> 't backend" where
  "ExecContext pdb dbShardID query args s =
     (let s' = s\<lparr>issued := issued s @ [ExecCall dbShardID query args]\<rparr>
      in case prepare query of
           Some (Delete t conds) \<Rightarrow>
             if list_all (cond_ok args) conds
             then (Inr (Some Result),
                   s'\<lparr>tables := (tables s')((dbShardID, t) :=
                        filter (\<lambda>r. \<not> matches args conds r) (tables s' (dbShardID,
                            t)))\<rparr>)
             else (Inl BadParameter, s')
         | _ \<Rightarrow> (Inl SyntaxError, s'))"

text \<open>
  \<^verbatim>\<open>NamedExecContext\<close> with a slice of structs binds the named parameters of the statement
  once per element and executes one statement for all of them. An element reaches the
  driver as the map from its column tags to its field values.
\<close>

definition NamedExecContext ::
  "'t db \<Rightarrow> int \<Rightarrow> string \<Rightarrow> 't sqlrow list \<Rightarrow> 't
      backend
     \<Rightarrow> (error + sql_result option) \<times> 't backend" where
  "NamedExecContext pdb dbShardID query binds s =
     (let s' = s\<lparr>issued := issued s @ [NamedExecCall dbShardID query binds]\<rparr>
      in case prepare query of
           Some (Insert t cols params tgt act) \<Rightarrow>
             (case exec_insert (timestamp_column pdb) cols params tgt act binds
                     (tables s' (dbShardID, t)) of
                Inl e \<Rightarrow> (Inl e, s')
              | Inr tbl \<Rightarrow>
                  (Inr (Some Result), s'\<lparr>tables := (tables s')((dbShardID, t) :=
                      tbl)\<rparr>))
         | _ \<Rightarrow> (Inl SyntaxError, s'))"

text \<open>
  \<^verbatim>\<open>SelectContext\<close> scans each result row into a struct of the destination slice and stops
  at the first row that does not scan, keeping the rows scanned so far.
\<close>

fun scan_all :: "('t sqlrow \<Rightarrow> 'r option) \<Rightarrow> 't sqlrow list \<Rightarrow> 'r
    list \<times> error option" where
  "scan_all scan [] = ([], None)"
| "scan_all scan (x # xs) =
     (case scan x of
        None \<Rightarrow> ([], Some ScanError)
      | Some r \<Rightarrow> (case scan_all scan xs of (rs, e) \<Rightarrow> (r # rs, e)))"

definition SelectContext ::
  "'t db \<Rightarrow> int \<Rightarrow> ('t sqlrow \<Rightarrow> 'r option) \<Rightarrow> string
      \<Rightarrow> 't val list \<Rightarrow> 't backend
     \<Rightarrow> ('r list \<times> error option) \<times> 't backend" where
  "SelectContext pdb dbShardID scan query args s =
     (let s' = s\<lparr>issued := issued s @ [SelectCall dbShardID query args]\<rparr>
      in case prepare query of
           Some (Select cols t conds) \<Rightarrow>
             if list_all (cond_ok args) conds
             then (scan_all scan
                     (map (\<lambda>r. r |` set cols)
                        (filter (matches args conds) (tables s' (dbShardID, t)))), s')
             else (([], Some BadParameter), s')
         | _ \<Rightarrow> (([], Some SyntaxError), s'))"

section \<open>The six collections\<close>

text \<open>
  Modelled from the spec: the row and filter structs of package \<^verbatim>\<open>sqlplugin\<close> are declared
  outside the sources at hand. Each row has the execution identity (shard, domain, workflow,
  run), the key of its collection and the value columns that the column lists of the file
  name; each filter has the execution identity and a list of keys. The field names that the
  file uses are kept. A struct is bound to, and scanned from, the columns that carry the
  snake-case names of its fields; a scan leaves the fields that were not selected at
  their zero values. A column that is absent from a stored row is a NULL: a byte-slice
  field takes it as the nil slice, a field of any other type refuses it.
\<close>

type_synonym UUID = string

fun int64_of :: "'t val option \<Rightarrow> int option" where
  "int64_of (Some (VInt64 i)) = Some i"
| "int64_of _ = None"

fun string_of :: "'t val option \<Rightarrow> string option" where
  "string_of (Some (VString x)) = Some x"
| "string_of _ = None"

fun bytes_of :: "'t val option \<Rightarrow> string option" where
  "bytes_of (Some (VBytes x)) = Some x"
| "bytes_of None = Some []"
| "bytes_of _ = None"

fun time_of :: "'t val option \<Rightarrow> 't option" where
  "time_of (Some (VTime t)) = Some t"
| "time_of _ = None"

subsection \<open>ActivityInfoMaps\<close>

record 't ActivityInfoMapsRow =
  ShardID :: int
  DomainID :: UUID
  WorkflowID :: string
  RunID :: UUID
  ScheduleID :: int
  Data :: string
  DataEncoding :: string
  LastHeartbeatDetails :: string
  LastHeartbeatUpdatedTime :: 't

record ActivityInfoMapsFilter =
  ShardID :: int
  DomainID :: UUID
  WorkflowID :: string
  RunID :: UUID
  ScheduleIDs :: "int list"

definition bindActivityInfoMapsRow :: "'t ActivityInfoMapsRow \<Rightarrow> 't sqlrow" where
  "bindActivityInfoMapsRow row =
     [''shard_id'' \<mapsto> VInt64 (ActivityInfoMapsRow.ShardID row),
      ''domain_id'' \<mapsto> VBytes (ActivityInfoMapsRow.DomainID row),
      ''workflow_id'' \<mapsto> VString (ActivityInfoMapsRow.WorkflowID row),
      ''run_id'' \<mapsto> VBytes (ActivityInfoMapsRow.RunID row),
      ''schedule_id'' \<mapsto> VInt64 (ActivityInfoMapsRow.ScheduleID row),
      ''data'' \<mapsto> VBytes (ActivityInfoMapsRow.Data row),
      ''data_encoding'' \<mapsto> VString (ActivityInfoMapsRow.DataEncoding row),
      ''last_heartbeat_details'' \<mapsto> VBytes (ActivityInfoMapsRow.LastHeartbeatDetails row),
      ''last_heartbeat_updated_time'' \<mapsto> VTime (ActivityInfoMapsRow.LastHeartbeatUpdatedTime
          row)]"

definition scanActivityInfoMapsRow :: "'t sqlrow \<Rightarrow> 't ActivityInfoMapsRow option" where
  "scanActivityInfoMapsRow r = do {
     v_ScheduleID \<leftarrow> int64_of (r ''schedule_id'');
     v_Data \<leftarrow> bytes_of (r ''data'');
     v_DataEncoding \<leftarrow> string_of (r ''data_encoding'');
     v_LastHeartbeatDetails \<leftarrow> bytes_of (r ''last_heartbeat_details'');
     v_LastHeartbeatUpdatedTime \<leftarrow> time_of (r ''last_heartbeat_updated_time'');
     Some \<lparr>ActivityInfoMapsRow.ShardID = 0,
            ActivityInfoMapsRow.DomainID = [],
            ActivityInfoMapsRow.WorkflowID = [],
            ActivityInfoMapsRow.RunID = [],
            ActivityInfoMapsRow.ScheduleID = v_ScheduleID,
            ActivityInfoMapsRow.Data = v_Data,
            ActivityInfoMapsRow.DataEncoding = v_DataEncoding,
            ActivityInfoMapsRow.LastHeartbeatDetails = v_LastHeartbeatDetails,
            ActivityInfoMapsRow.LastHeartbeatUpdatedTime = v_LastHeartbeatUpdatedTime\<rparr>
   }"

definition ReplaceIntoActivityInfoMaps ::
  "'t db \<Rightarrow> 't ActivityInfoMapsRow list \<Rightarrow> 't backend
     \<Rightarrow> (error + sql_result option) \<times> 't ActivityInfoMapsRow list \<times> 't
         backend" where
  "ReplaceIntoActivityInfoMaps pdb rows s =
     (if length rows = 0 then (Inr None, rows, s)
      else
        let dbShardID = GetDBShardIDFromHistoryShardID pdb (ActivityInfoMapsRow.ShardID (rows ! 0))
                          (GetTotalNumDBShards pdb);
            rows' = map (\<lambda>row. row\<lparr>ActivityInfoMapsRow.LastHeartbeatUpdatedTime :=
                      ToPostgresDateTime pdb (ActivityInfoMapsRow.LastHeartbeatUpdatedTime
                          row)\<rparr>) rows
        in case NamedExecContext pdb dbShardID setKeyInActivityInfoMapQry (map
            bindActivityInfoMapsRow rows') s of
             (res, s') \<Rightarrow> (res, rows', s'))"

definition SelectFromActivityInfoMaps ::
  "'t db \<Rightarrow> ActivityInfoMapsFilter \<Rightarrow> 't backend
     \<Rightarrow> ('t ActivityInfoMapsRow list \<times> error option) \<times> 't backend" where
  "SelectFromActivityInfoMaps pdb fltr s =
     (let dbShardID = GetDBShardIDFromHistoryShardID pdb (ActivityInfoMapsFilter.ShardID fltr)
                        (GetTotalNumDBShards pdb)
      in case SelectContext pdb dbShardID scanActivityInfoMapsRow getActivityInfoMapQry
             [VInt64 (ActivityInfoMapsFilter.ShardID fltr), VBytes (ActivityInfoMapsFilter.DomainID
                 fltr),
              VString (ActivityInfoMapsFilter.WorkflowID fltr), VBytes (ActivityInfoMapsFilter.RunID
                  fltr)] s of
           ((rows, err), s') \<Rightarrow>
             ((map (\<lambda>row. row\<lparr>ActivityInfoMapsRow.ShardID :=
                 ActivityInfoMapsFilter.ShardID fltr,
                                ActivityInfoMapsRow.DomainID := ActivityInfoMapsFilter.DomainID
                                    fltr,
                                ActivityInfoMapsRow.WorkflowID := ActivityInfoMapsFilter.WorkflowID
                                    fltr,
                                ActivityInfoMapsRow.RunID := ActivityInfoMapsFilter.RunID fltr,
                                ActivityInfoMapsRow.LastHeartbeatUpdatedTime :=
                                  FromPostgresDateTime pdb
                                      (ActivityInfoMapsRow.LastHeartbeatUpdatedTime row)\<rparr>)
                                      rows, err), s'))"

definition DeleteFromActivityInfoMaps ::
  "'t db \<Rightarrow> ActivityInfoMapsFilter \<Rightarrow> 't backend \<Rightarrow> (error +
      sql_result option) \<times> 't backend" where
  "DeleteFromActivityInfoMaps pdb fltr s =
     (let dbShardID = GetDBShardIDFromHistoryShardID pdb (ActivityInfoMapsFilter.ShardID fltr)
                        (GetTotalNumDBShards pdb)
      in if length (ActivityInfoMapsFilter.ScheduleIDs fltr) > 0
         then (case sqlxIn pdb deleteKeyInActivityInfoMapQry
                   [Scalar (VInt64 (ActivityInfoMapsFilter.ShardID fltr)), Scalar (VBytes
                       (ActivityInfoMapsFilter.DomainID fltr)),
                    Scalar (VString (ActivityInfoMapsFilter.WorkflowID fltr)), Scalar (VBytes
                        (ActivityInfoMapsFilter.RunID fltr)),
                    Slice (map VInt64 (ActivityInfoMapsFilter.ScheduleIDs fltr))] of
                 Inl err \<Rightarrow> (Inl err, s)
               | Inr (query, args) \<Rightarrow> ExecContext pdb dbShardID (Rebind query) args s)
         else ExecContext pdb dbShardID deleteActivityInfoMapQry
             [VInt64 (ActivityInfoMapsFilter.ShardID fltr), VBytes (ActivityInfoMapsFilter.DomainID
                 fltr),
              VString (ActivityInfoMapsFilter.WorkflowID fltr), VBytes (ActivityInfoMapsFilter.RunID
                  fltr)] s)"

subsection \<open>TimerInfoMaps\<close>

record TimerInfoMapsRow =
  ShardID :: int
  DomainID :: UUID
  WorkflowID :: string
  RunID :: UUID
  TimerID :: string
  Data :: string
  DataEncoding :: string

record TimerInfoMapsFilter =
  ShardID :: int
  DomainID :: UUID
  WorkflowID :: string
  RunID :: UUID
  TimerIDs :: "string list"

definition bindTimerInfoMapsRow :: "TimerInfoMapsRow \<Rightarrow> 't sqlrow" where
  "bindTimerInfoMapsRow row =
     [''shard_id'' \<mapsto> VInt64 (TimerInfoMapsRow.ShardID row),
      ''domain_id'' \<mapsto> VBytes (TimerInfoMapsRow.DomainID row),
      ''workflow_id'' \<mapsto> VString (TimerInfoMapsRow.WorkflowID row),
      ''run_id'' \<mapsto> VBytes (TimerInfoMapsRow.RunID row),
      ''timer_id'' \<mapsto> VString (TimerInfoMapsRow.TimerID row),
      ''data'' \<mapsto> VBytes (TimerInfoMapsRow.Data row),
      ''data_encoding'' \<mapsto> VString (TimerInfoMapsRow.DataEncoding row)]"

definition scanTimerInfoMapsRow :: "'t sqlrow \<Rightarrow> TimerInfoMapsRow option" where
  "scanTimerInfoMapsRow r = do {
     v_TimerID \<leftarrow> string_of (r ''timer_id'');
     v_Data \<leftarrow> bytes_of (r ''data'');
     v_DataEncoding \<leftarrow> string_of (r ''data_encoding'');
     Some \<lparr>TimerInfoMapsRow.ShardID = 0,
            TimerInfoMapsRow.DomainID = [],
            TimerInfoMapsRow.WorkflowID = [],
            TimerInfoMapsRow.RunID = [],
            TimerInfoMapsRow.TimerID = v_TimerID,
            TimerInfoMapsRow.Data = v_Data,
            TimerInfoMapsRow.DataEncoding = v_DataEncoding\<rparr>
   }"

definition ReplaceIntoTimerInfoMaps ::
  "'t db \<Rightarrow> TimerInfoMapsRow list \<Rightarrow> 't backend \<Rightarrow> (error +
      sql_result option) \<times> 't backend" where
  "ReplaceIntoTimerInfoMaps pdb rows s =
     (if length rows = 0 then (Inr None, s)
      else
        let dbShardID = GetDBShardIDFromHistoryShardID pdb (TimerInfoMapsRow.ShardID (rows ! 0))
                          (GetTotalNumDBShards pdb)
        in NamedExecContext pdb dbShardID setKeyInTimerInfoMapSQLQuery (map bindTimerInfoMapsRow
            rows) s)"

definition SelectFromTimerInfoMaps ::
  "'t db \<Rightarrow> TimerInfoMapsFilter \<Rightarrow> 't backend
     \<Rightarrow> (TimerInfoMapsRow list \<times> error option) \<times> 't backend" where
  "SelectFromTimerInfoMaps pdb fltr s =
     (let dbShardID = GetDBShardIDFromHistoryShardID pdb (TimerInfoMapsFilter.ShardID fltr)
                        (GetTotalNumDBShards pdb)
      in case SelectContext pdb dbShardID scanTimerInfoMapsRow getTimerInfoMapSQLQuery
             [VInt64 (TimerInfoMapsFilter.ShardID fltr), VBytes (TimerInfoMapsFilter.DomainID fltr),
              VString (TimerInfoMapsFilter.WorkflowID fltr), VBytes (TimerInfoMapsFilter.RunID
                  fltr)] s of
           ((rows, err), s') \<Rightarrow>
             ((map (\<lambda>row. row\<lparr>TimerInfoMapsRow.ShardID := TimerInfoMapsFilter.ShardID
                 fltr,
                                TimerInfoMapsRow.DomainID := TimerInfoMapsFilter.DomainID fltr,
                                TimerInfoMapsRow.WorkflowID := TimerInfoMapsFilter.WorkflowID fltr,
                                TimerInfoMapsRow.RunID := TimerInfoMapsFilter.RunID fltr\<rparr>)
                                    rows, err), s'))"

definition DeleteFromTimerInfoMaps ::
  "'t db \<Rightarrow> TimerInfoMapsFilter \<Rightarrow> 't backend \<Rightarrow> (error +
      sql_result option) \<times> 't backend" where
  "DeleteFromTimerInfoMaps pdb fltr s =
     (let dbShardID = GetDBShardIDFromHistoryShardID pdb (TimerInfoMapsFilter.ShardID fltr)
                        (GetTotalNumDBShards pdb)
      in if length (TimerInfoMapsFilter.TimerIDs fltr) > 0
         then (case sqlxIn pdb deleteKeyInTimerInfoMapSQLQuery
                   [Scalar (VInt64 (TimerInfoMapsFilter.ShardID fltr)), Scalar (VBytes
                       (TimerInfoMapsFilter.DomainID fltr)),
                    Scalar (VString (TimerInfoMapsFilter.WorkflowID fltr)), Scalar (VBytes
                        (TimerInfoMapsFilter.RunID fltr)),
                    Slice (map VString (TimerInfoMapsFilter.TimerIDs fltr))] of
                 Inl err \<Rightarrow> (Inl err, s)
               | Inr (query, args) \<Rightarrow> ExecContext pdb dbShardID (Rebind query) args s)
         else ExecContext pdb dbShardID deleteTimerInfoMapSQLQuery
             [VInt64 (TimerInfoMapsFilter.ShardID fltr), VBytes (TimerInfoMapsFilter.DomainID fltr),
              VString (TimerInfoMapsFilter.WorkflowID fltr), VBytes (TimerInfoMapsFilter.RunID
                  fltr)] s)"

subsection \<open>ChildExecutionInfoMaps\<close>

record ChildExecutionInfoMapsRow =
  ShardID :: int
  DomainID :: UUID
  WorkflowID :: string
  RunID :: UUID
  InitiatedID :: int
  Data :: string
  DataEncoding :: string

record ChildExecutionInfoMapsFilter =
  ShardID :: int
  DomainID :: UUID
  WorkflowID :: string
  RunID :: UUID
  InitiatedIDs :: "int list"

definition bindChildExecutionInfoMapsRow :: "ChildExecutionInfoMapsRow \<Rightarrow> 't sqlrow"
    where
  "bindChildExecutionInfoMapsRow row =
     [''shard_id'' \<mapsto> VInt64 (ChildExecutionInfoMapsRow.ShardID row),
      ''domain_id'' \<mapsto> VBytes (ChildExecutionInfoMapsRow.DomainID row),
      ''workflow_id'' \<mapsto> VString (ChildExecutionInfoMapsRow.WorkflowID row),
      ''run_id'' \<mapsto> VBytes (ChildExecutionInfoMapsRow.RunID row),
      ''initiated_id'' \<mapsto> VInt64 (ChildExecutionInfoMapsRow.InitiatedID row),
      ''data'' \<mapsto> VBytes (ChildExecutionInfoMapsRow.Data row),
      ''data_encoding'' \<mapsto> VString (ChildExecutionInfoMapsRow.DataEncoding row)]"

definition scanChildExecutionInfoMapsRow :: "'t sqlrow \<Rightarrow> ChildExecutionInfoMapsRow
    option" where
  "scanChildExecutionInfoMapsRow r = do {
     v_InitiatedID \<leftarrow> int64_of (r ''initiated_id'');
     v_Data \<leftarrow> bytes_of (r ''data'');
     v_DataEncoding \<leftarrow> string_of (r ''data_encoding'');
     Some \<lparr>ChildExecutionInfoMapsRow.ShardID = 0,
            ChildExecutionInfoMapsRow.DomainID = [],
            ChildExecutionInfoMapsRow.WorkflowID = [],
            ChildExecutionInfoMapsRow.RunID = [],
            ChildExecutionInfoMapsRow.InitiatedID = v_InitiatedID,
            ChildExecutionInfoMapsRow.Data = v_Data,
            ChildExecutionInfoMapsRow.DataEncoding = v_DataEncoding\<rparr>
   }"

definition ReplaceIntoChildExecutionInfoMaps ::
  "'t db \<Rightarrow> ChildExecutionInfoMapsRow list \<Rightarrow> 't backend \<Rightarrow> (error
      + sql_result option) \<times> 't backend" where
  "ReplaceIntoChildExecutionInfoMaps pdb rows s =
     (if length rows = 0 then (Inr None, s)
      else
        let dbShardID = GetDBShardIDFromHistoryShardID pdb (ChildExecutionInfoMapsRow.ShardID (rows
            ! 0))
                          (GetTotalNumDBShards pdb)
        in NamedExecContext pdb dbShardID setKeyInChildExecutionInfoMapQry (map
            bindChildExecutionInfoMapsRow rows) s)"

definition SelectFromChildExecutionInfoMaps ::
  "'t db \<Rightarrow> ChildExecutionInfoMapsFilter \<Rightarrow> 't backend
     \<Rightarrow> (ChildExecutionInfoMapsRow list \<times> error option) \<times> 't backend" where
  "SelectFromChildExecutionInfoMaps pdb fltr s =
     (let dbShardID = GetDBShardIDFromHistoryShardID pdb (ChildExecutionInfoMapsFilter.ShardID fltr)
                        (GetTotalNumDBShards pdb)
      in case SelectContext pdb dbShardID scanChildExecutionInfoMapsRow getChildExecutionInfoMapQry
             [VInt64 (ChildExecutionInfoMapsFilter.ShardID fltr), VBytes
                 (ChildExecutionInfoMapsFilter.DomainID fltr),
              VString (ChildExecutionInfoMapsFilter.WorkflowID fltr), VBytes
                  (ChildExecutionInfoMapsFilter.RunID fltr)] s of
           ((rows, err), s') \<Rightarrow>
             ((map (\<lambda>row. row\<lparr>ChildExecutionInfoMapsRow.ShardID :=
                 ChildExecutionInfoMapsFilter.ShardID fltr,
                                ChildExecutionInfoMapsRow.DomainID :=
                                    ChildExecutionInfoMapsFilter.DomainID fltr,
                                ChildExecutionInfoMapsRow.WorkflowID :=
                                    ChildExecutionInfoMapsFilter.WorkflowID fltr,
                                ChildExecutionInfoMapsRow.RunID :=
                                    ChildExecutionInfoMapsFilter.RunID fltr\<rparr>) rows, err),
                                    s'))"

definition DeleteFromChildExecutionInfoMaps ::
  "'t db \<Rightarrow> ChildExecutionInfoMapsFilter \<Rightarrow> 't backend \<Rightarrow> (error +
      sql_result option) \<times> 't backend" where
  "DeleteFromChildExecutionInfoMaps pdb fltr s =
     (let dbShardID = GetDBShardIDFromHistoryShardID pdb (ChildExecutionInfoMapsFilter.ShardID fltr)
                        (GetTotalNumDBShards pdb)
      in if length (ChildExecutionInfoMapsFilter.InitiatedIDs fltr) > 0
         then (case sqlxIn pdb deleteKeyInChildExecutionInfoMapQry
                   [Scalar (VInt64 (ChildExecutionInfoMapsFilter.ShardID fltr)), Scalar (VBytes
                       (ChildExecutionInfoMapsFilter.DomainID fltr)),
                    Scalar (VString (ChildExecutionInfoMapsFilter.WorkflowID fltr)), Scalar (VBytes
                        (ChildExecutionInfoMapsFilter.RunID fltr)),
                    Slice (map VInt64 (ChildExecutionInfoMapsFilter.InitiatedIDs fltr))] of
                 Inl err \<Rightarrow> (Inl err, s)
               | Inr (query, args) \<Rightarrow> ExecContext pdb dbShardID (Rebind query) args s)
         else ExecContext pdb dbShardID deleteChildExecutionInfoMapQry
             [VInt64 (ChildExecutionInfoMapsFilter.ShardID fltr), VBytes
                 (ChildExecutionInfoMapsFilter.DomainID fltr),
              VString (ChildExecutionInfoMapsFilter.WorkflowID fltr), VBytes
                  (ChildExecutionInfoMapsFilter.RunID fltr)] s)"

subsection \<open>RequestCancelInfoMaps\<close>

record RequestCancelInfoMapsRow =
  ShardID :: int
  DomainID :: UUID
  WorkflowID :: string
  RunID :: UUID
  InitiatedID :: int
  Data :: string
  DataEncoding :: string

record RequestCancelInfoMapsFilter =
  ShardID :: int
  DomainID :: UUID
  WorkflowID :: string
  RunID :: UUID
  InitiatedIDs :: "int list"

definition bindRequestCancelInfoMapsRow :: "RequestCancelInfoMapsRow \<Rightarrow> 't sqlrow" where
  "bindRequestCancelInfoMapsRow row =
     [''shard_id'' \<mapsto> VInt64 (RequestCancelInfoMapsRow.ShardID row),
      ''domain_id'' \<mapsto> VBytes (RequestCancelInfoMapsRow.DomainID row),
      ''workflow_id'' \<mapsto> VString (RequestCancelInfoMapsRow.WorkflowID row),
      ''run_id'' \<mapsto> VBytes (RequestCancelInfoMapsRow.RunID row),
      ''initiated_id'' \<mapsto> VInt64 (RequestCancelInfoMapsRow.InitiatedID row),
      ''data'' \<mapsto> VBytes (RequestCancelInfoMapsRow.Data row),
      ''data_encoding'' \<mapsto> VString (RequestCancelInfoMapsRow.DataEncoding row)]"

definition scanRequestCancelInfoMapsRow :: "'t sqlrow \<Rightarrow> RequestCancelInfoMapsRow option"
    where
  "scanRequestCancelInfoMapsRow r = do {
     v_InitiatedID \<leftarrow> int64_of (r ''initiated_id'');
     v_Data \<leftarrow> bytes_of (r ''data'');
     v_DataEncoding \<leftarrow> string_of (r ''data_encoding'');
     Some \<lparr>RequestCancelInfoMapsRow.ShardID = 0,
            RequestCancelInfoMapsRow.DomainID = [],
            RequestCancelInfoMapsRow.WorkflowID = [],
            RequestCancelInfoMapsRow.RunID = [],
            RequestCancelInfoMapsRow.InitiatedID = v_InitiatedID,
            RequestCancelInfoMapsRow.Data = v_Data,
            RequestCancelInfoMapsRow.DataEncoding = v_DataEncoding\<rparr>
   }"

definition ReplaceIntoRequestCancelInfoMaps ::
  "'t db \<Rightarrow> RequestCancelInfoMapsRow list \<Rightarrow> 't backend \<Rightarrow> (error +
      sql_result option) \<times> 't backend" where
  "ReplaceIntoRequestCancelInfoMaps pdb rows s =
     (if length rows = 0 then (Inr None, s)
      else
        let dbShardID = GetDBShardIDFromHistoryShardID pdb (RequestCancelInfoMapsRow.ShardID (rows !
            0))
                          (GetTotalNumDBShards pdb)
        in NamedExecContext pdb dbShardID setKeyInRequestCancelInfoMapQry (map
            bindRequestCancelInfoMapsRow rows) s)"

definition SelectFromRequestCancelInfoMaps ::
  "'t db \<Rightarrow> RequestCancelInfoMapsFilter \<Rightarrow> 't backend
     \<Rightarrow> (RequestCancelInfoMapsRow list \<times> error option) \<times> 't backend" where
  "SelectFromRequestCancelInfoMaps pdb fltr s =
     (let dbShardID = GetDBShardIDFromHistoryShardID pdb (RequestCancelInfoMapsFilter.ShardID fltr)
                        (GetTotalNumDBShards pdb)
      in case SelectContext pdb dbShardID scanRequestCancelInfoMapsRow getRequestCancelInfoMapQry
             [VInt64 (RequestCancelInfoMapsFilter.ShardID fltr), VBytes
                 (RequestCancelInfoMapsFilter.DomainID fltr),
              VString (RequestCancelInfoMapsFilter.WorkflowID fltr), VBytes
                  (RequestCancelInfoMapsFilter.RunID fltr)] s of
           ((rows, err), s') \<Rightarrow>
             ((map (\<lambda>row. row\<lparr>RequestCancelInfoMapsRow.ShardID :=
                 RequestCancelInfoMapsFilter.ShardID fltr,
                                RequestCancelInfoMapsRow.DomainID :=
                                    RequestCancelInfoMapsFilter.DomainID fltr,
                                RequestCancelInfoMapsRow.WorkflowID :=
                                    RequestCancelInfoMapsFilter.WorkflowID fltr,
                                RequestCancelInfoMapsRow.RunID := RequestCancelInfoMapsFilter.RunID
                                    fltr\<rparr>) rows, err), s'))"

definition DeleteFromRequestCancelInfoMaps ::
  "'t db \<Rightarrow> RequestCancelInfoMapsFilter \<Rightarrow> 't backend \<Rightarrow> (error +
      sql_result option) \<times> 't backend" where
  "DeleteFromRequestCancelInfoMaps pdb fltr s =
     (let dbShardID = GetDBShardIDFromHistoryShardID pdb (RequestCancelInfoMapsFilter.ShardID fltr)
                        (GetTotalNumDBShards pdb)
      in if length (RequestCancelInfoMapsFilter.InitiatedIDs fltr) > 0
         then (case sqlxIn pdb deleteKeyInRequestCancelInfoMapQry
                   [Scalar (VInt64 (RequestCancelInfoMapsFilter.ShardID fltr)), Scalar (VBytes
                       (RequestCancelInfoMapsFilter.DomainID fltr)),
                    Scalar (VString (RequestCancelInfoMapsFilter.WorkflowID fltr)), Scalar (VBytes
                        (RequestCancelInfoMapsFilter.RunID fltr)),
                    Slice (map VInt64 (RequestCancelInfoMapsFilter.InitiatedIDs fltr))] of
                 Inl err \<Rightarrow> (Inl err, s)
               | Inr (query, args) \<Rightarrow> ExecContext pdb dbShardID (Rebind query) args s)
         else ExecContext pdb dbShardID deleteRequestCancelInfoMapQry
             [VInt64 (RequestCancelInfoMapsFilter.ShardID fltr), VBytes
                 (RequestCancelInfoMapsFilter.DomainID fltr),
              VString (RequestCancelInfoMapsFilter.WorkflowID fltr), VBytes
                  (RequestCancelInfoMapsFilter.RunID fltr)] s)"

subsection \<open>SignalInfoMaps\<close>

record SignalInfoMapsRow =
  ShardID :: int
  DomainID :: UUID
  WorkflowID :: string
  RunID :: UUID
  InitiatedID :: int
  Data :: string
  DataEncoding :: string

record SignalInfoMapsFilter =
  ShardID :: int
  DomainID :: UUID
  WorkflowID :: string
  RunID :: UUID
  InitiatedIDs :: "int list"

definition bindSignalInfoMapsRow :: "SignalInfoMapsRow \<Rightarrow> 't sqlrow" where
  "bindSignalInfoMapsRow row =
     [''shard_id'' \<mapsto> VInt64 (SignalInfoMapsRow.ShardID row),
      ''domain_id'' \<mapsto> VBytes (SignalInfoMapsRow.DomainID row),
      ''workflow_id'' \<mapsto> VString (SignalInfoMapsRow.WorkflowID row),
      ''run_id'' \<mapsto> VBytes (SignalInfoMapsRow.RunID row),
      ''initiated_id'' \<mapsto> VInt64 (SignalInfoMapsRow.InitiatedID row),
      ''data'' \<mapsto> VBytes (SignalInfoMapsRow.Data row),
      ''data_encoding'' \<mapsto> VString (SignalInfoMapsRow.DataEncoding row)]"

definition scanSignalInfoMapsRow :: "'t sqlrow \<Rightarrow> SignalInfoMapsRow option" where
  "scanSignalInfoMapsRow r = do {
     v_InitiatedID \<leftarrow> int64_of (r ''initiated_id'');
     v_Data \<leftarrow> bytes_of (r ''data'');
     v_DataEncoding \<leftarrow> string_of (r ''data_encoding'');
     Some \<lparr>SignalInfoMapsRow.ShardID = 0,
            SignalInfoMapsRow.DomainID = [],
            SignalInfoMapsRow.WorkflowID = [],
            SignalInfoMapsRow.RunID = [],
            SignalInfoMapsRow.InitiatedID = v_InitiatedID,
            SignalInfoMapsRow.Data = v_Data,
            SignalInfoMapsRow.DataEncoding = v_DataEncoding\<rparr>
   }"

definition ReplaceIntoSignalInfoMaps ::
  "'t db \<Rightarrow> SignalInfoMapsRow list \<Rightarrow> 't backend \<Rightarrow> (error +
      sql_result option) \<times> 't backend" where
  "ReplaceIntoSignalInfoMaps pdb rows s =
     (if length rows = 0 then (Inr None, s)
      else
        let dbShardID = GetDBShardIDFromHistoryShardID pdb (SignalInfoMapsRow.ShardID (rows ! 0))
                          (GetTotalNumDBShards pdb)
        in NamedExecContext pdb dbShardID setKeyInSignalInfoMapQry (map bindSignalInfoMapsRow rows)
            s)"

definition SelectFromSignalInfoMaps ::
  "'t db \<Rightarrow> SignalInfoMapsFilter \<Rightarrow> 't backend
     \<Rightarrow> (SignalInfoMapsRow list \<times> error option) \<times> 't backend" where
  "SelectFromSignalInfoMaps pdb fltr s =
     (let dbShardID = GetDBShardIDFromHistoryShardID pdb (SignalInfoMapsFilter.ShardID fltr)
                        (GetTotalNumDBShards pdb)
      in case SelectContext pdb dbShardID scanSignalInfoMapsRow getSignalInfoMapQry
             [VInt64 (SignalInfoMapsFilter.ShardID fltr), VBytes (SignalInfoMapsFilter.DomainID
                 fltr),
              VString (SignalInfoMapsFilter.WorkflowID fltr), VBytes (SignalInfoMapsFilter.RunID
                  fltr)] s of
           ((rows, err), s') \<Rightarrow>
             ((map (\<lambda>row. row\<lparr>SignalInfoMapsRow.ShardID :=
                 SignalInfoMapsFilter.ShardID fltr,
                                SignalInfoMapsRow.DomainID := SignalInfoMapsFilter.DomainID fltr,
                                SignalInfoMapsRow.WorkflowID := SignalInfoMapsFilter.WorkflowID
                                    fltr,
                                SignalInfoMapsRow.RunID := SignalInfoMapsFilter.RunID fltr\<rparr>)
                                    rows, err), s'))"

definition DeleteFromSignalInfoMaps ::
  "'t db \<Rightarrow> SignalInfoMapsFilter \<Rightarrow> 't backend \<Rightarrow> (error +
      sql_result option) \<times> 't backend" where
  "DeleteFromSignalInfoMaps pdb fltr s =
     (let dbShardID = GetDBShardIDFromHistoryShardID pdb (SignalInfoMapsFilter.ShardID fltr)
                        (GetTotalNumDBShards pdb)
      in if length (SignalInfoMapsFilter.InitiatedIDs fltr) > 0
         then (case sqlxIn pdb deleteKeyInSignalInfoMapQry
                   [Scalar (VInt64 (SignalInfoMapsFilter.ShardID fltr)), Scalar (VBytes
                       (SignalInfoMapsFilter.DomainID fltr)),
                    Scalar (VString (SignalInfoMapsFilter.WorkflowID fltr)), Scalar (VBytes
                        (SignalInfoMapsFilter.RunID fltr)),
                    Slice (map VInt64 (SignalInfoMapsFilter.InitiatedIDs fltr))] of
                 Inl err \<Rightarrow> (Inl err, s)
               | Inr (query, args) \<Rightarrow> ExecContext pdb dbShardID (Rebind query) args s)
         else ExecContext pdb dbShardID deleteSignalInfoMapQry
             [VInt64 (SignalInfoMapsFilter.ShardID fltr), VBytes (SignalInfoMapsFilter.DomainID
                 fltr),
              VString (SignalInfoMapsFilter.WorkflowID fltr), VBytes (SignalInfoMapsFilter.RunID
                  fltr)] s)"

subsection \<open>SignalsRequestedSets\<close>

record SignalsRequestedSetsRow =
  ShardID :: int
  DomainID :: UUID
  WorkflowID :: string
  RunID :: UUID
  SignalID :: string

record SignalsRequestedSetsFilter =
  ShardID :: int
  DomainID :: UUID
  WorkflowID :: string
  RunID :: UUID
  SignalIDs :: "string list"

definition bindSignalsRequestedSetsRow :: "SignalsRequestedSetsRow \<Rightarrow> 't sqlrow" where
  "bindSignalsRequestedSetsRow row =
     [''shard_id'' \<mapsto> VInt64 (SignalsRequestedSetsRow.ShardID row),
      ''domain_id'' \<mapsto> VBytes (SignalsRequestedSetsRow.DomainID row),
      ''workflow_id'' \<mapsto> VString (SignalsRequestedSetsRow.WorkflowID row),
      ''run_id'' \<mapsto> VBytes (SignalsRequestedSetsRow.RunID row),
      ''signal_id'' \<mapsto> VString (SignalsRequestedSetsRow.SignalID row)]"

definition scanSignalsRequestedSetsRow :: "'t sqlrow \<Rightarrow> SignalsRequestedSetsRow option"
    where
  "scanSignalsRequestedSetsRow r = do {
     v_SignalID \<leftarrow> string_of (r ''signal_id'');
     Some \<lparr>SignalsRequestedSetsRow.ShardID = 0,
            SignalsRequestedSetsRow.DomainID = [],
            SignalsRequestedSetsRow.WorkflowID = [],
            SignalsRequestedSetsRow.RunID = [],
            SignalsRequestedSetsRow.SignalID = v_SignalID\<rparr>
   }"

definition InsertIntoSignalsRequestedSets ::
  "'t db \<Rightarrow> SignalsRequestedSetsRow list \<Rightarrow> 't backend \<Rightarrow> (error +
      sql_result option) \<times> 't backend" where
  "InsertIntoSignalsRequestedSets pdb rows s =
     (if length rows = 0 then (Inr None, s)
      else
        let dbShardID = GetDBShardIDFromHistoryShardID pdb (SignalsRequestedSetsRow.ShardID (rows !
            0))
                          (GetTotalNumDBShards pdb)
        in NamedExecContext pdb dbShardID createSignalsRequestedSetQuery (map
            bindSignalsRequestedSetsRow rows) s)"

definition SelectFromSignalsRequestedSets ::
  "'t db \<Rightarrow> SignalsRequestedSetsFilter \<Rightarrow> 't backend
     \<Rightarrow> (SignalsRequestedSetsRow list \<times> error option) \<times> 't backend" where
  "SelectFromSignalsRequestedSets pdb fltr s =
     (let dbShardID = GetDBShardIDFromHistoryShardID pdb (SignalsRequestedSetsFilter.ShardID fltr)
                        (GetTotalNumDBShards pdb)
      in case SelectContext pdb dbShardID scanSignalsRequestedSetsRow getSignalsRequestedSetQuery
             [VInt64 (SignalsRequestedSetsFilter.ShardID fltr), VBytes
                 (SignalsRequestedSetsFilter.DomainID fltr),
              VString (SignalsRequestedSetsFilter.WorkflowID fltr), VBytes
                  (SignalsRequestedSetsFilter.RunID fltr)] s of
           ((rows, err), s') \<Rightarrow>
             ((map (\<lambda>row. row\<lparr>SignalsRequestedSetsRow.ShardID :=
                 SignalsRequestedSetsFilter.ShardID fltr,
                                SignalsRequestedSetsRow.DomainID :=
                                    SignalsRequestedSetsFilter.DomainID fltr,
                                SignalsRequestedSetsRow.WorkflowID :=
                                    SignalsRequestedSetsFilter.WorkflowID fltr,
                                SignalsRequestedSetsRow.RunID := SignalsRequestedSetsFilter.RunID
                                    fltr\<rparr>) rows, err), s'))"

definition DeleteFromSignalsRequestedSets ::
  "'t db \<Rightarrow> SignalsRequestedSetsFilter \<Rightarrow> 't backend \<Rightarrow> (error +
      sql_result option) \<times> 't backend" where
  "DeleteFromSignalsRequestedSets pdb fltr s =
     (let dbShardID = GetDBShardIDFromHistoryShardID pdb (SignalsRequestedSetsFilter.ShardID fltr)
                        (GetTotalNumDBShards pdb)
      in if length (SignalsRequestedSetsFilter.SignalIDs fltr) > 0
         then (case sqlxIn pdb deleteSignalsRequestedSetQuery
                   [Scalar (VInt64 (SignalsRequestedSetsFilter.ShardID fltr)), Scalar (VBytes
                       (SignalsRequestedSetsFilter.DomainID fltr)),
                    Scalar (VString (SignalsRequestedSetsFilter.WorkflowID fltr)), Scalar (VBytes
                        (SignalsRequestedSetsFilter.RunID fltr)),
                    Slice (map VString (SignalsRequestedSetsFilter.SignalIDs fltr))] of
                 Inl err \<Rightarrow> (Inl err, s)
               | Inr (query, args) \<Rightarrow> ExecContext pdb dbShardID (Rebind query) args s)
         else ExecContext pdb dbShardID deleteAllSignalsRequestedSetQuery
             [VInt64 (SignalsRequestedSetsFilter.ShardID fltr), VBytes
                 (SignalsRequestedSetsFilter.DomainID fltr),
              VString (SignalsRequestedSetsFilter.WorkflowID fltr), VBytes
                  (SignalsRequestedSetsFilter.RunID fltr)] s)"

section \<open>Vocabulary of the properties\<close>

text \<open>
  The columns of the execution identity, the condition that all four of them equal the
  first four parameters, and the shape of the upsert statement for a table \<open>t\<close> with key
  column \<open>k\<close> and value columns \<open>cols\<close>.
\<close>

definition identity_columns :: "string list" where
  "identity_columns = [''shard_id'', ''domain_id'', ''workflow_id'', ''run_id'']"

definition identity_conds :: "cond list" where
  "identity_conds =
     [CEq ''shard_id'' 1, CEq ''domain_id'' 2, CEq ''workflow_id'' 3, CEq ''run_id'' 4]"

definition upsert_stmt :: "string \<Rightarrow> string \<Rightarrow> string list \<Rightarrow> stmt"
    where
  "upsert_stmt t k cols =
     Insert t (identity_columns @ k # cols) (identity_columns @ k # cols) (identity_columns @ [k])
       (DoUpdate (identity_columns @ k # cols) (identity_columns @ k # cols))"

text \<open>
  A table or column name: a non-empty word. The text that \<^verbatim>\<open>sqlx.In\<close> makes of the
  delete-by-keys query of table \<open>t\<close> with key column \<open>k\<close> for \<open>n\<close> keys, and the text
  that reaches the driver after \<^verbatim>\<open>sqlx.Rebind\<close>: four parameters for the execution
  identity and the parameters \<open>$5\<close> to \<open>$(n + 4)\<close> for the keys.
\<close>

definition is_name :: "string \<Rightarrow> bool" where
  "is_name x = (x \<noteq> [] \<and> list_all is_word_char x)"

definition in_text :: "string \<Rightarrow> string \<Rightarrow> nat \<Rightarrow> string" where
  "in_text t k n =
     ''DELETE FROM '' @ t @ ''\<newline>'' @
     ''WHERE\<newline>'' @
     ''shard_id = ? AND\<newline>'' @
     ''domain_id = ? AND\<newline>'' @
     ''workflow_id = ? AND\<newline>'' @
     ''run_id = ? AND\<newline>'' @
     k @ '' IN ( ?'' @ concat (replicate (n - 1) '', ?'') @ '' )''"

definition delete_keys_text :: "string \<Rightarrow> string \<Rightarrow> nat \<Rightarrow> string"
    where
  "delete_keys_text t k n =
     ''DELETE FROM '' @ t @ ''\<newline>'' @
     ''WHERE\<newline>'' @
     ''shard_id = $1 AND\<newline>'' @
     ''domain_id = $2 AND\<newline>'' @
     ''workflow_id = $3 AND\<newline>'' @
     ''run_id = $4 AND\<newline>'' @
     k @ '' IN ( '' @ Join (map (\<lambda>i. CHR ''$'' # Itoa i) [5..<5 + n]) '', '' @ '' )''"

text \<open>A stored row belongs to the execution with the given identity.\<close>

definition in_execution :: "int \<Rightarrow> UUID \<Rightarrow> string \<Rightarrow> UUID
    \<Rightarrow> 't sqlrow \<Rightarrow> bool" where
  "in_execution shardID domainID workflowID runID row =
     (row ''shard_id'' = Some (VInt64 shardID) \<and> row ''domain_id'' = Some (VBytes domainID)
         \<and>
      row ''workflow_id'' = Some (VString workflowID) \<and> row ''run_id'' = Some (VBytes runID))"

text \<open>
  What the table holds of a bound struct once it is written: each value as the column keeps
  it. A proposed row \<open>p\<close> is \<open>upserted\<close> in a table when some stored row has its values
  in the conflict target \<open>tgt\<close>, and every stored row that has them carries the value of
  \<open>p\<close> in each column of \<open>cols\<close>.
\<close>

definition stored :: "'t db \<Rightarrow> 't sqlrow \<Rightarrow> 't sqlrow" where
  "stored pdb b = map_option (column_value (timestamp_column pdb)) \<circ> b"

definition upserted ::
  "string list \<Rightarrow> string list \<Rightarrow> 't sqlrow \<Rightarrow> 't sqlrow list
      \<Rightarrow> bool" where
  "upserted tgt cols p tbl =
     ((\<exists>e\<in>set tbl. agree tgt p e) \<and>
      (\<forall>e\<in>set tbl. agree tgt p e \<longrightarrow> (\<forall>c\<in>set cols. e c = p
          c)))"

text \<open>
  A concrete plugin handle, rows, filters and backend state, used where a property is
  exercised on an example. Times are numbers here; the example converter maps the zero time
  to \<open>1000\<close> and back, and the example database keeps timestamps in steps of ten.
\<close>

definition example_db :: "nat db" where
  "example_db =
     \<lparr>GetTotalNumDBShards = 1,
      GetDBShardIDFromHistoryShardID = (\<lambda>historyShardID totalNumDBShards. 0),
      ToPostgresDateTime = (\<lambda>t. if t = 0 then 1000 else t),
      FromPostgresDateTime = (\<lambda>t. if t = 1000 then 0 else t),
      sqlxIn = sqlx_In,
      timestamp_column = (\<lambda>t. t div 10 * 10)\<rparr>"

definition failing_db :: "nat db" where
  "failing_db = example_db\<lparr>sqlxIn := (\<lambda>query args. Inl (OtherError ''in''))\<rparr>"

definition example_activity :: "nat ActivityInfoMapsRow" where
  "example_activity =
     \<lparr>ActivityInfoMapsRow.ShardID = 3,
      ActivityInfoMapsRow.DomainID = ''d'',
      ActivityInfoMapsRow.WorkflowID = ''w'',
      ActivityInfoMapsRow.RunID = ''r'',
      ActivityInfoMapsRow.ScheduleID = 7,
      ActivityInfoMapsRow.Data = ''blob'',
      ActivityInfoMapsRow.DataEncoding = ''json'',
      ActivityInfoMapsRow.LastHeartbeatDetails = ''hb'',
      ActivityInfoMapsRow.LastHeartbeatUpdatedTime = 1000\<rparr>"

definition example_activity_filter :: "ActivityInfoMapsFilter" where
  "example_activity_filter =
     \<lparr>ActivityInfoMapsFilter.ShardID = 3, ActivityInfoMapsFilter.DomainID = ''d'',
         ActivityInfoMapsFilter.WorkflowID = ''w'',
      ActivityInfoMapsFilter.RunID = ''r'', ActivityInfoMapsFilter.ScheduleIDs = []\<rparr>"

definition example_activity_filter_key :: "ActivityInfoMapsFilter" where
  "example_activity_filter_key = example_activity_filter\<lparr>ActivityInfoMapsFilter.ScheduleIDs
      := [7]\<rparr>"

definition example_timer :: "TimerInfoMapsRow" where
  "example_timer =
     \<lparr>TimerInfoMapsRow.ShardID = 3,
      TimerInfoMapsRow.DomainID = ''d'',
      TimerInfoMapsRow.WorkflowID = ''w'',
      TimerInfoMapsRow.RunID = ''r'',
      TimerInfoMapsRow.TimerID = ''t1'',
      TimerInfoMapsRow.Data = ''blob'',
      TimerInfoMapsRow.DataEncoding = ''json''\<rparr>"

definition example_timer_filter :: "TimerInfoMapsFilter" where
  "example_timer_filter =
     \<lparr>TimerInfoMapsFilter.ShardID = 3, TimerInfoMapsFilter.DomainID = ''d'',
         TimerInfoMapsFilter.WorkflowID = ''w'',
      TimerInfoMapsFilter.RunID = ''r'', TimerInfoMapsFilter.TimerIDs = []\<rparr>"

definition example_timer_filter_key :: "TimerInfoMapsFilter" where
  "example_timer_filter_key = example_timer_filter\<lparr>TimerInfoMapsFilter.TimerIDs :=
      [''t1'']\<rparr>"

definition example_child :: "ChildExecutionInfoMapsRow" where
  "example_child =
     \<lparr>ChildExecutionInfoMapsRow.ShardID = 3,
      ChildExecutionInfoMapsRow.DomainID = ''d'',
      ChildExecutionInfoMapsRow.WorkflowID = ''w'',
      ChildExecutionInfoMapsRow.RunID = ''r'',
      ChildExecutionInfoMapsRow.InitiatedID = 7,
      ChildExecutionInfoMapsRow.Data = ''blob'',
      ChildExecutionInfoMapsRow.DataEncoding = ''json''\<rparr>"

definition example_child_filter :: "ChildExecutionInfoMapsFilter" where
  "example_child_filter =
     \<lparr>ChildExecutionInfoMapsFilter.ShardID = 3, ChildExecutionInfoMapsFilter.DomainID =
         ''d'', ChildExecutionInfoMapsFilter.WorkflowID = ''w'',
      ChildExecutionInfoMapsFilter.RunID = ''r'', ChildExecutionInfoMapsFilter.InitiatedIDs =
          []\<rparr>"

definition example_child_filter_key :: "ChildExecutionInfoMapsFilter" where
  "example_child_filter_key = example_child_filter\<lparr>ChildExecutionInfoMapsFilter.InitiatedIDs
      := [7]\<rparr>"

definition example_cancel :: "RequestCancelInfoMapsRow" where
  "example_cancel =
     \<lparr>RequestCancelInfoMapsRow.ShardID = 3,
      RequestCancelInfoMapsRow.DomainID = ''d'',
      RequestCancelInfoMapsRow.WorkflowID = ''w'',
      RequestCancelInfoMapsRow.RunID = ''r'',
      RequestCancelInfoMapsRow.InitiatedID = 7,
      RequestCancelInfoMapsRow.Data = ''blob'',
      RequestCancelInfoMapsRow.DataEncoding = ''json''\<rparr>"

definition example_cancel_filter :: "RequestCancelInfoMapsFilter" where
  "example_cancel_filter =
     \<lparr>RequestCancelInfoMapsFilter.ShardID = 3, RequestCancelInfoMapsFilter.DomainID = ''d'',
         RequestCancelInfoMapsFilter.WorkflowID = ''w'',
      RequestCancelInfoMapsFilter.RunID = ''r'', RequestCancelInfoMapsFilter.InitiatedIDs =
          []\<rparr>"

definition example_cancel_filter_key :: "RequestCancelInfoMapsFilter" where
  "example_cancel_filter_key = example_cancel_filter\<lparr>RequestCancelInfoMapsFilter.InitiatedIDs
      := [7]\<rparr>"

definition example_signal :: "SignalInfoMapsRow" where
  "example_signal =
     \<lparr>SignalInfoMapsRow.ShardID = 3,
      SignalInfoMapsRow.DomainID = ''d'',
      SignalInfoMapsRow.WorkflowID = ''w'',
      SignalInfoMapsRow.RunID = ''r'',
      SignalInfoMapsRow.InitiatedID = 7,
      SignalInfoMapsRow.Data = ''blob'',
      SignalInfoMapsRow.DataEncoding = ''json''\<rparr>"

definition example_signal_filter :: "SignalInfoMapsFilter" where
  "example_signal_filter =
     \<lparr>SignalInfoMapsFilter.ShardID = 3, SignalInfoMapsFilter.DomainID = ''d'',
         SignalInfoMapsFilter.WorkflowID = ''w'',
      SignalInfoMapsFilter.RunID = ''r'', SignalInfoMapsFilter.InitiatedIDs = []\<rparr>"

definition example_signal_filter_key :: "SignalInfoMapsFilter" where
  "example_signal_filter_key = example_signal_filter\<lparr>SignalInfoMapsFilter.InitiatedIDs :=
      [7]\<rparr>"

definition example_requested :: "SignalsRequestedSetsRow" where
  "example_requested =
     \<lparr>SignalsRequestedSetsRow.ShardID = 3,
      SignalsRequestedSetsRow.DomainID = ''d'',
      SignalsRequestedSetsRow.WorkflowID = ''w'',
      SignalsRequestedSetsRow.RunID = ''r'',
      SignalsRequestedSetsRow.SignalID = ''s1''\<rparr>"

definition example_requested_filter :: "SignalsRequestedSetsFilter" where
  "example_requested_filter =
     \<lparr>SignalsRequestedSetsFilter.ShardID = 3, SignalsRequestedSetsFilter.DomainID = ''d'',
         SignalsRequestedSetsFilter.WorkflowID = ''w'',
      SignalsRequestedSetsFilter.RunID = ''r'', SignalsRequestedSetsFilter.SignalIDs = []\<rparr>"

definition example_requested_filter_key :: "SignalsRequestedSetsFilter" where
  "example_requested_filter_key =
      example_requested_filter\<lparr>SignalsRequestedSetsFilter.SignalIDs := [''s1'']\<rparr>"

definition example_backend :: "nat backend" where
  "example_backend =
     \<lparr>issued = [],
      tables = (\<lambda>(sh, t).
         if sh \<noteq> 0 then [] else
           if t = ''activity_info_maps'' then [bindActivityInfoMapsRow example_activity] else
           if t = ''timer_info_maps'' then [bindTimerInfoMapsRow example_timer] else
           if t = ''child_execution_info_maps'' then [bindChildExecutionInfoMapsRow example_child]
               else
           if t = ''request_cancel_info_maps'' then [bindRequestCancelInfoMapsRow example_cancel]
               else
           if t = ''signal_info_maps'' then [bindSignalInfoMapsRow example_signal] else
           if t = ''signals_requested_sets'' then [bindSignalsRequestedSetsRow example_requested]
               else
           [])\<rparr>"

section \<open>What the backend reads in each query\<close>

text \<open>
  Each package-level query, once built from its template, is read by the backend as the
  statement given here.
\<close>

lemma prepare_setKeyInActivityInfoMapQry:
  "prepare setKeyInActivityInfoMapQry =
     Some (upsert_stmt activityInfoTableName activityInfoKey activityInfoColumns)"
  by code_simp

lemma prepare_setKeyInTimerInfoMapSQLQuery:
  "prepare setKeyInTimerInfoMapSQLQuery =
     Some (upsert_stmt timerInfoTableName timerInfoKey timerInfoColumns)"
  by code_simp

lemma prepare_setKeyInChildExecutionInfoMapQry:
  "prepare setKeyInChildExecutionInfoMapQry =
     Some (upsert_stmt childExecutionInfoTableName childExecutionInfoKey childExecutionInfoColumns)"
  by code_simp

lemma prepare_setKeyInRequestCancelInfoMapQry:
  "prepare setKeyInRequestCancelInfoMapQry =
     Some (upsert_stmt requestCancelInfoTableName requestCancelInfoKey requestCancelInfoColumns)"
  by code_simp

lemma prepare_setKeyInSignalInfoMapQry:
  "prepare setKeyInSignalInfoMapQry =
     Some (upsert_stmt signalInfoTableName signalInfoKey signalInfoColumns)"
  by code_simp

lemma prepare_createSignalsRequestedSetQuery:
  "prepare createSignalsRequestedSetQuery =
     Some (Insert ''signals_requested_sets'' (identity_columns @ [''signal_id''])
             (identity_columns @ [''signal_id'']) (identity_columns @ [''signal_id'']) DoNothing)"
  by code_simp

lemma prepare_getActivityInfoMapQry:
  "prepare getActivityInfoMapQry =
     Some (Select (activityInfoKey # activityInfoColumns) activityInfoTableName identity_conds)"
  by code_simp

lemma prepare_getTimerInfoMapSQLQuery:
  "prepare getTimerInfoMapSQLQuery =
     Some (Select (timerInfoKey # timerInfoColumns) timerInfoTableName identity_conds)"
  by code_simp

lemma prepare_getChildExecutionInfoMapQry:
  "prepare getChildExecutionInfoMapQry =
     Some (Select (childExecutionInfoKey # childExecutionInfoColumns)
             childExecutionInfoTableName identity_conds)"
  by code_simp

lemma prepare_getRequestCancelInfoMapQry:
  "prepare getRequestCancelInfoMapQry =
     Some (Select (requestCancelInfoKey # requestCancelInfoColumns)
             requestCancelInfoTableName identity_conds)"
  by code_simp

lemma prepare_getSignalInfoMapQry:
  "prepare getSignalInfoMapQry =
     Some (Select (signalInfoKey # signalInfoColumns) signalInfoTableName identity_conds)"
  by code_simp

lemma prepare_getSignalsRequestedSetQuery:
  "prepare getSignalsRequestedSetQuery =
     Some (Select [''signal_id''] ''signals_requested_sets'' identity_conds)"
  by code_simp

lemma prepare_deleteActivityInfoMapQry:
  "prepare deleteActivityInfoMapQry = Some (Delete activityInfoTableName identity_conds)"
  by code_simp

lemma prepare_deleteTimerInfoMapSQLQuery:
  "prepare deleteTimerInfoMapSQLQuery = Some (Delete timerInfoTableName identity_conds)"
  by code_simp

lemma prepare_deleteChildExecutionInfoMapQry:
  "prepare deleteChildExecutionInfoMapQry =
     Some (Delete childExecutionInfoTableName identity_conds)"
  by code_simp

lemma prepare_deleteRequestCancelInfoMapQry:
  "prepare deleteRequestCancelInfoMapQry =
     Some (Delete requestCancelInfoTableName identity_conds)"
  by code_simp

lemma prepare_deleteSignalInfoMapQry:
  "prepare deleteSignalInfoMapQry = Some (Delete signalInfoTableName identity_conds)"
  by code_simp

lemma prepare_deleteAllSignalsRequestedSetQuery:
  "prepare deleteAllSignalsRequestedSetQuery =
     Some (Delete ''signals_requested_sets'' identity_conds)"
  by code_simp

section \<open>The delete-by-keys statement for any number of keys\<close>

lemma makeDeleteKeyInMapQry_text:
  "makeDeleteKeyInMapQry t k =
     ''DELETE FROM '' @ t @ ''\<newline>'' @
     ''WHERE\<newline>'' @
     ''shard_id = ? AND\<newline>'' @
     ''domain_id = ? AND\<newline>'' @
     ''workflow_id = ? AND\<newline>'' @
     ''run_id = ? AND\<newline>'' @
     k @ '' IN ( ? )''"
  by (simp add: makeDeleteKeyInMapQry_def deleteKeyInMapQueryTemplate_def index_directive_def
      is_digit_def digit_value_def)

lemma question_not_word: "is_word_char c \<Longrightarrow> c \<noteq> CHR ''?''"
  by (auto simp: is_word_char_def word_code_def)

lemma expandIn_plain:
  "CHR ''?'' \<notin> set x \<Longrightarrow>
     expandIn (x @ q) meta = map_sum id (\<lambda>(q', as). (x @ q', as)) (expandIn q meta)"
proof (induction x)
  case Nil
  show ?case by (simp add: sum.map_ident split_def)
next
  case (Cons c x)
  then show ?case by (cases "expandIn q meta") (auto simp: sum.map_comp)
qed

lemma name_no_question: "is_name x \<Longrightarrow> CHR ''?'' \<notin> set x"
  by (auto simp: is_name_def list_all_iff dest: question_not_word)

lemma sqlx_In_delete_keys:
  assumes "is_name t" "is_name k" "ks \<noteq> []"
  shows "sqlx_In (makeDeleteKeyInMapQry t k)
           [Scalar a1, Scalar a2, Scalar a3, Scalar a4, Slice ks] =
         Inr (in_text t k (length ks), [a1, a2, a3, a4] @ ks)"
proof -
  have t: "CHR ''?'' \<notin> set t" and k: "CHR ''?'' \<notin> set k"
    using assms by (simp_all add: name_no_question)
  have s: "\<not> list_ex (\<lambda>a. a = Slice []) [Scalar a1, Scalar a2, Scalar a3, Scalar a4,
      Slice ks]"
    using assms by simp
  show ?thesis
    unfolding sqlx_In_def makeDeleteKeyInMapQry_text in_text_def using assms(3) 
    by (simp add: expandIn_plain[OF t] expandIn_plain[OF k])
qed


lemma Rebind_plain:
  "CHR ''?'' \<notin> set x \<Longrightarrow> Rebind_from j (x @ q) = x @ Rebind_from j q"
  by (induction x) auto

lemma Rebind_replicate:
  "Rebind_from j (concat (replicate m '', ?'') @ q) =
     concat (map (\<lambda>i. '', $'' @ Itoa i) [Suc j..<Suc j + m]) @ Rebind_from (j + m) q"
proof (induction m arbitrary: j)
  case 0
  show ?case by simp
next
  case (Suc m)
  have "[Suc j..<Suc j + Suc m] = Suc j # [Suc (Suc j)..<Suc (Suc j) + m]"
    by (simp add: upt_rec)
  then show ?case using Suc[of "Suc j"] by simp
qed

lemma Join_Cons: "Join (x # xs) sep = x @ concat (map (\<lambda>y. sep @ y) xs)"
  by (induction xs arbitrary: x) auto

lemma Itoa_small:
  "Itoa (Suc 0) = ''1''" "Itoa (Suc (Suc 0)) = ''2''" "Itoa (Suc (Suc (Suc 0))) = ''3''"
  "Itoa (Suc (Suc (Suc (Suc 0)))) = ''4''" "Itoa (Suc (Suc (Suc (Suc (Suc 0))))) = ''5''"
  "Itoa 5 = ''5''"
  by (simp_all add: Itoa.simps[of "Suc 0"] Itoa.simps[of "Suc (Suc 0)"]
      Itoa.simps[of "Suc (Suc (Suc 0))"] Itoa.simps[of "Suc (Suc (Suc (Suc 0)))"]
      Itoa.simps[of "Suc (Suc (Suc (Suc (Suc 0))))"] Itoa.simps[of 5] digit_char_def)

lemma five: "Suc (Suc (Suc (Suc (Suc 0)))) = 5"
  by simp

lemma Rebind_in_text:
  assumes "is_name t" "is_name k" "0 < n"
  shows "Rebind (in_text t k n) = delete_keys_text t k n"
proof -
  have t: "CHR ''?'' \<notin> set t" and k: "CHR ''?'' \<notin> set k"
    using assms by (simp_all add: name_no_question)
  obtain m where n: "n = Suc m" using assms(3) by (cases n) auto
  have u: "[5..<5 + n] = 5 # [6..<6 + m]"
    by (simp add: n upt_rec[of 5])
  have r: "Rebind_from 5 (concat (replicate m '', ?'') @ '' )'') =
      concat (map (\<lambda>i. '', $'' @ Itoa i) [6..<6 + m]) @ '' )''"
    using Rebind_replicate[of 5 m "'' )''"] by simp
  have j: "Join (map (\<lambda>i. CHR ''$'' # Itoa i) [5..<5 + n]) '', '' =
      ''$5'' @ concat (map (\<lambda>i. '', $'' @ Itoa i) [6..<6 + m])"
    unfolding u by (simp add: Join_Cons Itoa_small comp_def)
  have "Rebind_from 0 (in_text t k n) = delete_keys_text t k n"
    unfolding in_text_def delete_keys_text_def j
    by (simp add: Rebind_plain[OF t] Rebind_plain[OF k] Itoa_small five r n)
  then show ?thesis by (simp add: Rebind_def)
qed


lemma digits_below_ten:
  "\<forall>m\<in>set [0..<10]. digit_value (digit_char m) = m \<and> is_digit (digit_char m) \<and>
      is_word_char (digit_char m)"
  by code_simp

lemma digit_char_props:
  assumes "m < 10"
  shows "digit_value (digit_char m) = m" "is_digit (digit_char m)" "is_word_char (digit_char m)"
  using digits_below_ten assms by auto

lemma decimal_snoc: "decimal (d @ [c]) = 10 * decimal d + digit_value c"
  by (simp add: decimal_def)

lemma decimal_Itoa: "decimal (Itoa n) = n"
proof (induction n rule: Itoa.induct)
  case (1 n)
  show ?case
  proof (cases "n < 10")
    case True
    then show ?thesis by (simp add: Itoa.simps[of n] decimal_def digit_char_props)
  next
    case False
    then have "decimal (Itoa (n div 10)) = n div 10" using 1 by simp
    with False show ?thesis
      by (simp add: Itoa.simps[of n] decimal_snoc digit_char_props)
  qed
qed

lemma Itoa_digits: "Itoa n \<noteq> [] \<and> list_all is_digit (Itoa n) \<and> list_all
    is_word_char (Itoa n)"
proof (induction n rule: Itoa.induct)
  case (1 n)
  show ?case
  proof (cases "n < 10")
    case True
    then show ?thesis by (simp add: Itoa.simps[of n] digit_char_props)
  next
    case False
    with 1 show ?thesis by (simp add: Itoa.simps[of n] digit_char_props)
  qed
qed

lemma param_index_Itoa: "param_index (Itoa n) = Some n"
  by (simp add: param_index_def Itoa_digits decimal_Itoa)

lemma foldl_grow:
  "foldl grow (InWord w) x = InWord (w @ x)"
  "foldl grow (InDollar w) x = InDollar (w @ x)"
  "foldl grow (InColon w) x = InColon (w @ x)"
  by (induction x arbitrary: w) auto

lemma tokens_from_word:
  "list_all is_word_char x \<Longrightarrow> tokens_from st (x @ q) = tokens_from (foldl grow st x)
      q"
  by (induction x arbitrary: st) auto

lemma tokens_from_name:
  assumes "is_name x"
  shows "tokens_from Idle (x @ q) = tokens_from (InWord x) q"
proof -
  obtain c y where x: "x = c # y" using assms by (cases x) (auto simp: is_name_def)
  have "tokens_from Idle (x @ q) = tokens_from (foldl grow Idle x) q"
    using assms by (simp add: tokens_from_word is_name_def)
  also have "foldl grow Idle x = InWord x" by (simp add: x foldl_grow)
  finally show ?thesis .
qed

lemma tokens_from_params:
  "tokens_from (InDollar d) (concat (map (\<lambda>i. '', $'' @ Itoa i) is) @ '' )'') =
     TDollar d # concat (map (\<lambda>i. [TComma, TDollar (Itoa i)]) is) @ [TRParen]"
proof (induction "is" arbitrary: d)
  case Nil
  show ?case by (simp add: is_word_char_def word_code_def is_space_def punct_def)
next
  case (Cons i "is")
  have "tokens_from (InDollar []) (Itoa i @ concat (map (\<lambda>i. '', $'' @ Itoa i) is) @ '' )'')
      =
      tokens_from (InDollar (Itoa i)) (concat (map (\<lambda>i. '', $'' @ Itoa i) is) @ '' )'')"
    by (simp add: tokens_from_word Itoa_digits foldl_grow)
  then show ?case
    using Cons[of "Itoa i"]
    by (simp add: is_word_char_def word_code_def is_space_def punct_def)
qed

lemma parse_params_list:
  "parse_params (TDollar (Itoa i) # concat (map (\<lambda>j. [TComma, TDollar (Itoa j)]) is) @
      [TRParen]) =
     Some (i # is)"
  by (induction "is" arbitrary: i) (simp_all add: param_index_Itoa)


lemma tokens_from_param_list:
  "tokens_from (InDollar [])
     (Itoa i @ concat (map (\<lambda>i. CHR '','' # CHR '' '' # CHR ''$'' # Itoa i) is) @ '' )'') =
   TDollar (Itoa i) # concat (map (\<lambda>i. [TComma, TDollar (Itoa i)]) is) @ [TRParen]"
proof -
  have "tokens_from (InDollar []) (Itoa i @ concat (map (\<lambda>i. '', $'' @ Itoa i) is) @ '' )'')
      =
      tokens_from (InDollar (Itoa i)) (concat (map (\<lambda>i. '', $'' @ Itoa i) is) @ '' )'')"
    by (simp add: tokens_from_word Itoa_digits foldl_grow)
  also have "\<dots> = TDollar (Itoa i) # concat (map (\<lambda>i. [TComma, TDollar (Itoa i)]) is) @
      [TRParen]"
    by (rule tokens_from_params)
  finally show ?thesis by simp
qed

lemma param_index_small:
  "param_index ''1'' = Some 1" "param_index ''2'' = Some 2"
  "param_index ''3'' = Some 3" "param_index ''4'' = Some 4"
  by (simp_all add: param_index_def is_digit_def decimal_def digit_value_def)

lemma tokens_delete_keys_text:
  assumes "is_name t" "is_name k" "0 < n"
  shows "tokens (delete_keys_text t k n) =
    [TWord ''DELETE'', TWord ''FROM'', TWord t, TWord ''WHERE'',
     TWord ''shard_id'', TEquals, TDollar ''1'', TWord ''AND'',
     TWord ''domain_id'', TEquals, TDollar ''2'', TWord ''AND'',
     TWord ''workflow_id'', TEquals, TDollar ''3'', TWord ''AND'',
     TWord ''run_id'', TEquals, TDollar ''4'', TWord ''AND'',
     TWord k, TWord ''IN'', TLParen] @
    TDollar (Itoa 5) # concat (map (\<lambda>i. [TComma, TDollar (Itoa i)]) [6..<5 + n]) @
        [TRParen]"
proof -
  obtain m where n: "n = Suc m" using assms(3) by (cases n) auto
  have u: "[5..<5 + n] = 5 # [6..<5 + n]"
    by (simp add: n upt_rec[of 5])
  have j: "Join (map (\<lambda>i. CHR ''$'' # Itoa i) [5..<5 + n]) '', '' @ '' )'' =
      CHR ''$'' # Itoa 5 @ concat (map (\<lambda>i. '', $'' @ Itoa i) [6..<5 + n]) @ '' )''"
    by (subst u) (simp add: Join_Cons comp_def)
  show ?thesis
    unfolding tokens_def delete_keys_text_def append_assoc j
    by (simp add: tokens_from_name[OF assms(1)] tokens_from_name[OF assms(2)]
        tokens_from_param_list is_word_char_def word_code_def is_space_def punct_def
        del: upt_Suc)
qed

lemma prepare_delete_keys_text:
  assumes "is_name t" "is_name k" "0 < n"
  shows "prepare (delete_keys_text t k n) = Some (Delete t (identity_conds @ [CIn k [5..<5 + n]]))"
proof -
  have u: "[5..<5 + n] = 5 # [6..<5 + n]"
    using assms(3) by (simp add: upt_rec[of 5])
  show ?thesis
    unfolding prepare_def tokens_delete_keys_text[OF assms]
    by (subst u) (simp add: parse_def parse_delete_def expect_def table_name_def
        param_index_small parse_params_list identity_conds_def del: upt_Suc)
qed

section \<open>Upserting rows\<close>

lemma those_opt_map:
  "(\<forall>x\<in>set xs. f x \<noteq> None) \<Longrightarrow> those_opt (map f xs) = Some (map
      (\<lambda>x. the (f x)) xs)"
  by (induction xs) auto

lemma map_of_zip_same:
  "map_of (zip cols (map g cols)) = (\<lambda>c. if c \<in> set cols then Some (g c) else None)"
  by (induction cols) auto

lemma proposed_total:
  assumes "\<forall>c\<in>set cols. b c \<noteq> None"
  shows "proposed tsc cols cols b = Some ((map_option (column_value tsc) \<circ> b) |` set cols)"
proof -
  have "those_opt (map b cols) = Some (map (\<lambda>c. the (b c)) cols)"
    using assms by (simp add: those_opt_map)
  moreover have "map_of (zip cols (map (column_value tsc) (map (\<lambda>c. the (b c)) cols))) =
      (map_option (column_value tsc) \<circ> b) |` set cols"
    using assms by (auto simp: map_of_zip_same comp_def restrict_map_def fun_eq_iff)
  ultimately show ?thesis by (simp add: proposed_def)
qed

lemma assign_same:
  "assign (zip cols cols) p e = (\<lambda>c. if c \<in> set cols then p c else e c)"
  by (induction cols) (auto simp: fun_eq_iff)

lemma agree_trans:
  "agree tgt p e \<Longrightarrow> agree tgt q e \<Longrightarrow> agree tgt p q"
  by (auto simp: agree_def list_all_iff)

lemma agree_refl:
  "\<forall>c\<in>set tgt. p c \<noteq> None \<Longrightarrow> agree tgt p p"
  by (auto simp: agree_def list_all_iff)

lemma upserted_step:
  assumes "set tgt \<subseteq> set cols" "\<forall>c\<in>set tgt. p c \<noteq> None"
  shows "upserted tgt cols p (insert_row (DoUpdate cols cols) tgt p tbl)"
proof (cases "list_ex (agree tgt p) tbl")
  case False
  then have "\<forall>e\<in>set tbl. \<not> agree tgt p e" by (simp add: list_ex_iff)
  with False assms show ?thesis
    by (auto simp: upserted_def insert_row_def agree_refl)
next
  case True
  have a: "agree tgt p (\<lambda>c. if c \<in> set cols then p c else e c)" for e
    using assms by (auto simp: agree_def list_all_iff)
  from True obtain e where "e \<in> set tbl" "agree tgt p e" by (auto simp: list_ex_iff)
  with True a show ?thesis
    by (auto simp: upserted_def insert_row_def assign_same image_iff)
qed

lemma upserted_kept:
  assumes "upserted tgt cols p tbl" "\<not> agree tgt p q" "set tgt \<subseteq> set cols"
  shows "upserted tgt cols p (insert_row (DoUpdate cols cols) tgt q tbl)"
proof (cases "list_ex (agree tgt q) tbl")
  case False
  with assms show ?thesis by (auto simp: upserted_def insert_row_def)
next
  case True
  have n: "\<not> agree tgt p (\<lambda>c. if c \<in> set cols then q c else e c)" for e
    using assms(2,3) by (auto simp: agree_def list_all_iff)
  have k: "agree tgt p e \<Longrightarrow> \<not> agree tgt q e" for e
    using assms(2) agree_trans by blast
  from assms(1) obtain e where e: "e \<in> set tbl" "agree tgt p e" by (auto simp: upserted_def)
  have "\<exists>e'\<in>set (insert_row (DoUpdate cols cols) tgt q tbl). agree tgt p e'"
    using True e k by (auto simp: insert_row_def assign_same image_iff intro!: bexI[of _ e])
  moreover have "\<forall>e'\<in>set (insert_row (DoUpdate cols cols) tgt q tbl).
      agree tgt p e' \<longrightarrow> (\<forall>c\<in>set cols. e' c = p c)"
    using True assms(1) n by (auto simp: insert_row_def assign_same upserted_def)
  ultimately show ?thesis by (simp add: upserted_def)
qed

lemma upserted_fold_kept:
  assumes "upserted tgt cols p tbl" "\<not> list_ex (agree tgt p) ps" "set tgt \<subseteq> set cols"
  shows "upserted tgt cols p (fold (insert_row (DoUpdate cols cols) tgt) ps tbl)"
  using assms
proof (induction ps arbitrary: tbl)
  case Nil
  then show ?case by simp
next
  case (Cons q ps)
  then show ?case by (simp add: upserted_kept)
qed

lemma upserted_fold:
  assumes "\<not> affects_twice tgt ps" "set tgt \<subseteq> set cols"
    "\<forall>p\<in>set ps. \<forall>c\<in>set tgt. p c \<noteq> None" "p \<in> set ps"
  shows "upserted tgt cols p (fold (insert_row (DoUpdate cols cols) tgt) ps tbl)"
  using assms
proof (induction ps arbitrary: tbl)
  case Nil
  then show ?case by simp
next
  case (Cons q ps)
  show ?case
  proof (cases "p = q")
    case True
    have "upserted tgt cols q (insert_row (DoUpdate cols cols) tgt q tbl)"
      using Cons.prems by (simp add: upserted_step)
    then show ?thesis using Cons.prems True by (simp add: upserted_fold_kept)
  next
    case False
    then show ?thesis using Cons by simp
  qed
qed

section \<open>Deleting rows\<close>

lemma matches_identity:
  "matches [VInt64 sh, VBytes d, VString w, VBytes r] identity_conds row = in_execution sh d w r
      row"
  by (simp add: matches_def identity_conds_def in_execution_def)

lemma conds_ok_identity: "list_all (cond_ok [a1, a2, a3, a4]) identity_conds"
  by (simp add: identity_conds_def arg_ok_def)

lemma ExecContext_delete_all:
  assumes "prepare q = Some (Delete t identity_conds)"
  shows "ExecContext pdb sh q [VInt64 shardID, VBytes d, VString w, VBytes r] s =
    (Inr (Some Result),
     s\<lparr>issued := issued s @ [ExecCall sh q [VInt64 shardID, VBytes d, VString w, VBytes r]],
       tables := (tables s)((sh, t) :=
          filter (\<lambda>row. \<not> in_execution shardID d w r row) (tables s (sh, t)))\<rparr>)"
  by (simp add: ExecContext_def assms conds_ok_identity matches_identity)

lemma nth_key_param: "([a1, a2, a3, a4] @ ks) ! (j + 4) = ks ! j"
  by (simp add: nth_append)

lemma list_ex_key_params:
  "list_ex (\<lambda>i. x = Some (([a1, a2, a3, a4] @ ks) ! (i - 1))) [5..<5 + length ks] =
     (x \<in> Some ` set ks)"
proof -
  have "(\<exists>i\<in>{5..<5 + length ks}. x = Some (([a1, a2, a3, a4] @ ks) ! (i - 1))) =
      (\<exists>j<length ks. x = Some (ks ! j))"
  proof
    assume "\<exists>i\<in>{5..<5 + length ks}. x = Some (([a1, a2, a3, a4] @ ks) ! (i - 1))"
    then obtain i where i: "5 \<le> i" "i < 5 + length ks"
      and x: "x = Some (([a1, a2, a3, a4] @ ks) ! (i - 1))" by auto
    obtain j where j: "i = j + 5" using i(1) by (metis add.commute le_Suc_ex)
    have "i - 1 = j + 4" using j by simp
    then have "([a1, a2, a3, a4] @ ks) ! (i - 1) = ks ! j"
      by (simp only: nth_key_param)
    with x i j show "\<exists>j<length ks. x = Some (ks ! j)" by (intro exI[of _ j]) auto
  next
    assume "\<exists>j<length ks. x = Some (ks ! j)"
    then obtain j where j: "j < length ks" "x = Some (ks ! j)" by auto
    have "j + 5 - 1 = j + 4" by simp
    then have "([a1, a2, a3, a4] @ ks) ! (j + 5 - 1) = ks ! j"
      by (simp only: nth_key_param)
    with j show "\<exists>i\<in>{5..<5 + length ks}. x = Some (([a1, a2, a3, a4] @ ks) ! (i - 1))"
      by (intro bexI[of _ "j + 5"]) auto
  qed
  moreover have "(\<exists>j<length ks. x = Some (ks ! j)) = (x \<in> Some ` set ks)"
    by (auto simp: image_iff in_set_conv_nth)
  ultimately show ?thesis by (simp add: list_ex_iff)
qed


lemma matches_keys:
  "matches ([VInt64 sh, VBytes d, VString w, VBytes r] @ ks)
       (identity_conds @ [CIn k [5..<5 + length ks]]) row =
     (in_execution sh d w r row \<and> row k \<in> Some ` set ks)"
proof -
  have "holds ([VInt64 sh, VBytes d, VString w, VBytes r] @ ks) row (CIn k [5..<5 + length ks]) =
      (row k \<in> Some ` set ks)"
    by (simp only: holds.simps list_ex_key_params)
  then show ?thesis
    by (simp add: matches_def identity_conds_def in_execution_def del: holds.simps(2) upt_Suc)
qed

lemma conds_ok_keys:
  "list_all (cond_ok ([a1, a2, a3, a4] @ ks)) (identity_conds @ [CIn k [5..<5 + length ks]])"
  by (auto simp: identity_conds_def arg_ok_def list_all_iff)

lemma delete_by_keys:
  assumes "is_name t" "is_name k" "ks \<noteq> []"
  shows "(case sqlx_In (makeDeleteKeyInMapQry t k)
               [Scalar (VInt64 shardID), Scalar (VBytes d), Scalar (VString w),
                Scalar (VBytes r), Slice ks] of
            Inl err \<Rightarrow> (Inl err, s)
          | Inr (query, args) \<Rightarrow> ExecContext pdb sh (Rebind query) args s) =
    (Inr (Some Result),
     s\<lparr>issued := issued s @
         [ExecCall sh (delete_keys_text t k (length ks))
            ([VInt64 shardID, VBytes d, VString w, VBytes r] @ ks)],
       tables := (tables s)((sh, t) :=
          filter (\<lambda>row. \<not> (in_execution shardID d w r row \<and> row k \<in> Some ` set
              ks))
            (tables s (sh, t)))\<rparr>)"
proof -
  have n: "0 < length ks" using assms(3) by simp
  have p: "prepare (delete_keys_text t k (length ks)) =
      Some (Delete t (identity_conds @ [CIn k [5..<5 + length ks]]))"
    by (rule prepare_delete_keys_text[OF assms(1,2) n])
  show ?thesis
    unfolding sqlx_In_delete_keys[OF assms] 
    by (simp only: sum.case prod.case Rebind_in_text[OF assms(1,2) n] ExecContext_def Let_def p
        option.case stmt.case conds_ok_keys if_True matches_keys) simp
qed


lemma names_ActivityInfoMaps: "is_name activityInfoTableName" "is_name activityInfoKey"
  by (simp_all add: is_name_def activityInfoTableName_def activityInfoKey_def
      activityInfoColumns_def is_word_char_def word_code_def)

lemma DeleteFromActivityInfoMaps_keys:
  assumes "ActivityInfoMapsFilter.ScheduleIDs fltr \<noteq> []" "sqlxIn pdb = sqlx_In"
  shows "DeleteFromActivityInfoMaps pdb fltr s =
    (Inr (Some Result),
     s\<lparr>issued := issued s @
         [ExecCall (GetDBShardIDFromHistoryShardID pdb (ActivityInfoMapsFilter.ShardID fltr)
             (GetTotalNumDBShards pdb))
            (delete_keys_text activityInfoTableName activityInfoKey (length
                (ActivityInfoMapsFilter.ScheduleIDs fltr)))
            ([VInt64 (ActivityInfoMapsFilter.ShardID fltr), VBytes (ActivityInfoMapsFilter.DomainID
                fltr),
        VString (ActivityInfoMapsFilter.WorkflowID fltr), VBytes (ActivityInfoMapsFilter.RunID
            fltr)] @
             map VInt64 (ActivityInfoMapsFilter.ScheduleIDs fltr))],
       tables := (tables s)(((GetDBShardIDFromHistoryShardID pdb (ActivityInfoMapsFilter.ShardID
           fltr) (GetTotalNumDBShards pdb)), activityInfoTableName) :=
          filter (\<lambda>row. \<not> (in_execution (ActivityInfoMapsFilter.ShardID fltr)
              (ActivityInfoMapsFilter.DomainID fltr)
                          (ActivityInfoMapsFilter.WorkflowID fltr) (ActivityInfoMapsFilter.RunID
                              fltr) row \<and>
                        row activityInfoKey \<in> Some ` VInt64 ` set
                            (ActivityInfoMapsFilter.ScheduleIDs fltr)))
            (tables s ((GetDBShardIDFromHistoryShardID pdb (ActivityInfoMapsFilter.ShardID fltr)
                (GetTotalNumDBShards pdb)), activityInfoTableName)))\<rparr>)"
  using delete_by_keys[OF names_ActivityInfoMaps, of "map VInt64 (ActivityInfoMapsFilter.ScheduleIDs
      fltr)"] assms
  by (simp add: DeleteFromActivityInfoMaps_def deleteKeyInActivityInfoMapQry_def image_image
      Let_def)

lemma DeleteFromActivityInfoMaps_all:
  assumes "ActivityInfoMapsFilter.ScheduleIDs fltr = []"
  shows "DeleteFromActivityInfoMaps pdb fltr s =
    (Inr (Some Result),
     s\<lparr>issued := issued s @
         [ExecCall (GetDBShardIDFromHistoryShardID pdb (ActivityInfoMapsFilter.ShardID fltr)
             (GetTotalNumDBShards pdb)) deleteActivityInfoMapQry
            [VInt64 (ActivityInfoMapsFilter.ShardID fltr), VBytes (ActivityInfoMapsFilter.DomainID
                fltr),
        VString (ActivityInfoMapsFilter.WorkflowID fltr), VBytes (ActivityInfoMapsFilter.RunID
            fltr)]],
       tables := (tables s)(((GetDBShardIDFromHistoryShardID pdb (ActivityInfoMapsFilter.ShardID
           fltr) (GetTotalNumDBShards pdb)), activityInfoTableName) :=
          filter (\<lambda>row. \<not> in_execution (ActivityInfoMapsFilter.ShardID fltr)
              (ActivityInfoMapsFilter.DomainID fltr)
                          (ActivityInfoMapsFilter.WorkflowID fltr) (ActivityInfoMapsFilter.RunID
                              fltr) row)
            (tables s ((GetDBShardIDFromHistoryShardID pdb (ActivityInfoMapsFilter.ShardID fltr)
                (GetTotalNumDBShards pdb)), activityInfoTableName)))\<rparr>)"
  using assms
  by (simp add: DeleteFromActivityInfoMaps_def Let_def ExecContext_delete_all[OF
      prepare_deleteActivityInfoMapQry])

lemma names_TimerInfoMaps: "is_name timerInfoTableName" "is_name timerInfoKey"
  by (simp_all add: is_name_def timerInfoTableName_def timerInfoKey_def timerInfoColumns_def
      is_word_char_def word_code_def)

lemma DeleteFromTimerInfoMaps_keys:
  assumes "TimerInfoMapsFilter.TimerIDs fltr \<noteq> []" "sqlxIn pdb = sqlx_In"
  shows "DeleteFromTimerInfoMaps pdb fltr s =
    (Inr (Some Result),
     s\<lparr>issued := issued s @
         [ExecCall (GetDBShardIDFromHistoryShardID pdb (TimerInfoMapsFilter.ShardID fltr)
             (GetTotalNumDBShards pdb))
            (delete_keys_text timerInfoTableName timerInfoKey (length (TimerInfoMapsFilter.TimerIDs
                fltr)))
            ([VInt64 (TimerInfoMapsFilter.ShardID fltr), VBytes (TimerInfoMapsFilter.DomainID fltr),
        VString (TimerInfoMapsFilter.WorkflowID fltr), VBytes (TimerInfoMapsFilter.RunID fltr)] @
             map VString (TimerInfoMapsFilter.TimerIDs fltr))],
       tables := (tables s)(((GetDBShardIDFromHistoryShardID pdb (TimerInfoMapsFilter.ShardID fltr)
           (GetTotalNumDBShards pdb)), timerInfoTableName) :=
          filter (\<lambda>row. \<not> (in_execution (TimerInfoMapsFilter.ShardID fltr)
              (TimerInfoMapsFilter.DomainID fltr)
                          (TimerInfoMapsFilter.WorkflowID fltr) (TimerInfoMapsFilter.RunID fltr) row
                              \<and>
                        row timerInfoKey \<in> Some ` VString ` set (TimerInfoMapsFilter.TimerIDs
                            fltr)))
            (tables s ((GetDBShardIDFromHistoryShardID pdb (TimerInfoMapsFilter.ShardID fltr)
                (GetTotalNumDBShards pdb)), timerInfoTableName)))\<rparr>)"
  using delete_by_keys[OF names_TimerInfoMaps, of "map VString (TimerInfoMapsFilter.TimerIDs fltr)"]
      assms
  by (simp add: DeleteFromTimerInfoMaps_def deleteKeyInTimerInfoMapSQLQuery_def image_image Let_def)

lemma DeleteFromTimerInfoMaps_all:
  assumes "TimerInfoMapsFilter.TimerIDs fltr = []"
  shows "DeleteFromTimerInfoMaps pdb fltr s =
    (Inr (Some Result),
     s\<lparr>issued := issued s @
         [ExecCall (GetDBShardIDFromHistoryShardID pdb (TimerInfoMapsFilter.ShardID fltr)
             (GetTotalNumDBShards pdb)) deleteTimerInfoMapSQLQuery
            [VInt64 (TimerInfoMapsFilter.ShardID fltr), VBytes (TimerInfoMapsFilter.DomainID fltr),
        VString (TimerInfoMapsFilter.WorkflowID fltr), VBytes (TimerInfoMapsFilter.RunID fltr)]],
       tables := (tables s)(((GetDBShardIDFromHistoryShardID pdb (TimerInfoMapsFilter.ShardID fltr)
           (GetTotalNumDBShards pdb)), timerInfoTableName) :=
          filter (\<lambda>row. \<not> in_execution (TimerInfoMapsFilter.ShardID fltr)
              (TimerInfoMapsFilter.DomainID fltr)
                          (TimerInfoMapsFilter.WorkflowID fltr) (TimerInfoMapsFilter.RunID fltr)
                              row)
            (tables s ((GetDBShardIDFromHistoryShardID pdb (TimerInfoMapsFilter.ShardID fltr)
                (GetTotalNumDBShards pdb)), timerInfoTableName)))\<rparr>)"
  using assms
  by (simp add: DeleteFromTimerInfoMaps_def Let_def ExecContext_delete_all[OF
      prepare_deleteTimerInfoMapSQLQuery])

lemma names_ChildExecutionInfoMaps: "is_name childExecutionInfoTableName" "is_name
    childExecutionInfoKey"
  by (simp_all add: is_name_def childExecutionInfoTableName_def childExecutionInfoKey_def
      childExecutionInfoColumns_def is_word_char_def word_code_def)

lemma DeleteFromChildExecutionInfoMaps_keys:
  assumes "ChildExecutionInfoMapsFilter.InitiatedIDs fltr \<noteq> []" "sqlxIn pdb = sqlx_In"
  shows "DeleteFromChildExecutionInfoMaps pdb fltr s =
    (Inr (Some Result),
     s\<lparr>issued := issued s @
         [ExecCall (GetDBShardIDFromHistoryShardID pdb (ChildExecutionInfoMapsFilter.ShardID fltr)
             (GetTotalNumDBShards pdb))
            (delete_keys_text childExecutionInfoTableName childExecutionInfoKey (length
                (ChildExecutionInfoMapsFilter.InitiatedIDs fltr)))
            ([VInt64 (ChildExecutionInfoMapsFilter.ShardID fltr), VBytes
                (ChildExecutionInfoMapsFilter.DomainID fltr),
        VString (ChildExecutionInfoMapsFilter.WorkflowID fltr), VBytes
            (ChildExecutionInfoMapsFilter.RunID fltr)] @
             map VInt64 (ChildExecutionInfoMapsFilter.InitiatedIDs fltr))],
       tables := (tables s)(((GetDBShardIDFromHistoryShardID pdb
           (ChildExecutionInfoMapsFilter.ShardID fltr) (GetTotalNumDBShards pdb)),
           childExecutionInfoTableName) :=
          filter (\<lambda>row. \<not> (in_execution (ChildExecutionInfoMapsFilter.ShardID fltr)
              (ChildExecutionInfoMapsFilter.DomainID fltr)
                          (ChildExecutionInfoMapsFilter.WorkflowID fltr)
                              (ChildExecutionInfoMapsFilter.RunID fltr) row \<and>
                        row childExecutionInfoKey \<in> Some ` VInt64 ` set
                            (ChildExecutionInfoMapsFilter.InitiatedIDs fltr)))
            (tables s ((GetDBShardIDFromHistoryShardID pdb (ChildExecutionInfoMapsFilter.ShardID
                fltr) (GetTotalNumDBShards pdb)), childExecutionInfoTableName)))\<rparr>)"
  using delete_by_keys[OF names_ChildExecutionInfoMaps, of "map VInt64
      (ChildExecutionInfoMapsFilter.InitiatedIDs fltr)"] assms
  by (simp add: DeleteFromChildExecutionInfoMaps_def deleteKeyInChildExecutionInfoMapQry_def
      image_image Let_def)

lemma DeleteFromChildExecutionInfoMaps_all:
  assumes "ChildExecutionInfoMapsFilter.InitiatedIDs fltr = []"
  shows "DeleteFromChildExecutionInfoMaps pdb fltr s =
    (Inr (Some Result),
     s\<lparr>issued := issued s @
         [ExecCall (GetDBShardIDFromHistoryShardID pdb (ChildExecutionInfoMapsFilter.ShardID fltr)
             (GetTotalNumDBShards pdb)) deleteChildExecutionInfoMapQry
            [VInt64 (ChildExecutionInfoMapsFilter.ShardID fltr), VBytes
                (ChildExecutionInfoMapsFilter.DomainID fltr),
        VString (ChildExecutionInfoMapsFilter.WorkflowID fltr), VBytes
            (ChildExecutionInfoMapsFilter.RunID fltr)]],
       tables := (tables s)(((GetDBShardIDFromHistoryShardID pdb
           (ChildExecutionInfoMapsFilter.ShardID fltr) (GetTotalNumDBShards pdb)),
           childExecutionInfoTableName) :=
          filter (\<lambda>row. \<not> in_execution (ChildExecutionInfoMapsFilter.ShardID fltr)
              (ChildExecutionInfoMapsFilter.DomainID fltr)
                          (ChildExecutionInfoMapsFilter.WorkflowID fltr)
                              (ChildExecutionInfoMapsFilter.RunID fltr) row)
            (tables s ((GetDBShardIDFromHistoryShardID pdb (ChildExecutionInfoMapsFilter.ShardID
                fltr) (GetTotalNumDBShards pdb)), childExecutionInfoTableName)))\<rparr>)"
  using assms
  by (simp add: DeleteFromChildExecutionInfoMaps_def Let_def ExecContext_delete_all[OF
      prepare_deleteChildExecutionInfoMapQry])

lemma names_RequestCancelInfoMaps: "is_name requestCancelInfoTableName" "is_name
    requestCancelInfoKey"
  by (simp_all add: is_name_def requestCancelInfoTableName_def requestCancelInfoKey_def
      requestCancelInfoColumns_def is_word_char_def word_code_def)

lemma DeleteFromRequestCancelInfoMaps_keys:
  assumes "RequestCancelInfoMapsFilter.InitiatedIDs fltr \<noteq> []" "sqlxIn pdb = sqlx_In"
  shows "DeleteFromRequestCancelInfoMaps pdb fltr s =
    (Inr (Some Result),
     s\<lparr>issued := issued s @
         [ExecCall (GetDBShardIDFromHistoryShardID pdb (RequestCancelInfoMapsFilter.ShardID fltr)
             (GetTotalNumDBShards pdb))
            (delete_keys_text requestCancelInfoTableName requestCancelInfoKey (length
                (RequestCancelInfoMapsFilter.InitiatedIDs fltr)))
            ([VInt64 (RequestCancelInfoMapsFilter.ShardID fltr), VBytes
                (RequestCancelInfoMapsFilter.DomainID fltr),
        VString (RequestCancelInfoMapsFilter.WorkflowID fltr), VBytes
            (RequestCancelInfoMapsFilter.RunID fltr)] @
             map VInt64 (RequestCancelInfoMapsFilter.InitiatedIDs fltr))],
       tables := (tables s)(((GetDBShardIDFromHistoryShardID pdb
           (RequestCancelInfoMapsFilter.ShardID fltr) (GetTotalNumDBShards pdb)),
           requestCancelInfoTableName) :=
          filter (\<lambda>row. \<not> (in_execution (RequestCancelInfoMapsFilter.ShardID fltr)
              (RequestCancelInfoMapsFilter.DomainID fltr)
                          (RequestCancelInfoMapsFilter.WorkflowID fltr)
                              (RequestCancelInfoMapsFilter.RunID fltr) row \<and>
                        row requestCancelInfoKey \<in> Some ` VInt64 ` set
                            (RequestCancelInfoMapsFilter.InitiatedIDs fltr)))
            (tables s ((GetDBShardIDFromHistoryShardID pdb (RequestCancelInfoMapsFilter.ShardID
                fltr) (GetTotalNumDBShards pdb)), requestCancelInfoTableName)))\<rparr>)"
  using delete_by_keys[OF names_RequestCancelInfoMaps, of "map VInt64
      (RequestCancelInfoMapsFilter.InitiatedIDs fltr)"] assms
  by (simp add: DeleteFromRequestCancelInfoMaps_def deleteKeyInRequestCancelInfoMapQry_def
      image_image Let_def)

lemma DeleteFromRequestCancelInfoMaps_all:
  assumes "RequestCancelInfoMapsFilter.InitiatedIDs fltr = []"
  shows "DeleteFromRequestCancelInfoMaps pdb fltr s =
    (Inr (Some Result),
     s\<lparr>issued := issued s @
         [ExecCall (GetDBShardIDFromHistoryShardID pdb (RequestCancelInfoMapsFilter.ShardID fltr)
             (GetTotalNumDBShards pdb)) deleteRequestCancelInfoMapQry
            [VInt64 (RequestCancelInfoMapsFilter.ShardID fltr), VBytes
                (RequestCancelInfoMapsFilter.DomainID fltr),
        VString (RequestCancelInfoMapsFilter.WorkflowID fltr), VBytes
            (RequestCancelInfoMapsFilter.RunID fltr)]],
       tables := (tables s)(((GetDBShardIDFromHistoryShardID pdb
           (RequestCancelInfoMapsFilter.ShardID fltr) (GetTotalNumDBShards pdb)),
           requestCancelInfoTableName) :=
          filter (\<lambda>row. \<not> in_execution (RequestCancelInfoMapsFilter.ShardID fltr)
              (RequestCancelInfoMapsFilter.DomainID fltr)
                          (RequestCancelInfoMapsFilter.WorkflowID fltr)
                              (RequestCancelInfoMapsFilter.RunID fltr) row)
            (tables s ((GetDBShardIDFromHistoryShardID pdb (RequestCancelInfoMapsFilter.ShardID
                fltr) (GetTotalNumDBShards pdb)), requestCancelInfoTableName)))\<rparr>)"
  using assms
  by (simp add: DeleteFromRequestCancelInfoMaps_def Let_def ExecContext_delete_all[OF
      prepare_deleteRequestCancelInfoMapQry])

lemma names_SignalInfoMaps: "is_name signalInfoTableName" "is_name signalInfoKey"
  by (simp_all add: is_name_def signalInfoTableName_def signalInfoKey_def signalInfoColumns_def
      is_word_char_def word_code_def)

lemma DeleteFromSignalInfoMaps_keys:
  assumes "SignalInfoMapsFilter.InitiatedIDs fltr \<noteq> []" "sqlxIn pdb = sqlx_In"
  shows "DeleteFromSignalInfoMaps pdb fltr s =
    (Inr (Some Result),
     s\<lparr>issued := issued s @
         [ExecCall (GetDBShardIDFromHistoryShardID pdb (SignalInfoMapsFilter.ShardID fltr)
             (GetTotalNumDBShards pdb))
            (delete_keys_text signalInfoTableName signalInfoKey (length
                (SignalInfoMapsFilter.InitiatedIDs fltr)))
            ([VInt64 (SignalInfoMapsFilter.ShardID fltr), VBytes (SignalInfoMapsFilter.DomainID
                fltr),
        VString (SignalInfoMapsFilter.WorkflowID fltr), VBytes (SignalInfoMapsFilter.RunID fltr)] @
             map VInt64 (SignalInfoMapsFilter.InitiatedIDs fltr))],
       tables := (tables s)(((GetDBShardIDFromHistoryShardID pdb (SignalInfoMapsFilter.ShardID fltr)
           (GetTotalNumDBShards pdb)), signalInfoTableName) :=
          filter (\<lambda>row. \<not> (in_execution (SignalInfoMapsFilter.ShardID fltr)
              (SignalInfoMapsFilter.DomainID fltr)
                          (SignalInfoMapsFilter.WorkflowID fltr) (SignalInfoMapsFilter.RunID fltr)
                              row \<and>
                        row signalInfoKey \<in> Some ` VInt64 ` set
                            (SignalInfoMapsFilter.InitiatedIDs fltr)))
            (tables s ((GetDBShardIDFromHistoryShardID pdb (SignalInfoMapsFilter.ShardID fltr)
                (GetTotalNumDBShards pdb)), signalInfoTableName)))\<rparr>)"
  using delete_by_keys[OF names_SignalInfoMaps, of "map VInt64 (SignalInfoMapsFilter.InitiatedIDs
      fltr)"] assms
  by (simp add: DeleteFromSignalInfoMaps_def deleteKeyInSignalInfoMapQry_def image_image Let_def)

lemma DeleteFromSignalInfoMaps_all:
  assumes "SignalInfoMapsFilter.InitiatedIDs fltr = []"
  shows "DeleteFromSignalInfoMaps pdb fltr s =
    (Inr (Some Result),
     s\<lparr>issued := issued s @
         [ExecCall (GetDBShardIDFromHistoryShardID pdb (SignalInfoMapsFilter.ShardID fltr)
             (GetTotalNumDBShards pdb)) deleteSignalInfoMapQry
            [VInt64 (SignalInfoMapsFilter.ShardID fltr), VBytes (SignalInfoMapsFilter.DomainID
                fltr),
        VString (SignalInfoMapsFilter.WorkflowID fltr), VBytes (SignalInfoMapsFilter.RunID fltr)]],
       tables := (tables s)(((GetDBShardIDFromHistoryShardID pdb (SignalInfoMapsFilter.ShardID fltr)
           (GetTotalNumDBShards pdb)), signalInfoTableName) :=
          filter (\<lambda>row. \<not> in_execution (SignalInfoMapsFilter.ShardID fltr)
              (SignalInfoMapsFilter.DomainID fltr)
                          (SignalInfoMapsFilter.WorkflowID fltr) (SignalInfoMapsFilter.RunID fltr)
                              row)
            (tables s ((GetDBShardIDFromHistoryShardID pdb (SignalInfoMapsFilter.ShardID fltr)
                (GetTotalNumDBShards pdb)), signalInfoTableName)))\<rparr>)"
  using assms
  by (simp add: DeleteFromSignalInfoMaps_def Let_def ExecContext_delete_all[OF
      prepare_deleteSignalInfoMapQry])

lemma names_SignalsRequestedSets: "is_name ''signals_requested_sets''" "is_name ''signal_id''"
  by (simp_all add: is_name_def  is_word_char_def word_code_def)

lemma deleteSignalsRequestedSetQuery_make:
  "deleteSignalsRequestedSetQuery = makeDeleteKeyInMapQry ''signals_requested_sets'' ''signal_id''"
  by (simp add: makeDeleteKeyInMapQry_text deleteSignalsRequestedSetQuery_def)

lemma DeleteFromSignalsRequestedSets_keys:
  assumes "SignalsRequestedSetsFilter.SignalIDs fltr \<noteq> []" "sqlxIn pdb = sqlx_In"
  shows "DeleteFromSignalsRequestedSets pdb fltr s =
    (Inr (Some Result),
     s\<lparr>issued := issued s @
         [ExecCall (GetDBShardIDFromHistoryShardID pdb (SignalsRequestedSetsFilter.ShardID fltr)
             (GetTotalNumDBShards pdb))
            (delete_keys_text ''signals_requested_sets'' ''signal_id'' (length
                (SignalsRequestedSetsFilter.SignalIDs fltr)))
            ([VInt64 (SignalsRequestedSetsFilter.ShardID fltr), VBytes
                (SignalsRequestedSetsFilter.DomainID fltr),
        VString (SignalsRequestedSetsFilter.WorkflowID fltr), VBytes
            (SignalsRequestedSetsFilter.RunID fltr)] @
             map VString (SignalsRequestedSetsFilter.SignalIDs fltr))],
       tables := (tables s)(((GetDBShardIDFromHistoryShardID pdb (SignalsRequestedSetsFilter.ShardID
           fltr) (GetTotalNumDBShards pdb)), ''signals_requested_sets'') :=
          filter (\<lambda>row. \<not> (in_execution (SignalsRequestedSetsFilter.ShardID fltr)
              (SignalsRequestedSetsFilter.DomainID fltr)
                          (SignalsRequestedSetsFilter.WorkflowID fltr)
                              (SignalsRequestedSetsFilter.RunID fltr) row \<and>
                        row ''signal_id'' \<in> Some ` VString ` set
                            (SignalsRequestedSetsFilter.SignalIDs fltr)))
            (tables s ((GetDBShardIDFromHistoryShardID pdb (SignalsRequestedSetsFilter.ShardID fltr)
                (GetTotalNumDBShards pdb)), ''signals_requested_sets'')))\<rparr>)"
  using delete_by_keys[OF names_SignalsRequestedSets, of "map VString
      (SignalsRequestedSetsFilter.SignalIDs fltr)"] assms
  by (simp add: DeleteFromSignalsRequestedSets_def deleteSignalsRequestedSetQuery_make image_image
      Let_def)

lemma DeleteFromSignalsRequestedSets_all:
  assumes "SignalsRequestedSetsFilter.SignalIDs fltr = []"
  shows "DeleteFromSignalsRequestedSets pdb fltr s =
    (Inr (Some Result),
     s\<lparr>issued := issued s @
         [ExecCall (GetDBShardIDFromHistoryShardID pdb (SignalsRequestedSetsFilter.ShardID fltr)
             (GetTotalNumDBShards pdb)) deleteAllSignalsRequestedSetQuery
            [VInt64 (SignalsRequestedSetsFilter.ShardID fltr), VBytes
                (SignalsRequestedSetsFilter.DomainID fltr),
        VString (SignalsRequestedSetsFilter.WorkflowID fltr), VBytes
            (SignalsRequestedSetsFilter.RunID fltr)]],
       tables := (tables s)(((GetDBShardIDFromHistoryShardID pdb (SignalsRequestedSetsFilter.ShardID
           fltr) (GetTotalNumDBShards pdb)), ''signals_requested_sets'') :=
          filter (\<lambda>row. \<not> in_execution (SignalsRequestedSetsFilter.ShardID fltr)
              (SignalsRequestedSetsFilter.DomainID fltr)
                          (SignalsRequestedSetsFilter.WorkflowID fltr)
                              (SignalsRequestedSetsFilter.RunID fltr) row)
            (tables s ((GetDBShardIDFromHistoryShardID pdb (SignalsRequestedSetsFilter.ShardID fltr)
                (GetTotalNumDBShards pdb)), ''signals_requested_sets'')))\<rparr>)"
  using assms
  by (simp add: DeleteFromSignalsRequestedSets_def Let_def ExecContext_delete_all[OF
      prepare_deleteAllSignalsRequestedSetQuery])

lemma issued_NamedExecContext:
  "issued (snd (NamedExecContext pdb sh q binds s)) = issued s @ [NamedExecCall sh q binds]"
  by (simp add: NamedExecContext_def Let_def split: option.splits stmt.splits sum.splits)

section \<open>Replacing and selecting rows\<close>

lemma proposed_stored:
  assumes "\<forall>c\<in>set cols. b c \<noteq> None"
  shows "proposed (timestamp_column pdb) cols cols b = Some (stored pdb b |` set cols)"
  using proposed_total[OF assms] by (simp add: stored_def)

lemma exec_insert_upsert:
  assumes "distinct cols" "\<forall>b\<in>set binds. \<forall>c\<in>set cols. b c \<noteq> None"
    and "\<not> affects_twice tgt (map (\<lambda>b. stored pdb b |` set cols) binds)"
  shows "exec_insert (timestamp_column pdb) cols cols tgt (DoUpdate cols cols) binds tbl =
    Inr (fold (insert_row (DoUpdate cols cols) tgt) (map (\<lambda>b. stored pdb b |` set cols)
        binds) tbl)"
proof -
  have "those_opt (map (proposed (timestamp_column pdb) cols cols) binds) =
      Some (map (\<lambda>b. the (proposed (timestamp_column pdb) cols cols b)) binds)"
    using assms(2) by (intro those_opt_map) (simp add: proposed_stored)
  also have "map (\<lambda>b. the (proposed (timestamp_column pdb) cols cols b)) binds =
      map (\<lambda>b. stored pdb b |` set cols) binds"
    using assms(2) by (simp add: proposed_stored)
  finally show ?thesis using assms(1,3) by (simp add: exec_insert_def)
qed

lemma exec_insert_same_key_twice:
  fixes pdb :: "'t db"
  assumes "distinct cols" "set tgt \<subseteq> set cols" "\<forall>c\<in>set cols. b c \<noteq> None"
  shows "exec_insert (timestamp_column pdb) cols cols tgt (DoUpdate cols cols) [b, b] tbl =
    Inl CardinalityViolation"
proof -
  have "\<forall>c\<in>set tgt. (stored pdb b |` set cols) c \<noteq> None"
    using assms(2,3) by (auto simp: stored_def restrict_map_def)
  then have "agree tgt (stored pdb b |` set cols) (stored pdb b |` set cols)"
    by (rule agree_refl)
  then show ?thesis
    using assms(1) by (simp add: exec_insert_def proposed_stored[OF assms(3)])
qed

lemma NamedExecContext_upsert:
  assumes "prepare q = Some (upsert_stmt t k vcols)"
    and "distinct (identity_columns @ k # vcols)"
    and "\<forall>b\<in>set binds. \<forall>c\<in>set (identity_columns @ k # vcols). b c \<noteq>
        None"
    and "\<not> affects_twice (identity_columns @ [k])
           (map (\<lambda>b. stored pdb b |` set (identity_columns @ k # vcols)) binds)"
  shows "NamedExecContext pdb sh q binds s =
    (Inr (Some Result),
     s\<lparr>issued := issued s @ [NamedExecCall sh q binds],
       tables := (tables s)((sh, t) :=
         fold (insert_row (DoUpdate (identity_columns @ k # vcols) (identity_columns @ k # vcols))
                 (identity_columns @ [k]))
           (map (\<lambda>b. stored pdb b |` set (identity_columns @ k # vcols)) binds)
           (tables s (sh, t)))\<rparr>)"
  using exec_insert_upsert[OF assms(2,3,4), of "tables s (sh, t)"]
  by (simp add: NamedExecContext_def assms(1) upsert_stmt_def)

lemma affects_twice_map:
  assumes "\<And>x y. agree tgt (f x) (f y) = (pk x = pk y)"
  shows "affects_twice tgt (map f xs) = (\<not> distinct (map pk xs))"
  by (induction xs) (auto simp: list_ex_iff assms)

lemma fold_upsert_cases:
  "e \<in> set (fold (insert_row (DoUpdate cols cols) tgt) ps tbl) \<Longrightarrow>
     e \<in> set tbl \<or> (\<exists>p\<in>set ps. \<forall>c\<in>set cols. e c = p c)"
proof (induction ps arbitrary: tbl)
  case Nil
  then show ?case by simp
next
  case (Cons q ps)
  from Cons.prems have "e \<in> set (fold (insert_row (DoUpdate cols cols) tgt) ps
      (insert_row (DoUpdate cols cols) tgt q tbl))" by simp
  then have "e \<in> set (insert_row (DoUpdate cols cols) tgt q tbl) \<or>
      (\<exists>p\<in>set ps. \<forall>c\<in>set cols. e c = p c)" by (rule Cons.IH)
  moreover have "e \<in> set (insert_row (DoUpdate cols cols) tgt q tbl) \<Longrightarrow>
      e \<in> set tbl \<or> (\<forall>c\<in>set cols. e c = q c)"
    by (auto simp: insert_row_def assign_same split: if_splits)
  ultimately show ?case by auto
qed

lemma scan_all_total:
  "(\<forall>x\<in>set xs. scan x \<noteq> None) \<Longrightarrow> scan_all scan xs = (map
      (\<lambda>x. the (scan x)) xs, None)"
  by (induction xs) auto

lemma matches_identity_fun:
  "matches [VInt64 sh, VBytes d, VString w, VBytes r] identity_conds = in_execution sh d w r"
  by (rule ext) (simp add: matches_identity)

lemma SelectContext_identity:
  assumes "prepare q = Some (Select cols t identity_conds)"
    and "\<forall>e\<in>set (tables s (sh, t)). in_execution shardID d w r e \<longrightarrow> scan
        (e |` set cols) \<noteq> None"
  shows "SelectContext pdb sh scan q [VInt64 shardID, VBytes d, VString w, VBytes r] s =
    ((map (\<lambda>e. the (scan (e |` set cols)))
        (filter (in_execution shardID d w r) (tables s (sh, t))), None),
     s\<lparr>issued := issued s @ [SelectCall sh q [VInt64 shardID, VBytes d, VString w, VBytes
         r]]\<rparr>)"
proof -
  have "scan_all scan (map (\<lambda>r. r |` set cols)
          (filter (in_execution shardID d w r) (tables s (sh, t)))) =
      (map (\<lambda>x. the (scan x)) (map (\<lambda>r. r |` set cols)
          (filter (in_execution shardID d w r) (tables s (sh, t)))), None)"
    using assms(2) by (intro scan_all_total) auto
  then show ?thesis
    by (simp add: SelectContext_def assms(1) conds_ok_identity matches_identity_fun comp_def)
qed

lemma fold_do_nothing:
  "\<forall>p\<in>set ps. list_ex (agree tgt p) tbl \<Longrightarrow> fold (insert_row DoNothing
      tgt) ps tbl = tbl"
  by (induction ps) (auto simp: insert_row_def)


lemma upsert_rows:
  assumes q: "prepare q = Some (upsert_stmt t k vcols)"
    and c: "distinct (identity_columns @ k # vcols)"
       "set (identity_columns @ [k]) \<subseteq> set (identity_columns @ k # vcols)"
    and b: "\<And>x. \<forall>c\<in>set (identity_columns @ k # vcols). bnd x c \<noteq> None"
    and r: "\<And>x. stored pdb (bnd x) |` set (identity_columns @ k # vcols) = stored pdb (bnd x)"
    and a: "\<And>x y. agree (identity_columns @ [k]) (stored pdb (bnd x)) (stored pdb (bnd y)) =
               (pk x = pk y)"
    and d: "distinct (map pk xs)"
  shows "NamedExecContext pdb sh q (map bnd xs) s =
    (Inr (Some Result),
     s\<lparr>issued := issued s @ [NamedExecCall sh q (map bnd xs)],
       tables := (tables s)((sh, t) :=
         fold (insert_row (DoUpdate (identity_columns @ k # vcols) (identity_columns @ k # vcols))
                 (identity_columns @ [k]))
           (map (\<lambda>x. stored pdb (bnd x)) xs) (tables s (sh, t)))\<rparr>)"
    and "\<forall>x\<in>set xs. upserted (identity_columns @ [k]) (identity_columns @ k # vcols)
            (stored pdb (bnd x))
            (fold (insert_row (DoUpdate (identity_columns @ k # vcols) (identity_columns @ k #
                vcols))
                 (identity_columns @ [k]))
              (map (\<lambda>x. stored pdb (bnd x)) xs) tbl)"
proof -
  let ?cols = "identity_columns @ k # vcols"
  have m: "map (\<lambda>b. stored pdb b |` set ?cols) (map bnd xs) = map (\<lambda>x. stored pdb
      (bnd x)) xs"
    by (simp only: map_map comp_def r)
  have n: "\<not> affects_twice (identity_columns @ [k]) (map (\<lambda>x. stored pdb (bnd x)) xs)"
    using affects_twice_map[of "identity_columns @ [k]" "\<lambda>x. stored pdb (bnd x)" pk xs] a d
    by simp
  have nn: "\<forall>p\<in>set (map (\<lambda>x. stored pdb (bnd x)) xs). \<forall>c\<in>set
      (identity_columns @ [k]). p c \<noteq> None"
  proof (intro ballI)
    fix p c assume "p \<in> set (map (\<lambda>x. stored pdb (bnd x)) xs)" "c \<in> set
        (identity_columns @ [k])"
    then obtain x where p: "p = stored pdb (bnd x)" by auto
    from \<open>c \<in> set (identity_columns @ [k])\<close> c(2) have "c \<in> set ?cols" by blast
    with b[of x] have "bnd x c \<noteq> None" by blast
    then show "p c \<noteq> None" by (simp add: p stored_def)
  qed
  show "NamedExecContext pdb sh q (map bnd xs) s =
    (Inr (Some Result),
     s\<lparr>issued := issued s @ [NamedExecCall sh q (map bnd xs)],
       tables := (tables s)((sh, t) :=
         fold (insert_row (DoUpdate ?cols ?cols) (identity_columns @ [k]))
           (map (\<lambda>x. stored pdb (bnd x)) xs) (tables s (sh, t)))\<rparr>)"
  proof -
    have bb: "\<forall>b\<in>set (map bnd xs). \<forall>c\<in>set ?cols. b c \<noteq> None"
      using b by auto
    have n': "\<not> affects_twice (identity_columns @ [k])
        (map (\<lambda>b. stored pdb b |` set ?cols) (map bnd xs))"
      unfolding m by (rule n)
    show ?thesis
      using NamedExecContext_upsert[OF q c(1) bb n', of sh s] unfolding m .
  qed
  show "\<forall>x\<in>set xs. upserted (identity_columns @ [k]) ?cols (stored pdb (bnd x))
      (fold (insert_row (DoUpdate ?cols ?cols) (identity_columns @ [k]))
         (map (\<lambda>x. stored pdb (bnd x)) xs) tbl)"
    using upserted_fold[OF n c(2) nn] by simp
qed

subsection \<open>Activity infos\<close>

lemma cols_ActivityInfoMaps:
  "distinct (identity_columns @ activityInfoKey # activityInfoColumns)"
  "set (identity_columns @ [activityInfoKey]) \<subseteq>
     set (identity_columns @ activityInfoKey # activityInfoColumns)"
  by (simp_all add: identity_columns_def activityInfoKey_def activityInfoColumns_def)

lemma bind_nonnull_ActivityInfoMaps:
  "\<forall>c\<in>set (identity_columns @ activityInfoKey # activityInfoColumns).
     bindActivityInfoMapsRow row c \<noteq> None"
  by (simp add: identity_columns_def activityInfoKey_def activityInfoColumns_def
      bindActivityInfoMapsRow_def)

lemma stored_bind_ActivityInfoMaps:
  "stored pdb (bindActivityInfoMapsRow row) |`
       set (identity_columns @ activityInfoKey # activityInfoColumns) =
     stored pdb (bindActivityInfoMapsRow row)"
  by (rule ext)
     (simp add: restrict_map_def stored_def identity_columns_def activityInfoKey_def
       activityInfoColumns_def bindActivityInfoMapsRow_def)

lemma stored_values_ActivityInfoMaps:
  "stored pdb (bindActivityInfoMapsRow row) ''shard_id'' = Some (VInt64 (ActivityInfoMapsRow.ShardID
      row))"
  "stored pdb (bindActivityInfoMapsRow row) ''domain_id'' = Some (VBytes
      (ActivityInfoMapsRow.DomainID row))"
  "stored pdb (bindActivityInfoMapsRow row) ''workflow_id'' = Some (VString
      (ActivityInfoMapsRow.WorkflowID row))"
  "stored pdb (bindActivityInfoMapsRow row) ''run_id'' = Some (VBytes (ActivityInfoMapsRow.RunID
      row))"
  "stored pdb (bindActivityInfoMapsRow row) ''schedule_id'' = Some (VInt64
      (ActivityInfoMapsRow.ScheduleID row))"
  "stored pdb (bindActivityInfoMapsRow row) ''data'' = Some (VBytes (ActivityInfoMapsRow.Data row))"
  "stored pdb (bindActivityInfoMapsRow row) ''data_encoding'' = Some (VString
      (ActivityInfoMapsRow.DataEncoding row))"
  "stored pdb (bindActivityInfoMapsRow row) ''last_heartbeat_details'' = Some (VBytes
      (ActivityInfoMapsRow.LastHeartbeatDetails row))"
  "stored pdb (bindActivityInfoMapsRow row) ''last_heartbeat_updated_time'' =
     Some (VTime (timestamp_column pdb (ActivityInfoMapsRow.LastHeartbeatUpdatedTime row)))"
  by (simp_all add: stored_def bindActivityInfoMapsRow_def)

lemma agree_ActivityInfoMaps:
  "agree (identity_columns @ [activityInfoKey]) (stored pdb (bindActivityInfoMapsRow row)) e =
     (in_execution (ActivityInfoMapsRow.ShardID row) (ActivityInfoMapsRow.DomainID row)
        (ActivityInfoMapsRow.WorkflowID row) (ActivityInfoMapsRow.RunID row) e \<and>
      e ''schedule_id'' = Some (VInt64 (ActivityInfoMapsRow.ScheduleID row)))"
  by (simp add: agree_def identity_columns_def activityInfoKey_def in_execution_def
      stored_values_ActivityInfoMaps)

lemma agree_rows_ActivityInfoMaps:
  "agree (identity_columns @ [activityInfoKey]) (stored pdb (bindActivityInfoMapsRow x))
       (stored pdb (bindActivityInfoMapsRow y)) =
     ((ActivityInfoMapsRow.ShardID x, ActivityInfoMapsRow.DomainID x, ActivityInfoMapsRow.WorkflowID
         x,
       ActivityInfoMapsRow.RunID x, ActivityInfoMapsRow.ScheduleID x) =
      (ActivityInfoMapsRow.ShardID y, ActivityInfoMapsRow.DomainID y, ActivityInfoMapsRow.WorkflowID
          y,
       ActivityInfoMapsRow.RunID y, ActivityInfoMapsRow.ScheduleID y))"
  by (auto simp: agree_ActivityInfoMaps in_execution_def stored_values_ActivityInfoMaps)

lemma ReplaceIntoActivityInfoMaps_ok:
  assumes "rows \<noteq> []"
    and "distinct (map (\<lambda>row. (ActivityInfoMapsRow.ShardID row, ActivityInfoMapsRow.DomainID
        row,
           ActivityInfoMapsRow.WorkflowID row, ActivityInfoMapsRow.RunID row,
           ActivityInfoMapsRow.ScheduleID row)) rows)"
  shows "ReplaceIntoActivityInfoMaps pdb rows s =
    (Inr (Some Result),
     map (\<lambda>row. row\<lparr>ActivityInfoMapsRow.LastHeartbeatUpdatedTime :=
            ToPostgresDateTime pdb (ActivityInfoMapsRow.LastHeartbeatUpdatedTime row)\<rparr>) rows,
     s\<lparr>issued := issued s @
         [NamedExecCall
            (GetDBShardIDFromHistoryShardID pdb (ActivityInfoMapsRow.ShardID (rows ! 0))
               (GetTotalNumDBShards pdb))
            setKeyInActivityInfoMapQry
            (map bindActivityInfoMapsRow
               (map (\<lambda>row. row\<lparr>ActivityInfoMapsRow.LastHeartbeatUpdatedTime :=
                  ToPostgresDateTime pdb (ActivityInfoMapsRow.LastHeartbeatUpdatedTime row)\<rparr>)
                      rows))],
       tables := (tables s)
         ((GetDBShardIDFromHistoryShardID pdb (ActivityInfoMapsRow.ShardID (rows ! 0))
             (GetTotalNumDBShards pdb), activityInfoTableName) :=
          fold (insert_row
                  (DoUpdate (identity_columns @ activityInfoKey # activityInfoColumns)
                     (identity_columns @ activityInfoKey # activityInfoColumns))
                  (identity_columns @ [activityInfoKey]))
            (map (\<lambda>x. stored pdb (bindActivityInfoMapsRow x))
               (map (\<lambda>row. row\<lparr>ActivityInfoMapsRow.LastHeartbeatUpdatedTime :=
                  ToPostgresDateTime pdb (ActivityInfoMapsRow.LastHeartbeatUpdatedTime row)\<rparr>)
                      rows))
            (tables s
               (GetDBShardIDFromHistoryShardID pdb (ActivityInfoMapsRow.ShardID (rows ! 0))
                  (GetTotalNumDBShards pdb), activityInfoTableName)))\<rparr>)"
proof -
  let ?conv = "map (\<lambda>row. row\<lparr>ActivityInfoMapsRow.LastHeartbeatUpdatedTime :=
            ToPostgresDateTime pdb (ActivityInfoMapsRow.LastHeartbeatUpdatedTime row)\<rparr>) rows"
  have d: "distinct (map (\<lambda>row. (ActivityInfoMapsRow.ShardID row,
      ActivityInfoMapsRow.DomainID row,
           ActivityInfoMapsRow.WorkflowID row, ActivityInfoMapsRow.RunID row,
           ActivityInfoMapsRow.ScheduleID row)) ?conv)"
    using assms(2) by (simp add: comp_def)
  note e = upsert_rows(1)[OF prepare_setKeyInActivityInfoMapQry cols_ActivityInfoMaps
          bind_nonnull_ActivityInfoMaps stored_bind_ActivityInfoMaps
          agree_rows_ActivityInfoMaps d]
  show ?thesis
    unfolding ReplaceIntoActivityInfoMaps_def Let_def e
    using assms(1) by simp
qed


lemma replace_table_ActivityInfoMaps:
  assumes "rows \<noteq> []"
    and "distinct (map (\<lambda>row. (ActivityInfoMapsRow.ShardID row, ActivityInfoMapsRow.DomainID
        row,
           ActivityInfoMapsRow.WorkflowID row, ActivityInfoMapsRow.RunID row,
           ActivityInfoMapsRow.ScheduleID row)) rows)"
  shows "tables (snd (snd (ReplaceIntoActivityInfoMaps pdb rows s)))
           (GetDBShardIDFromHistoryShardID pdb (ActivityInfoMapsRow.ShardID (rows ! 0))
              (GetTotalNumDBShards pdb), activityInfoTableName) =
         fold (insert_row
                  (DoUpdate (identity_columns @ activityInfoKey # activityInfoColumns)
                     (identity_columns @ activityInfoKey # activityInfoColumns))
                  (identity_columns @ [activityInfoKey]))
            (map (\<lambda>x. stored pdb (bindActivityInfoMapsRow x))
               (map (\<lambda>row. row\<lparr>ActivityInfoMapsRow.LastHeartbeatUpdatedTime :=
                  ToPostgresDateTime pdb (ActivityInfoMapsRow.LastHeartbeatUpdatedTime row)\<rparr>)
                      rows))
            (tables s
               (GetDBShardIDFromHistoryShardID pdb (ActivityInfoMapsRow.ShardID (rows ! 0))
                  (GetTotalNumDBShards pdb), activityInfoTableName))"
    and "\<forall>row\<in>set rows. upserted (identity_columns @ [activityInfoKey])
      (identity_columns @ activityInfoKey # activityInfoColumns)
      (stored pdb (bindActivityInfoMapsRow
         (row\<lparr>ActivityInfoMapsRow.LastHeartbeatUpdatedTime :=
            ToPostgresDateTime pdb (ActivityInfoMapsRow.LastHeartbeatUpdatedTime row)\<rparr>)))
      (tables (snd (snd (ReplaceIntoActivityInfoMaps pdb rows s)))
           (GetDBShardIDFromHistoryShardID pdb (ActivityInfoMapsRow.ShardID (rows ! 0))
              (GetTotalNumDBShards pdb), activityInfoTableName))"
proof -
  let ?c = "\<lambda>row. row\<lparr>ActivityInfoMapsRow.LastHeartbeatUpdatedTime :=
            ToPostgresDateTime pdb (ActivityInfoMapsRow.LastHeartbeatUpdatedTime row)\<rparr>"
  let ?sh = "GetDBShardIDFromHistoryShardID pdb (ActivityInfoMapsRow.ShardID (rows ! 0))
                    (GetTotalNumDBShards pdb)"
  let ?T = "tables (snd (snd (ReplaceIntoActivityInfoMaps pdb rows s))) (?sh,
      activityInfoTableName)"
  have d: "distinct (map (\<lambda>row. (ActivityInfoMapsRow.ShardID row,
      ActivityInfoMapsRow.DomainID row,
           ActivityInfoMapsRow.WorkflowID row, ActivityInfoMapsRow.RunID row,
           ActivityInfoMapsRow.ScheduleID row)) (map ?c rows))"
    using assms(2) by (simp add: comp_def)
  note ok = ReplaceIntoActivityInfoMaps_ok[OF assms, where pdb = pdb and s = s]
  note u = upsert_rows(2)[where tbl = "tables s (?sh, activityInfoTableName)" and pdb = pdb,
          OF prepare_setKeyInActivityInfoMapQry cols_ActivityInfoMaps
          bind_nonnull_ActivityInfoMaps stored_bind_ActivityInfoMaps
          agree_rows_ActivityInfoMaps d]
  show T: "?T = fold (insert_row
                  (DoUpdate (identity_columns @ activityInfoKey # activityInfoColumns)
                     (identity_columns @ activityInfoKey # activityInfoColumns))
                  (identity_columns @ [activityInfoKey]))
            (map (\<lambda>x. stored pdb (bindActivityInfoMapsRow x)) (map ?c rows))
            (tables s (?sh, activityInfoTableName))"
    unfolding ok by simp
  show "\<forall>row\<in>set rows. upserted (identity_columns @ [activityInfoKey])
      (identity_columns @ activityInfoKey # activityInfoColumns)
      (stored pdb (bindActivityInfoMapsRow (?c row))) ?T"
    unfolding T using u by simp
qed

lemma replace_upserts_ActivityInfoMaps:
  assumes "rows \<noteq> []"
    and "distinct (map (\<lambda>row. (ActivityInfoMapsRow.ShardID row, ActivityInfoMapsRow.DomainID
        row,
           ActivityInfoMapsRow.WorkflowID row, ActivityInfoMapsRow.RunID row,
           ActivityInfoMapsRow.ScheduleID row)) rows)"
  shows "fst (ReplaceIntoActivityInfoMaps pdb rows s) = Inr (Some Result) \<and>
    (\<forall>row\<in>set rows.
       (\<exists>e\<in>set (tables (snd (snd (ReplaceIntoActivityInfoMaps pdb rows s)))
                 (GetDBShardIDFromHistoryShardID pdb (ActivityInfoMapsRow.ShardID (rows ! 0))
                    (GetTotalNumDBShards pdb), activityInfoTableName)).
          in_execution (ActivityInfoMapsRow.ShardID row) (ActivityInfoMapsRow.DomainID row)
            (ActivityInfoMapsRow.WorkflowID row) (ActivityInfoMapsRow.RunID row) e \<and>
          e ''schedule_id'' = Some (VInt64 (ActivityInfoMapsRow.ScheduleID row))) \<and>
       (\<forall>e\<in>set (tables (snd (snd (ReplaceIntoActivityInfoMaps pdb rows s)))
                 (GetDBShardIDFromHistoryShardID pdb (ActivityInfoMapsRow.ShardID (rows ! 0))
                    (GetTotalNumDBShards pdb), activityInfoTableName)).
          in_execution (ActivityInfoMapsRow.ShardID row) (ActivityInfoMapsRow.DomainID row)
            (ActivityInfoMapsRow.WorkflowID row) (ActivityInfoMapsRow.RunID row) e \<and>
          e ''schedule_id'' = Some (VInt64 (ActivityInfoMapsRow.ScheduleID row)) \<longrightarrow>
          e ''data'' = Some (VBytes (ActivityInfoMapsRow.Data row)) \<and>
          e ''data_encoding'' = Some (VString (ActivityInfoMapsRow.DataEncoding row)) \<and>
          e ''last_heartbeat_details'' = Some (VBytes (ActivityInfoMapsRow.LastHeartbeatDetails
              row)) \<and>
          e ''last_heartbeat_updated_time'' =
            Some (VTime (timestamp_column pdb
              (ToPostgresDateTime pdb (ActivityInfoMapsRow.LastHeartbeatUpdatedTime row))))))"
proof -
  let ?c = "\<lambda>row. row\<lparr>ActivityInfoMapsRow.LastHeartbeatUpdatedTime :=
            ToPostgresDateTime pdb (ActivityInfoMapsRow.LastHeartbeatUpdatedTime row)\<rparr>"
  let ?sh = "GetDBShardIDFromHistoryShardID pdb (ActivityInfoMapsRow.ShardID (rows ! 0))
                    (GetTotalNumDBShards pdb)"
  let ?T = "tables (snd (snd (ReplaceIntoActivityInfoMaps pdb rows s))) (?sh,
      activityInfoTableName)"
  note ok = ReplaceIntoActivityInfoMaps_ok[OF assms, where pdb = pdb and s = s]
  have "\<forall>row\<in>set rows. upserted (identity_columns @ [activityInfoKey])
      (identity_columns @ activityInfoKey # activityInfoColumns)
      (stored pdb (bindActivityInfoMapsRow (?c row))) ?T"
    by (rule replace_table_ActivityInfoMaps(2)[OF assms])
  then have "\<forall>row\<in>set rows.
      (\<exists>e\<in>set ?T. agree (identity_columns @ [activityInfoKey])
          (stored pdb (bindActivityInfoMapsRow (?c row))) e) \<and>
      (\<forall>e\<in>set ?T. agree (identity_columns @ [activityInfoKey])
          (stored pdb (bindActivityInfoMapsRow (?c row))) e \<longrightarrow>
         (\<forall>c\<in>set activityInfoColumns. e c = stored pdb (bindActivityInfoMapsRow (?c
             row)) c))"
    by (simp add: upserted_def)
  then have "\<forall>row\<in>set rows.
      (\<exists>e\<in>set ?T. in_execution (ActivityInfoMapsRow.ShardID row)
          (ActivityInfoMapsRow.DomainID row)
            (ActivityInfoMapsRow.WorkflowID row) (ActivityInfoMapsRow.RunID row) e \<and>
          e ''schedule_id'' = Some (VInt64 (ActivityInfoMapsRow.ScheduleID row))) \<and>
      (\<forall>e\<in>set ?T. in_execution (ActivityInfoMapsRow.ShardID row)
          (ActivityInfoMapsRow.DomainID row)
            (ActivityInfoMapsRow.WorkflowID row) (ActivityInfoMapsRow.RunID row) e \<and>
          e ''schedule_id'' = Some (VInt64 (ActivityInfoMapsRow.ScheduleID row)) \<longrightarrow>
          e ''data'' = Some (VBytes (ActivityInfoMapsRow.Data row)) \<and>
          e ''data_encoding'' = Some (VString (ActivityInfoMapsRow.DataEncoding row)) \<and>
          e ''last_heartbeat_details'' = Some (VBytes (ActivityInfoMapsRow.LastHeartbeatDetails
              row)) \<and>
          e ''last_heartbeat_updated_time'' =
            Some (VTime (timestamp_column pdb
              (ToPostgresDateTime pdb (ActivityInfoMapsRow.LastHeartbeatUpdatedTime row)))))"
    by (simp add: agree_ActivityInfoMaps activityInfoColumns_def stored_values_ActivityInfoMaps)
  moreover have "fst (ReplaceIntoActivityInfoMaps pdb rows s) = Inr (Some Result)"
    unfolding ok by simp
  ultimately show ?thesis by simp
qed


lemma scan_stored_ActivityInfoMaps:
  assumes "\<forall>c\<in>set (activityInfoKey # activityInfoColumns).
             e c = stored pdb (bindActivityInfoMapsRow x) c"
  shows "scanActivityInfoMapsRow (e |` set (activityInfoKey # activityInfoColumns)) =
    Some \<lparr>ActivityInfoMapsRow.ShardID = 0, ActivityInfoMapsRow.DomainID = [],
          ActivityInfoMapsRow.WorkflowID = [], ActivityInfoMapsRow.RunID = [],
          ActivityInfoMapsRow.ScheduleID = ActivityInfoMapsRow.ScheduleID x,
          ActivityInfoMapsRow.Data = ActivityInfoMapsRow.Data x,
          ActivityInfoMapsRow.DataEncoding = ActivityInfoMapsRow.DataEncoding x,
          ActivityInfoMapsRow.LastHeartbeatDetails = ActivityInfoMapsRow.LastHeartbeatDetails x,
          ActivityInfoMapsRow.LastHeartbeatUpdatedTime =
            timestamp_column pdb (ActivityInfoMapsRow.LastHeartbeatUpdatedTime x)\<rparr>"
  using assms
  by (simp add: scanActivityInfoMapsRow_def restrict_map_def activityInfoKey_def
      activityInfoColumns_def stored_values_ActivityInfoMaps)

lemma roundtrip_ActivityInfoMaps:
  assumes "rows \<noteq> []"
    and "distinct (map (\<lambda>row. (ActivityInfoMapsRow.ShardID row, ActivityInfoMapsRow.DomainID
        row,
           ActivityInfoMapsRow.WorkflowID row, ActivityInfoMapsRow.RunID row,
           ActivityInfoMapsRow.ScheduleID row)) rows)"
    and "row \<in> set rows"
    and f: "ActivityInfoMapsFilter.ShardID fltr = ActivityInfoMapsRow.ShardID row"
      "ActivityInfoMapsFilter.DomainID fltr = ActivityInfoMapsRow.DomainID row"
      "ActivityInfoMapsFilter.WorkflowID fltr = ActivityInfoMapsRow.WorkflowID row"
      "ActivityInfoMapsFilter.RunID fltr = ActivityInfoMapsRow.RunID row"
    and sh: "GetDBShardIDFromHistoryShardID pdb (ActivityInfoMapsRow.ShardID row)
        (GetTotalNumDBShards pdb) =
       GetDBShardIDFromHistoryShardID pdb (ActivityInfoMapsRow.ShardID (rows ! 0))
           (GetTotalNumDBShards pdb)"
    and sc: "\<forall>e\<in>set (tables s
                (GetDBShardIDFromHistoryShardID pdb (ActivityInfoMapsRow.ShardID row)
                   (GetTotalNumDBShards pdb), activityInfoTableName)).
             in_execution (ActivityInfoMapsRow.ShardID row) (ActivityInfoMapsRow.DomainID row)
               (ActivityInfoMapsRow.WorkflowID row) (ActivityInfoMapsRow.RunID row) e
                   \<longrightarrow>
             scanActivityInfoMapsRow (e |` set (activityInfoKey # activityInfoColumns)) \<noteq>
                 None"
  shows "snd (fst (SelectFromActivityInfoMaps pdb fltr
            (snd (snd (ReplaceIntoActivityInfoMaps pdb rows s))))) = None \<and>
    row\<lparr>ActivityInfoMapsRow.LastHeartbeatUpdatedTime :=
          FromPostgresDateTime pdb (timestamp_column pdb
            (ToPostgresDateTime pdb (ActivityInfoMapsRow.LastHeartbeatUpdatedTime row)))\<rparr>
      \<in> set (fst (fst (SelectFromActivityInfoMaps pdb fltr
            (snd (snd (ReplaceIntoActivityInfoMaps pdb rows s))))))"
proof -
  let ?c = "\<lambda>row. row\<lparr>ActivityInfoMapsRow.LastHeartbeatUpdatedTime :=
            ToPostgresDateTime pdb (ActivityInfoMapsRow.LastHeartbeatUpdatedTime row)\<rparr>"
  let ?sh = "GetDBShardIDFromHistoryShardID pdb (ActivityInfoMapsRow.ShardID (rows ! 0))
                    (GetTotalNumDBShards pdb)"
  let ?s1 = "snd (snd (ReplaceIntoActivityInfoMaps pdb rows s))"
  let ?T = "tables ?s1 (?sh, activityInfoTableName)"
  let ?cols = "identity_columns @ activityInfoKey # activityInfoColumns"
  let ?sel = "activityInfoKey # activityInfoColumns"
  let ?ps = "map (\<lambda>x. stored pdb (bindActivityInfoMapsRow x)) (map ?c rows)"
  let ?inx = "in_execution (ActivityInfoMapsRow.ShardID row) (ActivityInfoMapsRow.DomainID row)
               (ActivityInfoMapsRow.WorkflowID row) (ActivityInfoMapsRow.RunID row)"
  have T: "?T = fold (insert_row (DoUpdate ?cols ?cols) (identity_columns @ [activityInfoKey]))
            ?ps (tables s (?sh, activityInfoTableName))"
    by (rule replace_table_ActivityInfoMaps(1)[OF assms(1,2)])
  have sub: "set ?sel \<subseteq> set ?cols" by auto
  have scan': "\<forall>e\<in>set ?T. ?inx e \<longrightarrow> scanActivityInfoMapsRow (e |` set
      ?sel) \<noteq> None"
  proof (intro ballI impI)
    fix e assume e: "e \<in> set ?T" and i: "?inx e"
    from e consider "e \<in> set (tables s (?sh, activityInfoTableName))"
      | p where "p \<in> set ?ps" "\<forall>c\<in>set ?cols. e c = p c"
      unfolding T using fold_upsert_cases by blast
    then show "scanActivityInfoMapsRow (e |` set ?sel) \<noteq> None"
    proof cases
      case 1
      with sc i sh show ?thesis by simp
    next
      case 2
      then obtain x where "\<forall>c\<in>set ?cols. e c = stored pdb (bindActivityInfoMapsRow x) c"
          by auto
      with sub have "\<forall>c\<in>set ?sel. e c = stored pdb (bindActivityInfoMapsRow x) c" by
          blast
      then show ?thesis by (simp only: scan_stored_ActivityInfoMaps) simp
    qed
  qed
  have sel: "SelectFromActivityInfoMaps pdb fltr ?s1 =
    ((map (\<lambda>row'. row'\<lparr>ActivityInfoMapsRow.ShardID := ActivityInfoMapsRow.ShardID
        row,
                      ActivityInfoMapsRow.DomainID := ActivityInfoMapsRow.DomainID row,
                      ActivityInfoMapsRow.WorkflowID := ActivityInfoMapsRow.WorkflowID row,
                      ActivityInfoMapsRow.RunID := ActivityInfoMapsRow.RunID row,
                      ActivityInfoMapsRow.LastHeartbeatUpdatedTime :=
                        FromPostgresDateTime pdb (ActivityInfoMapsRow.LastHeartbeatUpdatedTime
                            row')\<rparr>)
        (map (\<lambda>e. the (scanActivityInfoMapsRow (e |` set ?sel))) (filter ?inx ?T)), None),
     ?s1\<lparr>issued := issued ?s1 @ [SelectCall ?sh getActivityInfoMapQry
        [VInt64 (ActivityInfoMapsRow.ShardID row), VBytes (ActivityInfoMapsRow.DomainID row),
         VString (ActivityInfoMapsRow.WorkflowID row), VBytes (ActivityInfoMapsRow.RunID
             row)]]\<rparr>)"
    unfolding SelectFromActivityInfoMaps_def Let_def f sh
      SelectContext_identity[OF prepare_getActivityInfoMapQry scan']
    by simp
  have "upserted (identity_columns @ [activityInfoKey]) ?cols
      (stored pdb (bindActivityInfoMapsRow (?c row))) ?T"
    using replace_table_ActivityInfoMaps(2)[OF assms(1,2), of pdb s] assms(3) by blast
  then obtain e where e: "e \<in> set ?T"
      "agree (identity_columns @ [activityInfoKey]) (stored pdb (bindActivityInfoMapsRow (?c row)))
          e"
      "\<forall>c\<in>set ?cols. e c = stored pdb (bindActivityInfoMapsRow (?c row)) c"
    by (auto simp: upserted_def)
  from e(2) have i: "?inx e" by (simp add: agree_ActivityInfoMaps)
  from e(3) sub have "\<forall>c\<in>set ?sel. e c = stored pdb (bindActivityInfoMapsRow (?c row))
      c" by blast
  note z = scan_stored_ActivityInfoMaps[OF this]
  have "row\<lparr>ActivityInfoMapsRow.LastHeartbeatUpdatedTime :=
          FromPostgresDateTime pdb (timestamp_column pdb
            (ToPostgresDateTime pdb (ActivityInfoMapsRow.LastHeartbeatUpdatedTime row)))\<rparr> =
        (the (scanActivityInfoMapsRow (e |` set ?sel)))
           \<lparr>ActivityInfoMapsRow.ShardID := ActivityInfoMapsRow.ShardID row,
            ActivityInfoMapsRow.DomainID := ActivityInfoMapsRow.DomainID row,
            ActivityInfoMapsRow.WorkflowID := ActivityInfoMapsRow.WorkflowID row,
            ActivityInfoMapsRow.RunID := ActivityInfoMapsRow.RunID row,
            ActivityInfoMapsRow.LastHeartbeatUpdatedTime :=
              FromPostgresDateTime pdb (ActivityInfoMapsRow.LastHeartbeatUpdatedTime
                (the (scanActivityInfoMapsRow (e |` set ?sel))))\<rparr>"
    unfolding z by simp
  with e(1) i show ?thesis
    unfolding sel by (auto simp: image_iff intro!: bexI[of _ e])
qed

subsection \<open>Timers, child executions, cancel requests and signals\<close>

lemma cols_TimerInfoMaps:
  "distinct (identity_columns @ timerInfoKey # timerInfoColumns)"
  "set (identity_columns @ [timerInfoKey]) \<subseteq> set (identity_columns @ timerInfoKey #
      timerInfoColumns)"
  by (simp_all add: identity_columns_def timerInfoTableName_def timerInfoKey_def
      timerInfoColumns_def)

lemma bind_nonnull_TimerInfoMaps:
  "\<forall>c\<in>set (identity_columns @ timerInfoKey # timerInfoColumns). bindTimerInfoMapsRow row
      c \<noteq> None"
  by (simp add: identity_columns_def timerInfoTableName_def timerInfoKey_def timerInfoColumns_def
      bindTimerInfoMapsRow_def)

lemma stored_bind_TimerInfoMaps:
  "stored pdb (bindTimerInfoMapsRow row) |` set (identity_columns @ timerInfoKey # timerInfoColumns)
      = stored pdb (bindTimerInfoMapsRow row)"
  by (rule ext)
     (simp add: restrict_map_def stored_def identity_columns_def timerInfoTableName_def
         timerInfoKey_def timerInfoColumns_def bindTimerInfoMapsRow_def)

lemma stored_values_TimerInfoMaps:
  "stored pdb (bindTimerInfoMapsRow row) ''shard_id'' = Some (VInt64 (TimerInfoMapsRow.ShardID
      row))"
  "stored pdb (bindTimerInfoMapsRow row) ''domain_id'' = Some (VBytes (TimerInfoMapsRow.DomainID
      row))"
  "stored pdb (bindTimerInfoMapsRow row) ''workflow_id'' = Some (VString
      (TimerInfoMapsRow.WorkflowID row))"
  "stored pdb (bindTimerInfoMapsRow row) ''run_id'' = Some (VBytes (TimerInfoMapsRow.RunID row))"
  "stored pdb (bindTimerInfoMapsRow row) ''timer_id'' = Some (VString (TimerInfoMapsRow.TimerID
      row))"
  "stored pdb (bindTimerInfoMapsRow row) ''data'' = Some (VBytes (TimerInfoMapsRow.Data row))"
  "stored pdb (bindTimerInfoMapsRow row) ''data_encoding'' = Some (VString
      (TimerInfoMapsRow.DataEncoding row))"
  by (simp_all add: stored_def bindTimerInfoMapsRow_def)

lemma agree_TimerInfoMaps:
  "agree (identity_columns @ [timerInfoKey]) (stored pdb (bindTimerInfoMapsRow row)) e =
     (in_execution (TimerInfoMapsRow.ShardID row) (TimerInfoMapsRow.DomainID row)
            (TimerInfoMapsRow.WorkflowID row) (TimerInfoMapsRow.RunID row) e \<and>
          e ''timer_id'' = Some (VString (TimerInfoMapsRow.TimerID row)))"
  by (simp add: agree_def identity_columns_def timerInfoKey_def in_execution_def
      stored_values_TimerInfoMaps)

lemma agree_rows_TimerInfoMaps:
  "agree (identity_columns @ [timerInfoKey]) (stored pdb (bindTimerInfoMapsRow x)) (stored pdb
      (bindTimerInfoMapsRow y)) =
     ((TimerInfoMapsRow.ShardID x, TimerInfoMapsRow.DomainID x, TimerInfoMapsRow.WorkflowID x,
           TimerInfoMapsRow.RunID x, TimerInfoMapsRow.TimerID x) =
      (TimerInfoMapsRow.ShardID y, TimerInfoMapsRow.DomainID y, TimerInfoMapsRow.WorkflowID y,
           TimerInfoMapsRow.RunID y, TimerInfoMapsRow.TimerID y))"
  by (auto simp: agree_TimerInfoMaps in_execution_def stored_values_TimerInfoMaps)

lemma ReplaceIntoTimerInfoMaps_ok:
  assumes "rows \<noteq> []"
    and "distinct (map (\<lambda>row. (TimerInfoMapsRow.ShardID row, TimerInfoMapsRow.DomainID row,
        TimerInfoMapsRow.WorkflowID row,
           TimerInfoMapsRow.RunID row, TimerInfoMapsRow.TimerID row)) rows)"
  shows "ReplaceIntoTimerInfoMaps pdb rows s =
    (Inr (Some Result),
     s\<lparr>issued := issued s @
         [NamedExecCall (GetDBShardIDFromHistoryShardID pdb (TimerInfoMapsRow.ShardID (rows ! 0))
              (GetTotalNumDBShards pdb))
            setKeyInTimerInfoMapSQLQuery (map bindTimerInfoMapsRow rows)],
       tables := (tables s)((GetDBShardIDFromHistoryShardID pdb (TimerInfoMapsRow.ShardID (rows !
           0))
              (GetTotalNumDBShards pdb), timerInfoTableName) :=
          fold (insert_row (DoUpdate (identity_columns @ timerInfoKey # timerInfoColumns)
              (identity_columns @ timerInfoKey # timerInfoColumns)) (identity_columns @
              [timerInfoKey]))
            (map (\<lambda>x. stored pdb (bindTimerInfoMapsRow x)) rows)
            (tables s (GetDBShardIDFromHistoryShardID pdb (TimerInfoMapsRow.ShardID (rows ! 0))
              (GetTotalNumDBShards pdb), timerInfoTableName)))\<rparr>)"
proof -
  note e = upsert_rows(1)[OF prepare_setKeyInTimerInfoMapSQLQuery cols_TimerInfoMaps
          bind_nonnull_TimerInfoMaps stored_bind_TimerInfoMaps agree_rows_TimerInfoMaps assms(2)]
  show ?thesis
    unfolding ReplaceIntoTimerInfoMaps_def Let_def e
    using assms(1) by simp
qed

lemma replace_table_TimerInfoMaps:
  assumes "rows \<noteq> []"
    and "distinct (map (\<lambda>row. (TimerInfoMapsRow.ShardID row, TimerInfoMapsRow.DomainID row,
        TimerInfoMapsRow.WorkflowID row,
           TimerInfoMapsRow.RunID row, TimerInfoMapsRow.TimerID row)) rows)"
  shows "tables (snd (ReplaceIntoTimerInfoMaps pdb rows s))
           (GetDBShardIDFromHistoryShardID pdb (TimerInfoMapsRow.ShardID (rows ! 0))
              (GetTotalNumDBShards pdb), timerInfoTableName) =
         fold (insert_row (DoUpdate (identity_columns @ timerInfoKey # timerInfoColumns)
             (identity_columns @ timerInfoKey # timerInfoColumns)) (identity_columns @
             [timerInfoKey]))
            (map (\<lambda>x. stored pdb (bindTimerInfoMapsRow x)) rows)
            (tables s (GetDBShardIDFromHistoryShardID pdb (TimerInfoMapsRow.ShardID (rows ! 0))
              (GetTotalNumDBShards pdb), timerInfoTableName))"
    and "\<forall>row\<in>set rows. upserted (identity_columns @ [timerInfoKey]) (identity_columns @
        timerInfoKey # timerInfoColumns)
      (stored pdb (bindTimerInfoMapsRow row))
      (tables (snd (ReplaceIntoTimerInfoMaps pdb rows s))
           (GetDBShardIDFromHistoryShardID pdb (TimerInfoMapsRow.ShardID (rows ! 0))
              (GetTotalNumDBShards pdb), timerInfoTableName))"
proof -
  note ok = ReplaceIntoTimerInfoMaps_ok[OF assms, where pdb = pdb and s = s]
  note u = upsert_rows(2)[where tbl = "tables s (GetDBShardIDFromHistoryShardID pdb
      (TimerInfoMapsRow.ShardID (rows ! 0))
              (GetTotalNumDBShards pdb), timerInfoTableName)" and pdb = pdb,
          OF prepare_setKeyInTimerInfoMapSQLQuery cols_TimerInfoMaps
          bind_nonnull_TimerInfoMaps stored_bind_TimerInfoMaps agree_rows_TimerInfoMaps assms(2)]
  show T: "tables (snd (ReplaceIntoTimerInfoMaps pdb rows s))
           (GetDBShardIDFromHistoryShardID pdb (TimerInfoMapsRow.ShardID (rows ! 0))
              (GetTotalNumDBShards pdb), timerInfoTableName) =
         fold (insert_row (DoUpdate (identity_columns @ timerInfoKey # timerInfoColumns)
             (identity_columns @ timerInfoKey # timerInfoColumns)) (identity_columns @
             [timerInfoKey]))
            (map (\<lambda>x. stored pdb (bindTimerInfoMapsRow x)) rows)
            (tables s (GetDBShardIDFromHistoryShardID pdb (TimerInfoMapsRow.ShardID (rows ! 0))
              (GetTotalNumDBShards pdb), timerInfoTableName))"
    unfolding ok by simp
  show "\<forall>row\<in>set rows. upserted (identity_columns @ [timerInfoKey]) (identity_columns @
      timerInfoKey # timerInfoColumns)
      (stored pdb (bindTimerInfoMapsRow row))
      (tables (snd (ReplaceIntoTimerInfoMaps pdb rows s))
           (GetDBShardIDFromHistoryShardID pdb (TimerInfoMapsRow.ShardID (rows ! 0))
              (GetTotalNumDBShards pdb), timerInfoTableName))"
    unfolding T using u by simp
qed

lemma replace_upserts_TimerInfoMaps:
  assumes "rows \<noteq> []"
    and "distinct (map (\<lambda>row. (TimerInfoMapsRow.ShardID row, TimerInfoMapsRow.DomainID row,
        TimerInfoMapsRow.WorkflowID row,
           TimerInfoMapsRow.RunID row, TimerInfoMapsRow.TimerID row)) rows)"
  shows "fst (ReplaceIntoTimerInfoMaps pdb rows s) = Inr (Some Result) \<and>
    (\<forall>row\<in>set rows.
       (\<exists>e\<in>set (tables (snd (ReplaceIntoTimerInfoMaps pdb rows s))
           (GetDBShardIDFromHistoryShardID pdb (TimerInfoMapsRow.ShardID (rows ! 0))
              (GetTotalNumDBShards pdb), timerInfoTableName)).
          in_execution (TimerInfoMapsRow.ShardID row) (TimerInfoMapsRow.DomainID row)
            (TimerInfoMapsRow.WorkflowID row) (TimerInfoMapsRow.RunID row) e \<and>
          e ''timer_id'' = Some (VString (TimerInfoMapsRow.TimerID row))) \<and>
       (\<forall>e\<in>set (tables (snd (ReplaceIntoTimerInfoMaps pdb rows s))
           (GetDBShardIDFromHistoryShardID pdb (TimerInfoMapsRow.ShardID (rows ! 0))
              (GetTotalNumDBShards pdb), timerInfoTableName)).
          in_execution (TimerInfoMapsRow.ShardID row) (TimerInfoMapsRow.DomainID row)
            (TimerInfoMapsRow.WorkflowID row) (TimerInfoMapsRow.RunID row) e \<and>
          e ''timer_id'' = Some (VString (TimerInfoMapsRow.TimerID row)) \<longrightarrow>
          e ''data'' = Some (VBytes (TimerInfoMapsRow.Data row)) \<and>
          e ''data_encoding'' = Some (VString (TimerInfoMapsRow.DataEncoding row))))"
proof -
  let ?T = "tables (snd (ReplaceIntoTimerInfoMaps pdb rows s))
           (GetDBShardIDFromHistoryShardID pdb (TimerInfoMapsRow.ShardID (rows ! 0))
              (GetTotalNumDBShards pdb), timerInfoTableName)"
  note ok = ReplaceIntoTimerInfoMaps_ok[OF assms, where pdb = pdb and s = s]
  have "\<forall>row\<in>set rows. upserted (identity_columns @ [timerInfoKey]) (identity_columns @
      timerInfoKey # timerInfoColumns)
      (stored pdb (bindTimerInfoMapsRow row)) ?T"
    by (rule replace_table_TimerInfoMaps(2)[OF assms])
  then have "\<forall>row\<in>set rows.
      (\<exists>e\<in>set ?T. agree (identity_columns @ [timerInfoKey]) (stored pdb
          (bindTimerInfoMapsRow row)) e) \<and>
      (\<forall>e\<in>set ?T. agree (identity_columns @ [timerInfoKey]) (stored pdb
          (bindTimerInfoMapsRow row)) e \<longrightarrow>
         (\<forall>c\<in>set timerInfoColumns. e c = stored pdb (bindTimerInfoMapsRow row) c))"
    by (simp add: upserted_def)
  then have "\<forall>row\<in>set rows.
      (\<exists>e\<in>set ?T. in_execution (TimerInfoMapsRow.ShardID row) (TimerInfoMapsRow.DomainID
          row)
            (TimerInfoMapsRow.WorkflowID row) (TimerInfoMapsRow.RunID row) e \<and>
          e ''timer_id'' = Some (VString (TimerInfoMapsRow.TimerID row))) \<and>
      (\<forall>e\<in>set ?T. in_execution (TimerInfoMapsRow.ShardID row) (TimerInfoMapsRow.DomainID
          row)
            (TimerInfoMapsRow.WorkflowID row) (TimerInfoMapsRow.RunID row) e \<and>
          e ''timer_id'' = Some (VString (TimerInfoMapsRow.TimerID row)) \<longrightarrow>
          e ''data'' = Some (VBytes (TimerInfoMapsRow.Data row)) \<and>
          e ''data_encoding'' = Some (VString (TimerInfoMapsRow.DataEncoding row)))"
    by (simp add: agree_TimerInfoMaps timerInfoColumns_def stored_values_TimerInfoMaps)
  moreover have "fst (ReplaceIntoTimerInfoMaps pdb rows s) = Inr (Some Result)"
    unfolding ok by simp
  ultimately show ?thesis by simp
qed

lemma scan_stored_TimerInfoMaps:
  assumes "\<forall>c\<in>set (timerInfoKey # timerInfoColumns). e c = stored pdb
      (bindTimerInfoMapsRow x) c"
  shows "scanTimerInfoMapsRow (e |` set (timerInfoKey # timerInfoColumns)) =
    Some \<lparr>TimerInfoMapsRow.ShardID = 0, TimerInfoMapsRow.DomainID = [],
          TimerInfoMapsRow.WorkflowID = [], TimerInfoMapsRow.RunID = [],
          TimerInfoMapsRow.TimerID = TimerInfoMapsRow.TimerID x,
          TimerInfoMapsRow.Data = TimerInfoMapsRow.Data x,
          TimerInfoMapsRow.DataEncoding = TimerInfoMapsRow.DataEncoding x\<rparr>"
  using assms
  by (simp add: scanTimerInfoMapsRow_def restrict_map_def  timerInfoKey_def timerInfoColumns_def
      stored_values_TimerInfoMaps)

lemma roundtrip_TimerInfoMaps:
  assumes "rows \<noteq> []"
    and "distinct (map (\<lambda>row. (TimerInfoMapsRow.ShardID row, TimerInfoMapsRow.DomainID row,
        TimerInfoMapsRow.WorkflowID row,
           TimerInfoMapsRow.RunID row, TimerInfoMapsRow.TimerID row)) rows)"
    and "row \<in> set rows"
    and f: "TimerInfoMapsFilter.ShardID fltr = TimerInfoMapsRow.ShardID row"
      "TimerInfoMapsFilter.DomainID fltr = TimerInfoMapsRow.DomainID row"
      "TimerInfoMapsFilter.WorkflowID fltr = TimerInfoMapsRow.WorkflowID row"
      "TimerInfoMapsFilter.RunID fltr = TimerInfoMapsRow.RunID row"
    and sh: "GetDBShardIDFromHistoryShardID pdb (TimerInfoMapsRow.ShardID row) (GetTotalNumDBShards
        pdb) =
       GetDBShardIDFromHistoryShardID pdb (TimerInfoMapsRow.ShardID (rows ! 0))
              (GetTotalNumDBShards pdb)"
    and sc: "\<forall>e\<in>set (tables s
                (GetDBShardIDFromHistoryShardID pdb (TimerInfoMapsRow.ShardID row)
                   (GetTotalNumDBShards pdb), timerInfoTableName)).
             in_execution (TimerInfoMapsRow.ShardID row) (TimerInfoMapsRow.DomainID row)
            (TimerInfoMapsRow.WorkflowID row) (TimerInfoMapsRow.RunID row) e \<longrightarrow>
             scanTimerInfoMapsRow (e |` set (timerInfoKey # timerInfoColumns)) \<noteq> None"
  shows "snd (fst (SelectFromTimerInfoMaps pdb fltr (snd (ReplaceIntoTimerInfoMaps pdb rows s)))) =
      None \<and>
    row \<in> set (fst (fst (SelectFromTimerInfoMaps pdb fltr (snd (ReplaceIntoTimerInfoMaps pdb
        rows s)))))"
proof -
  let ?sh = "GetDBShardIDFromHistoryShardID pdb (TimerInfoMapsRow.ShardID (rows ! 0))
              (GetTotalNumDBShards pdb)"
  let ?s1 = "snd (ReplaceIntoTimerInfoMaps pdb rows s)"
  let ?T = "tables ?s1 (?sh, timerInfoTableName)"
  let ?cols = "identity_columns @ timerInfoKey # timerInfoColumns"
  let ?sel = "timerInfoKey # timerInfoColumns"
  let ?ps = "map (\<lambda>x. stored pdb (bindTimerInfoMapsRow x)) rows"
  let ?inx = "in_execution (TimerInfoMapsRow.ShardID row) (TimerInfoMapsRow.DomainID row)
            (TimerInfoMapsRow.WorkflowID row) (TimerInfoMapsRow.RunID row)"
  have T: "?T = fold (insert_row (DoUpdate ?cols ?cols) (identity_columns @ [timerInfoKey]))
            ?ps (tables s (?sh, timerInfoTableName))"
    by (rule replace_table_TimerInfoMaps(1)[OF assms(1,2)])
  have sub: "set ?sel \<subseteq> set ?cols" by auto
  have scan': "\<forall>e\<in>set ?T. ?inx e \<longrightarrow> scanTimerInfoMapsRow (e |` set ?sel)
      \<noteq> None"
  proof (intro ballI impI)
    fix e assume e: "e \<in> set ?T" and i: "?inx e"
    from e consider "e \<in> set (tables s (?sh, timerInfoTableName))"
      | p where "p \<in> set ?ps" "\<forall>c\<in>set ?cols. e c = p c"
      unfolding T using fold_upsert_cases by blast
    then show "scanTimerInfoMapsRow (e |` set ?sel) \<noteq> None"
    proof cases
      case 1
      with sc i sh show ?thesis by simp
    next
      case 2
      then obtain x where "\<forall>c\<in>set ?cols. e c = stored pdb (bindTimerInfoMapsRow x) c" by
          auto
      with sub have "\<forall>c\<in>set ?sel. e c = stored pdb (bindTimerInfoMapsRow x) c" by blast
      then show ?thesis by (simp only: scan_stored_TimerInfoMaps) simp
    qed
  qed
  have sel: "SelectFromTimerInfoMaps pdb fltr ?s1 =
    ((map (\<lambda>row'. row'\<lparr>TimerInfoMapsRow.ShardID := TimerInfoMapsRow.ShardID row,
                      TimerInfoMapsRow.DomainID := TimerInfoMapsRow.DomainID row,
                      TimerInfoMapsRow.WorkflowID := TimerInfoMapsRow.WorkflowID row,
                      TimerInfoMapsRow.RunID := TimerInfoMapsRow.RunID row\<rparr>)
        (map (\<lambda>e. the (scanTimerInfoMapsRow (e |` set ?sel))) (filter ?inx ?T)), None),
     ?s1\<lparr>issued := issued ?s1 @ [SelectCall ?sh getTimerInfoMapSQLQuery
        [VInt64 (TimerInfoMapsRow.ShardID row), VBytes (TimerInfoMapsRow.DomainID row),
         VString (TimerInfoMapsRow.WorkflowID row), VBytes (TimerInfoMapsRow.RunID row)]]\<rparr>)"
    unfolding SelectFromTimerInfoMaps_def Let_def f sh
      SelectContext_identity[OF prepare_getTimerInfoMapSQLQuery scan']
    by simp
  have "upserted (identity_columns @ [timerInfoKey]) ?cols (stored pdb (bindTimerInfoMapsRow row))
      ?T"
    using replace_table_TimerInfoMaps(2)[OF assms(1,2), of pdb s] assms(3) by blast
  then obtain e where e: "e \<in> set ?T"
      "agree (identity_columns @ [timerInfoKey]) (stored pdb (bindTimerInfoMapsRow row)) e"
      "\<forall>c\<in>set ?cols. e c = stored pdb (bindTimerInfoMapsRow row) c"
    by (auto simp: upserted_def)
  from e(2) have i: "?inx e" by (simp add: agree_TimerInfoMaps)
  from e(3) sub have "\<forall>c\<in>set ?sel. e c = stored pdb (bindTimerInfoMapsRow row) c" by
      blast
  note z = scan_stored_TimerInfoMaps[OF this]
  have "row = (the (scanTimerInfoMapsRow (e |` set ?sel)))
           \<lparr>TimerInfoMapsRow.ShardID := TimerInfoMapsRow.ShardID row,
            TimerInfoMapsRow.DomainID := TimerInfoMapsRow.DomainID row,
            TimerInfoMapsRow.WorkflowID := TimerInfoMapsRow.WorkflowID row,
            TimerInfoMapsRow.RunID := TimerInfoMapsRow.RunID row\<rparr>"
    unfolding z by simp
  with e(1) i show ?thesis
    unfolding sel by (auto simp: image_iff intro!: bexI[of _ e])
qed

lemma cols_ChildExecutionInfoMaps:
  "distinct (identity_columns @ childExecutionInfoKey # childExecutionInfoColumns)"
  "set (identity_columns @ [childExecutionInfoKey]) \<subseteq> set (identity_columns @
      childExecutionInfoKey # childExecutionInfoColumns)"
  by (simp_all add: identity_columns_def childExecutionInfoTableName_def childExecutionInfoKey_def
      childExecutionInfoColumns_def)

lemma bind_nonnull_ChildExecutionInfoMaps:
  "\<forall>c\<in>set (identity_columns @ childExecutionInfoKey # childExecutionInfoColumns).
      bindChildExecutionInfoMapsRow row c \<noteq> None"
  by (simp add: identity_columns_def childExecutionInfoTableName_def childExecutionInfoKey_def
      childExecutionInfoColumns_def bindChildExecutionInfoMapsRow_def)

lemma stored_bind_ChildExecutionInfoMaps:
  "stored pdb (bindChildExecutionInfoMapsRow row) |` set (identity_columns @ childExecutionInfoKey #
      childExecutionInfoColumns) = stored pdb (bindChildExecutionInfoMapsRow row)"
  by (rule ext)
     (simp add: restrict_map_def stored_def identity_columns_def childExecutionInfoTableName_def
         childExecutionInfoKey_def childExecutionInfoColumns_def bindChildExecutionInfoMapsRow_def)

lemma stored_values_ChildExecutionInfoMaps:
  "stored pdb (bindChildExecutionInfoMapsRow row) ''shard_id'' = Some (VInt64
      (ChildExecutionInfoMapsRow.ShardID row))"
  "stored pdb (bindChildExecutionInfoMapsRow row) ''domain_id'' = Some (VBytes
      (ChildExecutionInfoMapsRow.DomainID row))"
  "stored pdb (bindChildExecutionInfoMapsRow row) ''workflow_id'' = Some (VString
      (ChildExecutionInfoMapsRow.WorkflowID row))"
  "stored pdb (bindChildExecutionInfoMapsRow row) ''run_id'' = Some (VBytes
      (ChildExecutionInfoMapsRow.RunID row))"
  "stored pdb (bindChildExecutionInfoMapsRow row) ''initiated_id'' = Some (VInt64
      (ChildExecutionInfoMapsRow.InitiatedID row))"
  "stored pdb (bindChildExecutionInfoMapsRow row) ''data'' = Some (VBytes
      (ChildExecutionInfoMapsRow.Data row))"
  "stored pdb (bindChildExecutionInfoMapsRow row) ''data_encoding'' = Some (VString
      (ChildExecutionInfoMapsRow.DataEncoding row))"
  by (simp_all add: stored_def bindChildExecutionInfoMapsRow_def)

lemma agree_ChildExecutionInfoMaps:
  "agree (identity_columns @ [childExecutionInfoKey]) (stored pdb (bindChildExecutionInfoMapsRow
      row)) e =
     (in_execution (ChildExecutionInfoMapsRow.ShardID row) (ChildExecutionInfoMapsRow.DomainID row)
            (ChildExecutionInfoMapsRow.WorkflowID row) (ChildExecutionInfoMapsRow.RunID row) e
                \<and>
          e ''initiated_id'' = Some (VInt64 (ChildExecutionInfoMapsRow.InitiatedID row)))"
  by (simp add: agree_def identity_columns_def childExecutionInfoKey_def in_execution_def
      stored_values_ChildExecutionInfoMaps)

lemma agree_rows_ChildExecutionInfoMaps:
  "agree (identity_columns @ [childExecutionInfoKey]) (stored pdb (bindChildExecutionInfoMapsRow x))
      (stored pdb (bindChildExecutionInfoMapsRow y)) =
     ((ChildExecutionInfoMapsRow.ShardID x, ChildExecutionInfoMapsRow.DomainID x,
         ChildExecutionInfoMapsRow.WorkflowID x,
           ChildExecutionInfoMapsRow.RunID x, ChildExecutionInfoMapsRow.InitiatedID x) =
      (ChildExecutionInfoMapsRow.ShardID y, ChildExecutionInfoMapsRow.DomainID y,
          ChildExecutionInfoMapsRow.WorkflowID y,
           ChildExecutionInfoMapsRow.RunID y, ChildExecutionInfoMapsRow.InitiatedID y))"
  by (auto simp: agree_ChildExecutionInfoMaps in_execution_def stored_values_ChildExecutionInfoMaps)

lemma ReplaceIntoChildExecutionInfoMaps_ok:
  assumes "rows \<noteq> []"
    and "distinct (map (\<lambda>row. (ChildExecutionInfoMapsRow.ShardID row,
        ChildExecutionInfoMapsRow.DomainID row, ChildExecutionInfoMapsRow.WorkflowID row,
           ChildExecutionInfoMapsRow.RunID row, ChildExecutionInfoMapsRow.InitiatedID row)) rows)"
  shows "ReplaceIntoChildExecutionInfoMaps pdb rows s =
    (Inr (Some Result),
     s\<lparr>issued := issued s @
         [NamedExecCall (GetDBShardIDFromHistoryShardID pdb (ChildExecutionInfoMapsRow.ShardID (rows
             ! 0))
              (GetTotalNumDBShards pdb))
            setKeyInChildExecutionInfoMapQry (map bindChildExecutionInfoMapsRow rows)],
       tables := (tables s)((GetDBShardIDFromHistoryShardID pdb (ChildExecutionInfoMapsRow.ShardID
           (rows ! 0))
              (GetTotalNumDBShards pdb), childExecutionInfoTableName) :=
          fold (insert_row (DoUpdate (identity_columns @ childExecutionInfoKey #
              childExecutionInfoColumns) (identity_columns @ childExecutionInfoKey #
              childExecutionInfoColumns)) (identity_columns @ [childExecutionInfoKey]))
            (map (\<lambda>x. stored pdb (bindChildExecutionInfoMapsRow x)) rows)
            (tables s (GetDBShardIDFromHistoryShardID pdb (ChildExecutionInfoMapsRow.ShardID (rows !
                0))
              (GetTotalNumDBShards pdb), childExecutionInfoTableName)))\<rparr>)"
proof -
  note e = upsert_rows(1)[OF prepare_setKeyInChildExecutionInfoMapQry cols_ChildExecutionInfoMaps
          bind_nonnull_ChildExecutionInfoMaps stored_bind_ChildExecutionInfoMaps
              agree_rows_ChildExecutionInfoMaps assms(2)]
  show ?thesis
    unfolding ReplaceIntoChildExecutionInfoMaps_def Let_def e
    using assms(1) by simp
qed

lemma replace_table_ChildExecutionInfoMaps:
  assumes "rows \<noteq> []"
    and "distinct (map (\<lambda>row. (ChildExecutionInfoMapsRow.ShardID row,
        ChildExecutionInfoMapsRow.DomainID row, ChildExecutionInfoMapsRow.WorkflowID row,
           ChildExecutionInfoMapsRow.RunID row, ChildExecutionInfoMapsRow.InitiatedID row)) rows)"
  shows "tables (snd (ReplaceIntoChildExecutionInfoMaps pdb rows s))
           (GetDBShardIDFromHistoryShardID pdb (ChildExecutionInfoMapsRow.ShardID (rows ! 0))
              (GetTotalNumDBShards pdb), childExecutionInfoTableName) =
         fold (insert_row (DoUpdate (identity_columns @ childExecutionInfoKey #
             childExecutionInfoColumns) (identity_columns @ childExecutionInfoKey #
             childExecutionInfoColumns)) (identity_columns @ [childExecutionInfoKey]))
            (map (\<lambda>x. stored pdb (bindChildExecutionInfoMapsRow x)) rows)
            (tables s (GetDBShardIDFromHistoryShardID pdb (ChildExecutionInfoMapsRow.ShardID (rows !
                0))
              (GetTotalNumDBShards pdb), childExecutionInfoTableName))"
    and "\<forall>row\<in>set rows. upserted (identity_columns @ [childExecutionInfoKey])
        (identity_columns @ childExecutionInfoKey # childExecutionInfoColumns)
      (stored pdb (bindChildExecutionInfoMapsRow row))
      (tables (snd (ReplaceIntoChildExecutionInfoMaps pdb rows s))
           (GetDBShardIDFromHistoryShardID pdb (ChildExecutionInfoMapsRow.ShardID (rows ! 0))
              (GetTotalNumDBShards pdb), childExecutionInfoTableName))"
proof -
  note ok = ReplaceIntoChildExecutionInfoMaps_ok[OF assms, where pdb = pdb and s = s]
  note u = upsert_rows(2)[where tbl = "tables s (GetDBShardIDFromHistoryShardID pdb
      (ChildExecutionInfoMapsRow.ShardID (rows ! 0))
              (GetTotalNumDBShards pdb), childExecutionInfoTableName)" and pdb = pdb,
          OF prepare_setKeyInChildExecutionInfoMapQry cols_ChildExecutionInfoMaps
          bind_nonnull_ChildExecutionInfoMaps stored_bind_ChildExecutionInfoMaps
              agree_rows_ChildExecutionInfoMaps assms(2)]
  show T: "tables (snd (ReplaceIntoChildExecutionInfoMaps pdb rows s))
           (GetDBShardIDFromHistoryShardID pdb (ChildExecutionInfoMapsRow.ShardID (rows ! 0))
              (GetTotalNumDBShards pdb), childExecutionInfoTableName) =
         fold (insert_row (DoUpdate (identity_columns @ childExecutionInfoKey #
             childExecutionInfoColumns) (identity_columns @ childExecutionInfoKey #
             childExecutionInfoColumns)) (identity_columns @ [childExecutionInfoKey]))
            (map (\<lambda>x. stored pdb (bindChildExecutionInfoMapsRow x)) rows)
            (tables s (GetDBShardIDFromHistoryShardID pdb (ChildExecutionInfoMapsRow.ShardID (rows !
                0))
              (GetTotalNumDBShards pdb), childExecutionInfoTableName))"
    unfolding ok by simp
  show "\<forall>row\<in>set rows. upserted (identity_columns @ [childExecutionInfoKey])
      (identity_columns @ childExecutionInfoKey # childExecutionInfoColumns)
      (stored pdb (bindChildExecutionInfoMapsRow row))
      (tables (snd (ReplaceIntoChildExecutionInfoMaps pdb rows s))
           (GetDBShardIDFromHistoryShardID pdb (ChildExecutionInfoMapsRow.ShardID (rows ! 0))
              (GetTotalNumDBShards pdb), childExecutionInfoTableName))"
    unfolding T using u by simp
qed

lemma replace_upserts_ChildExecutionInfoMaps:
  assumes "rows \<noteq> []"
    and "distinct (map (\<lambda>row. (ChildExecutionInfoMapsRow.ShardID row,
        ChildExecutionInfoMapsRow.DomainID row, ChildExecutionInfoMapsRow.WorkflowID row,
           ChildExecutionInfoMapsRow.RunID row, ChildExecutionInfoMapsRow.InitiatedID row)) rows)"
  shows "fst (ReplaceIntoChildExecutionInfoMaps pdb rows s) = Inr (Some Result) \<and>
    (\<forall>row\<in>set rows.
       (\<exists>e\<in>set (tables (snd (ReplaceIntoChildExecutionInfoMaps pdb rows s))
           (GetDBShardIDFromHistoryShardID pdb (ChildExecutionInfoMapsRow.ShardID (rows ! 0))
              (GetTotalNumDBShards pdb), childExecutionInfoTableName)).
          in_execution (ChildExecutionInfoMapsRow.ShardID row) (ChildExecutionInfoMapsRow.DomainID
              row)
            (ChildExecutionInfoMapsRow.WorkflowID row) (ChildExecutionInfoMapsRow.RunID row) e
                \<and>
          e ''initiated_id'' = Some (VInt64 (ChildExecutionInfoMapsRow.InitiatedID row))) \<and>
       (\<forall>e\<in>set (tables (snd (ReplaceIntoChildExecutionInfoMaps pdb rows s))
           (GetDBShardIDFromHistoryShardID pdb (ChildExecutionInfoMapsRow.ShardID (rows ! 0))
              (GetTotalNumDBShards pdb), childExecutionInfoTableName)).
          in_execution (ChildExecutionInfoMapsRow.ShardID row) (ChildExecutionInfoMapsRow.DomainID
              row)
            (ChildExecutionInfoMapsRow.WorkflowID row) (ChildExecutionInfoMapsRow.RunID row) e
                \<and>
          e ''initiated_id'' = Some (VInt64 (ChildExecutionInfoMapsRow.InitiatedID row))
              \<longrightarrow>
          e ''data'' = Some (VBytes (ChildExecutionInfoMapsRow.Data row)) \<and>
          e ''data_encoding'' = Some (VString (ChildExecutionInfoMapsRow.DataEncoding row))))"
proof -
  let ?T = "tables (snd (ReplaceIntoChildExecutionInfoMaps pdb rows s))
           (GetDBShardIDFromHistoryShardID pdb (ChildExecutionInfoMapsRow.ShardID (rows ! 0))
              (GetTotalNumDBShards pdb), childExecutionInfoTableName)"
  note ok = ReplaceIntoChildExecutionInfoMaps_ok[OF assms, where pdb = pdb and s = s]
  have "\<forall>row\<in>set rows. upserted (identity_columns @ [childExecutionInfoKey])
      (identity_columns @ childExecutionInfoKey # childExecutionInfoColumns)
      (stored pdb (bindChildExecutionInfoMapsRow row)) ?T"
    by (rule replace_table_ChildExecutionInfoMaps(2)[OF assms])
  then have "\<forall>row\<in>set rows.
      (\<exists>e\<in>set ?T. agree (identity_columns @ [childExecutionInfoKey]) (stored pdb
          (bindChildExecutionInfoMapsRow row)) e) \<and>
      (\<forall>e\<in>set ?T. agree (identity_columns @ [childExecutionInfoKey]) (stored pdb
          (bindChildExecutionInfoMapsRow row)) e \<longrightarrow>
         (\<forall>c\<in>set childExecutionInfoColumns. e c = stored pdb
             (bindChildExecutionInfoMapsRow row) c))"
    by (simp add: upserted_def)
  then have "\<forall>row\<in>set rows.
      (\<exists>e\<in>set ?T. in_execution (ChildExecutionInfoMapsRow.ShardID row)
          (ChildExecutionInfoMapsRow.DomainID row)
            (ChildExecutionInfoMapsRow.WorkflowID row) (ChildExecutionInfoMapsRow.RunID row) e
                \<and>
          e ''initiated_id'' = Some (VInt64 (ChildExecutionInfoMapsRow.InitiatedID row))) \<and>
      (\<forall>e\<in>set ?T. in_execution (ChildExecutionInfoMapsRow.ShardID row)
          (ChildExecutionInfoMapsRow.DomainID row)
            (ChildExecutionInfoMapsRow.WorkflowID row) (ChildExecutionInfoMapsRow.RunID row) e
                \<and>
          e ''initiated_id'' = Some (VInt64 (ChildExecutionInfoMapsRow.InitiatedID row))
              \<longrightarrow>
          e ''data'' = Some (VBytes (ChildExecutionInfoMapsRow.Data row)) \<and>
          e ''data_encoding'' = Some (VString (ChildExecutionInfoMapsRow.DataEncoding row)))"
    by (simp add: agree_ChildExecutionInfoMaps childExecutionInfoColumns_def
        stored_values_ChildExecutionInfoMaps)
  moreover have "fst (ReplaceIntoChildExecutionInfoMaps pdb rows s) = Inr (Some Result)"
    unfolding ok by simp
  ultimately show ?thesis by simp
qed

lemma scan_stored_ChildExecutionInfoMaps:
  assumes "\<forall>c\<in>set (childExecutionInfoKey # childExecutionInfoColumns). e c = stored pdb
      (bindChildExecutionInfoMapsRow x) c"
  shows "scanChildExecutionInfoMapsRow (e |` set (childExecutionInfoKey #
      childExecutionInfoColumns)) =
    Some \<lparr>ChildExecutionInfoMapsRow.ShardID = 0, ChildExecutionInfoMapsRow.DomainID = [],
          ChildExecutionInfoMapsRow.WorkflowID = [], ChildExecutionInfoMapsRow.RunID = [],
          ChildExecutionInfoMapsRow.InitiatedID = ChildExecutionInfoMapsRow.InitiatedID x,
          ChildExecutionInfoMapsRow.Data = ChildExecutionInfoMapsRow.Data x,
          ChildExecutionInfoMapsRow.DataEncoding = ChildExecutionInfoMapsRow.DataEncoding x\<rparr>"
  using assms
  by (simp add: scanChildExecutionInfoMapsRow_def restrict_map_def  childExecutionInfoKey_def
      childExecutionInfoColumns_def stored_values_ChildExecutionInfoMaps)

lemma roundtrip_ChildExecutionInfoMaps:
  assumes "rows \<noteq> []"
    and "distinct (map (\<lambda>row. (ChildExecutionInfoMapsRow.ShardID row,
        ChildExecutionInfoMapsRow.DomainID row, ChildExecutionInfoMapsRow.WorkflowID row,
           ChildExecutionInfoMapsRow.RunID row, ChildExecutionInfoMapsRow.InitiatedID row)) rows)"
    and "row \<in> set rows"
    and f: "ChildExecutionInfoMapsFilter.ShardID fltr = ChildExecutionInfoMapsRow.ShardID row"
      "ChildExecutionInfoMapsFilter.DomainID fltr = ChildExecutionInfoMapsRow.DomainID row"
      "ChildExecutionInfoMapsFilter.WorkflowID fltr = ChildExecutionInfoMapsRow.WorkflowID row"
      "ChildExecutionInfoMapsFilter.RunID fltr = ChildExecutionInfoMapsRow.RunID row"
    and sh: "GetDBShardIDFromHistoryShardID pdb (ChildExecutionInfoMapsRow.ShardID row)
        (GetTotalNumDBShards pdb) =
       GetDBShardIDFromHistoryShardID pdb (ChildExecutionInfoMapsRow.ShardID (rows ! 0))
              (GetTotalNumDBShards pdb)"
    and sc: "\<forall>e\<in>set (tables s
                (GetDBShardIDFromHistoryShardID pdb (ChildExecutionInfoMapsRow.ShardID row)
                   (GetTotalNumDBShards pdb), childExecutionInfoTableName)).
             in_execution (ChildExecutionInfoMapsRow.ShardID row)
                 (ChildExecutionInfoMapsRow.DomainID row)
            (ChildExecutionInfoMapsRow.WorkflowID row) (ChildExecutionInfoMapsRow.RunID row) e
                \<longrightarrow>
             scanChildExecutionInfoMapsRow (e |` set (childExecutionInfoKey #
                 childExecutionInfoColumns)) \<noteq> None"
  shows "snd (fst (SelectFromChildExecutionInfoMaps pdb fltr (snd (ReplaceIntoChildExecutionInfoMaps
      pdb rows s)))) = None \<and>
    row \<in> set (fst (fst (SelectFromChildExecutionInfoMaps pdb fltr (snd
        (ReplaceIntoChildExecutionInfoMaps pdb rows s)))))"
proof -
  let ?sh = "GetDBShardIDFromHistoryShardID pdb (ChildExecutionInfoMapsRow.ShardID (rows ! 0))
              (GetTotalNumDBShards pdb)"
  let ?s1 = "snd (ReplaceIntoChildExecutionInfoMaps pdb rows s)"
  let ?T = "tables ?s1 (?sh, childExecutionInfoTableName)"
  let ?cols = "identity_columns @ childExecutionInfoKey # childExecutionInfoColumns"
  let ?sel = "childExecutionInfoKey # childExecutionInfoColumns"
  let ?ps = "map (\<lambda>x. stored pdb (bindChildExecutionInfoMapsRow x)) rows"
  let ?inx = "in_execution (ChildExecutionInfoMapsRow.ShardID row)
      (ChildExecutionInfoMapsRow.DomainID row)
            (ChildExecutionInfoMapsRow.WorkflowID row) (ChildExecutionInfoMapsRow.RunID row)"
  have T: "?T = fold (insert_row (DoUpdate ?cols ?cols) (identity_columns @
      [childExecutionInfoKey]))
            ?ps (tables s (?sh, childExecutionInfoTableName))"
    by (rule replace_table_ChildExecutionInfoMaps(1)[OF assms(1,2)])
  have sub: "set ?sel \<subseteq> set ?cols" by auto
  have scan': "\<forall>e\<in>set ?T. ?inx e \<longrightarrow> scanChildExecutionInfoMapsRow (e |`
      set ?sel) \<noteq> None"
  proof (intro ballI impI)
    fix e assume e: "e \<in> set ?T" and i: "?inx e"
    from e consider "e \<in> set (tables s (?sh, childExecutionInfoTableName))"
      | p where "p \<in> set ?ps" "\<forall>c\<in>set ?cols. e c = p c"
      unfolding T using fold_upsert_cases by blast
    then show "scanChildExecutionInfoMapsRow (e |` set ?sel) \<noteq> None"
    proof cases
      case 1
      with sc i sh show ?thesis by simp
    next
      case 2
      then obtain x where "\<forall>c\<in>set ?cols. e c = stored pdb (bindChildExecutionInfoMapsRow
          x) c" by auto
      with sub have "\<forall>c\<in>set ?sel. e c = stored pdb (bindChildExecutionInfoMapsRow x) c"
          by blast
      then show ?thesis by (simp only: scan_stored_ChildExecutionInfoMaps) simp
    qed
  qed
  have sel: "SelectFromChildExecutionInfoMaps pdb fltr ?s1 =
    ((map (\<lambda>row'. row'\<lparr>ChildExecutionInfoMapsRow.ShardID :=
        ChildExecutionInfoMapsRow.ShardID row,
                      ChildExecutionInfoMapsRow.DomainID := ChildExecutionInfoMapsRow.DomainID row,
                      ChildExecutionInfoMapsRow.WorkflowID := ChildExecutionInfoMapsRow.WorkflowID
                          row,
                      ChildExecutionInfoMapsRow.RunID := ChildExecutionInfoMapsRow.RunID
                          row\<rparr>)
        (map (\<lambda>e. the (scanChildExecutionInfoMapsRow (e |` set ?sel))) (filter ?inx ?T)),
            None),
     ?s1\<lparr>issued := issued ?s1 @ [SelectCall ?sh getChildExecutionInfoMapQry
        [VInt64 (ChildExecutionInfoMapsRow.ShardID row), VBytes (ChildExecutionInfoMapsRow.DomainID
            row),
         VString (ChildExecutionInfoMapsRow.WorkflowID row), VBytes (ChildExecutionInfoMapsRow.RunID
             row)]]\<rparr>)"
    unfolding SelectFromChildExecutionInfoMaps_def Let_def f sh
      SelectContext_identity[OF prepare_getChildExecutionInfoMapQry scan']
    by simp
  have "upserted (identity_columns @ [childExecutionInfoKey]) ?cols (stored pdb
      (bindChildExecutionInfoMapsRow row)) ?T"
    using replace_table_ChildExecutionInfoMaps(2)[OF assms(1,2), of pdb s] assms(3) by blast
  then obtain e where e: "e \<in> set ?T"
      "agree (identity_columns @ [childExecutionInfoKey]) (stored pdb (bindChildExecutionInfoMapsRow
          row)) e"
      "\<forall>c\<in>set ?cols. e c = stored pdb (bindChildExecutionInfoMapsRow row) c"
    by (auto simp: upserted_def)
  from e(2) have i: "?inx e" by (simp add: agree_ChildExecutionInfoMaps)
  from e(3) sub have "\<forall>c\<in>set ?sel. e c = stored pdb (bindChildExecutionInfoMapsRow row)
      c" by blast
  note z = scan_stored_ChildExecutionInfoMaps[OF this]
  have "row = (the (scanChildExecutionInfoMapsRow (e |` set ?sel)))
           \<lparr>ChildExecutionInfoMapsRow.ShardID := ChildExecutionInfoMapsRow.ShardID row,
            ChildExecutionInfoMapsRow.DomainID := ChildExecutionInfoMapsRow.DomainID row,
            ChildExecutionInfoMapsRow.WorkflowID := ChildExecutionInfoMapsRow.WorkflowID row,
            ChildExecutionInfoMapsRow.RunID := ChildExecutionInfoMapsRow.RunID row\<rparr>"
    unfolding z by simp
  with e(1) i show ?thesis
    unfolding sel by (auto simp: image_iff intro!: bexI[of _ e])
qed

lemma cols_RequestCancelInfoMaps:
  "distinct (identity_columns @ requestCancelInfoKey # requestCancelInfoColumns)"
  "set (identity_columns @ [requestCancelInfoKey]) \<subseteq> set (identity_columns @
      requestCancelInfoKey # requestCancelInfoColumns)"
  by (simp_all add: identity_columns_def requestCancelInfoTableName_def requestCancelInfoKey_def
      requestCancelInfoColumns_def)

lemma bind_nonnull_RequestCancelInfoMaps:
  "\<forall>c\<in>set (identity_columns @ requestCancelInfoKey # requestCancelInfoColumns).
      bindRequestCancelInfoMapsRow row c \<noteq> None"
  by (simp add: identity_columns_def requestCancelInfoTableName_def requestCancelInfoKey_def
      requestCancelInfoColumns_def bindRequestCancelInfoMapsRow_def)

lemma stored_bind_RequestCancelInfoMaps:
  "stored pdb (bindRequestCancelInfoMapsRow row) |` set (identity_columns @ requestCancelInfoKey #
      requestCancelInfoColumns) = stored pdb (bindRequestCancelInfoMapsRow row)"
  by (rule ext)
     (simp add: restrict_map_def stored_def identity_columns_def requestCancelInfoTableName_def
         requestCancelInfoKey_def requestCancelInfoColumns_def bindRequestCancelInfoMapsRow_def)

lemma stored_values_RequestCancelInfoMaps:
  "stored pdb (bindRequestCancelInfoMapsRow row) ''shard_id'' = Some (VInt64
      (RequestCancelInfoMapsRow.ShardID row))"
  "stored pdb (bindRequestCancelInfoMapsRow row) ''domain_id'' = Some (VBytes
      (RequestCancelInfoMapsRow.DomainID row))"
  "stored pdb (bindRequestCancelInfoMapsRow row) ''workflow_id'' = Some (VString
      (RequestCancelInfoMapsRow.WorkflowID row))"
  "stored pdb (bindRequestCancelInfoMapsRow row) ''run_id'' = Some (VBytes
      (RequestCancelInfoMapsRow.RunID row))"
  "stored pdb (bindRequestCancelInfoMapsRow row) ''initiated_id'' = Some (VInt64
      (RequestCancelInfoMapsRow.InitiatedID row))"
  "stored pdb (bindRequestCancelInfoMapsRow row) ''data'' = Some (VBytes
      (RequestCancelInfoMapsRow.Data row))"
  "stored pdb (bindRequestCancelInfoMapsRow row) ''data_encoding'' = Some (VString
      (RequestCancelInfoMapsRow.DataEncoding row))"
  by (simp_all add: stored_def bindRequestCancelInfoMapsRow_def)

lemma agree_RequestCancelInfoMaps:
  "agree (identity_columns @ [requestCancelInfoKey]) (stored pdb (bindRequestCancelInfoMapsRow row))
      e =
     (in_execution (RequestCancelInfoMapsRow.ShardID row) (RequestCancelInfoMapsRow.DomainID row)
            (RequestCancelInfoMapsRow.WorkflowID row) (RequestCancelInfoMapsRow.RunID row) e \<and>
          e ''initiated_id'' = Some (VInt64 (RequestCancelInfoMapsRow.InitiatedID row)))"
  by (simp add: agree_def identity_columns_def requestCancelInfoKey_def in_execution_def
      stored_values_RequestCancelInfoMaps)

lemma agree_rows_RequestCancelInfoMaps:
  "agree (identity_columns @ [requestCancelInfoKey]) (stored pdb (bindRequestCancelInfoMapsRow x))
      (stored pdb (bindRequestCancelInfoMapsRow y)) =
     ((RequestCancelInfoMapsRow.ShardID x, RequestCancelInfoMapsRow.DomainID x,
         RequestCancelInfoMapsRow.WorkflowID x,
           RequestCancelInfoMapsRow.RunID x, RequestCancelInfoMapsRow.InitiatedID x) =
      (RequestCancelInfoMapsRow.ShardID y, RequestCancelInfoMapsRow.DomainID y,
          RequestCancelInfoMapsRow.WorkflowID y,
           RequestCancelInfoMapsRow.RunID y, RequestCancelInfoMapsRow.InitiatedID y))"
  by (auto simp: agree_RequestCancelInfoMaps in_execution_def stored_values_RequestCancelInfoMaps)

lemma ReplaceIntoRequestCancelInfoMaps_ok:
  assumes "rows \<noteq> []"
    and "distinct (map (\<lambda>row. (RequestCancelInfoMapsRow.ShardID row,
        RequestCancelInfoMapsRow.DomainID row, RequestCancelInfoMapsRow.WorkflowID row,
           RequestCancelInfoMapsRow.RunID row, RequestCancelInfoMapsRow.InitiatedID row)) rows)"
  shows "ReplaceIntoRequestCancelInfoMaps pdb rows s =
    (Inr (Some Result),
     s\<lparr>issued := issued s @
         [NamedExecCall (GetDBShardIDFromHistoryShardID pdb (RequestCancelInfoMapsRow.ShardID (rows
             ! 0))
              (GetTotalNumDBShards pdb))
            setKeyInRequestCancelInfoMapQry (map bindRequestCancelInfoMapsRow rows)],
       tables := (tables s)((GetDBShardIDFromHistoryShardID pdb (RequestCancelInfoMapsRow.ShardID
           (rows ! 0))
              (GetTotalNumDBShards pdb), requestCancelInfoTableName) :=
          fold (insert_row (DoUpdate (identity_columns @ requestCancelInfoKey #
              requestCancelInfoColumns) (identity_columns @ requestCancelInfoKey #
              requestCancelInfoColumns)) (identity_columns @ [requestCancelInfoKey]))
            (map (\<lambda>x. stored pdb (bindRequestCancelInfoMapsRow x)) rows)
            (tables s (GetDBShardIDFromHistoryShardID pdb (RequestCancelInfoMapsRow.ShardID (rows !
                0))
              (GetTotalNumDBShards pdb), requestCancelInfoTableName)))\<rparr>)"
proof -
  note e = upsert_rows(1)[OF prepare_setKeyInRequestCancelInfoMapQry cols_RequestCancelInfoMaps
          bind_nonnull_RequestCancelInfoMaps stored_bind_RequestCancelInfoMaps
              agree_rows_RequestCancelInfoMaps assms(2)]
  show ?thesis
    unfolding ReplaceIntoRequestCancelInfoMaps_def Let_def e
    using assms(1) by simp
qed

lemma replace_table_RequestCancelInfoMaps:
  assumes "rows \<noteq> []"
    and "distinct (map (\<lambda>row. (RequestCancelInfoMapsRow.ShardID row,
        RequestCancelInfoMapsRow.DomainID row, RequestCancelInfoMapsRow.WorkflowID row,
           RequestCancelInfoMapsRow.RunID row, RequestCancelInfoMapsRow.InitiatedID row)) rows)"
  shows "tables (snd (ReplaceIntoRequestCancelInfoMaps pdb rows s))
           (GetDBShardIDFromHistoryShardID pdb (RequestCancelInfoMapsRow.ShardID (rows ! 0))
              (GetTotalNumDBShards pdb), requestCancelInfoTableName) =
         fold (insert_row (DoUpdate (identity_columns @ requestCancelInfoKey #
             requestCancelInfoColumns) (identity_columns @ requestCancelInfoKey #
             requestCancelInfoColumns)) (identity_columns @ [requestCancelInfoKey]))
            (map (\<lambda>x. stored pdb (bindRequestCancelInfoMapsRow x)) rows)
            (tables s (GetDBShardIDFromHistoryShardID pdb (RequestCancelInfoMapsRow.ShardID (rows !
                0))
              (GetTotalNumDBShards pdb), requestCancelInfoTableName))"
    and "\<forall>row\<in>set rows. upserted (identity_columns @ [requestCancelInfoKey])
        (identity_columns @ requestCancelInfoKey # requestCancelInfoColumns)
      (stored pdb (bindRequestCancelInfoMapsRow row))
      (tables (snd (ReplaceIntoRequestCancelInfoMaps pdb rows s))
           (GetDBShardIDFromHistoryShardID pdb (RequestCancelInfoMapsRow.ShardID (rows ! 0))
              (GetTotalNumDBShards pdb), requestCancelInfoTableName))"
proof -
  note ok = ReplaceIntoRequestCancelInfoMaps_ok[OF assms, where pdb = pdb and s = s]
  note u = upsert_rows(2)[where tbl = "tables s (GetDBShardIDFromHistoryShardID pdb
      (RequestCancelInfoMapsRow.ShardID (rows ! 0))
              (GetTotalNumDBShards pdb), requestCancelInfoTableName)" and pdb = pdb,
          OF prepare_setKeyInRequestCancelInfoMapQry cols_RequestCancelInfoMaps
          bind_nonnull_RequestCancelInfoMaps stored_bind_RequestCancelInfoMaps
              agree_rows_RequestCancelInfoMaps assms(2)]
  show T: "tables (snd (ReplaceIntoRequestCancelInfoMaps pdb rows s))
           (GetDBShardIDFromHistoryShardID pdb (RequestCancelInfoMapsRow.ShardID (rows ! 0))
              (GetTotalNumDBShards pdb), requestCancelInfoTableName) =
         fold (insert_row (DoUpdate (identity_columns @ requestCancelInfoKey #
             requestCancelInfoColumns) (identity_columns @ requestCancelInfoKey #
             requestCancelInfoColumns)) (identity_columns @ [requestCancelInfoKey]))
            (map (\<lambda>x. stored pdb (bindRequestCancelInfoMapsRow x)) rows)
            (tables s (GetDBShardIDFromHistoryShardID pdb (RequestCancelInfoMapsRow.ShardID (rows !
                0))
              (GetTotalNumDBShards pdb), requestCancelInfoTableName))"
    unfolding ok by simp
  show "\<forall>row\<in>set rows. upserted (identity_columns @ [requestCancelInfoKey])
      (identity_columns @ requestCancelInfoKey # requestCancelInfoColumns)
      (stored pdb (bindRequestCancelInfoMapsRow row))
      (tables (snd (ReplaceIntoRequestCancelInfoMaps pdb rows s))
           (GetDBShardIDFromHistoryShardID pdb (RequestCancelInfoMapsRow.ShardID (rows ! 0))
              (GetTotalNumDBShards pdb), requestCancelInfoTableName))"
    unfolding T using u by simp
qed

lemma replace_upserts_RequestCancelInfoMaps:
  assumes "rows \<noteq> []"
    and "distinct (map (\<lambda>row. (RequestCancelInfoMapsRow.ShardID row,
        RequestCancelInfoMapsRow.DomainID row, RequestCancelInfoMapsRow.WorkflowID row,
           RequestCancelInfoMapsRow.RunID row, RequestCancelInfoMapsRow.InitiatedID row)) rows)"
  shows "fst (ReplaceIntoRequestCancelInfoMaps pdb rows s) = Inr (Some Result) \<and>
    (\<forall>row\<in>set rows.
       (\<exists>e\<in>set (tables (snd (ReplaceIntoRequestCancelInfoMaps pdb rows s))
           (GetDBShardIDFromHistoryShardID pdb (RequestCancelInfoMapsRow.ShardID (rows ! 0))
              (GetTotalNumDBShards pdb), requestCancelInfoTableName)).
          in_execution (RequestCancelInfoMapsRow.ShardID row) (RequestCancelInfoMapsRow.DomainID
              row)
            (RequestCancelInfoMapsRow.WorkflowID row) (RequestCancelInfoMapsRow.RunID row) e \<and>
          e ''initiated_id'' = Some (VInt64 (RequestCancelInfoMapsRow.InitiatedID row))) \<and>
       (\<forall>e\<in>set (tables (snd (ReplaceIntoRequestCancelInfoMaps pdb rows s))
           (GetDBShardIDFromHistoryShardID pdb (RequestCancelInfoMapsRow.ShardID (rows ! 0))
              (GetTotalNumDBShards pdb), requestCancelInfoTableName)).
          in_execution (RequestCancelInfoMapsRow.ShardID row) (RequestCancelInfoMapsRow.DomainID
              row)
            (RequestCancelInfoMapsRow.WorkflowID row) (RequestCancelInfoMapsRow.RunID row) e \<and>
          e ''initiated_id'' = Some (VInt64 (RequestCancelInfoMapsRow.InitiatedID row))
              \<longrightarrow>
          e ''data'' = Some (VBytes (RequestCancelInfoMapsRow.Data row)) \<and>
          e ''data_encoding'' = Some (VString (RequestCancelInfoMapsRow.DataEncoding row))))"
proof -
  let ?T = "tables (snd (ReplaceIntoRequestCancelInfoMaps pdb rows s))
           (GetDBShardIDFromHistoryShardID pdb (RequestCancelInfoMapsRow.ShardID (rows ! 0))
              (GetTotalNumDBShards pdb), requestCancelInfoTableName)"
  note ok = ReplaceIntoRequestCancelInfoMaps_ok[OF assms, where pdb = pdb and s = s]
  have "\<forall>row\<in>set rows. upserted (identity_columns @ [requestCancelInfoKey])
      (identity_columns @ requestCancelInfoKey # requestCancelInfoColumns)
      (stored pdb (bindRequestCancelInfoMapsRow row)) ?T"
    by (rule replace_table_RequestCancelInfoMaps(2)[OF assms])
  then have "\<forall>row\<in>set rows.
      (\<exists>e\<in>set ?T. agree (identity_columns @ [requestCancelInfoKey]) (stored pdb
          (bindRequestCancelInfoMapsRow row)) e) \<and>
      (\<forall>e\<in>set ?T. agree (identity_columns @ [requestCancelInfoKey]) (stored pdb
          (bindRequestCancelInfoMapsRow row)) e \<longrightarrow>
         (\<forall>c\<in>set requestCancelInfoColumns. e c = stored pdb
             (bindRequestCancelInfoMapsRow row) c))"
    by (simp add: upserted_def)
  then have "\<forall>row\<in>set rows.
      (\<exists>e\<in>set ?T. in_execution (RequestCancelInfoMapsRow.ShardID row)
          (RequestCancelInfoMapsRow.DomainID row)
            (RequestCancelInfoMapsRow.WorkflowID row) (RequestCancelInfoMapsRow.RunID row) e \<and>
          e ''initiated_id'' = Some (VInt64 (RequestCancelInfoMapsRow.InitiatedID row))) \<and>
      (\<forall>e\<in>set ?T. in_execution (RequestCancelInfoMapsRow.ShardID row)
          (RequestCancelInfoMapsRow.DomainID row)
            (RequestCancelInfoMapsRow.WorkflowID row) (RequestCancelInfoMapsRow.RunID row) e \<and>
          e ''initiated_id'' = Some (VInt64 (RequestCancelInfoMapsRow.InitiatedID row))
              \<longrightarrow>
          e ''data'' = Some (VBytes (RequestCancelInfoMapsRow.Data row)) \<and>
          e ''data_encoding'' = Some (VString (RequestCancelInfoMapsRow.DataEncoding row)))"
    by (simp add: agree_RequestCancelInfoMaps requestCancelInfoColumns_def
        stored_values_RequestCancelInfoMaps)
  moreover have "fst (ReplaceIntoRequestCancelInfoMaps pdb rows s) = Inr (Some Result)"
    unfolding ok by simp
  ultimately show ?thesis by simp
qed

lemma scan_stored_RequestCancelInfoMaps:
  assumes "\<forall>c\<in>set (requestCancelInfoKey # requestCancelInfoColumns). e c = stored pdb
      (bindRequestCancelInfoMapsRow x) c"
  shows "scanRequestCancelInfoMapsRow (e |` set (requestCancelInfoKey # requestCancelInfoColumns)) =
    Some \<lparr>RequestCancelInfoMapsRow.ShardID = 0, RequestCancelInfoMapsRow.DomainID = [],
          RequestCancelInfoMapsRow.WorkflowID = [], RequestCancelInfoMapsRow.RunID = [],
          RequestCancelInfoMapsRow.InitiatedID = RequestCancelInfoMapsRow.InitiatedID x,
          RequestCancelInfoMapsRow.Data = RequestCancelInfoMapsRow.Data x,
          RequestCancelInfoMapsRow.DataEncoding = RequestCancelInfoMapsRow.DataEncoding x\<rparr>"
  using assms
  by (simp add: scanRequestCancelInfoMapsRow_def restrict_map_def  requestCancelInfoKey_def
      requestCancelInfoColumns_def stored_values_RequestCancelInfoMaps)

lemma roundtrip_RequestCancelInfoMaps:
  assumes "rows \<noteq> []"
    and "distinct (map (\<lambda>row. (RequestCancelInfoMapsRow.ShardID row,
        RequestCancelInfoMapsRow.DomainID row, RequestCancelInfoMapsRow.WorkflowID row,
           RequestCancelInfoMapsRow.RunID row, RequestCancelInfoMapsRow.InitiatedID row)) rows)"
    and "row \<in> set rows"
    and f: "RequestCancelInfoMapsFilter.ShardID fltr = RequestCancelInfoMapsRow.ShardID row"
      "RequestCancelInfoMapsFilter.DomainID fltr = RequestCancelInfoMapsRow.DomainID row"
      "RequestCancelInfoMapsFilter.WorkflowID fltr = RequestCancelInfoMapsRow.WorkflowID row"
      "RequestCancelInfoMapsFilter.RunID fltr = RequestCancelInfoMapsRow.RunID row"
    and sh: "GetDBShardIDFromHistoryShardID pdb (RequestCancelInfoMapsRow.ShardID row)
        (GetTotalNumDBShards pdb) =
       GetDBShardIDFromHistoryShardID pdb (RequestCancelInfoMapsRow.ShardID (rows ! 0))
              (GetTotalNumDBShards pdb)"
    and sc: "\<forall>e\<in>set (tables s
                (GetDBShardIDFromHistoryShardID pdb (RequestCancelInfoMapsRow.ShardID row)
                   (GetTotalNumDBShards pdb), requestCancelInfoTableName)).
             in_execution (RequestCancelInfoMapsRow.ShardID row) (RequestCancelInfoMapsRow.DomainID
                 row)
            (RequestCancelInfoMapsRow.WorkflowID row) (RequestCancelInfoMapsRow.RunID row) e
                \<longrightarrow>
             scanRequestCancelInfoMapsRow (e |` set (requestCancelInfoKey #
                 requestCancelInfoColumns)) \<noteq> None"
  shows "snd (fst (SelectFromRequestCancelInfoMaps pdb fltr (snd (ReplaceIntoRequestCancelInfoMaps
      pdb rows s)))) = None \<and>
    row \<in> set (fst (fst (SelectFromRequestCancelInfoMaps pdb fltr (snd
        (ReplaceIntoRequestCancelInfoMaps pdb rows s)))))"
proof -
  let ?sh = "GetDBShardIDFromHistoryShardID pdb (RequestCancelInfoMapsRow.ShardID (rows ! 0))
              (GetTotalNumDBShards pdb)"
  let ?s1 = "snd (ReplaceIntoRequestCancelInfoMaps pdb rows s)"
  let ?T = "tables ?s1 (?sh, requestCancelInfoTableName)"
  let ?cols = "identity_columns @ requestCancelInfoKey # requestCancelInfoColumns"
  let ?sel = "requestCancelInfoKey # requestCancelInfoColumns"
  let ?ps = "map (\<lambda>x. stored pdb (bindRequestCancelInfoMapsRow x)) rows"
  let ?inx = "in_execution (RequestCancelInfoMapsRow.ShardID row) (RequestCancelInfoMapsRow.DomainID
      row)
            (RequestCancelInfoMapsRow.WorkflowID row) (RequestCancelInfoMapsRow.RunID row)"
  have T: "?T = fold (insert_row (DoUpdate ?cols ?cols) (identity_columns @ [requestCancelInfoKey]))
            ?ps (tables s (?sh, requestCancelInfoTableName))"
    by (rule replace_table_RequestCancelInfoMaps(1)[OF assms(1,2)])
  have sub: "set ?sel \<subseteq> set ?cols" by auto
  have scan': "\<forall>e\<in>set ?T. ?inx e \<longrightarrow> scanRequestCancelInfoMapsRow (e |`
      set ?sel) \<noteq> None"
  proof (intro ballI impI)
    fix e assume e: "e \<in> set ?T" and i: "?inx e"
    from e consider "e \<in> set (tables s (?sh, requestCancelInfoTableName))"
      | p where "p \<in> set ?ps" "\<forall>c\<in>set ?cols. e c = p c"
      unfolding T using fold_upsert_cases by blast
    then show "scanRequestCancelInfoMapsRow (e |` set ?sel) \<noteq> None"
    proof cases
      case 1
      with sc i sh show ?thesis by simp
    next
      case 2
      then obtain x where "\<forall>c\<in>set ?cols. e c = stored pdb (bindRequestCancelInfoMapsRow
          x) c" by auto
      with sub have "\<forall>c\<in>set ?sel. e c = stored pdb (bindRequestCancelInfoMapsRow x) c"
          by blast
      then show ?thesis by (simp only: scan_stored_RequestCancelInfoMaps) simp
    qed
  qed
  have sel: "SelectFromRequestCancelInfoMaps pdb fltr ?s1 =
    ((map (\<lambda>row'. row'\<lparr>RequestCancelInfoMapsRow.ShardID :=
        RequestCancelInfoMapsRow.ShardID row,
                      RequestCancelInfoMapsRow.DomainID := RequestCancelInfoMapsRow.DomainID row,
                      RequestCancelInfoMapsRow.WorkflowID := RequestCancelInfoMapsRow.WorkflowID
                          row,
                      RequestCancelInfoMapsRow.RunID := RequestCancelInfoMapsRow.RunID row\<rparr>)
        (map (\<lambda>e. the (scanRequestCancelInfoMapsRow (e |` set ?sel))) (filter ?inx ?T)),
            None),
     ?s1\<lparr>issued := issued ?s1 @ [SelectCall ?sh getRequestCancelInfoMapQry
        [VInt64 (RequestCancelInfoMapsRow.ShardID row), VBytes (RequestCancelInfoMapsRow.DomainID
            row),
         VString (RequestCancelInfoMapsRow.WorkflowID row), VBytes (RequestCancelInfoMapsRow.RunID
             row)]]\<rparr>)"
    unfolding SelectFromRequestCancelInfoMaps_def Let_def f sh
      SelectContext_identity[OF prepare_getRequestCancelInfoMapQry scan']
    by simp
  have "upserted (identity_columns @ [requestCancelInfoKey]) ?cols (stored pdb
      (bindRequestCancelInfoMapsRow row)) ?T"
    using replace_table_RequestCancelInfoMaps(2)[OF assms(1,2), of pdb s] assms(3) by blast
  then obtain e where e: "e \<in> set ?T"
      "agree (identity_columns @ [requestCancelInfoKey]) (stored pdb (bindRequestCancelInfoMapsRow
          row)) e"
      "\<forall>c\<in>set ?cols. e c = stored pdb (bindRequestCancelInfoMapsRow row) c"
    by (auto simp: upserted_def)
  from e(2) have i: "?inx e" by (simp add: agree_RequestCancelInfoMaps)
  from e(3) sub have "\<forall>c\<in>set ?sel. e c = stored pdb (bindRequestCancelInfoMapsRow row)
      c" by blast
  note z = scan_stored_RequestCancelInfoMaps[OF this]
  have "row = (the (scanRequestCancelInfoMapsRow (e |` set ?sel)))
           \<lparr>RequestCancelInfoMapsRow.ShardID := RequestCancelInfoMapsRow.ShardID row,
            RequestCancelInfoMapsRow.DomainID := RequestCancelInfoMapsRow.DomainID row,
            RequestCancelInfoMapsRow.WorkflowID := RequestCancelInfoMapsRow.WorkflowID row,
            RequestCancelInfoMapsRow.RunID := RequestCancelInfoMapsRow.RunID row\<rparr>"
    unfolding z by simp
  with e(1) i show ?thesis
    unfolding sel by (auto simp: image_iff intro!: bexI[of _ e])
qed

lemma cols_SignalInfoMaps:
  "distinct (identity_columns @ signalInfoKey # signalInfoColumns)"
  "set (identity_columns @ [signalInfoKey]) \<subseteq> set (identity_columns @ signalInfoKey #
      signalInfoColumns)"
  by (simp_all add: identity_columns_def signalInfoTableName_def signalInfoKey_def
      signalInfoColumns_def)

lemma bind_nonnull_SignalInfoMaps:
  "\<forall>c\<in>set (identity_columns @ signalInfoKey # signalInfoColumns). bindSignalInfoMapsRow
      row c \<noteq> None"
  by (simp add: identity_columns_def signalInfoTableName_def signalInfoKey_def signalInfoColumns_def
      bindSignalInfoMapsRow_def)

lemma stored_bind_SignalInfoMaps:
  "stored pdb (bindSignalInfoMapsRow row) |` set (identity_columns @ signalInfoKey #
      signalInfoColumns) = stored pdb (bindSignalInfoMapsRow row)"
  by (rule ext)
     (simp add: restrict_map_def stored_def identity_columns_def signalInfoTableName_def
         signalInfoKey_def signalInfoColumns_def bindSignalInfoMapsRow_def)

lemma stored_values_SignalInfoMaps:
  "stored pdb (bindSignalInfoMapsRow row) ''shard_id'' = Some (VInt64 (SignalInfoMapsRow.ShardID
      row))"
  "stored pdb (bindSignalInfoMapsRow row) ''domain_id'' = Some (VBytes (SignalInfoMapsRow.DomainID
      row))"
  "stored pdb (bindSignalInfoMapsRow row) ''workflow_id'' = Some (VString
      (SignalInfoMapsRow.WorkflowID row))"
  "stored pdb (bindSignalInfoMapsRow row) ''run_id'' = Some (VBytes (SignalInfoMapsRow.RunID row))"
  "stored pdb (bindSignalInfoMapsRow row) ''initiated_id'' = Some (VInt64
      (SignalInfoMapsRow.InitiatedID row))"
  "stored pdb (bindSignalInfoMapsRow row) ''data'' = Some (VBytes (SignalInfoMapsRow.Data row))"
  "stored pdb (bindSignalInfoMapsRow row) ''data_encoding'' = Some (VString
      (SignalInfoMapsRow.DataEncoding row))"
  by (simp_all add: stored_def bindSignalInfoMapsRow_def)

lemma agree_SignalInfoMaps:
  "agree (identity_columns @ [signalInfoKey]) (stored pdb (bindSignalInfoMapsRow row)) e =
     (in_execution (SignalInfoMapsRow.ShardID row) (SignalInfoMapsRow.DomainID row)
            (SignalInfoMapsRow.WorkflowID row) (SignalInfoMapsRow.RunID row) e \<and>
          e ''initiated_id'' = Some (VInt64 (SignalInfoMapsRow.InitiatedID row)))"
  by (simp add: agree_def identity_columns_def signalInfoKey_def in_execution_def
      stored_values_SignalInfoMaps)

lemma agree_rows_SignalInfoMaps:
  "agree (identity_columns @ [signalInfoKey]) (stored pdb (bindSignalInfoMapsRow x)) (stored pdb
      (bindSignalInfoMapsRow y)) =
     ((SignalInfoMapsRow.ShardID x, SignalInfoMapsRow.DomainID x, SignalInfoMapsRow.WorkflowID x,
           SignalInfoMapsRow.RunID x, SignalInfoMapsRow.InitiatedID x) =
      (SignalInfoMapsRow.ShardID y, SignalInfoMapsRow.DomainID y, SignalInfoMapsRow.WorkflowID y,
           SignalInfoMapsRow.RunID y, SignalInfoMapsRow.InitiatedID y))"
  by (auto simp: agree_SignalInfoMaps in_execution_def stored_values_SignalInfoMaps)

lemma ReplaceIntoSignalInfoMaps_ok:
  assumes "rows \<noteq> []"
    and "distinct (map (\<lambda>row. (SignalInfoMapsRow.ShardID row, SignalInfoMapsRow.DomainID
        row, SignalInfoMapsRow.WorkflowID row,
           SignalInfoMapsRow.RunID row, SignalInfoMapsRow.InitiatedID row)) rows)"
  shows "ReplaceIntoSignalInfoMaps pdb rows s =
    (Inr (Some Result),
     s\<lparr>issued := issued s @
         [NamedExecCall (GetDBShardIDFromHistoryShardID pdb (SignalInfoMapsRow.ShardID (rows ! 0))
              (GetTotalNumDBShards pdb))
            setKeyInSignalInfoMapQry (map bindSignalInfoMapsRow rows)],
       tables := (tables s)((GetDBShardIDFromHistoryShardID pdb (SignalInfoMapsRow.ShardID (rows !
           0))
              (GetTotalNumDBShards pdb), signalInfoTableName) :=
          fold (insert_row (DoUpdate (identity_columns @ signalInfoKey # signalInfoColumns)
              (identity_columns @ signalInfoKey # signalInfoColumns)) (identity_columns @
              [signalInfoKey]))
            (map (\<lambda>x. stored pdb (bindSignalInfoMapsRow x)) rows)
            (tables s (GetDBShardIDFromHistoryShardID pdb (SignalInfoMapsRow.ShardID (rows ! 0))
              (GetTotalNumDBShards pdb), signalInfoTableName)))\<rparr>)"
proof -
  note e = upsert_rows(1)[OF prepare_setKeyInSignalInfoMapQry cols_SignalInfoMaps
          bind_nonnull_SignalInfoMaps stored_bind_SignalInfoMaps agree_rows_SignalInfoMaps assms(2)]
  show ?thesis
    unfolding ReplaceIntoSignalInfoMaps_def Let_def e
    using assms(1) by simp
qed

lemma replace_table_SignalInfoMaps:
  assumes "rows \<noteq> []"
    and "distinct (map (\<lambda>row. (SignalInfoMapsRow.ShardID row, SignalInfoMapsRow.DomainID
        row, SignalInfoMapsRow.WorkflowID row,
           SignalInfoMapsRow.RunID row, SignalInfoMapsRow.InitiatedID row)) rows)"
  shows "tables (snd (ReplaceIntoSignalInfoMaps pdb rows s))
           (GetDBShardIDFromHistoryShardID pdb (SignalInfoMapsRow.ShardID (rows ! 0))
              (GetTotalNumDBShards pdb), signalInfoTableName) =
         fold (insert_row (DoUpdate (identity_columns @ signalInfoKey # signalInfoColumns)
             (identity_columns @ signalInfoKey # signalInfoColumns)) (identity_columns @
             [signalInfoKey]))
            (map (\<lambda>x. stored pdb (bindSignalInfoMapsRow x)) rows)
            (tables s (GetDBShardIDFromHistoryShardID pdb (SignalInfoMapsRow.ShardID (rows ! 0))
              (GetTotalNumDBShards pdb), signalInfoTableName))"
    and "\<forall>row\<in>set rows. upserted (identity_columns @ [signalInfoKey]) (identity_columns
        @ signalInfoKey # signalInfoColumns)
      (stored pdb (bindSignalInfoMapsRow row))
      (tables (snd (ReplaceIntoSignalInfoMaps pdb rows s))
           (GetDBShardIDFromHistoryShardID pdb (SignalInfoMapsRow.ShardID (rows ! 0))
              (GetTotalNumDBShards pdb), signalInfoTableName))"
proof -
  note ok = ReplaceIntoSignalInfoMaps_ok[OF assms, where pdb = pdb and s = s]
  note u = upsert_rows(2)[where tbl = "tables s (GetDBShardIDFromHistoryShardID pdb
      (SignalInfoMapsRow.ShardID (rows ! 0))
              (GetTotalNumDBShards pdb), signalInfoTableName)" and pdb = pdb,
          OF prepare_setKeyInSignalInfoMapQry cols_SignalInfoMaps
          bind_nonnull_SignalInfoMaps stored_bind_SignalInfoMaps agree_rows_SignalInfoMaps assms(2)]
  show T: "tables (snd (ReplaceIntoSignalInfoMaps pdb rows s))
           (GetDBShardIDFromHistoryShardID pdb (SignalInfoMapsRow.ShardID (rows ! 0))
              (GetTotalNumDBShards pdb), signalInfoTableName) =
         fold (insert_row (DoUpdate (identity_columns @ signalInfoKey # signalInfoColumns)
             (identity_columns @ signalInfoKey # signalInfoColumns)) (identity_columns @
             [signalInfoKey]))
            (map (\<lambda>x. stored pdb (bindSignalInfoMapsRow x)) rows)
            (tables s (GetDBShardIDFromHistoryShardID pdb (SignalInfoMapsRow.ShardID (rows ! 0))
              (GetTotalNumDBShards pdb), signalInfoTableName))"
    unfolding ok by simp
  show "\<forall>row\<in>set rows. upserted (identity_columns @ [signalInfoKey]) (identity_columns @
      signalInfoKey # signalInfoColumns)
      (stored pdb (bindSignalInfoMapsRow row))
      (tables (snd (ReplaceIntoSignalInfoMaps pdb rows s))
           (GetDBShardIDFromHistoryShardID pdb (SignalInfoMapsRow.ShardID (rows ! 0))
              (GetTotalNumDBShards pdb), signalInfoTableName))"
    unfolding T using u by simp
qed

lemma replace_upserts_SignalInfoMaps:
  assumes "rows \<noteq> []"
    and "distinct (map (\<lambda>row. (SignalInfoMapsRow.ShardID row, SignalInfoMapsRow.DomainID
        row, SignalInfoMapsRow.WorkflowID row,
           SignalInfoMapsRow.RunID row, SignalInfoMapsRow.InitiatedID row)) rows)"
  shows "fst (ReplaceIntoSignalInfoMaps pdb rows s) = Inr (Some Result) \<and>
    (\<forall>row\<in>set rows.
       (\<exists>e\<in>set (tables (snd (ReplaceIntoSignalInfoMaps pdb rows s))
           (GetDBShardIDFromHistoryShardID pdb (SignalInfoMapsRow.ShardID (rows ! 0))
              (GetTotalNumDBShards pdb), signalInfoTableName)).
          in_execution (SignalInfoMapsRow.ShardID row) (SignalInfoMapsRow.DomainID row)
            (SignalInfoMapsRow.WorkflowID row) (SignalInfoMapsRow.RunID row) e \<and>
          e ''initiated_id'' = Some (VInt64 (SignalInfoMapsRow.InitiatedID row))) \<and>
       (\<forall>e\<in>set (tables (snd (ReplaceIntoSignalInfoMaps pdb rows s))
           (GetDBShardIDFromHistoryShardID pdb (SignalInfoMapsRow.ShardID (rows ! 0))
              (GetTotalNumDBShards pdb), signalInfoTableName)).
          in_execution (SignalInfoMapsRow.ShardID row) (SignalInfoMapsRow.DomainID row)
            (SignalInfoMapsRow.WorkflowID row) (SignalInfoMapsRow.RunID row) e \<and>
          e ''initiated_id'' = Some (VInt64 (SignalInfoMapsRow.InitiatedID row)) \<longrightarrow>
          e ''data'' = Some (VBytes (SignalInfoMapsRow.Data row)) \<and>
          e ''data_encoding'' = Some (VString (SignalInfoMapsRow.DataEncoding row))))"
proof -
  let ?T = "tables (snd (ReplaceIntoSignalInfoMaps pdb rows s))
           (GetDBShardIDFromHistoryShardID pdb (SignalInfoMapsRow.ShardID (rows ! 0))
              (GetTotalNumDBShards pdb), signalInfoTableName)"
  note ok = ReplaceIntoSignalInfoMaps_ok[OF assms, where pdb = pdb and s = s]
  have "\<forall>row\<in>set rows. upserted (identity_columns @ [signalInfoKey]) (identity_columns @
      signalInfoKey # signalInfoColumns)
      (stored pdb (bindSignalInfoMapsRow row)) ?T"
    by (rule replace_table_SignalInfoMaps(2)[OF assms])
  then have "\<forall>row\<in>set rows.
      (\<exists>e\<in>set ?T. agree (identity_columns @ [signalInfoKey]) (stored pdb
          (bindSignalInfoMapsRow row)) e) \<and>
      (\<forall>e\<in>set ?T. agree (identity_columns @ [signalInfoKey]) (stored pdb
          (bindSignalInfoMapsRow row)) e \<longrightarrow>
         (\<forall>c\<in>set signalInfoColumns. e c = stored pdb (bindSignalInfoMapsRow row) c))"
    by (simp add: upserted_def)
  then have "\<forall>row\<in>set rows.
      (\<exists>e\<in>set ?T. in_execution (SignalInfoMapsRow.ShardID row)
          (SignalInfoMapsRow.DomainID row)
            (SignalInfoMapsRow.WorkflowID row) (SignalInfoMapsRow.RunID row) e \<and>
          e ''initiated_id'' = Some (VInt64 (SignalInfoMapsRow.InitiatedID row))) \<and>
      (\<forall>e\<in>set ?T. in_execution (SignalInfoMapsRow.ShardID row)
          (SignalInfoMapsRow.DomainID row)
            (SignalInfoMapsRow.WorkflowID row) (SignalInfoMapsRow.RunID row) e \<and>
          e ''initiated_id'' = Some (VInt64 (SignalInfoMapsRow.InitiatedID row)) \<longrightarrow>
          e ''data'' = Some (VBytes (SignalInfoMapsRow.Data row)) \<and>
          e ''data_encoding'' = Some (VString (SignalInfoMapsRow.DataEncoding row)))"
    by (simp add: agree_SignalInfoMaps signalInfoColumns_def stored_values_SignalInfoMaps)
  moreover have "fst (ReplaceIntoSignalInfoMaps pdb rows s) = Inr (Some Result)"
    unfolding ok by simp
  ultimately show ?thesis by simp
qed

lemma scan_stored_SignalInfoMaps:
  assumes "\<forall>c\<in>set (signalInfoKey # signalInfoColumns). e c = stored pdb
      (bindSignalInfoMapsRow x) c"
  shows "scanSignalInfoMapsRow (e |` set (signalInfoKey # signalInfoColumns)) =
    Some \<lparr>SignalInfoMapsRow.ShardID = 0, SignalInfoMapsRow.DomainID = [],
          SignalInfoMapsRow.WorkflowID = [], SignalInfoMapsRow.RunID = [],
          SignalInfoMapsRow.InitiatedID = SignalInfoMapsRow.InitiatedID x,
          SignalInfoMapsRow.Data = SignalInfoMapsRow.Data x,
          SignalInfoMapsRow.DataEncoding = SignalInfoMapsRow.DataEncoding x\<rparr>"
  using assms
  by (simp add: scanSignalInfoMapsRow_def restrict_map_def  signalInfoKey_def signalInfoColumns_def
      stored_values_SignalInfoMaps)

lemma roundtrip_SignalInfoMaps:
  assumes "rows \<noteq> []"
    and "distinct (map (\<lambda>row. (SignalInfoMapsRow.ShardID row, SignalInfoMapsRow.DomainID
        row, SignalInfoMapsRow.WorkflowID row,
           SignalInfoMapsRow.RunID row, SignalInfoMapsRow.InitiatedID row)) rows)"
    and "row \<in> set rows"
    and f: "SignalInfoMapsFilter.ShardID fltr = SignalInfoMapsRow.ShardID row"
      "SignalInfoMapsFilter.DomainID fltr = SignalInfoMapsRow.DomainID row"
      "SignalInfoMapsFilter.WorkflowID fltr = SignalInfoMapsRow.WorkflowID row"
      "SignalInfoMapsFilter.RunID fltr = SignalInfoMapsRow.RunID row"
    and sh: "GetDBShardIDFromHistoryShardID pdb (SignalInfoMapsRow.ShardID row) (GetTotalNumDBShards
        pdb) =
       GetDBShardIDFromHistoryShardID pdb (SignalInfoMapsRow.ShardID (rows ! 0))
              (GetTotalNumDBShards pdb)"
    and sc: "\<forall>e\<in>set (tables s
                (GetDBShardIDFromHistoryShardID pdb (SignalInfoMapsRow.ShardID row)
                   (GetTotalNumDBShards pdb), signalInfoTableName)).
             in_execution (SignalInfoMapsRow.ShardID row) (SignalInfoMapsRow.DomainID row)
            (SignalInfoMapsRow.WorkflowID row) (SignalInfoMapsRow.RunID row) e \<longrightarrow>
             scanSignalInfoMapsRow (e |` set (signalInfoKey # signalInfoColumns)) \<noteq> None"
  shows "snd (fst (SelectFromSignalInfoMaps pdb fltr (snd (ReplaceIntoSignalInfoMaps pdb rows s))))
      = None \<and>
    row \<in> set (fst (fst (SelectFromSignalInfoMaps pdb fltr (snd (ReplaceIntoSignalInfoMaps pdb
        rows s)))))"
proof -
  let ?sh = "GetDBShardIDFromHistoryShardID pdb (SignalInfoMapsRow.ShardID (rows ! 0))
              (GetTotalNumDBShards pdb)"
  let ?s1 = "snd (ReplaceIntoSignalInfoMaps pdb rows s)"
  let ?T = "tables ?s1 (?sh, signalInfoTableName)"
  let ?cols = "identity_columns @ signalInfoKey # signalInfoColumns"
  let ?sel = "signalInfoKey # signalInfoColumns"
  let ?ps = "map (\<lambda>x. stored pdb (bindSignalInfoMapsRow x)) rows"
  let ?inx = "in_execution (SignalInfoMapsRow.ShardID row) (SignalInfoMapsRow.DomainID row)
            (SignalInfoMapsRow.WorkflowID row) (SignalInfoMapsRow.RunID row)"
  have T: "?T = fold (insert_row (DoUpdate ?cols ?cols) (identity_columns @ [signalInfoKey]))
            ?ps (tables s (?sh, signalInfoTableName))"
    by (rule replace_table_SignalInfoMaps(1)[OF assms(1,2)])
  have sub: "set ?sel \<subseteq> set ?cols" by auto
  have scan': "\<forall>e\<in>set ?T. ?inx e \<longrightarrow> scanSignalInfoMapsRow (e |` set ?sel)
      \<noteq> None"
  proof (intro ballI impI)
    fix e assume e: "e \<in> set ?T" and i: "?inx e"
    from e consider "e \<in> set (tables s (?sh, signalInfoTableName))"
      | p where "p \<in> set ?ps" "\<forall>c\<in>set ?cols. e c = p c"
      unfolding T using fold_upsert_cases by blast
    then show "scanSignalInfoMapsRow (e |` set ?sel) \<noteq> None"
    proof cases
      case 1
      with sc i sh show ?thesis by simp
    next
      case 2
      then obtain x where "\<forall>c\<in>set ?cols. e c = stored pdb (bindSignalInfoMapsRow x) c"
          by auto
      with sub have "\<forall>c\<in>set ?sel. e c = stored pdb (bindSignalInfoMapsRow x) c" by blast
      then show ?thesis by (simp only: scan_stored_SignalInfoMaps) simp
    qed
  qed
  have sel: "SelectFromSignalInfoMaps pdb fltr ?s1 =
    ((map (\<lambda>row'. row'\<lparr>SignalInfoMapsRow.ShardID := SignalInfoMapsRow.ShardID row,
                      SignalInfoMapsRow.DomainID := SignalInfoMapsRow.DomainID row,
                      SignalInfoMapsRow.WorkflowID := SignalInfoMapsRow.WorkflowID row,
                      SignalInfoMapsRow.RunID := SignalInfoMapsRow.RunID row\<rparr>)
        (map (\<lambda>e. the (scanSignalInfoMapsRow (e |` set ?sel))) (filter ?inx ?T)), None),
     ?s1\<lparr>issued := issued ?s1 @ [SelectCall ?sh getSignalInfoMapQry
        [VInt64 (SignalInfoMapsRow.ShardID row), VBytes (SignalInfoMapsRow.DomainID row),
         VString (SignalInfoMapsRow.WorkflowID row), VBytes (SignalInfoMapsRow.RunID
             row)]]\<rparr>)"
    unfolding SelectFromSignalInfoMaps_def Let_def f sh
      SelectContext_identity[OF prepare_getSignalInfoMapQry scan']
    by simp
  have "upserted (identity_columns @ [signalInfoKey]) ?cols (stored pdb (bindSignalInfoMapsRow row))
      ?T"
    using replace_table_SignalInfoMaps(2)[OF assms(1,2), of pdb s] assms(3) by blast
  then obtain e where e: "e \<in> set ?T"
      "agree (identity_columns @ [signalInfoKey]) (stored pdb (bindSignalInfoMapsRow row)) e"
      "\<forall>c\<in>set ?cols. e c = stored pdb (bindSignalInfoMapsRow row) c"
    by (auto simp: upserted_def)
  from e(2) have i: "?inx e" by (simp add: agree_SignalInfoMaps)
  from e(3) sub have "\<forall>c\<in>set ?sel. e c = stored pdb (bindSignalInfoMapsRow row) c" by
      blast
  note z = scan_stored_SignalInfoMaps[OF this]
  have "row = (the (scanSignalInfoMapsRow (e |` set ?sel)))
           \<lparr>SignalInfoMapsRow.ShardID := SignalInfoMapsRow.ShardID row,
            SignalInfoMapsRow.DomainID := SignalInfoMapsRow.DomainID row,
            SignalInfoMapsRow.WorkflowID := SignalInfoMapsRow.WorkflowID row,
            SignalInfoMapsRow.RunID := SignalInfoMapsRow.RunID row\<rparr>"
    unfolding z by simp
  with e(1) i show ?thesis
    unfolding sel by (auto simp: image_iff intro!: bexI[of _ e])
qed

subsection \<open>Requested signals\<close>

lemma those_opt_Some:
  "(\<And>x. f x = Some (g x)) \<Longrightarrow> those_opt (map f xs) = Some (map g xs)"
  by (induction xs) auto

lemma stored_values_SignalsRequestedSets:
  "stored pdb (bindSignalsRequestedSetsRow row) ''shard_id'' = Some (VInt64
      (SignalsRequestedSetsRow.ShardID row))"
  "stored pdb (bindSignalsRequestedSetsRow row) ''domain_id'' = Some (VBytes
      (SignalsRequestedSetsRow.DomainID row))"
  "stored pdb (bindSignalsRequestedSetsRow row) ''workflow_id'' = Some (VString
      (SignalsRequestedSetsRow.WorkflowID row))"
  "stored pdb (bindSignalsRequestedSetsRow row) ''run_id'' = Some (VBytes
      (SignalsRequestedSetsRow.RunID row))"
  "stored pdb (bindSignalsRequestedSetsRow row) ''signal_id'' = Some (VString
      (SignalsRequestedSetsRow.SignalID row))"
  by (simp_all add: stored_def bindSignalsRequestedSetsRow_def)

lemma agree_SignalsRequestedSets:
  "agree (identity_columns @ [''signal_id''])
       (stored pdb (bindSignalsRequestedSetsRow row)) e =
     (in_execution (SignalsRequestedSetsRow.ShardID row) (SignalsRequestedSetsRow.DomainID row)
        (SignalsRequestedSetsRow.WorkflowID row) (SignalsRequestedSetsRow.RunID row) e \<and>
      e ''signal_id'' = Some (VString (SignalsRequestedSetsRow.SignalID row)))"
  by (simp add: agree_def identity_columns_def in_execution_def
      stored_values_SignalsRequestedSets)

lemma insert_existing_SignalsRequestedSets:
  assumes "rows \<noteq> []"
    and "\<forall>row\<in>set rows.
           \<exists>e\<in>set (tables s
                  (GetDBShardIDFromHistoryShardID pdb (SignalsRequestedSetsRow.ShardID (rows ! 0))
                     (GetTotalNumDBShards pdb), ''signals_requested_sets'')).
             in_execution (SignalsRequestedSetsRow.ShardID row) (SignalsRequestedSetsRow.DomainID
                 row)
               (SignalsRequestedSetsRow.WorkflowID row) (SignalsRequestedSetsRow.RunID row) e \<and>
             e ''signal_id'' = Some (VString (SignalsRequestedSetsRow.SignalID row))"
  shows "InsertIntoSignalsRequestedSets pdb rows s =
    (Inr (Some Result),
     s\<lparr>issued := issued s @
        [NamedExecCall
           (GetDBShardIDFromHistoryShardID pdb (SignalsRequestedSetsRow.ShardID (rows ! 0))
              (GetTotalNumDBShards pdb))
           createSignalsRequestedSetQuery (map bindSignalsRequestedSetsRow rows)]\<rparr>)"
proof -
  let ?sh = "GetDBShardIDFromHistoryShardID pdb (SignalsRequestedSetsRow.ShardID (rows ! 0))
              (GetTotalNumDBShards pdb)"
  let ?cols = "identity_columns @ [''signal_id'']"
  let ?tbl = "tables s (?sh, ''signals_requested_sets'')"
  let ?ps = "map (\<lambda>row. stored pdb (bindSignalsRequestedSetsRow row)) rows"
  have r: "stored pdb (bindSignalsRequestedSetsRow row) |` set ?cols =
      stored pdb (bindSignalsRequestedSetsRow row)" for row
    by (rule ext)
       (simp add: restrict_map_def stored_def identity_columns_def bindSignalsRequestedSetsRow_def)
  have ps: "proposed (timestamp_column pdb) ?cols ?cols (bindSignalsRequestedSetsRow row) =
      Some (stored pdb (bindSignalsRequestedSetsRow row))" for row
    using proposed_stored[of ?cols "bindSignalsRequestedSetsRow row" pdb]
    by (simp only: r) (simp add: identity_columns_def bindSignalsRequestedSetsRow_def)
  have "those_opt (map (\<lambda>row. proposed (timestamp_column pdb) ?cols ?cols
            (bindSignalsRequestedSetsRow row)) rows) =
      Some ?ps"
    by (rule those_opt_Some) (rule ps)
  then have p: "those_opt (map (proposed (timestamp_column pdb) ?cols ?cols)
            (map bindSignalsRequestedSetsRow rows)) = Some ?ps"
    by (simp only: map_map comp_def)
  have "\<forall>p\<in>set ?ps. list_ex (agree ?cols p) ?tbl"
    using assms(2) by (auto simp: list_ex_iff agree_SignalsRequestedSets)
  then have f: "fold (insert_row DoNothing ?cols) ?ps ?tbl = ?tbl"
    by (rule fold_do_nothing)
  have d: "distinct ?cols" by (simp add: identity_columns_def)
  have "exec_insert (timestamp_column pdb) ?cols ?cols ?cols DoNothing
      (map bindSignalsRequestedSetsRow rows) ?tbl = Inr ?tbl"
    unfolding exec_insert_def p using d f by simp
  then have "NamedExecContext pdb ?sh createSignalsRequestedSetQuery
      (map bindSignalsRequestedSetsRow rows) s =
    (Inr (Some Result),
     s\<lparr>issued := issued s @ [NamedExecCall ?sh createSignalsRequestedSetQuery
        (map bindSignalsRequestedSetsRow rows)]\<rparr>)"
    by (simp add: NamedExecContext_def prepare_createSignalsRequestedSetQuery)
  then show ?thesis
    using assms(1) by (simp add: InsertIntoSignalsRequestedSets_def Let_def)
qed

section \<open>Properties of the operations\<close>

text \<open>
  Claim C4. For every collection kind, the replace (for the signals-requested set, the
  insert) operation called with an empty sequence of rows returns at once with no result
  handle and no error: no statement is handed to the driver and the backend state, its
  statement log and its tables, is the one before the call.
\<close>

theorem replace_empty_rows_is_noop:
  "ReplaceIntoActivityInfoMaps pdb [] s = (Inr None, [], s) \<and>
   ReplaceIntoTimerInfoMaps pdb [] s = (Inr None, s) \<and>
   ReplaceIntoChildExecutionInfoMaps pdb [] s = (Inr None, s) \<and>
   ReplaceIntoRequestCancelInfoMaps pdb [] s = (Inr None, s) \<and>
   ReplaceIntoSignalInfoMaps pdb [] s = (Inr None, s) \<and>
   InsertIntoSignalsRequestedSets pdb [] s = (Inr None, s)"
  by (simp add: ReplaceIntoActivityInfoMaps_def ReplaceIntoTimerInfoMaps_def
      ReplaceIntoChildExecutionInfoMaps_def ReplaceIntoRequestCancelInfoMaps_def
      ReplaceIntoSignalInfoMaps_def InsertIntoSignalsRequestedSets_def)


text \<open>
  Claim C2. For every collection kind: when the filter carries keys, the delete operation
  hands the driver one statement, the delete-by-keys text of the kind in which the list
  after \<^verbatim>\<open>IN\<close> has one parameter per key, \<open>$5\<close> to \<open>$(n + 4)\<close>, bound to the keys in
  order after the four parameters of the execution identity (here \<^verbatim>\<open>sqlx.In\<close> is the
  library function); when the filter carries no key, it hands the driver the delete-all
  statement of the kind with the four identity parameters. The backend reads the two
  texts as the statements given.
\<close>

theorem delete_issues_expanded_statement:
  "((ActivityInfoMapsFilter.ScheduleIDs fA \<noteq> [] \<and> sqlxIn pdb = sqlx_In \<longrightarrow>
       issued (snd (DeleteFromActivityInfoMaps pdb fA s)) = issued s @
         [ExecCall (GetDBShardIDFromHistoryShardID pdb (ActivityInfoMapsFilter.ShardID fA)
             (GetTotalNumDBShards pdb))
            (delete_keys_text activityInfoTableName activityInfoKey (length
                (ActivityInfoMapsFilter.ScheduleIDs fA)))
            ([VInt64 (ActivityInfoMapsFilter.ShardID fA), VBytes (ActivityInfoMapsFilter.DomainID
                fA),
        VString (ActivityInfoMapsFilter.WorkflowID fA), VBytes (ActivityInfoMapsFilter.RunID fA)] @
             map VInt64 (ActivityInfoMapsFilter.ScheduleIDs fA))] \<and>
       prepare (delete_keys_text activityInfoTableName activityInfoKey (length
           (ActivityInfoMapsFilter.ScheduleIDs fA))) =
         Some (Delete activityInfoTableName (identity_conds @ [CIn activityInfoKey [5..<5 + length
             (ActivityInfoMapsFilter.ScheduleIDs fA)]]))) \<and>
    (ActivityInfoMapsFilter.ScheduleIDs fA = [] \<longrightarrow>
       issued (snd (DeleteFromActivityInfoMaps pdb fA s)) = issued s @
         [ExecCall (GetDBShardIDFromHistoryShardID pdb (ActivityInfoMapsFilter.ShardID fA)
             (GetTotalNumDBShards pdb)) deleteActivityInfoMapQry
            [VInt64 (ActivityInfoMapsFilter.ShardID fA), VBytes (ActivityInfoMapsFilter.DomainID
                fA),
        VString (ActivityInfoMapsFilter.WorkflowID fA), VBytes (ActivityInfoMapsFilter.RunID fA)]]
            \<and>
       prepare deleteActivityInfoMapQry = Some (Delete activityInfoTableName identity_conds)))
           \<and>
   ((TimerInfoMapsFilter.TimerIDs fT \<noteq> [] \<and> sqlxIn pdb = sqlx_In \<longrightarrow>
       issued (snd (DeleteFromTimerInfoMaps pdb fT s)) = issued s @
         [ExecCall (GetDBShardIDFromHistoryShardID pdb (TimerInfoMapsFilter.ShardID fT)
             (GetTotalNumDBShards pdb))
            (delete_keys_text timerInfoTableName timerInfoKey (length (TimerInfoMapsFilter.TimerIDs
                fT)))
            ([VInt64 (TimerInfoMapsFilter.ShardID fT), VBytes (TimerInfoMapsFilter.DomainID fT),
        VString (TimerInfoMapsFilter.WorkflowID fT), VBytes (TimerInfoMapsFilter.RunID fT)] @
             map VString (TimerInfoMapsFilter.TimerIDs fT))] \<and>
       prepare (delete_keys_text timerInfoTableName timerInfoKey (length
           (TimerInfoMapsFilter.TimerIDs fT))) =
         Some (Delete timerInfoTableName (identity_conds @ [CIn timerInfoKey [5..<5 + length
             (TimerInfoMapsFilter.TimerIDs fT)]]))) \<and>
    (TimerInfoMapsFilter.TimerIDs fT = [] \<longrightarrow>
       issued (snd (DeleteFromTimerInfoMaps pdb fT s)) = issued s @
         [ExecCall (GetDBShardIDFromHistoryShardID pdb (TimerInfoMapsFilter.ShardID fT)
             (GetTotalNumDBShards pdb)) deleteTimerInfoMapSQLQuery
            [VInt64 (TimerInfoMapsFilter.ShardID fT), VBytes (TimerInfoMapsFilter.DomainID fT),
        VString (TimerInfoMapsFilter.WorkflowID fT), VBytes (TimerInfoMapsFilter.RunID fT)]] \<and>
       prepare deleteTimerInfoMapSQLQuery = Some (Delete timerInfoTableName identity_conds))) \<and>
   ((ChildExecutionInfoMapsFilter.InitiatedIDs fC \<noteq> [] \<and> sqlxIn pdb = sqlx_In
       \<longrightarrow>
       issued (snd (DeleteFromChildExecutionInfoMaps pdb fC s)) = issued s @
         [ExecCall (GetDBShardIDFromHistoryShardID pdb (ChildExecutionInfoMapsFilter.ShardID fC)
             (GetTotalNumDBShards pdb))
            (delete_keys_text childExecutionInfoTableName childExecutionInfoKey (length
                (ChildExecutionInfoMapsFilter.InitiatedIDs fC)))
            ([VInt64 (ChildExecutionInfoMapsFilter.ShardID fC), VBytes
                (ChildExecutionInfoMapsFilter.DomainID fC),
        VString (ChildExecutionInfoMapsFilter.WorkflowID fC), VBytes
            (ChildExecutionInfoMapsFilter.RunID fC)] @
             map VInt64 (ChildExecutionInfoMapsFilter.InitiatedIDs fC))] \<and>
       prepare (delete_keys_text childExecutionInfoTableName childExecutionInfoKey (length
           (ChildExecutionInfoMapsFilter.InitiatedIDs fC))) =
         Some (Delete childExecutionInfoTableName (identity_conds @ [CIn childExecutionInfoKey
             [5..<5 + length (ChildExecutionInfoMapsFilter.InitiatedIDs fC)]]))) \<and>
    (ChildExecutionInfoMapsFilter.InitiatedIDs fC = [] \<longrightarrow>
       issued (snd (DeleteFromChildExecutionInfoMaps pdb fC s)) = issued s @
         [ExecCall (GetDBShardIDFromHistoryShardID pdb (ChildExecutionInfoMapsFilter.ShardID fC)
             (GetTotalNumDBShards pdb)) deleteChildExecutionInfoMapQry
            [VInt64 (ChildExecutionInfoMapsFilter.ShardID fC), VBytes
                (ChildExecutionInfoMapsFilter.DomainID fC),
        VString (ChildExecutionInfoMapsFilter.WorkflowID fC), VBytes
            (ChildExecutionInfoMapsFilter.RunID fC)]] \<and>
       prepare deleteChildExecutionInfoMapQry = Some (Delete childExecutionInfoTableName
           identity_conds))) \<and>
   ((RequestCancelInfoMapsFilter.InitiatedIDs fR \<noteq> [] \<and> sqlxIn pdb = sqlx_In
       \<longrightarrow>
       issued (snd (DeleteFromRequestCancelInfoMaps pdb fR s)) = issued s @
         [ExecCall (GetDBShardIDFromHistoryShardID pdb (RequestCancelInfoMapsFilter.ShardID fR)
             (GetTotalNumDBShards pdb))
            (delete_keys_text requestCancelInfoTableName requestCancelInfoKey (length
                (RequestCancelInfoMapsFilter.InitiatedIDs fR)))
            ([VInt64 (RequestCancelInfoMapsFilter.ShardID fR), VBytes
                (RequestCancelInfoMapsFilter.DomainID fR),
        VString (RequestCancelInfoMapsFilter.WorkflowID fR), VBytes
            (RequestCancelInfoMapsFilter.RunID fR)] @
             map VInt64 (RequestCancelInfoMapsFilter.InitiatedIDs fR))] \<and>
       prepare (delete_keys_text requestCancelInfoTableName requestCancelInfoKey (length
           (RequestCancelInfoMapsFilter.InitiatedIDs fR))) =
         Some (Delete requestCancelInfoTableName (identity_conds @ [CIn requestCancelInfoKey [5..<5
             + length (RequestCancelInfoMapsFilter.InitiatedIDs fR)]]))) \<and>
    (RequestCancelInfoMapsFilter.InitiatedIDs fR = [] \<longrightarrow>
       issued (snd (DeleteFromRequestCancelInfoMaps pdb fR s)) = issued s @
         [ExecCall (GetDBShardIDFromHistoryShardID pdb (RequestCancelInfoMapsFilter.ShardID fR)
             (GetTotalNumDBShards pdb)) deleteRequestCancelInfoMapQry
            [VInt64 (RequestCancelInfoMapsFilter.ShardID fR), VBytes
                (RequestCancelInfoMapsFilter.DomainID fR),
        VString (RequestCancelInfoMapsFilter.WorkflowID fR), VBytes
            (RequestCancelInfoMapsFilter.RunID fR)]] \<and>
       prepare deleteRequestCancelInfoMapQry = Some (Delete requestCancelInfoTableName
           identity_conds))) \<and>
   ((SignalInfoMapsFilter.InitiatedIDs fS \<noteq> [] \<and> sqlxIn pdb = sqlx_In \<longrightarrow>
       issued (snd (DeleteFromSignalInfoMaps pdb fS s)) = issued s @
         [ExecCall (GetDBShardIDFromHistoryShardID pdb (SignalInfoMapsFilter.ShardID fS)
             (GetTotalNumDBShards pdb))
            (delete_keys_text signalInfoTableName signalInfoKey (length
                (SignalInfoMapsFilter.InitiatedIDs fS)))
            ([VInt64 (SignalInfoMapsFilter.ShardID fS), VBytes (SignalInfoMapsFilter.DomainID fS),
        VString (SignalInfoMapsFilter.WorkflowID fS), VBytes (SignalInfoMapsFilter.RunID fS)] @
             map VInt64 (SignalInfoMapsFilter.InitiatedIDs fS))] \<and>
       prepare (delete_keys_text signalInfoTableName signalInfoKey (length
           (SignalInfoMapsFilter.InitiatedIDs fS))) =
         Some (Delete signalInfoTableName (identity_conds @ [CIn signalInfoKey [5..<5 + length
             (SignalInfoMapsFilter.InitiatedIDs fS)]]))) \<and>
    (SignalInfoMapsFilter.InitiatedIDs fS = [] \<longrightarrow>
       issued (snd (DeleteFromSignalInfoMaps pdb fS s)) = issued s @
         [ExecCall (GetDBShardIDFromHistoryShardID pdb (SignalInfoMapsFilter.ShardID fS)
             (GetTotalNumDBShards pdb)) deleteSignalInfoMapQry
            [VInt64 (SignalInfoMapsFilter.ShardID fS), VBytes (SignalInfoMapsFilter.DomainID fS),
        VString (SignalInfoMapsFilter.WorkflowID fS), VBytes (SignalInfoMapsFilter.RunID fS)]]
            \<and>
       prepare deleteSignalInfoMapQry = Some (Delete signalInfoTableName identity_conds))) \<and>
   ((SignalsRequestedSetsFilter.SignalIDs fQ \<noteq> [] \<and> sqlxIn pdb = sqlx_In
       \<longrightarrow>
       issued (snd (DeleteFromSignalsRequestedSets pdb fQ s)) = issued s @
         [ExecCall (GetDBShardIDFromHistoryShardID pdb (SignalsRequestedSetsFilter.ShardID fQ)
             (GetTotalNumDBShards pdb))
            (delete_keys_text ''signals_requested_sets'' ''signal_id'' (length
                (SignalsRequestedSetsFilter.SignalIDs fQ)))
            ([VInt64 (SignalsRequestedSetsFilter.ShardID fQ), VBytes
                (SignalsRequestedSetsFilter.DomainID fQ),
        VString (SignalsRequestedSetsFilter.WorkflowID fQ), VBytes (SignalsRequestedSetsFilter.RunID
            fQ)] @
             map VString (SignalsRequestedSetsFilter.SignalIDs fQ))] \<and>
       prepare (delete_keys_text ''signals_requested_sets'' ''signal_id'' (length
           (SignalsRequestedSetsFilter.SignalIDs fQ))) =
         Some (Delete ''signals_requested_sets'' (identity_conds @ [CIn ''signal_id'' [5..<5 +
             length (SignalsRequestedSetsFilter.SignalIDs fQ)]]))) \<and>
    (SignalsRequestedSetsFilter.SignalIDs fQ = [] \<longrightarrow>
       issued (snd (DeleteFromSignalsRequestedSets pdb fQ s)) = issued s @
         [ExecCall (GetDBShardIDFromHistoryShardID pdb (SignalsRequestedSetsFilter.ShardID fQ)
             (GetTotalNumDBShards pdb)) deleteAllSignalsRequestedSetQuery
            [VInt64 (SignalsRequestedSetsFilter.ShardID fQ), VBytes
                (SignalsRequestedSetsFilter.DomainID fQ),
        VString (SignalsRequestedSetsFilter.WorkflowID fQ), VBytes (SignalsRequestedSetsFilter.RunID
            fQ)]] \<and>
       prepare deleteAllSignalsRequestedSetQuery = Some (Delete ''signals_requested_sets''
           identity_conds)))"
proof -
  have kA: "(ActivityInfoMapsFilter.ScheduleIDs fA \<noteq> [] \<and> sqlxIn pdb = sqlx_In
      \<longrightarrow>
       issued (snd (DeleteFromActivityInfoMaps pdb fA s)) = issued s @
         [ExecCall (GetDBShardIDFromHistoryShardID pdb (ActivityInfoMapsFilter.ShardID fA)
             (GetTotalNumDBShards pdb))
            (delete_keys_text activityInfoTableName activityInfoKey (length
                (ActivityInfoMapsFilter.ScheduleIDs fA)))
            ([VInt64 (ActivityInfoMapsFilter.ShardID fA), VBytes (ActivityInfoMapsFilter.DomainID
                fA),
        VString (ActivityInfoMapsFilter.WorkflowID fA), VBytes (ActivityInfoMapsFilter.RunID fA)] @
             map VInt64 (ActivityInfoMapsFilter.ScheduleIDs fA))] \<and>
       prepare (delete_keys_text activityInfoTableName activityInfoKey (length
           (ActivityInfoMapsFilter.ScheduleIDs fA))) =
         Some (Delete activityInfoTableName (identity_conds @ [CIn activityInfoKey [5..<5 + length
             (ActivityInfoMapsFilter.ScheduleIDs fA)]]))) \<and>
    (ActivityInfoMapsFilter.ScheduleIDs fA = [] \<longrightarrow>
       issued (snd (DeleteFromActivityInfoMaps pdb fA s)) = issued s @
         [ExecCall (GetDBShardIDFromHistoryShardID pdb (ActivityInfoMapsFilter.ShardID fA)
             (GetTotalNumDBShards pdb)) deleteActivityInfoMapQry
            [VInt64 (ActivityInfoMapsFilter.ShardID fA), VBytes (ActivityInfoMapsFilter.DomainID
                fA),
        VString (ActivityInfoMapsFilter.WorkflowID fA), VBytes (ActivityInfoMapsFilter.RunID fA)]]
            \<and>
       prepare deleteActivityInfoMapQry = Some (Delete activityInfoTableName identity_conds))"
    by (simp add: DeleteFromActivityInfoMaps_keys DeleteFromActivityInfoMaps_all
        prepare_delete_keys_text names_ActivityInfoMaps
        prepare_deleteActivityInfoMapQry)
  have kT: "(TimerInfoMapsFilter.TimerIDs fT \<noteq> [] \<and> sqlxIn pdb = sqlx_In
      \<longrightarrow>
       issued (snd (DeleteFromTimerInfoMaps pdb fT s)) = issued s @
         [ExecCall (GetDBShardIDFromHistoryShardID pdb (TimerInfoMapsFilter.ShardID fT)
             (GetTotalNumDBShards pdb))
            (delete_keys_text timerInfoTableName timerInfoKey (length (TimerInfoMapsFilter.TimerIDs
                fT)))
            ([VInt64 (TimerInfoMapsFilter.ShardID fT), VBytes (TimerInfoMapsFilter.DomainID fT),
        VString (TimerInfoMapsFilter.WorkflowID fT), VBytes (TimerInfoMapsFilter.RunID fT)] @
             map VString (TimerInfoMapsFilter.TimerIDs fT))] \<and>
       prepare (delete_keys_text timerInfoTableName timerInfoKey (length
           (TimerInfoMapsFilter.TimerIDs fT))) =
         Some (Delete timerInfoTableName (identity_conds @ [CIn timerInfoKey [5..<5 + length
             (TimerInfoMapsFilter.TimerIDs fT)]]))) \<and>
    (TimerInfoMapsFilter.TimerIDs fT = [] \<longrightarrow>
       issued (snd (DeleteFromTimerInfoMaps pdb fT s)) = issued s @
         [ExecCall (GetDBShardIDFromHistoryShardID pdb (TimerInfoMapsFilter.ShardID fT)
             (GetTotalNumDBShards pdb)) deleteTimerInfoMapSQLQuery
            [VInt64 (TimerInfoMapsFilter.ShardID fT), VBytes (TimerInfoMapsFilter.DomainID fT),
        VString (TimerInfoMapsFilter.WorkflowID fT), VBytes (TimerInfoMapsFilter.RunID fT)]] \<and>
       prepare deleteTimerInfoMapSQLQuery = Some (Delete timerInfoTableName identity_conds))"
    by (simp add: DeleteFromTimerInfoMaps_keys DeleteFromTimerInfoMaps_all prepare_delete_keys_text
        names_TimerInfoMaps
        prepare_deleteTimerInfoMapSQLQuery)
  have kC: "(ChildExecutionInfoMapsFilter.InitiatedIDs fC \<noteq> [] \<and> sqlxIn pdb = sqlx_In
      \<longrightarrow>
       issued (snd (DeleteFromChildExecutionInfoMaps pdb fC s)) = issued s @
         [ExecCall (GetDBShardIDFromHistoryShardID pdb (ChildExecutionInfoMapsFilter.ShardID fC)
             (GetTotalNumDBShards pdb))
            (delete_keys_text childExecutionInfoTableName childExecutionInfoKey (length
                (ChildExecutionInfoMapsFilter.InitiatedIDs fC)))
            ([VInt64 (ChildExecutionInfoMapsFilter.ShardID fC), VBytes
                (ChildExecutionInfoMapsFilter.DomainID fC),
        VString (ChildExecutionInfoMapsFilter.WorkflowID fC), VBytes
            (ChildExecutionInfoMapsFilter.RunID fC)] @
             map VInt64 (ChildExecutionInfoMapsFilter.InitiatedIDs fC))] \<and>
       prepare (delete_keys_text childExecutionInfoTableName childExecutionInfoKey (length
           (ChildExecutionInfoMapsFilter.InitiatedIDs fC))) =
         Some (Delete childExecutionInfoTableName (identity_conds @ [CIn childExecutionInfoKey
             [5..<5 + length (ChildExecutionInfoMapsFilter.InitiatedIDs fC)]]))) \<and>
    (ChildExecutionInfoMapsFilter.InitiatedIDs fC = [] \<longrightarrow>
       issued (snd (DeleteFromChildExecutionInfoMaps pdb fC s)) = issued s @
         [ExecCall (GetDBShardIDFromHistoryShardID pdb (ChildExecutionInfoMapsFilter.ShardID fC)
             (GetTotalNumDBShards pdb)) deleteChildExecutionInfoMapQry
            [VInt64 (ChildExecutionInfoMapsFilter.ShardID fC), VBytes
                (ChildExecutionInfoMapsFilter.DomainID fC),
        VString (ChildExecutionInfoMapsFilter.WorkflowID fC), VBytes
            (ChildExecutionInfoMapsFilter.RunID fC)]] \<and>
       prepare deleteChildExecutionInfoMapQry = Some (Delete childExecutionInfoTableName
           identity_conds))"
    by (simp add: DeleteFromChildExecutionInfoMaps_keys DeleteFromChildExecutionInfoMaps_all
        prepare_delete_keys_text names_ChildExecutionInfoMaps
        prepare_deleteChildExecutionInfoMapQry)
  have kR: "(RequestCancelInfoMapsFilter.InitiatedIDs fR \<noteq> [] \<and> sqlxIn pdb = sqlx_In
      \<longrightarrow>
       issued (snd (DeleteFromRequestCancelInfoMaps pdb fR s)) = issued s @
         [ExecCall (GetDBShardIDFromHistoryShardID pdb (RequestCancelInfoMapsFilter.ShardID fR)
             (GetTotalNumDBShards pdb))
            (delete_keys_text requestCancelInfoTableName requestCancelInfoKey (length
                (RequestCancelInfoMapsFilter.InitiatedIDs fR)))
            ([VInt64 (RequestCancelInfoMapsFilter.ShardID fR), VBytes
                (RequestCancelInfoMapsFilter.DomainID fR),
        VString (RequestCancelInfoMapsFilter.WorkflowID fR), VBytes
            (RequestCancelInfoMapsFilter.RunID fR)] @
             map VInt64 (RequestCancelInfoMapsFilter.InitiatedIDs fR))] \<and>
       prepare (delete_keys_text requestCancelInfoTableName requestCancelInfoKey (length
           (RequestCancelInfoMapsFilter.InitiatedIDs fR))) =
         Some (Delete requestCancelInfoTableName (identity_conds @ [CIn requestCancelInfoKey [5..<5
             + length (RequestCancelInfoMapsFilter.InitiatedIDs fR)]]))) \<and>
    (RequestCancelInfoMapsFilter.InitiatedIDs fR = [] \<longrightarrow>
       issued (snd (DeleteFromRequestCancelInfoMaps pdb fR s)) = issued s @
         [ExecCall (GetDBShardIDFromHistoryShardID pdb (RequestCancelInfoMapsFilter.ShardID fR)
             (GetTotalNumDBShards pdb)) deleteRequestCancelInfoMapQry
            [VInt64 (RequestCancelInfoMapsFilter.ShardID fR), VBytes
                (RequestCancelInfoMapsFilter.DomainID fR),
        VString (RequestCancelInfoMapsFilter.WorkflowID fR), VBytes
            (RequestCancelInfoMapsFilter.RunID fR)]] \<and>
       prepare deleteRequestCancelInfoMapQry = Some (Delete requestCancelInfoTableName
           identity_conds))"
    by (simp add: DeleteFromRequestCancelInfoMaps_keys DeleteFromRequestCancelInfoMaps_all
        prepare_delete_keys_text names_RequestCancelInfoMaps
        prepare_deleteRequestCancelInfoMapQry)
  have kS: "(SignalInfoMapsFilter.InitiatedIDs fS \<noteq> [] \<and> sqlxIn pdb = sqlx_In
      \<longrightarrow>
       issued (snd (DeleteFromSignalInfoMaps pdb fS s)) = issued s @
         [ExecCall (GetDBShardIDFromHistoryShardID pdb (SignalInfoMapsFilter.ShardID fS)
             (GetTotalNumDBShards pdb))
            (delete_keys_text signalInfoTableName signalInfoKey (length
                (SignalInfoMapsFilter.InitiatedIDs fS)))
            ([VInt64 (SignalInfoMapsFilter.ShardID fS), VBytes (SignalInfoMapsFilter.DomainID fS),
        VString (SignalInfoMapsFilter.WorkflowID fS), VBytes (SignalInfoMapsFilter.RunID fS)] @
             map VInt64 (SignalInfoMapsFilter.InitiatedIDs fS))] \<and>
       prepare (delete_keys_text signalInfoTableName signalInfoKey (length
           (SignalInfoMapsFilter.InitiatedIDs fS))) =
         Some (Delete signalInfoTableName (identity_conds @ [CIn signalInfoKey [5..<5 + length
             (SignalInfoMapsFilter.InitiatedIDs fS)]]))) \<and>
    (SignalInfoMapsFilter.InitiatedIDs fS = [] \<longrightarrow>
       issued (snd (DeleteFromSignalInfoMaps pdb fS s)) = issued s @
         [ExecCall (GetDBShardIDFromHistoryShardID pdb (SignalInfoMapsFilter.ShardID fS)
             (GetTotalNumDBShards pdb)) deleteSignalInfoMapQry
            [VInt64 (SignalInfoMapsFilter.ShardID fS), VBytes (SignalInfoMapsFilter.DomainID fS),
        VString (SignalInfoMapsFilter.WorkflowID fS), VBytes (SignalInfoMapsFilter.RunID fS)]]
            \<and>
       prepare deleteSignalInfoMapQry = Some (Delete signalInfoTableName identity_conds))"
    by (simp add: DeleteFromSignalInfoMaps_keys DeleteFromSignalInfoMaps_all
        prepare_delete_keys_text names_SignalInfoMaps
        prepare_deleteSignalInfoMapQry)
  have kQ: "(SignalsRequestedSetsFilter.SignalIDs fQ \<noteq> [] \<and> sqlxIn pdb = sqlx_In
      \<longrightarrow>
       issued (snd (DeleteFromSignalsRequestedSets pdb fQ s)) = issued s @
         [ExecCall (GetDBShardIDFromHistoryShardID pdb (SignalsRequestedSetsFilter.ShardID fQ)
             (GetTotalNumDBShards pdb))
            (delete_keys_text ''signals_requested_sets'' ''signal_id'' (length
                (SignalsRequestedSetsFilter.SignalIDs fQ)))
            ([VInt64 (SignalsRequestedSetsFilter.ShardID fQ), VBytes
                (SignalsRequestedSetsFilter.DomainID fQ),
        VString (SignalsRequestedSetsFilter.WorkflowID fQ), VBytes (SignalsRequestedSetsFilter.RunID
            fQ)] @
             map VString (SignalsRequestedSetsFilter.SignalIDs fQ))] \<and>
       prepare (delete_keys_text ''signals_requested_sets'' ''signal_id'' (length
           (SignalsRequestedSetsFilter.SignalIDs fQ))) =
         Some (Delete ''signals_requested_sets'' (identity_conds @ [CIn ''signal_id'' [5..<5 +
             length (SignalsRequestedSetsFilter.SignalIDs fQ)]]))) \<and>
    (SignalsRequestedSetsFilter.SignalIDs fQ = [] \<longrightarrow>
       issued (snd (DeleteFromSignalsRequestedSets pdb fQ s)) = issued s @
         [ExecCall (GetDBShardIDFromHistoryShardID pdb (SignalsRequestedSetsFilter.ShardID fQ)
             (GetTotalNumDBShards pdb)) deleteAllSignalsRequestedSetQuery
            [VInt64 (SignalsRequestedSetsFilter.ShardID fQ), VBytes
                (SignalsRequestedSetsFilter.DomainID fQ),
        VString (SignalsRequestedSetsFilter.WorkflowID fQ), VBytes (SignalsRequestedSetsFilter.RunID
            fQ)]] \<and>
       prepare deleteAllSignalsRequestedSetQuery = Some (Delete ''signals_requested_sets''
           identity_conds))"
    by (simp add: DeleteFromSignalsRequestedSets_keys DeleteFromSignalsRequestedSets_all
        prepare_delete_keys_text names_SignalsRequestedSets
        prepare_deleteAllSignalsRequestedSetQuery)
  show ?thesis
    by (rule conjI[OF kA conjI[OF kT conjI[OF kC conjI[OF kR conjI[OF kS kQ]]]]])
qed

theorem delete_issues_expanded_statement_witness:
  "issued (snd (DeleteFromActivityInfoMaps example_db example_activity_filter_key example_backend))
      =
     [ExecCall 0
        (''DELETE FROM activity_info_maps\<newline>'' @
         ''WHERE\<newline>'' @
         ''shard_id = $1 AND\<newline>'' @
         ''domain_id = $2 AND\<newline>'' @
         ''workflow_id = $3 AND\<newline>'' @
         ''run_id = $4 AND\<newline>'' @
         ''schedule_id IN ( $5 )'')
        [VInt64 3, VBytes ''d'', VString ''w'', VBytes ''r'', VInt64 7]] \<and>
   issued (snd (DeleteFromActivityInfoMaps example_db example_activity_filter example_backend)) =
     [ExecCall 0 deleteActivityInfoMapQry [VInt64 3, VBytes ''d'', VString ''w'', VBytes ''r'']]
         \<and>
   issued (snd (DeleteFromTimerInfoMaps example_db example_timer_filter_key example_backend)) =
     [ExecCall 0
        (''DELETE FROM timer_info_maps\<newline>'' @
         ''WHERE\<newline>'' @
         ''shard_id = $1 AND\<newline>'' @
         ''domain_id = $2 AND\<newline>'' @
         ''workflow_id = $3 AND\<newline>'' @
         ''run_id = $4 AND\<newline>'' @
         ''timer_id IN ( $5 )'')
        [VInt64 3, VBytes ''d'', VString ''w'', VBytes ''r'', VString ''t1'']] \<and>
   issued (snd (DeleteFromTimerInfoMaps example_db example_timer_filter example_backend)) =
     [ExecCall 0 deleteTimerInfoMapSQLQuery [VInt64 3, VBytes ''d'', VString ''w'', VBytes ''r'']]
         \<and>
   issued (snd (DeleteFromChildExecutionInfoMaps example_db example_child_filter_key
       example_backend)) =
     [ExecCall 0
        (''DELETE FROM child_execution_info_maps\<newline>'' @
         ''WHERE\<newline>'' @
         ''shard_id = $1 AND\<newline>'' @
         ''domain_id = $2 AND\<newline>'' @
         ''workflow_id = $3 AND\<newline>'' @
         ''run_id = $4 AND\<newline>'' @
         ''initiated_id IN ( $5 )'')
        [VInt64 3, VBytes ''d'', VString ''w'', VBytes ''r'', VInt64 7]] \<and>
   issued (snd (DeleteFromChildExecutionInfoMaps example_db example_child_filter example_backend)) =
     [ExecCall 0 deleteChildExecutionInfoMapQry [VInt64 3, VBytes ''d'', VString ''w'', VBytes
         ''r'']] \<and>
   issued (snd (DeleteFromRequestCancelInfoMaps example_db example_cancel_filter_key
       example_backend)) =
     [ExecCall 0
        (''DELETE FROM request_cancel_info_maps\<newline>'' @
         ''WHERE\<newline>'' @
         ''shard_id = $1 AND\<newline>'' @
         ''domain_id = $2 AND\<newline>'' @
         ''workflow_id = $3 AND\<newline>'' @
         ''run_id = $4 AND\<newline>'' @
         ''initiated_id IN ( $5 )'')
        [VInt64 3, VBytes ''d'', VString ''w'', VBytes ''r'', VInt64 7]] \<and>
   issued (snd (DeleteFromRequestCancelInfoMaps example_db example_cancel_filter example_backend)) =
     [ExecCall 0 deleteRequestCancelInfoMapQry [VInt64 3, VBytes ''d'', VString ''w'', VBytes
         ''r'']] \<and>
   issued (snd (DeleteFromSignalInfoMaps example_db example_signal_filter_key example_backend)) =
     [ExecCall 0
        (''DELETE FROM signal_info_maps\<newline>'' @
         ''WHERE\<newline>'' @
         ''shard_id = $1 AND\<newline>'' @
         ''domain_id = $2 AND\<newline>'' @
         ''workflow_id = $3 AND\<newline>'' @
         ''run_id = $4 AND\<newline>'' @
         ''initiated_id IN ( $5 )'')
        [VInt64 3, VBytes ''d'', VString ''w'', VBytes ''r'', VInt64 7]] \<and>
   issued (snd (DeleteFromSignalInfoMaps example_db example_signal_filter example_backend)) =
     [ExecCall 0 deleteSignalInfoMapQry [VInt64 3, VBytes ''d'', VString ''w'', VBytes ''r'']]
         \<and>
   issued (snd (DeleteFromSignalsRequestedSets example_db example_requested_filter_key
       example_backend)) =
     [ExecCall 0
        (''DELETE FROM signals_requested_sets\<newline>'' @
         ''WHERE\<newline>'' @
         ''shard_id = $1 AND\<newline>'' @
         ''domain_id = $2 AND\<newline>'' @
         ''workflow_id = $3 AND\<newline>'' @
         ''run_id = $4 AND\<newline>'' @
         ''signal_id IN ( $5 )'')
        [VInt64 3, VBytes ''d'', VString ''w'', VBytes ''r'', VString ''s1'']] \<and>
   issued (snd (DeleteFromSignalsRequestedSets example_db example_requested_filter example_backend))
       =
     [ExecCall 0 deleteAllSignalsRequestedSetQuery [VInt64 3, VBytes ''d'', VString ''w'', VBytes
         ''r'']]"
  using delete_issues_expanded_statement[where pdb = example_db and s = example_backend and
      fA = "example_activity_filter_key" and fT = "example_timer_filter_key" and fC =
          "example_child_filter_key" and fR = "example_cancel_filter_key" and fS =
          "example_signal_filter_key" and fQ = "example_requested_filter_key"]
    delete_issues_expanded_statement[where pdb = example_db and s = example_backend and
      fA = "example_activity_filter" and fT = "example_timer_filter" and fC = "example_child_filter"
          and fR = "example_cancel_filter" and fS = "example_signal_filter" and fQ =
          "example_requested_filter"]
  by (simp add: example_db_def example_backend_def delete_keys_text_def Itoa_small
      example_activity_def example_activity_filter_def example_activity_filter_key_def
          activityInfoTableName_def activityInfoKey_def activityInfoColumns_def example_timer_def
          example_timer_filter_def example_timer_filter_key_def timerInfoTableName_def
          timerInfoKey_def timerInfoColumns_def example_child_def example_child_filter_def
          example_child_filter_key_def childExecutionInfoTableName_def childExecutionInfoKey_def
          childExecutionInfoColumns_def example_cancel_def example_cancel_filter_def
          example_cancel_filter_key_def requestCancelInfoTableName_def requestCancelInfoKey_def
          requestCancelInfoColumns_def example_signal_def example_signal_filter_def
          example_signal_filter_key_def signalInfoTableName_def signalInfoKey_def
          signalInfoColumns_def example_requested_def example_requested_filter_def
          example_requested_filter_key_def )

text \<open>
  Claim C3, as the code has it. The claim says that a delete with a zero-length key list
  issues no statement and leaves the stored state unchanged. The code tests
  \<^verbatim>\<open>len(keys) > 0\<close> and otherwise falls through to the delete-all statement, so on the
  example below a statement is issued and the stored row of the execution is gone.
  What holds for every collection kind: with a zero-length key list the delete operation
  issues exactly one statement, the delete-all statement of the kind with the four identity
  parameters, returns its result, and removes from the table of the kind, on the routed
  shard, the rows of the filter's execution and no other row.
\<close>

theorem delete_with_no_keys_deletes_all:
  "(ActivityInfoMapsFilter.ScheduleIDs fA = [] \<longrightarrow>
     DeleteFromActivityInfoMaps pdb fA s =
       (Inr (Some Result),
        s\<lparr>issued := issued s @
            [ExecCall (GetDBShardIDFromHistoryShardID pdb (ActivityInfoMapsFilter.ShardID fA)
                (GetTotalNumDBShards pdb)) deleteActivityInfoMapQry
               [VInt64 (ActivityInfoMapsFilter.ShardID fA), VBytes (ActivityInfoMapsFilter.DomainID
                   fA),
        VString (ActivityInfoMapsFilter.WorkflowID fA), VBytes (ActivityInfoMapsFilter.RunID fA)]],
          tables := (tables s)(((GetDBShardIDFromHistoryShardID pdb (ActivityInfoMapsFilter.ShardID
              fA) (GetTotalNumDBShards pdb)), activityInfoTableName) :=
             filter (\<lambda>row. \<not> in_execution (ActivityInfoMapsFilter.ShardID fA)
                 (ActivityInfoMapsFilter.DomainID fA)
                             (ActivityInfoMapsFilter.WorkflowID fA) (ActivityInfoMapsFilter.RunID
                                 fA) row)
               (tables s ((GetDBShardIDFromHistoryShardID pdb (ActivityInfoMapsFilter.ShardID fA)
                   (GetTotalNumDBShards pdb)), activityInfoTableName)))\<rparr>)) \<and>
   (TimerInfoMapsFilter.TimerIDs fT = [] \<longrightarrow>
     DeleteFromTimerInfoMaps pdb fT s =
       (Inr (Some Result),
        s\<lparr>issued := issued s @
            [ExecCall (GetDBShardIDFromHistoryShardID pdb (TimerInfoMapsFilter.ShardID fT)
                (GetTotalNumDBShards pdb)) deleteTimerInfoMapSQLQuery
               [VInt64 (TimerInfoMapsFilter.ShardID fT), VBytes (TimerInfoMapsFilter.DomainID fT),
        VString (TimerInfoMapsFilter.WorkflowID fT), VBytes (TimerInfoMapsFilter.RunID fT)]],
          tables := (tables s)(((GetDBShardIDFromHistoryShardID pdb (TimerInfoMapsFilter.ShardID fT)
              (GetTotalNumDBShards pdb)), timerInfoTableName) :=
             filter (\<lambda>row. \<not> in_execution (TimerInfoMapsFilter.ShardID fT)
                 (TimerInfoMapsFilter.DomainID fT)
                             (TimerInfoMapsFilter.WorkflowID fT) (TimerInfoMapsFilter.RunID fT) row)
               (tables s ((GetDBShardIDFromHistoryShardID pdb (TimerInfoMapsFilter.ShardID fT)
                   (GetTotalNumDBShards pdb)), timerInfoTableName)))\<rparr>)) \<and>
   (ChildExecutionInfoMapsFilter.InitiatedIDs fC = [] \<longrightarrow>
     DeleteFromChildExecutionInfoMaps pdb fC s =
       (Inr (Some Result),
        s\<lparr>issued := issued s @
            [ExecCall (GetDBShardIDFromHistoryShardID pdb (ChildExecutionInfoMapsFilter.ShardID fC)
                (GetTotalNumDBShards pdb)) deleteChildExecutionInfoMapQry
               [VInt64 (ChildExecutionInfoMapsFilter.ShardID fC), VBytes
                   (ChildExecutionInfoMapsFilter.DomainID fC),
        VString (ChildExecutionInfoMapsFilter.WorkflowID fC), VBytes
            (ChildExecutionInfoMapsFilter.RunID fC)]],
          tables := (tables s)(((GetDBShardIDFromHistoryShardID pdb
              (ChildExecutionInfoMapsFilter.ShardID fC) (GetTotalNumDBShards pdb)),
              childExecutionInfoTableName) :=
             filter (\<lambda>row. \<not> in_execution (ChildExecutionInfoMapsFilter.ShardID fC)
                 (ChildExecutionInfoMapsFilter.DomainID fC)
                             (ChildExecutionInfoMapsFilter.WorkflowID fC)
                                 (ChildExecutionInfoMapsFilter.RunID fC) row)
               (tables s ((GetDBShardIDFromHistoryShardID pdb (ChildExecutionInfoMapsFilter.ShardID
                   fC) (GetTotalNumDBShards pdb)), childExecutionInfoTableName)))\<rparr>)) \<and>
   (RequestCancelInfoMapsFilter.InitiatedIDs fR = [] \<longrightarrow>
     DeleteFromRequestCancelInfoMaps pdb fR s =
       (Inr (Some Result),
        s\<lparr>issued := issued s @
            [ExecCall (GetDBShardIDFromHistoryShardID pdb (RequestCancelInfoMapsFilter.ShardID fR)
                (GetTotalNumDBShards pdb)) deleteRequestCancelInfoMapQry
               [VInt64 (RequestCancelInfoMapsFilter.ShardID fR), VBytes
                   (RequestCancelInfoMapsFilter.DomainID fR),
        VString (RequestCancelInfoMapsFilter.WorkflowID fR), VBytes
            (RequestCancelInfoMapsFilter.RunID fR)]],
          tables := (tables s)(((GetDBShardIDFromHistoryShardID pdb
              (RequestCancelInfoMapsFilter.ShardID fR) (GetTotalNumDBShards pdb)),
              requestCancelInfoTableName) :=
             filter (\<lambda>row. \<not> in_execution (RequestCancelInfoMapsFilter.ShardID fR)
                 (RequestCancelInfoMapsFilter.DomainID fR)
                             (RequestCancelInfoMapsFilter.WorkflowID fR)
                                 (RequestCancelInfoMapsFilter.RunID fR) row)
               (tables s ((GetDBShardIDFromHistoryShardID pdb (RequestCancelInfoMapsFilter.ShardID
                   fR) (GetTotalNumDBShards pdb)), requestCancelInfoTableName)))\<rparr>)) \<and>
   (SignalInfoMapsFilter.InitiatedIDs fS = [] \<longrightarrow>
     DeleteFromSignalInfoMaps pdb fS s =
       (Inr (Some Result),
        s\<lparr>issued := issued s @
            [ExecCall (GetDBShardIDFromHistoryShardID pdb (SignalInfoMapsFilter.ShardID fS)
                (GetTotalNumDBShards pdb)) deleteSignalInfoMapQry
               [VInt64 (SignalInfoMapsFilter.ShardID fS), VBytes (SignalInfoMapsFilter.DomainID fS),
        VString (SignalInfoMapsFilter.WorkflowID fS), VBytes (SignalInfoMapsFilter.RunID fS)]],
          tables := (tables s)(((GetDBShardIDFromHistoryShardID pdb (SignalInfoMapsFilter.ShardID
              fS) (GetTotalNumDBShards pdb)), signalInfoTableName) :=
             filter (\<lambda>row. \<not> in_execution (SignalInfoMapsFilter.ShardID fS)
                 (SignalInfoMapsFilter.DomainID fS)
                             (SignalInfoMapsFilter.WorkflowID fS) (SignalInfoMapsFilter.RunID fS)
                                 row)
               (tables s ((GetDBShardIDFromHistoryShardID pdb (SignalInfoMapsFilter.ShardID fS)
                   (GetTotalNumDBShards pdb)), signalInfoTableName)))\<rparr>)) \<and>
   (SignalsRequestedSetsFilter.SignalIDs fQ = [] \<longrightarrow>
     DeleteFromSignalsRequestedSets pdb fQ s =
       (Inr (Some Result),
        s\<lparr>issued := issued s @
            [ExecCall (GetDBShardIDFromHistoryShardID pdb (SignalsRequestedSetsFilter.ShardID fQ)
                (GetTotalNumDBShards pdb)) deleteAllSignalsRequestedSetQuery
               [VInt64 (SignalsRequestedSetsFilter.ShardID fQ), VBytes
                   (SignalsRequestedSetsFilter.DomainID fQ),
        VString (SignalsRequestedSetsFilter.WorkflowID fQ), VBytes (SignalsRequestedSetsFilter.RunID
            fQ)]],
          tables := (tables s)(((GetDBShardIDFromHistoryShardID pdb
              (SignalsRequestedSetsFilter.ShardID fQ) (GetTotalNumDBShards pdb)),
              ''signals_requested_sets'') :=
             filter (\<lambda>row. \<not> in_execution (SignalsRequestedSetsFilter.ShardID fQ)
                 (SignalsRequestedSetsFilter.DomainID fQ)
                             (SignalsRequestedSetsFilter.WorkflowID fQ)
                                 (SignalsRequestedSetsFilter.RunID fQ) row)
               (tables s ((GetDBShardIDFromHistoryShardID pdb (SignalsRequestedSetsFilter.ShardID
                   fQ) (GetTotalNumDBShards pdb)), ''signals_requested_sets'')))\<rparr>))"
proof -
  have kA: "ActivityInfoMapsFilter.ScheduleIDs fA = [] \<longrightarrow>
     DeleteFromActivityInfoMaps pdb fA s =
       (Inr (Some Result),
        s\<lparr>issued := issued s @
            [ExecCall (GetDBShardIDFromHistoryShardID pdb (ActivityInfoMapsFilter.ShardID fA)
                (GetTotalNumDBShards pdb)) deleteActivityInfoMapQry
               [VInt64 (ActivityInfoMapsFilter.ShardID fA), VBytes (ActivityInfoMapsFilter.DomainID
                   fA),
        VString (ActivityInfoMapsFilter.WorkflowID fA), VBytes (ActivityInfoMapsFilter.RunID fA)]],
          tables := (tables s)(((GetDBShardIDFromHistoryShardID pdb (ActivityInfoMapsFilter.ShardID
              fA) (GetTotalNumDBShards pdb)), activityInfoTableName) :=
             filter (\<lambda>row. \<not> in_execution (ActivityInfoMapsFilter.ShardID fA)
                 (ActivityInfoMapsFilter.DomainID fA)
                             (ActivityInfoMapsFilter.WorkflowID fA) (ActivityInfoMapsFilter.RunID
                                 fA) row)
               (tables s ((GetDBShardIDFromHistoryShardID pdb (ActivityInfoMapsFilter.ShardID fA)
                   (GetTotalNumDBShards pdb)), activityInfoTableName)))\<rparr>)"
    by (simp add: DeleteFromActivityInfoMaps_all)
  have kT: "TimerInfoMapsFilter.TimerIDs fT = [] \<longrightarrow>
     DeleteFromTimerInfoMaps pdb fT s =
       (Inr (Some Result),
        s\<lparr>issued := issued s @
            [ExecCall (GetDBShardIDFromHistoryShardID pdb (TimerInfoMapsFilter.ShardID fT)
                (GetTotalNumDBShards pdb)) deleteTimerInfoMapSQLQuery
               [VInt64 (TimerInfoMapsFilter.ShardID fT), VBytes (TimerInfoMapsFilter.DomainID fT),
        VString (TimerInfoMapsFilter.WorkflowID fT), VBytes (TimerInfoMapsFilter.RunID fT)]],
          tables := (tables s)(((GetDBShardIDFromHistoryShardID pdb (TimerInfoMapsFilter.ShardID fT)
              (GetTotalNumDBShards pdb)), timerInfoTableName) :=
             filter (\<lambda>row. \<not> in_execution (TimerInfoMapsFilter.ShardID fT)
                 (TimerInfoMapsFilter.DomainID fT)
                             (TimerInfoMapsFilter.WorkflowID fT) (TimerInfoMapsFilter.RunID fT) row)
               (tables s ((GetDBShardIDFromHistoryShardID pdb (TimerInfoMapsFilter.ShardID fT)
                   (GetTotalNumDBShards pdb)), timerInfoTableName)))\<rparr>)"
    by (simp add: DeleteFromTimerInfoMaps_all)
  have kC: "ChildExecutionInfoMapsFilter.InitiatedIDs fC = [] \<longrightarrow>
     DeleteFromChildExecutionInfoMaps pdb fC s =
       (Inr (Some Result),
        s\<lparr>issued := issued s @
            [ExecCall (GetDBShardIDFromHistoryShardID pdb (ChildExecutionInfoMapsFilter.ShardID fC)
                (GetTotalNumDBShards pdb)) deleteChildExecutionInfoMapQry
               [VInt64 (ChildExecutionInfoMapsFilter.ShardID fC), VBytes
                   (ChildExecutionInfoMapsFilter.DomainID fC),
        VString (ChildExecutionInfoMapsFilter.WorkflowID fC), VBytes
            (ChildExecutionInfoMapsFilter.RunID fC)]],
          tables := (tables s)(((GetDBShardIDFromHistoryShardID pdb
              (ChildExecutionInfoMapsFilter.ShardID fC) (GetTotalNumDBShards pdb)),
              childExecutionInfoTableName) :=
             filter (\<lambda>row. \<not> in_execution (ChildExecutionInfoMapsFilter.ShardID fC)
                 (ChildExecutionInfoMapsFilter.DomainID fC)
                             (ChildExecutionInfoMapsFilter.WorkflowID fC)
                                 (ChildExecutionInfoMapsFilter.RunID fC) row)
               (tables s ((GetDBShardIDFromHistoryShardID pdb (ChildExecutionInfoMapsFilter.ShardID
                   fC) (GetTotalNumDBShards pdb)), childExecutionInfoTableName)))\<rparr>)"
    by (simp add: DeleteFromChildExecutionInfoMaps_all)
  have kR: "RequestCancelInfoMapsFilter.InitiatedIDs fR = [] \<longrightarrow>
     DeleteFromRequestCancelInfoMaps pdb fR s =
       (Inr (Some Result),
        s\<lparr>issued := issued s @
            [ExecCall (GetDBShardIDFromHistoryShardID pdb (RequestCancelInfoMapsFilter.ShardID fR)
                (GetTotalNumDBShards pdb)) deleteRequestCancelInfoMapQry
               [VInt64 (RequestCancelInfoMapsFilter.ShardID fR), VBytes
                   (RequestCancelInfoMapsFilter.DomainID fR),
        VString (RequestCancelInfoMapsFilter.WorkflowID fR), VBytes
            (RequestCancelInfoMapsFilter.RunID fR)]],
          tables := (tables s)(((GetDBShardIDFromHistoryShardID pdb
              (RequestCancelInfoMapsFilter.ShardID fR) (GetTotalNumDBShards pdb)),
              requestCancelInfoTableName) :=
             filter (\<lambda>row. \<not> in_execution (RequestCancelInfoMapsFilter.ShardID fR)
                 (RequestCancelInfoMapsFilter.DomainID fR)
                             (RequestCancelInfoMapsFilter.WorkflowID fR)
                                 (RequestCancelInfoMapsFilter.RunID fR) row)
               (tables s ((GetDBShardIDFromHistoryShardID pdb (RequestCancelInfoMapsFilter.ShardID
                   fR) (GetTotalNumDBShards pdb)), requestCancelInfoTableName)))\<rparr>)"
    by (simp add: DeleteFromRequestCancelInfoMaps_all)
  have kS: "SignalInfoMapsFilter.InitiatedIDs fS = [] \<longrightarrow>
     DeleteFromSignalInfoMaps pdb fS s =
       (Inr (Some Result),
        s\<lparr>issued := issued s @
            [ExecCall (GetDBShardIDFromHistoryShardID pdb (SignalInfoMapsFilter.ShardID fS)
                (GetTotalNumDBShards pdb)) deleteSignalInfoMapQry
               [VInt64 (SignalInfoMapsFilter.ShardID fS), VBytes (SignalInfoMapsFilter.DomainID fS),
        VString (SignalInfoMapsFilter.WorkflowID fS), VBytes (SignalInfoMapsFilter.RunID fS)]],
          tables := (tables s)(((GetDBShardIDFromHistoryShardID pdb (SignalInfoMapsFilter.ShardID
              fS) (GetTotalNumDBShards pdb)), signalInfoTableName) :=
             filter (\<lambda>row. \<not> in_execution (SignalInfoMapsFilter.ShardID fS)
                 (SignalInfoMapsFilter.DomainID fS)
                             (SignalInfoMapsFilter.WorkflowID fS) (SignalInfoMapsFilter.RunID fS)
                                 row)
               (tables s ((GetDBShardIDFromHistoryShardID pdb (SignalInfoMapsFilter.ShardID fS)
                   (GetTotalNumDBShards pdb)), signalInfoTableName)))\<rparr>)"
    by (simp add: DeleteFromSignalInfoMaps_all)
  have kQ: "SignalsRequestedSetsFilter.SignalIDs fQ = [] \<longrightarrow>
     DeleteFromSignalsRequestedSets pdb fQ s =
       (Inr (Some Result),
        s\<lparr>issued := issued s @
            [ExecCall (GetDBShardIDFromHistoryShardID pdb (SignalsRequestedSetsFilter.ShardID fQ)
                (GetTotalNumDBShards pdb)) deleteAllSignalsRequestedSetQuery
               [VInt64 (SignalsRequestedSetsFilter.ShardID fQ), VBytes
                   (SignalsRequestedSetsFilter.DomainID fQ),
        VString (SignalsRequestedSetsFilter.WorkflowID fQ), VBytes (SignalsRequestedSetsFilter.RunID
            fQ)]],
          tables := (tables s)(((GetDBShardIDFromHistoryShardID pdb
              (SignalsRequestedSetsFilter.ShardID fQ) (GetTotalNumDBShards pdb)),
              ''signals_requested_sets'') :=
             filter (\<lambda>row. \<not> in_execution (SignalsRequestedSetsFilter.ShardID fQ)
                 (SignalsRequestedSetsFilter.DomainID fQ)
                             (SignalsRequestedSetsFilter.WorkflowID fQ)
                                 (SignalsRequestedSetsFilter.RunID fQ) row)
               (tables s ((GetDBShardIDFromHistoryShardID pdb (SignalsRequestedSetsFilter.ShardID
                   fQ) (GetTotalNumDBShards pdb)), ''signals_requested_sets'')))\<rparr>)"
    by (simp add: DeleteFromSignalsRequestedSets_all)
  show ?thesis
    by (rule conjI[OF kA conjI[OF kT conjI[OF kC conjI[OF kR conjI[OF kS kQ]]]]])
qed

theorem delete_with_no_keys_deletes_all_witness:
  "fst (DeleteFromActivityInfoMaps example_db example_activity_filter example_backend) = Inr (Some
      Result) \<and>
   tables (snd (DeleteFromActivityInfoMaps example_db example_activity_filter example_backend)) (0,
       ''activity_info_maps'') = [] \<and>
   fst (DeleteFromTimerInfoMaps example_db example_timer_filter example_backend) = Inr (Some Result)
       \<and>
   tables (snd (DeleteFromTimerInfoMaps example_db example_timer_filter example_backend)) (0,
       ''timer_info_maps'') = [] \<and>
   fst (DeleteFromChildExecutionInfoMaps example_db example_child_filter example_backend) = Inr
       (Some Result) \<and>
   tables (snd (DeleteFromChildExecutionInfoMaps example_db example_child_filter example_backend))
       (0, ''child_execution_info_maps'') = [] \<and>
   fst (DeleteFromRequestCancelInfoMaps example_db example_cancel_filter example_backend) = Inr
       (Some Result) \<and>
   tables (snd (DeleteFromRequestCancelInfoMaps example_db example_cancel_filter example_backend))
       (0, ''request_cancel_info_maps'') = [] \<and>
   fst (DeleteFromSignalInfoMaps example_db example_signal_filter example_backend) = Inr (Some
       Result) \<and>
   tables (snd (DeleteFromSignalInfoMaps example_db example_signal_filter example_backend)) (0,
       ''signal_info_maps'') = [] \<and>
   fst (DeleteFromSignalsRequestedSets example_db example_requested_filter example_backend) = Inr
       (Some Result) \<and>
   tables (snd (DeleteFromSignalsRequestedSets example_db example_requested_filter example_backend))
       (0, ''signals_requested_sets'') = []"
  using delete_with_no_keys_deletes_all[where pdb = example_db and s = example_backend and
      fA = "example_activity_filter" and fT = "example_timer_filter" and fC = "example_child_filter"
          and fR = "example_cancel_filter" and fS = "example_signal_filter" and fQ =
          "example_requested_filter"]
  by (simp add: example_db_def example_backend_def in_execution_def
      example_activity_def example_activity_filter_def bindActivityInfoMapsRow_def
          activityInfoTableName_def activityInfoKey_def activityInfoColumns_def example_timer_def
          example_timer_filter_def bindTimerInfoMapsRow_def timerInfoTableName_def timerInfoKey_def
          timerInfoColumns_def example_child_def example_child_filter_def
          bindChildExecutionInfoMapsRow_def childExecutionInfoTableName_def
          childExecutionInfoKey_def childExecutionInfoColumns_def example_cancel_def
          example_cancel_filter_def bindRequestCancelInfoMapsRow_def requestCancelInfoTableName_def
          requestCancelInfoKey_def requestCancelInfoColumns_def example_signal_def
          example_signal_filter_def bindSignalInfoMapsRow_def signalInfoTableName_def
          signalInfoKey_def signalInfoColumns_def example_requested_def example_requested_filter_def
          bindSignalsRequestedSetsRow_def )

theorem delete_with_no_keys_counterexample:
  "ActivityInfoMapsFilter.ScheduleIDs example_activity_filter = [] \<and>
   issued (snd (DeleteFromActivityInfoMaps example_db example_activity_filter example_backend))
       \<noteq>
     issued example_backend \<and>
   tables (snd (DeleteFromActivityInfoMaps example_db example_activity_filter example_backend))
       (0, ''activity_info_maps'') \<noteq>
     tables example_backend (0, ''activity_info_maps'')"
  by (simp add: DeleteFromActivityInfoMaps_all example_activity_filter_def example_db_def
      example_backend_def activityInfoTableName_def in_execution_def bindActivityInfoMapsRow_def
      example_activity_def)

text \<open>
  Claim C5. For every collection kind and every filter, each row that the select
  operation returns has the shard, domain, workflow and run of the filter in its identity
  fields, whatever the driver delivered. For the activity-info kind the last-heartbeat
  times of the returned rows are, row by row, the times the driver delivered passed through
  \<^verbatim>\<open>FromPostgresDateTime\<close>.
\<close>

theorem select_stamps_identity_from_filter:
  "((\<forall>row\<in>set (fst (fst (SelectFromActivityInfoMaps pdb fA s))).
       ActivityInfoMapsRow.ShardID row = ActivityInfoMapsFilter.ShardID fA \<and>
           ActivityInfoMapsRow.DomainID row = ActivityInfoMapsFilter.DomainID fA \<and>
       ActivityInfoMapsRow.WorkflowID row = ActivityInfoMapsFilter.WorkflowID fA \<and>
           ActivityInfoMapsRow.RunID row = ActivityInfoMapsFilter.RunID fA) \<and>
    map ActivityInfoMapsRow.LastHeartbeatUpdatedTime (fst (fst (SelectFromActivityInfoMaps pdb fA
        s))) =
      map (\<lambda>row. FromPostgresDateTime pdb (ActivityInfoMapsRow.LastHeartbeatUpdatedTime
          row))
        (fst (fst (SelectContext pdb (GetDBShardIDFromHistoryShardID pdb
            (ActivityInfoMapsFilter.ShardID fA) (GetTotalNumDBShards pdb))
           scanActivityInfoMapsRow getActivityInfoMapQry
           [VInt64 (ActivityInfoMapsFilter.ShardID fA), VBytes (ActivityInfoMapsFilter.DomainID fA),
        VString (ActivityInfoMapsFilter.WorkflowID fA), VBytes (ActivityInfoMapsFilter.RunID fA)]
            s)))) \<and>
   (\<forall>row\<in>set (fst (fst (SelectFromTimerInfoMaps pdb fT s))).
       TimerInfoMapsRow.ShardID row = TimerInfoMapsFilter.ShardID fT \<and>
           TimerInfoMapsRow.DomainID row = TimerInfoMapsFilter.DomainID fT \<and>
       TimerInfoMapsRow.WorkflowID row = TimerInfoMapsFilter.WorkflowID fT \<and>
           TimerInfoMapsRow.RunID row = TimerInfoMapsFilter.RunID fT) \<and>
   (\<forall>row\<in>set (fst (fst (SelectFromChildExecutionInfoMaps pdb fC s))).
       ChildExecutionInfoMapsRow.ShardID row = ChildExecutionInfoMapsFilter.ShardID fC \<and>
           ChildExecutionInfoMapsRow.DomainID row = ChildExecutionInfoMapsFilter.DomainID fC \<and>
       ChildExecutionInfoMapsRow.WorkflowID row = ChildExecutionInfoMapsFilter.WorkflowID fC \<and>
           ChildExecutionInfoMapsRow.RunID row = ChildExecutionInfoMapsFilter.RunID fC) \<and>
   (\<forall>row\<in>set (fst (fst (SelectFromRequestCancelInfoMaps pdb fR s))).
       RequestCancelInfoMapsRow.ShardID row = RequestCancelInfoMapsFilter.ShardID fR \<and>
           RequestCancelInfoMapsRow.DomainID row = RequestCancelInfoMapsFilter.DomainID fR \<and>
       RequestCancelInfoMapsRow.WorkflowID row = RequestCancelInfoMapsFilter.WorkflowID fR \<and>
           RequestCancelInfoMapsRow.RunID row = RequestCancelInfoMapsFilter.RunID fR) \<and>
   (\<forall>row\<in>set (fst (fst (SelectFromSignalInfoMaps pdb fS s))).
       SignalInfoMapsRow.ShardID row = SignalInfoMapsFilter.ShardID fS \<and>
           SignalInfoMapsRow.DomainID row = SignalInfoMapsFilter.DomainID fS \<and>
       SignalInfoMapsRow.WorkflowID row = SignalInfoMapsFilter.WorkflowID fS \<and>
           SignalInfoMapsRow.RunID row = SignalInfoMapsFilter.RunID fS) \<and>
   (\<forall>row\<in>set (fst (fst (SelectFromSignalsRequestedSets pdb fQ s))).
       SignalsRequestedSetsRow.ShardID row = SignalsRequestedSetsFilter.ShardID fQ \<and>
           SignalsRequestedSetsRow.DomainID row = SignalsRequestedSetsFilter.DomainID fQ \<and>
       SignalsRequestedSetsRow.WorkflowID row = SignalsRequestedSetsFilter.WorkflowID fQ \<and>
           SignalsRequestedSetsRow.RunID row = SignalsRequestedSetsFilter.RunID fQ)"
proof -
  have kA: "(\<forall>row\<in>set (fst (fst (SelectFromActivityInfoMaps pdb fA s))).
       ActivityInfoMapsRow.ShardID row = ActivityInfoMapsFilter.ShardID fA \<and>
           ActivityInfoMapsRow.DomainID row = ActivityInfoMapsFilter.DomainID fA \<and>
       ActivityInfoMapsRow.WorkflowID row = ActivityInfoMapsFilter.WorkflowID fA \<and>
           ActivityInfoMapsRow.RunID row = ActivityInfoMapsFilter.RunID fA) \<and>
    map ActivityInfoMapsRow.LastHeartbeatUpdatedTime (fst (fst (SelectFromActivityInfoMaps pdb fA
        s))) =
      map (\<lambda>row. FromPostgresDateTime pdb (ActivityInfoMapsRow.LastHeartbeatUpdatedTime
          row))
        (fst (fst (SelectContext pdb (GetDBShardIDFromHistoryShardID pdb
            (ActivityInfoMapsFilter.ShardID fA) (GetTotalNumDBShards pdb))
           scanActivityInfoMapsRow getActivityInfoMapQry
           [VInt64 (ActivityInfoMapsFilter.ShardID fA), VBytes (ActivityInfoMapsFilter.DomainID fA),
        VString (ActivityInfoMapsFilter.WorkflowID fA), VBytes (ActivityInfoMapsFilter.RunID fA)]
            s)))"
    by (auto simp: SelectFromActivityInfoMaps_def Let_def split: prod.splits)
  have kT: "\<forall>row\<in>set (fst (fst (SelectFromTimerInfoMaps pdb fT s))).
       TimerInfoMapsRow.ShardID row = TimerInfoMapsFilter.ShardID fT \<and>
           TimerInfoMapsRow.DomainID row = TimerInfoMapsFilter.DomainID fT \<and>
       TimerInfoMapsRow.WorkflowID row = TimerInfoMapsFilter.WorkflowID fT \<and>
           TimerInfoMapsRow.RunID row = TimerInfoMapsFilter.RunID fT"
    by (auto simp: SelectFromTimerInfoMaps_def Let_def split: prod.splits)
  have kC: "\<forall>row\<in>set (fst (fst (SelectFromChildExecutionInfoMaps pdb fC s))).
       ChildExecutionInfoMapsRow.ShardID row = ChildExecutionInfoMapsFilter.ShardID fC \<and>
           ChildExecutionInfoMapsRow.DomainID row = ChildExecutionInfoMapsFilter.DomainID fC \<and>
       ChildExecutionInfoMapsRow.WorkflowID row = ChildExecutionInfoMapsFilter.WorkflowID fC \<and>
           ChildExecutionInfoMapsRow.RunID row = ChildExecutionInfoMapsFilter.RunID fC"
    by (auto simp: SelectFromChildExecutionInfoMaps_def Let_def split: prod.splits)
  have kR: "\<forall>row\<in>set (fst (fst (SelectFromRequestCancelInfoMaps pdb fR s))).
       RequestCancelInfoMapsRow.ShardID row = RequestCancelInfoMapsFilter.ShardID fR \<and>
           RequestCancelInfoMapsRow.DomainID row = RequestCancelInfoMapsFilter.DomainID fR \<and>
       RequestCancelInfoMapsRow.WorkflowID row = RequestCancelInfoMapsFilter.WorkflowID fR \<and>
           RequestCancelInfoMapsRow.RunID row = RequestCancelInfoMapsFilter.RunID fR"
    by (auto simp: SelectFromRequestCancelInfoMaps_def Let_def split: prod.splits)
  have kS: "\<forall>row\<in>set (fst (fst (SelectFromSignalInfoMaps pdb fS s))).
       SignalInfoMapsRow.ShardID row = SignalInfoMapsFilter.ShardID fS \<and>
           SignalInfoMapsRow.DomainID row = SignalInfoMapsFilter.DomainID fS \<and>
       SignalInfoMapsRow.WorkflowID row = SignalInfoMapsFilter.WorkflowID fS \<and>
           SignalInfoMapsRow.RunID row = SignalInfoMapsFilter.RunID fS"
    by (auto simp: SelectFromSignalInfoMaps_def Let_def split: prod.splits)
  have kQ: "\<forall>row\<in>set (fst (fst (SelectFromSignalsRequestedSets pdb fQ s))).
       SignalsRequestedSetsRow.ShardID row = SignalsRequestedSetsFilter.ShardID fQ \<and>
           SignalsRequestedSetsRow.DomainID row = SignalsRequestedSetsFilter.DomainID fQ \<and>
       SignalsRequestedSetsRow.WorkflowID row = SignalsRequestedSetsFilter.WorkflowID fQ \<and>
           SignalsRequestedSetsRow.RunID row = SignalsRequestedSetsFilter.RunID fQ"
    by (auto simp: SelectFromSignalsRequestedSets_def Let_def split: prod.splits)
  show ?thesis
    by (rule conjI[OF kA conjI[OF kT conjI[OF kC conjI[OF kR conjI[OF kS kQ]]]]])
qed

theorem select_stamps_identity_from_filter_witness:
  "(\<exists>row\<in>set (fst (fst (SelectFromActivityInfoMaps example_db example_activity_filter
      example_backend))).
       ActivityInfoMapsRow.ShardID row = 3 \<and> ActivityInfoMapsRow.DomainID row = ''d'' \<and>
       ActivityInfoMapsRow.WorkflowID row = ''w'' \<and> ActivityInfoMapsRow.RunID row = ''r'')
           \<and>
   (\<exists>row\<in>set (fst (fst (SelectFromTimerInfoMaps example_db example_timer_filter
       example_backend))).
       TimerInfoMapsRow.ShardID row = 3 \<and> TimerInfoMapsRow.DomainID row = ''d'' \<and>
       TimerInfoMapsRow.WorkflowID row = ''w'' \<and> TimerInfoMapsRow.RunID row = ''r'') \<and>
   (\<exists>row\<in>set (fst (fst (SelectFromChildExecutionInfoMaps example_db example_child_filter
       example_backend))).
       ChildExecutionInfoMapsRow.ShardID row = 3 \<and> ChildExecutionInfoMapsRow.DomainID row =
           ''d'' \<and>
       ChildExecutionInfoMapsRow.WorkflowID row = ''w'' \<and> ChildExecutionInfoMapsRow.RunID row =
           ''r'') \<and>
   (\<exists>row\<in>set (fst (fst (SelectFromRequestCancelInfoMaps example_db example_cancel_filter
       example_backend))).
       RequestCancelInfoMapsRow.ShardID row = 3 \<and> RequestCancelInfoMapsRow.DomainID row = ''d''
           \<and>
       RequestCancelInfoMapsRow.WorkflowID row = ''w'' \<and> RequestCancelInfoMapsRow.RunID row =
           ''r'') \<and>
   (\<exists>row\<in>set (fst (fst (SelectFromSignalInfoMaps example_db example_signal_filter
       example_backend))).
       SignalInfoMapsRow.ShardID row = 3 \<and> SignalInfoMapsRow.DomainID row = ''d'' \<and>
       SignalInfoMapsRow.WorkflowID row = ''w'' \<and> SignalInfoMapsRow.RunID row = ''r'') \<and>
   (\<exists>row\<in>set (fst (fst (SelectFromSignalsRequestedSets example_db
       example_requested_filter example_backend))).
       SignalsRequestedSetsRow.ShardID row = 3 \<and> SignalsRequestedSetsRow.DomainID row = ''d''
           \<and>
       SignalsRequestedSetsRow.WorkflowID row = ''w'' \<and> SignalsRequestedSetsRow.RunID row =
           ''r'')"
proof -
  note t = select_stamps_identity_from_filter[where pdb = example_db and s = example_backend and
      fA = "example_activity_filter" and fT = "example_timer_filter" and fC = "example_child_filter"
          and fR = "example_cancel_filter" and fS = "example_signal_filter" and fQ =
          "example_requested_filter"]
  have nA: "fst (fst (SelectFromActivityInfoMaps example_db example_activity_filter
      example_backend)) \<noteq> []"
    by (simp add: SelectFromActivityInfoMaps_def SelectContext_def prepare_getActivityInfoMapQry
        conds_ok_identity
        matches_identity in_execution_def example_db_def example_backend_def example_activity_def
        example_activity_filter_def bindActivityInfoMapsRow_def scanActivityInfoMapsRow_def
            activityInfoTableName_def activityInfoKey_def activityInfoColumns_def restrict_map_def)
  have wA: "(\<exists>row\<in>set (fst (fst (SelectFromActivityInfoMaps example_db
      example_activity_filter example_backend))).
       ActivityInfoMapsRow.ShardID row = 3 \<and> ActivityInfoMapsRow.DomainID row = ''d'' \<and>
       ActivityInfoMapsRow.WorkflowID row = ''w'' \<and> ActivityInfoMapsRow.RunID row = ''r'')"
    using t nA
    by (cases "fst (fst (SelectFromActivityInfoMaps example_db example_activity_filter
        example_backend))")
       (auto simp: example_activity_filter_def)
  have nT: "fst (fst (SelectFromTimerInfoMaps example_db example_timer_filter example_backend))
      \<noteq> []"
    by (simp add: SelectFromTimerInfoMaps_def SelectContext_def prepare_getTimerInfoMapSQLQuery
        conds_ok_identity
        matches_identity in_execution_def example_db_def example_backend_def example_timer_def
        example_timer_filter_def bindTimerInfoMapsRow_def scanTimerInfoMapsRow_def
            timerInfoTableName_def timerInfoKey_def timerInfoColumns_def restrict_map_def)
  have wT: "(\<exists>row\<in>set (fst (fst (SelectFromTimerInfoMaps example_db example_timer_filter
      example_backend))).
       TimerInfoMapsRow.ShardID row = 3 \<and> TimerInfoMapsRow.DomainID row = ''d'' \<and>
       TimerInfoMapsRow.WorkflowID row = ''w'' \<and> TimerInfoMapsRow.RunID row = ''r'')"
    using t nT
    by (cases "fst (fst (SelectFromTimerInfoMaps example_db example_timer_filter example_backend))")
       (auto simp: example_timer_filter_def)
  have nC: "fst (fst (SelectFromChildExecutionInfoMaps example_db example_child_filter
      example_backend)) \<noteq> []"
    by (simp add: SelectFromChildExecutionInfoMaps_def SelectContext_def
        prepare_getChildExecutionInfoMapQry conds_ok_identity
        matches_identity in_execution_def example_db_def example_backend_def example_child_def
        example_child_filter_def bindChildExecutionInfoMapsRow_def scanChildExecutionInfoMapsRow_def
            childExecutionInfoTableName_def childExecutionInfoKey_def childExecutionInfoColumns_def
            restrict_map_def)
  have wC: "(\<exists>row\<in>set (fst (fst (SelectFromChildExecutionInfoMaps example_db
      example_child_filter example_backend))).
       ChildExecutionInfoMapsRow.ShardID row = 3 \<and> ChildExecutionInfoMapsRow.DomainID row =
           ''d'' \<and>
       ChildExecutionInfoMapsRow.WorkflowID row = ''w'' \<and> ChildExecutionInfoMapsRow.RunID row =
           ''r'')"
    using t nC
    by (cases "fst (fst (SelectFromChildExecutionInfoMaps example_db example_child_filter
        example_backend))")
       (auto simp: example_child_filter_def)
  have nR: "fst (fst (SelectFromRequestCancelInfoMaps example_db example_cancel_filter
      example_backend)) \<noteq> []"
    by (simp add: SelectFromRequestCancelInfoMaps_def SelectContext_def
        prepare_getRequestCancelInfoMapQry conds_ok_identity
        matches_identity in_execution_def example_db_def example_backend_def example_cancel_def
        example_cancel_filter_def bindRequestCancelInfoMapsRow_def scanRequestCancelInfoMapsRow_def
            requestCancelInfoTableName_def requestCancelInfoKey_def requestCancelInfoColumns_def
            restrict_map_def)
  have wR: "(\<exists>row\<in>set (fst (fst (SelectFromRequestCancelInfoMaps example_db
      example_cancel_filter example_backend))).
       RequestCancelInfoMapsRow.ShardID row = 3 \<and> RequestCancelInfoMapsRow.DomainID row = ''d''
           \<and>
       RequestCancelInfoMapsRow.WorkflowID row = ''w'' \<and> RequestCancelInfoMapsRow.RunID row =
           ''r'')"
    using t nR
    by (cases "fst (fst (SelectFromRequestCancelInfoMaps example_db example_cancel_filter
        example_backend))")
       (auto simp: example_cancel_filter_def)
  have nS: "fst (fst (SelectFromSignalInfoMaps example_db example_signal_filter example_backend))
      \<noteq> []"
    by (simp add: SelectFromSignalInfoMaps_def SelectContext_def prepare_getSignalInfoMapQry
        conds_ok_identity
        matches_identity in_execution_def example_db_def example_backend_def example_signal_def
        example_signal_filter_def bindSignalInfoMapsRow_def scanSignalInfoMapsRow_def
            signalInfoTableName_def signalInfoKey_def signalInfoColumns_def restrict_map_def)
  have wS: "(\<exists>row\<in>set (fst (fst (SelectFromSignalInfoMaps example_db
      example_signal_filter example_backend))).
       SignalInfoMapsRow.ShardID row = 3 \<and> SignalInfoMapsRow.DomainID row = ''d'' \<and>
       SignalInfoMapsRow.WorkflowID row = ''w'' \<and> SignalInfoMapsRow.RunID row = ''r'')"
    using t nS
    by (cases "fst (fst (SelectFromSignalInfoMaps example_db example_signal_filter
        example_backend))")
       (auto simp: example_signal_filter_def)
  have nQ: "fst (fst (SelectFromSignalsRequestedSets example_db example_requested_filter
      example_backend)) \<noteq> []"
    by (simp add: SelectFromSignalsRequestedSets_def SelectContext_def
        prepare_getSignalsRequestedSetQuery conds_ok_identity
        matches_identity in_execution_def example_db_def example_backend_def example_requested_def
        example_requested_filter_def bindSignalsRequestedSetsRow_def scanSignalsRequestedSetsRow_def
            restrict_map_def)
  have wQ: "(\<exists>row\<in>set (fst (fst (SelectFromSignalsRequestedSets example_db
      example_requested_filter example_backend))).
       SignalsRequestedSetsRow.ShardID row = 3 \<and> SignalsRequestedSetsRow.DomainID row = ''d''
           \<and>
       SignalsRequestedSetsRow.WorkflowID row = ''w'' \<and> SignalsRequestedSetsRow.RunID row =
           ''r'')"
    using t nQ
    by (cases "fst (fst (SelectFromSignalsRequestedSets example_db example_requested_filter
        example_backend))")
       (auto simp: example_requested_filter_def)
  show ?thesis
    by (rule conjI[OF wA conjI[OF wT conjI[OF wC conjI[OF wR conjI[OF wS wQ]]]]])
qed

text \<open>
  Claim C6. For every collection kind: when the filter carries keys and the expansion of
  the list after \<^verbatim>\<open>IN\<close> fails, whatever \<^verbatim>\<open>sqlx.In\<close> is, the delete operation returns
  that error and the backend state is the one before the call: nothing was handed to the
  driver and no table changed.
\<close>

theorem delete_expansion_error_aborts:
  "(ActivityInfoMapsFilter.ScheduleIDs fA \<noteq> [] \<and>
     sqlxIn pdb deleteKeyInActivityInfoMapQry
       [Scalar (VInt64 (ActivityInfoMapsFilter.ShardID fA)), Scalar (VBytes
           (ActivityInfoMapsFilter.DomainID fA)),
          Scalar (VString (ActivityInfoMapsFilter.WorkflowID fA)), Scalar (VBytes
              (ActivityInfoMapsFilter.RunID fA)),
          Slice (map VInt64 (ActivityInfoMapsFilter.ScheduleIDs fA))] = Inl err \<longrightarrow>
     DeleteFromActivityInfoMaps pdb fA s = (Inl err, s)) \<and>
   (TimerInfoMapsFilter.TimerIDs fT \<noteq> [] \<and>
     sqlxIn pdb deleteKeyInTimerInfoMapSQLQuery
       [Scalar (VInt64 (TimerInfoMapsFilter.ShardID fT)), Scalar (VBytes
           (TimerInfoMapsFilter.DomainID fT)),
          Scalar (VString (TimerInfoMapsFilter.WorkflowID fT)), Scalar (VBytes
              (TimerInfoMapsFilter.RunID fT)),
          Slice (map VString (TimerInfoMapsFilter.TimerIDs fT))] = Inl err \<longrightarrow>
     DeleteFromTimerInfoMaps pdb fT s = (Inl err, s)) \<and>
   (ChildExecutionInfoMapsFilter.InitiatedIDs fC \<noteq> [] \<and>
     sqlxIn pdb deleteKeyInChildExecutionInfoMapQry
       [Scalar (VInt64 (ChildExecutionInfoMapsFilter.ShardID fC)), Scalar (VBytes
           (ChildExecutionInfoMapsFilter.DomainID fC)),
          Scalar (VString (ChildExecutionInfoMapsFilter.WorkflowID fC)), Scalar (VBytes
              (ChildExecutionInfoMapsFilter.RunID fC)),
          Slice (map VInt64 (ChildExecutionInfoMapsFilter.InitiatedIDs fC))] = Inl err
              \<longrightarrow>
     DeleteFromChildExecutionInfoMaps pdb fC s = (Inl err, s)) \<and>
   (RequestCancelInfoMapsFilter.InitiatedIDs fR \<noteq> [] \<and>
     sqlxIn pdb deleteKeyInRequestCancelInfoMapQry
       [Scalar (VInt64 (RequestCancelInfoMapsFilter.ShardID fR)), Scalar (VBytes
           (RequestCancelInfoMapsFilter.DomainID fR)),
          Scalar (VString (RequestCancelInfoMapsFilter.WorkflowID fR)), Scalar (VBytes
              (RequestCancelInfoMapsFilter.RunID fR)),
          Slice (map VInt64 (RequestCancelInfoMapsFilter.InitiatedIDs fR))] = Inl err
              \<longrightarrow>
     DeleteFromRequestCancelInfoMaps pdb fR s = (Inl err, s)) \<and>
   (SignalInfoMapsFilter.InitiatedIDs fS \<noteq> [] \<and>
     sqlxIn pdb deleteKeyInSignalInfoMapQry
       [Scalar (VInt64 (SignalInfoMapsFilter.ShardID fS)), Scalar (VBytes
           (SignalInfoMapsFilter.DomainID fS)),
          Scalar (VString (SignalInfoMapsFilter.WorkflowID fS)), Scalar (VBytes
              (SignalInfoMapsFilter.RunID fS)),
          Slice (map VInt64 (SignalInfoMapsFilter.InitiatedIDs fS))] = Inl err \<longrightarrow>
     DeleteFromSignalInfoMaps pdb fS s = (Inl err, s)) \<and>
   (SignalsRequestedSetsFilter.SignalIDs fQ \<noteq> [] \<and>
     sqlxIn pdb deleteSignalsRequestedSetQuery
       [Scalar (VInt64 (SignalsRequestedSetsFilter.ShardID fQ)), Scalar (VBytes
           (SignalsRequestedSetsFilter.DomainID fQ)),
          Scalar (VString (SignalsRequestedSetsFilter.WorkflowID fQ)), Scalar (VBytes
              (SignalsRequestedSetsFilter.RunID fQ)),
          Slice (map VString (SignalsRequestedSetsFilter.SignalIDs fQ))] = Inl err \<longrightarrow>
     DeleteFromSignalsRequestedSets pdb fQ s = (Inl err, s))"
proof -
  have kA: "ActivityInfoMapsFilter.ScheduleIDs fA \<noteq> [] \<and>
     sqlxIn pdb deleteKeyInActivityInfoMapQry
       [Scalar (VInt64 (ActivityInfoMapsFilter.ShardID fA)), Scalar (VBytes
           (ActivityInfoMapsFilter.DomainID fA)),
          Scalar (VString (ActivityInfoMapsFilter.WorkflowID fA)), Scalar (VBytes
              (ActivityInfoMapsFilter.RunID fA)),
          Slice (map VInt64 (ActivityInfoMapsFilter.ScheduleIDs fA))] = Inl err \<longrightarrow>
     DeleteFromActivityInfoMaps pdb fA s = (Inl err, s)"
    by (simp add: DeleteFromActivityInfoMaps_def Let_def)
  have kT: "TimerInfoMapsFilter.TimerIDs fT \<noteq> [] \<and>
     sqlxIn pdb deleteKeyInTimerInfoMapSQLQuery
       [Scalar (VInt64 (TimerInfoMapsFilter.ShardID fT)), Scalar (VBytes
           (TimerInfoMapsFilter.DomainID fT)),
          Scalar (VString (TimerInfoMapsFilter.WorkflowID fT)), Scalar (VBytes
              (TimerInfoMapsFilter.RunID fT)),
          Slice (map VString (TimerInfoMapsFilter.TimerIDs fT))] = Inl err \<longrightarrow>
     DeleteFromTimerInfoMaps pdb fT s = (Inl err, s)"
    by (simp add: DeleteFromTimerInfoMaps_def Let_def)
  have kC: "ChildExecutionInfoMapsFilter.InitiatedIDs fC \<noteq> [] \<and>
     sqlxIn pdb deleteKeyInChildExecutionInfoMapQry
       [Scalar (VInt64 (ChildExecutionInfoMapsFilter.ShardID fC)), Scalar (VBytes
           (ChildExecutionInfoMapsFilter.DomainID fC)),
          Scalar (VString (ChildExecutionInfoMapsFilter.WorkflowID fC)), Scalar (VBytes
              (ChildExecutionInfoMapsFilter.RunID fC)),
          Slice (map VInt64 (ChildExecutionInfoMapsFilter.InitiatedIDs fC))] = Inl err
              \<longrightarrow>
     DeleteFromChildExecutionInfoMaps pdb fC s = (Inl err, s)"
    by (simp add: DeleteFromChildExecutionInfoMaps_def Let_def)
  have kR: "RequestCancelInfoMapsFilter.InitiatedIDs fR \<noteq> [] \<and>
     sqlxIn pdb deleteKeyInRequestCancelInfoMapQry
       [Scalar (VInt64 (RequestCancelInfoMapsFilter.ShardID fR)), Scalar (VBytes
           (RequestCancelInfoMapsFilter.DomainID fR)),
          Scalar (VString (RequestCancelInfoMapsFilter.WorkflowID fR)), Scalar (VBytes
              (RequestCancelInfoMapsFilter.RunID fR)),
          Slice (map VInt64 (RequestCancelInfoMapsFilter.InitiatedIDs fR))] = Inl err
              \<longrightarrow>
     DeleteFromRequestCancelInfoMaps pdb fR s = (Inl err, s)"
    by (simp add: DeleteFromRequestCancelInfoMaps_def Let_def)
  have kS: "SignalInfoMapsFilter.InitiatedIDs fS \<noteq> [] \<and>
     sqlxIn pdb deleteKeyInSignalInfoMapQry
       [Scalar (VInt64 (SignalInfoMapsFilter.ShardID fS)), Scalar (VBytes
           (SignalInfoMapsFilter.DomainID fS)),
          Scalar (VString (SignalInfoMapsFilter.WorkflowID fS)), Scalar (VBytes
              (SignalInfoMapsFilter.RunID fS)),
          Slice (map VInt64 (SignalInfoMapsFilter.InitiatedIDs fS))] = Inl err \<longrightarrow>
     DeleteFromSignalInfoMaps pdb fS s = (Inl err, s)"
    by (simp add: DeleteFromSignalInfoMaps_def Let_def)
  have kQ: "SignalsRequestedSetsFilter.SignalIDs fQ \<noteq> [] \<and>
     sqlxIn pdb deleteSignalsRequestedSetQuery
       [Scalar (VInt64 (SignalsRequestedSetsFilter.ShardID fQ)), Scalar (VBytes
           (SignalsRequestedSetsFilter.DomainID fQ)),
          Scalar (VString (SignalsRequestedSetsFilter.WorkflowID fQ)), Scalar (VBytes
              (SignalsRequestedSetsFilter.RunID fQ)),
          Slice (map VString (SignalsRequestedSetsFilter.SignalIDs fQ))] = Inl err \<longrightarrow>
     DeleteFromSignalsRequestedSets pdb fQ s = (Inl err, s)"
    by (simp add: DeleteFromSignalsRequestedSets_def Let_def)
  show ?thesis
    by (rule conjI[OF kA conjI[OF kT conjI[OF kC conjI[OF kR conjI[OF kS kQ]]]]])
qed

theorem delete_expansion_error_aborts_witness:
  "ActivityInfoMapsFilter.ScheduleIDs example_activity_filter_key \<noteq> [] \<and>
   DeleteFromActivityInfoMaps failing_db example_activity_filter_key example_backend =
     (Inl (OtherError ''in''), example_backend) \<and>
   TimerInfoMapsFilter.TimerIDs example_timer_filter_key \<noteq> [] \<and>
   DeleteFromTimerInfoMaps failing_db example_timer_filter_key example_backend =
     (Inl (OtherError ''in''), example_backend) \<and>
   ChildExecutionInfoMapsFilter.InitiatedIDs example_child_filter_key \<noteq> [] \<and>
   DeleteFromChildExecutionInfoMaps failing_db example_child_filter_key example_backend =
     (Inl (OtherError ''in''), example_backend) \<and>
   RequestCancelInfoMapsFilter.InitiatedIDs example_cancel_filter_key \<noteq> [] \<and>
   DeleteFromRequestCancelInfoMaps failing_db example_cancel_filter_key example_backend =
     (Inl (OtherError ''in''), example_backend) \<and>
   SignalInfoMapsFilter.InitiatedIDs example_signal_filter_key \<noteq> [] \<and>
   DeleteFromSignalInfoMaps failing_db example_signal_filter_key example_backend =
     (Inl (OtherError ''in''), example_backend) \<and>
   SignalsRequestedSetsFilter.SignalIDs example_requested_filter_key \<noteq> [] \<and>
   DeleteFromSignalsRequestedSets failing_db example_requested_filter_key example_backend =
     (Inl (OtherError ''in''), example_backend)"
  using delete_expansion_error_aborts[where pdb = failing_db and s = example_backend and
      err = "OtherError ''in''" and
      fA = "example_activity_filter_key" and fT = "example_timer_filter_key" and fC =
          "example_child_filter_key" and fR = "example_cancel_filter_key" and fS =
          "example_signal_filter_key" and fQ = "example_requested_filter_key"]
  by (simp add: failing_db_def example_db_def
      example_activity_filter_def example_activity_filter_key_def example_timer_filter_def
          example_timer_filter_key_def example_child_filter_def example_child_filter_key_def
          example_cancel_filter_def example_cancel_filter_key_def example_signal_filter_def
          example_signal_filter_key_def example_requested_filter_def
          example_requested_filter_key_def)

text \<open>
  Claim C7. For every collection kind, the tables after a delete are the tables before it
  except for the table of the kind on the routed shard, which keeps, in their order, exactly
  the rows that the delete does not match. With keys (and \<^verbatim>\<open>sqlx.In\<close> the library function)
  a row is matched when it has the four identity values of the filter and its key is one of
  the keys; with no key a row is matched when it has the four identity values of the filter.
  So a row of the same execution with another key, a row of another execution on the same
  shard, and every row of another table or shard are unchanged.
\<close>

theorem delete_touches_only_matching_rows:
  "((ActivityInfoMapsFilter.ScheduleIDs fA \<noteq> [] \<and> sqlxIn pdb = sqlx_In \<longrightarrow>
       tables (snd (DeleteFromActivityInfoMaps pdb fA s)) =
         (tables s)(((GetDBShardIDFromHistoryShardID pdb (ActivityInfoMapsFilter.ShardID fA)
             (GetTotalNumDBShards pdb)), activityInfoTableName) :=
            filter (\<lambda>row. \<not> (in_execution (ActivityInfoMapsFilter.ShardID fA)
                (ActivityInfoMapsFilter.DomainID fA)
                             (ActivityInfoMapsFilter.WorkflowID fA) (ActivityInfoMapsFilter.RunID
                                 fA) row \<and>
                           row activityInfoKey \<in> Some ` VInt64 ` set
                               (ActivityInfoMapsFilter.ScheduleIDs fA)))
              (tables s ((GetDBShardIDFromHistoryShardID pdb (ActivityInfoMapsFilter.ShardID fA)
                  (GetTotalNumDBShards pdb)), activityInfoTableName)))) \<and>
    (ActivityInfoMapsFilter.ScheduleIDs fA = [] \<longrightarrow>
       tables (snd (DeleteFromActivityInfoMaps pdb fA s)) =
         (tables s)(((GetDBShardIDFromHistoryShardID pdb (ActivityInfoMapsFilter.ShardID fA)
             (GetTotalNumDBShards pdb)), activityInfoTableName) :=
            filter (\<lambda>row. \<not> in_execution (ActivityInfoMapsFilter.ShardID fA)
                (ActivityInfoMapsFilter.DomainID fA)
                             (ActivityInfoMapsFilter.WorkflowID fA) (ActivityInfoMapsFilter.RunID
                                 fA) row)
              (tables s ((GetDBShardIDFromHistoryShardID pdb (ActivityInfoMapsFilter.ShardID fA)
                  (GetTotalNumDBShards pdb)), activityInfoTableName))))) \<and>
   ((TimerInfoMapsFilter.TimerIDs fT \<noteq> [] \<and> sqlxIn pdb = sqlx_In \<longrightarrow>
       tables (snd (DeleteFromTimerInfoMaps pdb fT s)) =
         (tables s)(((GetDBShardIDFromHistoryShardID pdb (TimerInfoMapsFilter.ShardID fT)
             (GetTotalNumDBShards pdb)), timerInfoTableName) :=
            filter (\<lambda>row. \<not> (in_execution (TimerInfoMapsFilter.ShardID fT)
                (TimerInfoMapsFilter.DomainID fT)
                             (TimerInfoMapsFilter.WorkflowID fT) (TimerInfoMapsFilter.RunID fT) row
                                 \<and>
                           row timerInfoKey \<in> Some ` VString ` set (TimerInfoMapsFilter.TimerIDs
                               fT)))
              (tables s ((GetDBShardIDFromHistoryShardID pdb (TimerInfoMapsFilter.ShardID fT)
                  (GetTotalNumDBShards pdb)), timerInfoTableName)))) \<and>
    (TimerInfoMapsFilter.TimerIDs fT = [] \<longrightarrow>
       tables (snd (DeleteFromTimerInfoMaps pdb fT s)) =
         (tables s)(((GetDBShardIDFromHistoryShardID pdb (TimerInfoMapsFilter.ShardID fT)
             (GetTotalNumDBShards pdb)), timerInfoTableName) :=
            filter (\<lambda>row. \<not> in_execution (TimerInfoMapsFilter.ShardID fT)
                (TimerInfoMapsFilter.DomainID fT)
                             (TimerInfoMapsFilter.WorkflowID fT) (TimerInfoMapsFilter.RunID fT) row)
              (tables s ((GetDBShardIDFromHistoryShardID pdb (TimerInfoMapsFilter.ShardID fT)
                  (GetTotalNumDBShards pdb)), timerInfoTableName))))) \<and>
   ((ChildExecutionInfoMapsFilter.InitiatedIDs fC \<noteq> [] \<and> sqlxIn pdb = sqlx_In
       \<longrightarrow>
       tables (snd (DeleteFromChildExecutionInfoMaps pdb fC s)) =
         (tables s)(((GetDBShardIDFromHistoryShardID pdb (ChildExecutionInfoMapsFilter.ShardID fC)
             (GetTotalNumDBShards pdb)), childExecutionInfoTableName) :=
            filter (\<lambda>row. \<not> (in_execution (ChildExecutionInfoMapsFilter.ShardID fC)
                (ChildExecutionInfoMapsFilter.DomainID fC)
                             (ChildExecutionInfoMapsFilter.WorkflowID fC)
                                 (ChildExecutionInfoMapsFilter.RunID fC) row \<and>
                           row childExecutionInfoKey \<in> Some ` VInt64 ` set
                               (ChildExecutionInfoMapsFilter.InitiatedIDs fC)))
              (tables s ((GetDBShardIDFromHistoryShardID pdb (ChildExecutionInfoMapsFilter.ShardID
                  fC) (GetTotalNumDBShards pdb)), childExecutionInfoTableName)))) \<and>
    (ChildExecutionInfoMapsFilter.InitiatedIDs fC = [] \<longrightarrow>
       tables (snd (DeleteFromChildExecutionInfoMaps pdb fC s)) =
         (tables s)(((GetDBShardIDFromHistoryShardID pdb (ChildExecutionInfoMapsFilter.ShardID fC)
             (GetTotalNumDBShards pdb)), childExecutionInfoTableName) :=
            filter (\<lambda>row. \<not> in_execution (ChildExecutionInfoMapsFilter.ShardID fC)
                (ChildExecutionInfoMapsFilter.DomainID fC)
                             (ChildExecutionInfoMapsFilter.WorkflowID fC)
                                 (ChildExecutionInfoMapsFilter.RunID fC) row)
              (tables s ((GetDBShardIDFromHistoryShardID pdb (ChildExecutionInfoMapsFilter.ShardID
                  fC) (GetTotalNumDBShards pdb)), childExecutionInfoTableName))))) \<and>
   ((RequestCancelInfoMapsFilter.InitiatedIDs fR \<noteq> [] \<and> sqlxIn pdb = sqlx_In
       \<longrightarrow>
       tables (snd (DeleteFromRequestCancelInfoMaps pdb fR s)) =
         (tables s)(((GetDBShardIDFromHistoryShardID pdb (RequestCancelInfoMapsFilter.ShardID fR)
             (GetTotalNumDBShards pdb)), requestCancelInfoTableName) :=
            filter (\<lambda>row. \<not> (in_execution (RequestCancelInfoMapsFilter.ShardID fR)
                (RequestCancelInfoMapsFilter.DomainID fR)
                             (RequestCancelInfoMapsFilter.WorkflowID fR)
                                 (RequestCancelInfoMapsFilter.RunID fR) row \<and>
                           row requestCancelInfoKey \<in> Some ` VInt64 ` set
                               (RequestCancelInfoMapsFilter.InitiatedIDs fR)))
              (tables s ((GetDBShardIDFromHistoryShardID pdb (RequestCancelInfoMapsFilter.ShardID
                  fR) (GetTotalNumDBShards pdb)), requestCancelInfoTableName)))) \<and>
    (RequestCancelInfoMapsFilter.InitiatedIDs fR = [] \<longrightarrow>
       tables (snd (DeleteFromRequestCancelInfoMaps pdb fR s)) =
         (tables s)(((GetDBShardIDFromHistoryShardID pdb (RequestCancelInfoMapsFilter.ShardID fR)
             (GetTotalNumDBShards pdb)), requestCancelInfoTableName) :=
            filter (\<lambda>row. \<not> in_execution (RequestCancelInfoMapsFilter.ShardID fR)
                (RequestCancelInfoMapsFilter.DomainID fR)
                             (RequestCancelInfoMapsFilter.WorkflowID fR)
                                 (RequestCancelInfoMapsFilter.RunID fR) row)
              (tables s ((GetDBShardIDFromHistoryShardID pdb (RequestCancelInfoMapsFilter.ShardID
                  fR) (GetTotalNumDBShards pdb)), requestCancelInfoTableName))))) \<and>
   ((SignalInfoMapsFilter.InitiatedIDs fS \<noteq> [] \<and> sqlxIn pdb = sqlx_In \<longrightarrow>
       tables (snd (DeleteFromSignalInfoMaps pdb fS s)) =
         (tables s)(((GetDBShardIDFromHistoryShardID pdb (SignalInfoMapsFilter.ShardID fS)
             (GetTotalNumDBShards pdb)), signalInfoTableName) :=
            filter (\<lambda>row. \<not> (in_execution (SignalInfoMapsFilter.ShardID fS)
                (SignalInfoMapsFilter.DomainID fS)
                             (SignalInfoMapsFilter.WorkflowID fS) (SignalInfoMapsFilter.RunID fS)
                                 row \<and>
                           row signalInfoKey \<in> Some ` VInt64 ` set
                               (SignalInfoMapsFilter.InitiatedIDs fS)))
              (tables s ((GetDBShardIDFromHistoryShardID pdb (SignalInfoMapsFilter.ShardID fS)
                  (GetTotalNumDBShards pdb)), signalInfoTableName)))) \<and>
    (SignalInfoMapsFilter.InitiatedIDs fS = [] \<longrightarrow>
       tables (snd (DeleteFromSignalInfoMaps pdb fS s)) =
         (tables s)(((GetDBShardIDFromHistoryShardID pdb (SignalInfoMapsFilter.ShardID fS)
             (GetTotalNumDBShards pdb)), signalInfoTableName) :=
            filter (\<lambda>row. \<not> in_execution (SignalInfoMapsFilter.ShardID fS)
                (SignalInfoMapsFilter.DomainID fS)
                             (SignalInfoMapsFilter.WorkflowID fS) (SignalInfoMapsFilter.RunID fS)
                                 row)
              (tables s ((GetDBShardIDFromHistoryShardID pdb (SignalInfoMapsFilter.ShardID fS)
                  (GetTotalNumDBShards pdb)), signalInfoTableName))))) \<and>
   ((SignalsRequestedSetsFilter.SignalIDs fQ \<noteq> [] \<and> sqlxIn pdb = sqlx_In
       \<longrightarrow>
       tables (snd (DeleteFromSignalsRequestedSets pdb fQ s)) =
         (tables s)(((GetDBShardIDFromHistoryShardID pdb (SignalsRequestedSetsFilter.ShardID fQ)
             (GetTotalNumDBShards pdb)), ''signals_requested_sets'') :=
            filter (\<lambda>row. \<not> (in_execution (SignalsRequestedSetsFilter.ShardID fQ)
                (SignalsRequestedSetsFilter.DomainID fQ)
                             (SignalsRequestedSetsFilter.WorkflowID fQ)
                                 (SignalsRequestedSetsFilter.RunID fQ) row \<and>
                           row ''signal_id'' \<in> Some ` VString ` set
                               (SignalsRequestedSetsFilter.SignalIDs fQ)))
              (tables s ((GetDBShardIDFromHistoryShardID pdb (SignalsRequestedSetsFilter.ShardID fQ)
                  (GetTotalNumDBShards pdb)), ''signals_requested_sets'')))) \<and>
    (SignalsRequestedSetsFilter.SignalIDs fQ = [] \<longrightarrow>
       tables (snd (DeleteFromSignalsRequestedSets pdb fQ s)) =
         (tables s)(((GetDBShardIDFromHistoryShardID pdb (SignalsRequestedSetsFilter.ShardID fQ)
             (GetTotalNumDBShards pdb)), ''signals_requested_sets'') :=
            filter (\<lambda>row. \<not> in_execution (SignalsRequestedSetsFilter.ShardID fQ)
                (SignalsRequestedSetsFilter.DomainID fQ)
                             (SignalsRequestedSetsFilter.WorkflowID fQ)
                                 (SignalsRequestedSetsFilter.RunID fQ) row)
              (tables s ((GetDBShardIDFromHistoryShardID pdb (SignalsRequestedSetsFilter.ShardID fQ)
                  (GetTotalNumDBShards pdb)), ''signals_requested_sets'')))))"
proof -
  have kA: "(ActivityInfoMapsFilter.ScheduleIDs fA \<noteq> [] \<and> sqlxIn pdb = sqlx_In
      \<longrightarrow>
       tables (snd (DeleteFromActivityInfoMaps pdb fA s)) =
         (tables s)(((GetDBShardIDFromHistoryShardID pdb (ActivityInfoMapsFilter.ShardID fA)
             (GetTotalNumDBShards pdb)), activityInfoTableName) :=
            filter (\<lambda>row. \<not> (in_execution (ActivityInfoMapsFilter.ShardID fA)
                (ActivityInfoMapsFilter.DomainID fA)
                             (ActivityInfoMapsFilter.WorkflowID fA) (ActivityInfoMapsFilter.RunID
                                 fA) row \<and>
                           row activityInfoKey \<in> Some ` VInt64 ` set
                               (ActivityInfoMapsFilter.ScheduleIDs fA)))
              (tables s ((GetDBShardIDFromHistoryShardID pdb (ActivityInfoMapsFilter.ShardID fA)
                  (GetTotalNumDBShards pdb)), activityInfoTableName)))) \<and>
    (ActivityInfoMapsFilter.ScheduleIDs fA = [] \<longrightarrow>
       tables (snd (DeleteFromActivityInfoMaps pdb fA s)) =
         (tables s)(((GetDBShardIDFromHistoryShardID pdb (ActivityInfoMapsFilter.ShardID fA)
             (GetTotalNumDBShards pdb)), activityInfoTableName) :=
            filter (\<lambda>row. \<not> in_execution (ActivityInfoMapsFilter.ShardID fA)
                (ActivityInfoMapsFilter.DomainID fA)
                             (ActivityInfoMapsFilter.WorkflowID fA) (ActivityInfoMapsFilter.RunID
                                 fA) row)
              (tables s ((GetDBShardIDFromHistoryShardID pdb (ActivityInfoMapsFilter.ShardID fA)
                  (GetTotalNumDBShards pdb)), activityInfoTableName))))"
    by (simp add: DeleteFromActivityInfoMaps_keys DeleteFromActivityInfoMaps_all)
  have kT: "(TimerInfoMapsFilter.TimerIDs fT \<noteq> [] \<and> sqlxIn pdb = sqlx_In
      \<longrightarrow>
       tables (snd (DeleteFromTimerInfoMaps pdb fT s)) =
         (tables s)(((GetDBShardIDFromHistoryShardID pdb (TimerInfoMapsFilter.ShardID fT)
             (GetTotalNumDBShards pdb)), timerInfoTableName) :=
            filter (\<lambda>row. \<not> (in_execution (TimerInfoMapsFilter.ShardID fT)
                (TimerInfoMapsFilter.DomainID fT)
                             (TimerInfoMapsFilter.WorkflowID fT) (TimerInfoMapsFilter.RunID fT) row
                                 \<and>
                           row timerInfoKey \<in> Some ` VString ` set (TimerInfoMapsFilter.TimerIDs
                               fT)))
              (tables s ((GetDBShardIDFromHistoryShardID pdb (TimerInfoMapsFilter.ShardID fT)
                  (GetTotalNumDBShards pdb)), timerInfoTableName)))) \<and>
    (TimerInfoMapsFilter.TimerIDs fT = [] \<longrightarrow>
       tables (snd (DeleteFromTimerInfoMaps pdb fT s)) =
         (tables s)(((GetDBShardIDFromHistoryShardID pdb (TimerInfoMapsFilter.ShardID fT)
             (GetTotalNumDBShards pdb)), timerInfoTableName) :=
            filter (\<lambda>row. \<not> in_execution (TimerInfoMapsFilter.ShardID fT)
                (TimerInfoMapsFilter.DomainID fT)
                             (TimerInfoMapsFilter.WorkflowID fT) (TimerInfoMapsFilter.RunID fT) row)
              (tables s ((GetDBShardIDFromHistoryShardID pdb (TimerInfoMapsFilter.ShardID fT)
                  (GetTotalNumDBShards pdb)), timerInfoTableName))))"
    by (simp add: DeleteFromTimerInfoMaps_keys DeleteFromTimerInfoMaps_all)
  have kC: "(ChildExecutionInfoMapsFilter.InitiatedIDs fC \<noteq> [] \<and> sqlxIn pdb = sqlx_In
      \<longrightarrow>
       tables (snd (DeleteFromChildExecutionInfoMaps pdb fC s)) =
         (tables s)(((GetDBShardIDFromHistoryShardID pdb (ChildExecutionInfoMapsFilter.ShardID fC)
             (GetTotalNumDBShards pdb)), childExecutionInfoTableName) :=
            filter (\<lambda>row. \<not> (in_execution (ChildExecutionInfoMapsFilter.ShardID fC)
                (ChildExecutionInfoMapsFilter.DomainID fC)
                             (ChildExecutionInfoMapsFilter.WorkflowID fC)
                                 (ChildExecutionInfoMapsFilter.RunID fC) row \<and>
                           row childExecutionInfoKey \<in> Some ` VInt64 ` set
                               (ChildExecutionInfoMapsFilter.InitiatedIDs fC)))
              (tables s ((GetDBShardIDFromHistoryShardID pdb (ChildExecutionInfoMapsFilter.ShardID
                  fC) (GetTotalNumDBShards pdb)), childExecutionInfoTableName)))) \<and>
    (ChildExecutionInfoMapsFilter.InitiatedIDs fC = [] \<longrightarrow>
       tables (snd (DeleteFromChildExecutionInfoMaps pdb fC s)) =
         (tables s)(((GetDBShardIDFromHistoryShardID pdb (ChildExecutionInfoMapsFilter.ShardID fC)
             (GetTotalNumDBShards pdb)), childExecutionInfoTableName) :=
            filter (\<lambda>row. \<not> in_execution (ChildExecutionInfoMapsFilter.ShardID fC)
                (ChildExecutionInfoMapsFilter.DomainID fC)
                             (ChildExecutionInfoMapsFilter.WorkflowID fC)
                                 (ChildExecutionInfoMapsFilter.RunID fC) row)
              (tables s ((GetDBShardIDFromHistoryShardID pdb (ChildExecutionInfoMapsFilter.ShardID
                  fC) (GetTotalNumDBShards pdb)), childExecutionInfoTableName))))"
    by (simp add: DeleteFromChildExecutionInfoMaps_keys DeleteFromChildExecutionInfoMaps_all)
  have kR: "(RequestCancelInfoMapsFilter.InitiatedIDs fR \<noteq> [] \<and> sqlxIn pdb = sqlx_In
      \<longrightarrow>
       tables (snd (DeleteFromRequestCancelInfoMaps pdb fR s)) =
         (tables s)(((GetDBShardIDFromHistoryShardID pdb (RequestCancelInfoMapsFilter.ShardID fR)
             (GetTotalNumDBShards pdb)), requestCancelInfoTableName) :=
            filter (\<lambda>row. \<not> (in_execution (RequestCancelInfoMapsFilter.ShardID fR)
                (RequestCancelInfoMapsFilter.DomainID fR)
                             (RequestCancelInfoMapsFilter.WorkflowID fR)
                                 (RequestCancelInfoMapsFilter.RunID fR) row \<and>
                           row requestCancelInfoKey \<in> Some ` VInt64 ` set
                               (RequestCancelInfoMapsFilter.InitiatedIDs fR)))
              (tables s ((GetDBShardIDFromHistoryShardID pdb (RequestCancelInfoMapsFilter.ShardID
                  fR) (GetTotalNumDBShards pdb)), requestCancelInfoTableName)))) \<and>
    (RequestCancelInfoMapsFilter.InitiatedIDs fR = [] \<longrightarrow>
       tables (snd (DeleteFromRequestCancelInfoMaps pdb fR s)) =
         (tables s)(((GetDBShardIDFromHistoryShardID pdb (RequestCancelInfoMapsFilter.ShardID fR)
             (GetTotalNumDBShards pdb)), requestCancelInfoTableName) :=
            filter (\<lambda>row. \<not> in_execution (RequestCancelInfoMapsFilter.ShardID fR)
                (RequestCancelInfoMapsFilter.DomainID fR)
                             (RequestCancelInfoMapsFilter.WorkflowID fR)
                                 (RequestCancelInfoMapsFilter.RunID fR) row)
              (tables s ((GetDBShardIDFromHistoryShardID pdb (RequestCancelInfoMapsFilter.ShardID
                  fR) (GetTotalNumDBShards pdb)), requestCancelInfoTableName))))"
    by (simp add: DeleteFromRequestCancelInfoMaps_keys DeleteFromRequestCancelInfoMaps_all)
  have kS: "(SignalInfoMapsFilter.InitiatedIDs fS \<noteq> [] \<and> sqlxIn pdb = sqlx_In
      \<longrightarrow>
       tables (snd (DeleteFromSignalInfoMaps pdb fS s)) =
         (tables s)(((GetDBShardIDFromHistoryShardID pdb (SignalInfoMapsFilter.ShardID fS)
             (GetTotalNumDBShards pdb)), signalInfoTableName) :=
            filter (\<lambda>row. \<not> (in_execution (SignalInfoMapsFilter.ShardID fS)
                (SignalInfoMapsFilter.DomainID fS)
                             (SignalInfoMapsFilter.WorkflowID fS) (SignalInfoMapsFilter.RunID fS)
                                 row \<and>
                           row signalInfoKey \<in> Some ` VInt64 ` set
                               (SignalInfoMapsFilter.InitiatedIDs fS)))
              (tables s ((GetDBShardIDFromHistoryShardID pdb (SignalInfoMapsFilter.ShardID fS)
                  (GetTotalNumDBShards pdb)), signalInfoTableName)))) \<and>
    (SignalInfoMapsFilter.InitiatedIDs fS = [] \<longrightarrow>
       tables (snd (DeleteFromSignalInfoMaps pdb fS s)) =
         (tables s)(((GetDBShardIDFromHistoryShardID pdb (SignalInfoMapsFilter.ShardID fS)
             (GetTotalNumDBShards pdb)), signalInfoTableName) :=
            filter (\<lambda>row. \<not> in_execution (SignalInfoMapsFilter.ShardID fS)
                (SignalInfoMapsFilter.DomainID fS)
                             (SignalInfoMapsFilter.WorkflowID fS) (SignalInfoMapsFilter.RunID fS)
                                 row)
              (tables s ((GetDBShardIDFromHistoryShardID pdb (SignalInfoMapsFilter.ShardID fS)
                  (GetTotalNumDBShards pdb)), signalInfoTableName))))"
    by (simp add: DeleteFromSignalInfoMaps_keys DeleteFromSignalInfoMaps_all)
  have kQ: "(SignalsRequestedSetsFilter.SignalIDs fQ \<noteq> [] \<and> sqlxIn pdb = sqlx_In
      \<longrightarrow>
       tables (snd (DeleteFromSignalsRequestedSets pdb fQ s)) =
         (tables s)(((GetDBShardIDFromHistoryShardID pdb (SignalsRequestedSetsFilter.ShardID fQ)
             (GetTotalNumDBShards pdb)), ''signals_requested_sets'') :=
            filter (\<lambda>row. \<not> (in_execution (SignalsRequestedSetsFilter.ShardID fQ)
                (SignalsRequestedSetsFilter.DomainID fQ)
                             (SignalsRequestedSetsFilter.WorkflowID fQ)
                                 (SignalsRequestedSetsFilter.RunID fQ) row \<and>
                           row ''signal_id'' \<in> Some ` VString ` set
                               (SignalsRequestedSetsFilter.SignalIDs fQ)))
              (tables s ((GetDBShardIDFromHistoryShardID pdb (SignalsRequestedSetsFilter.ShardID fQ)
                  (GetTotalNumDBShards pdb)), ''signals_requested_sets'')))) \<and>
    (SignalsRequestedSetsFilter.SignalIDs fQ = [] \<longrightarrow>
       tables (snd (DeleteFromSignalsRequestedSets pdb fQ s)) =
         (tables s)(((GetDBShardIDFromHistoryShardID pdb (SignalsRequestedSetsFilter.ShardID fQ)
             (GetTotalNumDBShards pdb)), ''signals_requested_sets'') :=
            filter (\<lambda>row. \<not> in_execution (SignalsRequestedSetsFilter.ShardID fQ)
                (SignalsRequestedSetsFilter.DomainID fQ)
                             (SignalsRequestedSetsFilter.WorkflowID fQ)
                                 (SignalsRequestedSetsFilter.RunID fQ) row)
              (tables s ((GetDBShardIDFromHistoryShardID pdb (SignalsRequestedSetsFilter.ShardID fQ)
                  (GetTotalNumDBShards pdb)), ''signals_requested_sets''))))"
    by (simp add: DeleteFromSignalsRequestedSets_keys DeleteFromSignalsRequestedSets_all)
  show ?thesis
    by (rule conjI[OF kA conjI[OF kT conjI[OF kC conjI[OF kR conjI[OF kS kQ]]]]])
qed

theorem delete_touches_only_matching_rows_witness:
  "tables (snd (DeleteFromActivityInfoMaps example_db example_activity_filter_key example_backend))
       (0, ''activity_info_maps'') = [] \<and>
   tables (snd (DeleteFromActivityInfoMaps example_db example_activity_filter_key example_backend))
       (0, ''timer_info_maps'') = [bindTimerInfoMapsRow example_timer] \<and>
   tables (snd (DeleteFromActivityInfoMaps example_db example_activity_filter example_backend))
       (0, ''activity_info_maps'') = [] \<and>
   tables (snd (DeleteFromTimerInfoMaps example_db example_timer_filter_key example_backend))
       (0, ''timer_info_maps'') = [] \<and>
   tables (snd (DeleteFromTimerInfoMaps example_db example_timer_filter_key example_backend))
       (0, ''child_execution_info_maps'') = [bindChildExecutionInfoMapsRow example_child] \<and>
   tables (snd (DeleteFromTimerInfoMaps example_db example_timer_filter example_backend))
       (0, ''timer_info_maps'') = [] \<and>
   tables (snd (DeleteFromChildExecutionInfoMaps example_db example_child_filter_key
       example_backend))
       (0, ''child_execution_info_maps'') = [] \<and>
   tables (snd (DeleteFromChildExecutionInfoMaps example_db example_child_filter_key
       example_backend))
       (0, ''request_cancel_info_maps'') = [bindRequestCancelInfoMapsRow example_cancel] \<and>
   tables (snd (DeleteFromChildExecutionInfoMaps example_db example_child_filter example_backend))
       (0, ''child_execution_info_maps'') = [] \<and>
   tables (snd (DeleteFromRequestCancelInfoMaps example_db example_cancel_filter_key
       example_backend))
       (0, ''request_cancel_info_maps'') = [] \<and>
   tables (snd (DeleteFromRequestCancelInfoMaps example_db example_cancel_filter_key
       example_backend))
       (0, ''signal_info_maps'') = [bindSignalInfoMapsRow example_signal] \<and>
   tables (snd (DeleteFromRequestCancelInfoMaps example_db example_cancel_filter example_backend))
       (0, ''request_cancel_info_maps'') = [] \<and>
   tables (snd (DeleteFromSignalInfoMaps example_db example_signal_filter_key example_backend))
       (0, ''signal_info_maps'') = [] \<and>
   tables (snd (DeleteFromSignalInfoMaps example_db example_signal_filter_key example_backend))
       (0, ''signals_requested_sets'') = [bindSignalsRequestedSetsRow example_requested] \<and>
   tables (snd (DeleteFromSignalInfoMaps example_db example_signal_filter example_backend))
       (0, ''signal_info_maps'') = [] \<and>
   tables (snd (DeleteFromSignalsRequestedSets example_db example_requested_filter_key
       example_backend))
       (0, ''signals_requested_sets'') = [] \<and>
   tables (snd (DeleteFromSignalsRequestedSets example_db example_requested_filter_key
       example_backend))
       (0, ''activity_info_maps'') = [bindActivityInfoMapsRow example_activity] \<and>
   tables (snd (DeleteFromSignalsRequestedSets example_db example_requested_filter example_backend))
       (0, ''signals_requested_sets'') = []"
proof -
  note a = delete_touches_only_matching_rows[where pdb = example_db and s = example_backend and
      fA = "example_activity_filter_key" and fT = "example_timer_filter_key" and fC =
          "example_child_filter_key" and fR = "example_cancel_filter_key" and fS =
          "example_signal_filter_key" and fQ = "example_requested_filter_key"]
  note b = delete_touches_only_matching_rows[where pdb = example_db and s = example_backend and
      fA = "example_activity_filter" and fT = "example_timer_filter" and fC = "example_child_filter"
          and fR = "example_cancel_filter" and fS = "example_signal_filter" and fQ =
          "example_requested_filter"]
  have e: "sqlxIn example_db = sqlx_In"
    by (simp add: example_db_def)
  show ?thesis
    using a b e
    by (simp add: example_db_def example_backend_def in_execution_def
      example_activity_def example_activity_filter_def example_activity_filter_key_def
          bindActivityInfoMapsRow_def activityInfoTableName_def activityInfoKey_def
          activityInfoColumns_def example_timer_def example_timer_filter_def
          example_timer_filter_key_def bindTimerInfoMapsRow_def timerInfoTableName_def
          timerInfoKey_def timerInfoColumns_def example_child_def example_child_filter_def
          example_child_filter_key_def bindChildExecutionInfoMapsRow_def
          childExecutionInfoTableName_def childExecutionInfoKey_def childExecutionInfoColumns_def
          example_cancel_def example_cancel_filter_def example_cancel_filter_key_def
          bindRequestCancelInfoMapsRow_def requestCancelInfoTableName_def requestCancelInfoKey_def
          requestCancelInfoColumns_def example_signal_def example_signal_filter_def
          example_signal_filter_key_def bindSignalInfoMapsRow_def signalInfoTableName_def
          signalInfoKey_def signalInfoColumns_def example_requested_def example_requested_filter_def
          example_requested_filter_key_def bindSignalsRequestedSetsRow_def )
qed

text \<open>
  Claim C10. A call of the activity-info replace operation with a non-empty slice leaves
  the caller's slice with the same number of rows, each row with its last-heartbeat time
  replaced by the value \<^verbatim>\<open>ToPostgresDateTime\<close> gives for it and with every other field
  as it was; the statement handed to the driver is bound to the rows so converted. This
  holds whether or not the statement then succeeds.
\<close>

theorem replace_activity_rows_converted_in_place:
  assumes "rows \<noteq> []"
    and "ReplaceIntoActivityInfoMaps pdb rows s = (res, rows', s')"
  shows "length rows' = length rows \<and>
    (\<forall>i<length rows.
       ActivityInfoMapsRow.LastHeartbeatUpdatedTime (rows' ! i) =
         ToPostgresDateTime pdb (ActivityInfoMapsRow.LastHeartbeatUpdatedTime (rows ! i)) \<and>
       ActivityInfoMapsRow.ShardID (rows' ! i) = ActivityInfoMapsRow.ShardID (rows ! i) \<and>
       ActivityInfoMapsRow.DomainID (rows' ! i) = ActivityInfoMapsRow.DomainID (rows ! i) \<and>
       ActivityInfoMapsRow.WorkflowID (rows' ! i) = ActivityInfoMapsRow.WorkflowID (rows ! i) \<and>
       ActivityInfoMapsRow.RunID (rows' ! i) = ActivityInfoMapsRow.RunID (rows ! i) \<and>
       ActivityInfoMapsRow.ScheduleID (rows' ! i) = ActivityInfoMapsRow.ScheduleID (rows ! i) \<and>
       ActivityInfoMapsRow.Data (rows' ! i) = ActivityInfoMapsRow.Data (rows ! i) \<and>
       ActivityInfoMapsRow.DataEncoding (rows' ! i) = ActivityInfoMapsRow.DataEncoding (rows ! i)
           \<and>
       ActivityInfoMapsRow.LastHeartbeatDetails (rows' ! i) =
         ActivityInfoMapsRow.LastHeartbeatDetails (rows ! i)) \<and>
    issued s' = issued s @
      [NamedExecCall
         (GetDBShardIDFromHistoryShardID pdb (ActivityInfoMapsRow.ShardID (rows ! 0))
            (GetTotalNumDBShards pdb))
         setKeyInActivityInfoMapQry (map bindActivityInfoMapsRow rows')]"
proof -
  let ?sh = "GetDBShardIDFromHistoryShardID pdb (ActivityInfoMapsRow.ShardID (rows ! 0))
            (GetTotalNumDBShards pdb)"
  let ?conv = "map (\<lambda>row. row\<lparr>ActivityInfoMapsRow.LastHeartbeatUpdatedTime :=
                 ToPostgresDateTime pdb (ActivityInfoMapsRow.LastHeartbeatUpdatedTime row)\<rparr>)
                     rows"
  from assms have r: "rows' = ?conv"
    by (auto simp: ReplaceIntoActivityInfoMaps_def Let_def split: prod.splits)
  from assms have "s' = snd (NamedExecContext pdb ?sh setKeyInActivityInfoMapQry
      (map bindActivityInfoMapsRow ?conv) s)"
    by (auto simp: ReplaceIntoActivityInfoMaps_def Let_def split: prod.splits)
  then have i: "issued s' = issued s @ [NamedExecCall ?sh setKeyInActivityInfoMapQry
      (map bindActivityInfoMapsRow ?conv)]"
    by (simp add: issued_NamedExecContext)
  show ?thesis using r i by simp
qed

theorem replace_activity_rows_converted_in_place_witness:
  "[example_activity\<lparr>ActivityInfoMapsRow.LastHeartbeatUpdatedTime := 0\<rparr>] \<noteq> []
      \<and>
   ActivityInfoMapsRow.LastHeartbeatUpdatedTime
     (fst (snd (ReplaceIntoActivityInfoMaps example_db
        [example_activity\<lparr>ActivityInfoMapsRow.LastHeartbeatUpdatedTime := 0\<rparr>]
            example_backend)) ! 0) = 1000 \<and>
   ActivityInfoMapsRow.ScheduleID
     (fst (snd (ReplaceIntoActivityInfoMaps example_db
        [example_activity\<lparr>ActivityInfoMapsRow.LastHeartbeatUpdatedTime := 0\<rparr>]
            example_backend)) ! 0) = 7"
  using replace_activity_rows_converted_in_place[of
      "[example_activity\<lparr>ActivityInfoMapsRow.LastHeartbeatUpdatedTime := 0\<rparr>]"
      example_db example_backend
      "fst (ReplaceIntoActivityInfoMaps example_db
        [example_activity\<lparr>ActivityInfoMapsRow.LastHeartbeatUpdatedTime := 0\<rparr>]
            example_backend)"
      "fst (snd (ReplaceIntoActivityInfoMaps example_db
        [example_activity\<lparr>ActivityInfoMapsRow.LastHeartbeatUpdatedTime := 0\<rparr>]
            example_backend))"
      "snd (snd (ReplaceIntoActivityInfoMaps example_db
        [example_activity\<lparr>ActivityInfoMapsRow.LastHeartbeatUpdatedTime := 0\<rparr>]
            example_backend))"]
  by (simp add: example_db_def example_activity_def)


text \<open>
  Claim C1, as the code has it. The claim says that a replace of a key that is already
  stored fully replaces the prior row, last writer wins, whatever rows the call carries.
  The replace operations hand their rows to one upsert statement without looking at the
  keys, and PostgreSQL refuses an upsert that proposes the same primary key twice: on the
  example below the call with one stored key twice returns a cardinality violation and the
  prior row stays as it was. What holds for each of the five map kinds: the backend reads
  the generated upsert query as an insert into the table of the kind that lists the four
  identity columns, the key column and the value columns, takes the named parameters of the
  same names, has the identity and key columns as its conflict target and, on a conflict,
  sets every listed column to the value of the proposed row. A replace call with rows of
  pairwise different primary keys succeeds, and afterwards, for each row of the call, the
  table on the routed shard has a row with its primary key, and every stored row with that
  primary key carries the incoming value in each value column (for the activity-info time,
  the converted value as the timestamp column keeps it): a row that was there before is
  replaced in all its non-key columns.
\<close>

theorem upsert_replaces_every_value_column:
  "(prepare setKeyInActivityInfoMapQry = Some (upsert_stmt activityInfoTableName activityInfoKey
      activityInfoColumns) \<and>
    (rowsA \<noteq> [] \<and>
     distinct (map (\<lambda>rowA. (ActivityInfoMapsRow.ShardID rowA, ActivityInfoMapsRow.DomainID
         rowA, ActivityInfoMapsRow.WorkflowID rowA,
           ActivityInfoMapsRow.RunID rowA, ActivityInfoMapsRow.ScheduleID rowA)) rowsA)
               \<longrightarrow>
       fst (ReplaceIntoActivityInfoMaps pdb rowsA s) = Inr (Some Result) \<and>
       (\<forall>rowA\<in>set rowsA.
          (\<exists>e\<in>set (tables (snd (snd (ReplaceIntoActivityInfoMaps pdb rowsA s)))
           (GetDBShardIDFromHistoryShardID pdb (ActivityInfoMapsRow.ShardID (rowsA ! 0))
              (GetTotalNumDBShards pdb), activityInfoTableName)).
             in_execution (ActivityInfoMapsRow.ShardID rowA) (ActivityInfoMapsRow.DomainID rowA)
            (ActivityInfoMapsRow.WorkflowID rowA) (ActivityInfoMapsRow.RunID rowA) e \<and>
          e ''schedule_id'' = Some (VInt64 (ActivityInfoMapsRow.ScheduleID rowA))) \<and>
          (\<forall>e\<in>set (tables (snd (snd (ReplaceIntoActivityInfoMaps pdb rowsA s)))
           (GetDBShardIDFromHistoryShardID pdb (ActivityInfoMapsRow.ShardID (rowsA ! 0))
              (GetTotalNumDBShards pdb), activityInfoTableName)).
             in_execution (ActivityInfoMapsRow.ShardID rowA) (ActivityInfoMapsRow.DomainID rowA)
            (ActivityInfoMapsRow.WorkflowID rowA) (ActivityInfoMapsRow.RunID rowA) e \<and>
          e ''schedule_id'' = Some (VInt64 (ActivityInfoMapsRow.ScheduleID rowA)) \<longrightarrow>
             e ''data'' = Some (VBytes (ActivityInfoMapsRow.Data rowA)) \<and>
          e ''data_encoding'' = Some (VString (ActivityInfoMapsRow.DataEncoding rowA)) \<and>
          e ''last_heartbeat_details'' = Some (VBytes (ActivityInfoMapsRow.LastHeartbeatDetails
              rowA)) \<and>
          e ''last_heartbeat_updated_time'' =
            Some (VTime (timestamp_column pdb
              (ToPostgresDateTime pdb (ActivityInfoMapsRow.LastHeartbeatUpdatedTime rowA))))))))
                  \<and>
   (prepare setKeyInTimerInfoMapSQLQuery = Some (upsert_stmt timerInfoTableName timerInfoKey
       timerInfoColumns) \<and>
    (rowsT \<noteq> [] \<and>
     distinct (map (\<lambda>rowT. (TimerInfoMapsRow.ShardID rowT, TimerInfoMapsRow.DomainID rowT,
         TimerInfoMapsRow.WorkflowID rowT,
           TimerInfoMapsRow.RunID rowT, TimerInfoMapsRow.TimerID rowT)) rowsT) \<longrightarrow>
       fst (ReplaceIntoTimerInfoMaps pdb rowsT s) = Inr (Some Result) \<and>
       (\<forall>rowT\<in>set rowsT.
          (\<exists>e\<in>set (tables (snd (ReplaceIntoTimerInfoMaps pdb rowsT s))
           (GetDBShardIDFromHistoryShardID pdb (TimerInfoMapsRow.ShardID (rowsT ! 0))
              (GetTotalNumDBShards pdb), timerInfoTableName)).
             in_execution (TimerInfoMapsRow.ShardID rowT) (TimerInfoMapsRow.DomainID rowT)
            (TimerInfoMapsRow.WorkflowID rowT) (TimerInfoMapsRow.RunID rowT) e \<and>
          e ''timer_id'' = Some (VString (TimerInfoMapsRow.TimerID rowT))) \<and>
          (\<forall>e\<in>set (tables (snd (ReplaceIntoTimerInfoMaps pdb rowsT s))
           (GetDBShardIDFromHistoryShardID pdb (TimerInfoMapsRow.ShardID (rowsT ! 0))
              (GetTotalNumDBShards pdb), timerInfoTableName)).
             in_execution (TimerInfoMapsRow.ShardID rowT) (TimerInfoMapsRow.DomainID rowT)
            (TimerInfoMapsRow.WorkflowID rowT) (TimerInfoMapsRow.RunID rowT) e \<and>
          e ''timer_id'' = Some (VString (TimerInfoMapsRow.TimerID rowT)) \<longrightarrow>
             e ''data'' = Some (VBytes (TimerInfoMapsRow.Data rowT)) \<and>
          e ''data_encoding'' = Some (VString (TimerInfoMapsRow.DataEncoding rowT)))))) \<and>
   (prepare setKeyInChildExecutionInfoMapQry = Some (upsert_stmt childExecutionInfoTableName
       childExecutionInfoKey childExecutionInfoColumns) \<and>
    (rowsC \<noteq> [] \<and>
     distinct (map (\<lambda>rowC. (ChildExecutionInfoMapsRow.ShardID rowC,
         ChildExecutionInfoMapsRow.DomainID rowC, ChildExecutionInfoMapsRow.WorkflowID rowC,
           ChildExecutionInfoMapsRow.RunID rowC, ChildExecutionInfoMapsRow.InitiatedID rowC)) rowsC)
               \<longrightarrow>
       fst (ReplaceIntoChildExecutionInfoMaps pdb rowsC s) = Inr (Some Result) \<and>
       (\<forall>rowC\<in>set rowsC.
          (\<exists>e\<in>set (tables (snd (ReplaceIntoChildExecutionInfoMaps pdb rowsC s))
           (GetDBShardIDFromHistoryShardID pdb (ChildExecutionInfoMapsRow.ShardID (rowsC ! 0))
              (GetTotalNumDBShards pdb), childExecutionInfoTableName)).
             in_execution (ChildExecutionInfoMapsRow.ShardID rowC)
                 (ChildExecutionInfoMapsRow.DomainID rowC)
            (ChildExecutionInfoMapsRow.WorkflowID rowC) (ChildExecutionInfoMapsRow.RunID rowC) e
                \<and>
          e ''initiated_id'' = Some (VInt64 (ChildExecutionInfoMapsRow.InitiatedID rowC))) \<and>
          (\<forall>e\<in>set (tables (snd (ReplaceIntoChildExecutionInfoMaps pdb rowsC s))
           (GetDBShardIDFromHistoryShardID pdb (ChildExecutionInfoMapsRow.ShardID (rowsC ! 0))
              (GetTotalNumDBShards pdb), childExecutionInfoTableName)).
             in_execution (ChildExecutionInfoMapsRow.ShardID rowC)
                 (ChildExecutionInfoMapsRow.DomainID rowC)
            (ChildExecutionInfoMapsRow.WorkflowID rowC) (ChildExecutionInfoMapsRow.RunID rowC) e
                \<and>
          e ''initiated_id'' = Some (VInt64 (ChildExecutionInfoMapsRow.InitiatedID rowC))
              \<longrightarrow>
             e ''data'' = Some (VBytes (ChildExecutionInfoMapsRow.Data rowC)) \<and>
          e ''data_encoding'' = Some (VString (ChildExecutionInfoMapsRow.DataEncoding rowC))))))
              \<and>
   (prepare setKeyInRequestCancelInfoMapQry = Some (upsert_stmt requestCancelInfoTableName
       requestCancelInfoKey requestCancelInfoColumns) \<and>
    (rowsR \<noteq> [] \<and>
     distinct (map (\<lambda>rowR. (RequestCancelInfoMapsRow.ShardID rowR,
         RequestCancelInfoMapsRow.DomainID rowR, RequestCancelInfoMapsRow.WorkflowID rowR,
           RequestCancelInfoMapsRow.RunID rowR, RequestCancelInfoMapsRow.InitiatedID rowR)) rowsR)
               \<longrightarrow>
       fst (ReplaceIntoRequestCancelInfoMaps pdb rowsR s) = Inr (Some Result) \<and>
       (\<forall>rowR\<in>set rowsR.
          (\<exists>e\<in>set (tables (snd (ReplaceIntoRequestCancelInfoMaps pdb rowsR s))
           (GetDBShardIDFromHistoryShardID pdb (RequestCancelInfoMapsRow.ShardID (rowsR ! 0))
              (GetTotalNumDBShards pdb), requestCancelInfoTableName)).
             in_execution (RequestCancelInfoMapsRow.ShardID rowR) (RequestCancelInfoMapsRow.DomainID
                 rowR)
            (RequestCancelInfoMapsRow.WorkflowID rowR) (RequestCancelInfoMapsRow.RunID rowR) e
                \<and>
          e ''initiated_id'' = Some (VInt64 (RequestCancelInfoMapsRow.InitiatedID rowR))) \<and>
          (\<forall>e\<in>set (tables (snd (ReplaceIntoRequestCancelInfoMaps pdb rowsR s))
           (GetDBShardIDFromHistoryShardID pdb (RequestCancelInfoMapsRow.ShardID (rowsR ! 0))
              (GetTotalNumDBShards pdb), requestCancelInfoTableName)).
             in_execution (RequestCancelInfoMapsRow.ShardID rowR) (RequestCancelInfoMapsRow.DomainID
                 rowR)
            (RequestCancelInfoMapsRow.WorkflowID rowR) (RequestCancelInfoMapsRow.RunID rowR) e
                \<and>
          e ''initiated_id'' = Some (VInt64 (RequestCancelInfoMapsRow.InitiatedID rowR))
              \<longrightarrow>
             e ''data'' = Some (VBytes (RequestCancelInfoMapsRow.Data rowR)) \<and>
          e ''data_encoding'' = Some (VString (RequestCancelInfoMapsRow.DataEncoding rowR))))))
              \<and>
   (prepare setKeyInSignalInfoMapQry = Some (upsert_stmt signalInfoTableName signalInfoKey
       signalInfoColumns) \<and>
    (rowsS \<noteq> [] \<and>
     distinct (map (\<lambda>rowS. (SignalInfoMapsRow.ShardID rowS, SignalInfoMapsRow.DomainID rowS,
         SignalInfoMapsRow.WorkflowID rowS,
           SignalInfoMapsRow.RunID rowS, SignalInfoMapsRow.InitiatedID rowS)) rowsS)
               \<longrightarrow>
       fst (ReplaceIntoSignalInfoMaps pdb rowsS s) = Inr (Some Result) \<and>
       (\<forall>rowS\<in>set rowsS.
          (\<exists>e\<in>set (tables (snd (ReplaceIntoSignalInfoMaps pdb rowsS s))
           (GetDBShardIDFromHistoryShardID pdb (SignalInfoMapsRow.ShardID (rowsS ! 0))
              (GetTotalNumDBShards pdb), signalInfoTableName)).
             in_execution (SignalInfoMapsRow.ShardID rowS) (SignalInfoMapsRow.DomainID rowS)
            (SignalInfoMapsRow.WorkflowID rowS) (SignalInfoMapsRow.RunID rowS) e \<and>
          e ''initiated_id'' = Some (VInt64 (SignalInfoMapsRow.InitiatedID rowS))) \<and>
          (\<forall>e\<in>set (tables (snd (ReplaceIntoSignalInfoMaps pdb rowsS s))
           (GetDBShardIDFromHistoryShardID pdb (SignalInfoMapsRow.ShardID (rowsS ! 0))
              (GetTotalNumDBShards pdb), signalInfoTableName)).
             in_execution (SignalInfoMapsRow.ShardID rowS) (SignalInfoMapsRow.DomainID rowS)
            (SignalInfoMapsRow.WorkflowID rowS) (SignalInfoMapsRow.RunID rowS) e \<and>
          e ''initiated_id'' = Some (VInt64 (SignalInfoMapsRow.InitiatedID rowS)) \<longrightarrow>
             e ''data'' = Some (VBytes (SignalInfoMapsRow.Data rowS)) \<and>
          e ''data_encoding'' = Some (VString (SignalInfoMapsRow.DataEncoding rowS))))))"
proof -
  have kA: "prepare setKeyInActivityInfoMapQry = Some (upsert_stmt activityInfoTableName
      activityInfoKey activityInfoColumns) \<and>
    (rowsA \<noteq> [] \<and>
     distinct (map (\<lambda>rowA. (ActivityInfoMapsRow.ShardID rowA, ActivityInfoMapsRow.DomainID
         rowA, ActivityInfoMapsRow.WorkflowID rowA,
           ActivityInfoMapsRow.RunID rowA, ActivityInfoMapsRow.ScheduleID rowA)) rowsA)
               \<longrightarrow>
       fst (ReplaceIntoActivityInfoMaps pdb rowsA s) = Inr (Some Result) \<and>
       (\<forall>rowA\<in>set rowsA.
          (\<exists>e\<in>set (tables (snd (snd (ReplaceIntoActivityInfoMaps pdb rowsA s)))
           (GetDBShardIDFromHistoryShardID pdb (ActivityInfoMapsRow.ShardID (rowsA ! 0))
              (GetTotalNumDBShards pdb), activityInfoTableName)).
             in_execution (ActivityInfoMapsRow.ShardID rowA) (ActivityInfoMapsRow.DomainID rowA)
            (ActivityInfoMapsRow.WorkflowID rowA) (ActivityInfoMapsRow.RunID rowA) e \<and>
          e ''schedule_id'' = Some (VInt64 (ActivityInfoMapsRow.ScheduleID rowA))) \<and>
          (\<forall>e\<in>set (tables (snd (snd (ReplaceIntoActivityInfoMaps pdb rowsA s)))
           (GetDBShardIDFromHistoryShardID pdb (ActivityInfoMapsRow.ShardID (rowsA ! 0))
              (GetTotalNumDBShards pdb), activityInfoTableName)).
             in_execution (ActivityInfoMapsRow.ShardID rowA) (ActivityInfoMapsRow.DomainID rowA)
            (ActivityInfoMapsRow.WorkflowID rowA) (ActivityInfoMapsRow.RunID rowA) e \<and>
          e ''schedule_id'' = Some (VInt64 (ActivityInfoMapsRow.ScheduleID rowA)) \<longrightarrow>
             e ''data'' = Some (VBytes (ActivityInfoMapsRow.Data rowA)) \<and>
          e ''data_encoding'' = Some (VString (ActivityInfoMapsRow.DataEncoding rowA)) \<and>
          e ''last_heartbeat_details'' = Some (VBytes (ActivityInfoMapsRow.LastHeartbeatDetails
              rowA)) \<and>
          e ''last_heartbeat_updated_time'' =
            Some (VTime (timestamp_column pdb
              (ToPostgresDateTime pdb (ActivityInfoMapsRow.LastHeartbeatUpdatedTime rowA)))))))"
    using replace_upserts_ActivityInfoMaps[of rowsA pdb s] prepare_setKeyInActivityInfoMapQry
    by blast
  have kT: "prepare setKeyInTimerInfoMapSQLQuery = Some (upsert_stmt timerInfoTableName timerInfoKey
      timerInfoColumns) \<and>
    (rowsT \<noteq> [] \<and>
     distinct (map (\<lambda>rowT. (TimerInfoMapsRow.ShardID rowT, TimerInfoMapsRow.DomainID rowT,
         TimerInfoMapsRow.WorkflowID rowT,
           TimerInfoMapsRow.RunID rowT, TimerInfoMapsRow.TimerID rowT)) rowsT) \<longrightarrow>
       fst (ReplaceIntoTimerInfoMaps pdb rowsT s) = Inr (Some Result) \<and>
       (\<forall>rowT\<in>set rowsT.
          (\<exists>e\<in>set (tables (snd (ReplaceIntoTimerInfoMaps pdb rowsT s))
           (GetDBShardIDFromHistoryShardID pdb (TimerInfoMapsRow.ShardID (rowsT ! 0))
              (GetTotalNumDBShards pdb), timerInfoTableName)).
             in_execution (TimerInfoMapsRow.ShardID rowT) (TimerInfoMapsRow.DomainID rowT)
            (TimerInfoMapsRow.WorkflowID rowT) (TimerInfoMapsRow.RunID rowT) e \<and>
          e ''timer_id'' = Some (VString (TimerInfoMapsRow.TimerID rowT))) \<and>
          (\<forall>e\<in>set (tables (snd (ReplaceIntoTimerInfoMaps pdb rowsT s))
           (GetDBShardIDFromHistoryShardID pdb (TimerInfoMapsRow.ShardID (rowsT ! 0))
              (GetTotalNumDBShards pdb), timerInfoTableName)).
             in_execution (TimerInfoMapsRow.ShardID rowT) (TimerInfoMapsRow.DomainID rowT)
            (TimerInfoMapsRow.WorkflowID rowT) (TimerInfoMapsRow.RunID rowT) e \<and>
          e ''timer_id'' = Some (VString (TimerInfoMapsRow.TimerID rowT)) \<longrightarrow>
             e ''data'' = Some (VBytes (TimerInfoMapsRow.Data rowT)) \<and>
          e ''data_encoding'' = Some (VString (TimerInfoMapsRow.DataEncoding rowT)))))"
    using replace_upserts_TimerInfoMaps[of rowsT pdb s] prepare_setKeyInTimerInfoMapSQLQuery
    by blast
  have kC: "prepare setKeyInChildExecutionInfoMapQry = Some (upsert_stmt childExecutionInfoTableName
      childExecutionInfoKey childExecutionInfoColumns) \<and>
    (rowsC \<noteq> [] \<and>
     distinct (map (\<lambda>rowC. (ChildExecutionInfoMapsRow.ShardID rowC,
         ChildExecutionInfoMapsRow.DomainID rowC, ChildExecutionInfoMapsRow.WorkflowID rowC,
           ChildExecutionInfoMapsRow.RunID rowC, ChildExecutionInfoMapsRow.InitiatedID rowC)) rowsC)
               \<longrightarrow>
       fst (ReplaceIntoChildExecutionInfoMaps pdb rowsC s) = Inr (Some Result) \<and>
       (\<forall>rowC\<in>set rowsC.
          (\<exists>e\<in>set (tables (snd (ReplaceIntoChildExecutionInfoMaps pdb rowsC s))
           (GetDBShardIDFromHistoryShardID pdb (ChildExecutionInfoMapsRow.ShardID (rowsC ! 0))
              (GetTotalNumDBShards pdb), childExecutionInfoTableName)).
             in_execution (ChildExecutionInfoMapsRow.ShardID rowC)
                 (ChildExecutionInfoMapsRow.DomainID rowC)
            (ChildExecutionInfoMapsRow.WorkflowID rowC) (ChildExecutionInfoMapsRow.RunID rowC) e
                \<and>
          e ''initiated_id'' = Some (VInt64 (ChildExecutionInfoMapsRow.InitiatedID rowC))) \<and>
          (\<forall>e\<in>set (tables (snd (ReplaceIntoChildExecutionInfoMaps pdb rowsC s))
           (GetDBShardIDFromHistoryShardID pdb (ChildExecutionInfoMapsRow.ShardID (rowsC ! 0))
              (GetTotalNumDBShards pdb), childExecutionInfoTableName)).
             in_execution (ChildExecutionInfoMapsRow.ShardID rowC)
                 (ChildExecutionInfoMapsRow.DomainID rowC)
            (ChildExecutionInfoMapsRow.WorkflowID rowC) (ChildExecutionInfoMapsRow.RunID rowC) e
                \<and>
          e ''initiated_id'' = Some (VInt64 (ChildExecutionInfoMapsRow.InitiatedID rowC))
              \<longrightarrow>
             e ''data'' = Some (VBytes (ChildExecutionInfoMapsRow.Data rowC)) \<and>
          e ''data_encoding'' = Some (VString (ChildExecutionInfoMapsRow.DataEncoding rowC)))))"
    using replace_upserts_ChildExecutionInfoMaps[of rowsC pdb s]
        prepare_setKeyInChildExecutionInfoMapQry
    by blast
  have kR: "prepare setKeyInRequestCancelInfoMapQry = Some (upsert_stmt requestCancelInfoTableName
      requestCancelInfoKey requestCancelInfoColumns) \<and>
    (rowsR \<noteq> [] \<and>
     distinct (map (\<lambda>rowR. (RequestCancelInfoMapsRow.ShardID rowR,
         RequestCancelInfoMapsRow.DomainID rowR, RequestCancelInfoMapsRow.WorkflowID rowR,
           RequestCancelInfoMapsRow.RunID rowR, RequestCancelInfoMapsRow.InitiatedID rowR)) rowsR)
               \<longrightarrow>
       fst (ReplaceIntoRequestCancelInfoMaps pdb rowsR s) = Inr (Some Result) \<and>
       (\<forall>rowR\<in>set rowsR.
          (\<exists>e\<in>set (tables (snd (ReplaceIntoRequestCancelInfoMaps pdb rowsR s))
           (GetDBShardIDFromHistoryShardID pdb (RequestCancelInfoMapsRow.ShardID (rowsR ! 0))
              (GetTotalNumDBShards pdb), requestCancelInfoTableName)).
             in_execution (RequestCancelInfoMapsRow.ShardID rowR) (RequestCancelInfoMapsRow.DomainID
                 rowR)
            (RequestCancelInfoMapsRow.WorkflowID rowR) (RequestCancelInfoMapsRow.RunID rowR) e
                \<and>
          e ''initiated_id'' = Some (VInt64 (RequestCancelInfoMapsRow.InitiatedID rowR))) \<and>
          (\<forall>e\<in>set (tables (snd (ReplaceIntoRequestCancelInfoMaps pdb rowsR s))
           (GetDBShardIDFromHistoryShardID pdb (RequestCancelInfoMapsRow.ShardID (rowsR ! 0))
              (GetTotalNumDBShards pdb), requestCancelInfoTableName)).
             in_execution (RequestCancelInfoMapsRow.ShardID rowR) (RequestCancelInfoMapsRow.DomainID
                 rowR)
            (RequestCancelInfoMapsRow.WorkflowID rowR) (RequestCancelInfoMapsRow.RunID rowR) e
                \<and>
          e ''initiated_id'' = Some (VInt64 (RequestCancelInfoMapsRow.InitiatedID rowR))
              \<longrightarrow>
             e ''data'' = Some (VBytes (RequestCancelInfoMapsRow.Data rowR)) \<and>
          e ''data_encoding'' = Some (VString (RequestCancelInfoMapsRow.DataEncoding rowR)))))"
    using replace_upserts_RequestCancelInfoMaps[of rowsR pdb s]
        prepare_setKeyInRequestCancelInfoMapQry
    by blast
  have kS: "prepare setKeyInSignalInfoMapQry = Some (upsert_stmt signalInfoTableName signalInfoKey
      signalInfoColumns) \<and>
    (rowsS \<noteq> [] \<and>
     distinct (map (\<lambda>rowS. (SignalInfoMapsRow.ShardID rowS, SignalInfoMapsRow.DomainID rowS,
         SignalInfoMapsRow.WorkflowID rowS,
           SignalInfoMapsRow.RunID rowS, SignalInfoMapsRow.InitiatedID rowS)) rowsS)
               \<longrightarrow>
       fst (ReplaceIntoSignalInfoMaps pdb rowsS s) = Inr (Some Result) \<and>
       (\<forall>rowS\<in>set rowsS.
          (\<exists>e\<in>set (tables (snd (ReplaceIntoSignalInfoMaps pdb rowsS s))
           (GetDBShardIDFromHistoryShardID pdb (SignalInfoMapsRow.ShardID (rowsS ! 0))
              (GetTotalNumDBShards pdb), signalInfoTableName)).
             in_execution (SignalInfoMapsRow.ShardID rowS) (SignalInfoMapsRow.DomainID rowS)
            (SignalInfoMapsRow.WorkflowID rowS) (SignalInfoMapsRow.RunID rowS) e \<and>
          e ''initiated_id'' = Some (VInt64 (SignalInfoMapsRow.InitiatedID rowS))) \<and>
          (\<forall>e\<in>set (tables (snd (ReplaceIntoSignalInfoMaps pdb rowsS s))
           (GetDBShardIDFromHistoryShardID pdb (SignalInfoMapsRow.ShardID (rowsS ! 0))
              (GetTotalNumDBShards pdb), signalInfoTableName)).
             in_execution (SignalInfoMapsRow.ShardID rowS) (SignalInfoMapsRow.DomainID rowS)
            (SignalInfoMapsRow.WorkflowID rowS) (SignalInfoMapsRow.RunID rowS) e \<and>
          e ''initiated_id'' = Some (VInt64 (SignalInfoMapsRow.InitiatedID rowS)) \<longrightarrow>
             e ''data'' = Some (VBytes (SignalInfoMapsRow.Data rowS)) \<and>
          e ''data_encoding'' = Some (VString (SignalInfoMapsRow.DataEncoding rowS)))))"
    using replace_upserts_SignalInfoMaps[of rowsS pdb s] prepare_setKeyInSignalInfoMapQry
    by blast
  show ?thesis
    by (rule conjI[OF kA conjI[OF kT conjI[OF kC conjI[OF kR kS]]]])
qed

theorem upsert_replaces_every_value_column_witness:
  "(\<exists>e\<in>set (tables (snd (snd (ReplaceIntoActivityInfoMaps example_db
      [example_activity\<lparr>ActivityInfoMapsRow.Data := ''new''\<rparr>] example_backend))) (0,
      ''activity_info_maps'')).
       e ''schedule_id'' = Some (VInt64 7) \<and> e ''data'' = Some (VBytes ''new'')) \<and>
   (\<exists>e\<in>set (tables (snd (ReplaceIntoTimerInfoMaps example_db
       [example_timer\<lparr>TimerInfoMapsRow.Data := ''new''\<rparr>] example_backend)) (0,
       ''timer_info_maps'')).
       e ''timer_id'' = Some (VString ''t1'') \<and> e ''data'' = Some (VBytes ''new'')) \<and>
   (\<exists>e\<in>set (tables (snd (ReplaceIntoChildExecutionInfoMaps example_db
       [example_child\<lparr>ChildExecutionInfoMapsRow.Data := ''new''\<rparr>] example_backend))
       (0, ''child_execution_info_maps'')).
       e ''initiated_id'' = Some (VInt64 7) \<and> e ''data'' = Some (VBytes ''new'')) \<and>
   (\<exists>e\<in>set (tables (snd (ReplaceIntoRequestCancelInfoMaps example_db
       [example_cancel\<lparr>RequestCancelInfoMapsRow.Data := ''new''\<rparr>] example_backend))
       (0, ''request_cancel_info_maps'')).
       e ''initiated_id'' = Some (VInt64 7) \<and> e ''data'' = Some (VBytes ''new'')) \<and>
   (\<exists>e\<in>set (tables (snd (ReplaceIntoSignalInfoMaps example_db
       [example_signal\<lparr>SignalInfoMapsRow.Data := ''new''\<rparr>] example_backend)) (0,
       ''signal_info_maps'')).
       e ''initiated_id'' = Some (VInt64 7) \<and> e ''data'' = Some (VBytes ''new''))"
proof -
  note t = upsert_replaces_every_value_column[where pdb = example_db and s = example_backend and
      rowsA = "[example_activity\<lparr>ActivityInfoMapsRow.Data := ''new''\<rparr>]" and rowsT =
          "[example_timer\<lparr>TimerInfoMapsRow.Data := ''new''\<rparr>]" and rowsC =
          "[example_child\<lparr>ChildExecutionInfoMapsRow.Data := ''new''\<rparr>]" and rowsR =
          "[example_cancel\<lparr>RequestCancelInfoMapsRow.Data := ''new''\<rparr>]" and rowsS =
          "[example_signal\<lparr>SignalInfoMapsRow.Data := ''new''\<rparr>]"]
  have wA: "(\<exists>e\<in>set (tables (snd (snd (ReplaceIntoActivityInfoMaps example_db
      [example_activity\<lparr>ActivityInfoMapsRow.Data := ''new''\<rparr>] example_backend))) (0,
      ''activity_info_maps'')).
       e ''schedule_id'' = Some (VInt64 7) \<and> e ''data'' = Some (VBytes ''new''))"
    using t[THEN conjunct1, THEN conjunct2]
    by (simp add: example_db_def example_activity_def activityInfoTableName_def activityInfoKey_def
        activityInfoColumns_def) blast
  have wT: "(\<exists>e\<in>set (tables (snd (ReplaceIntoTimerInfoMaps example_db
      [example_timer\<lparr>TimerInfoMapsRow.Data := ''new''\<rparr>] example_backend)) (0,
      ''timer_info_maps'')).
       e ''timer_id'' = Some (VString ''t1'') \<and> e ''data'' = Some (VBytes ''new''))"
    using t[THEN conjunct2, THEN conjunct1, THEN conjunct2]
    by (simp add: example_db_def example_timer_def timerInfoTableName_def timerInfoKey_def
        timerInfoColumns_def) blast
  have wC: "(\<exists>e\<in>set (tables (snd (ReplaceIntoChildExecutionInfoMaps example_db
      [example_child\<lparr>ChildExecutionInfoMapsRow.Data := ''new''\<rparr>] example_backend)) (0,
      ''child_execution_info_maps'')).
       e ''initiated_id'' = Some (VInt64 7) \<and> e ''data'' = Some (VBytes ''new''))"
    using t[THEN conjunct2, THEN conjunct2, THEN conjunct1, THEN conjunct2]
    by (simp add: example_db_def example_child_def childExecutionInfoTableName_def
        childExecutionInfoKey_def childExecutionInfoColumns_def) blast
  have wR: "(\<exists>e\<in>set (tables (snd (ReplaceIntoRequestCancelInfoMaps example_db
      [example_cancel\<lparr>RequestCancelInfoMapsRow.Data := ''new''\<rparr>] example_backend)) (0,
      ''request_cancel_info_maps'')).
       e ''initiated_id'' = Some (VInt64 7) \<and> e ''data'' = Some (VBytes ''new''))"
    using t[THEN conjunct2, THEN conjunct2, THEN conjunct2, THEN conjunct1, THEN conjunct2]
    by (simp add: example_db_def example_cancel_def requestCancelInfoTableName_def
        requestCancelInfoKey_def requestCancelInfoColumns_def) blast
  have wS: "(\<exists>e\<in>set (tables (snd (ReplaceIntoSignalInfoMaps example_db
      [example_signal\<lparr>SignalInfoMapsRow.Data := ''new''\<rparr>] example_backend)) (0,
      ''signal_info_maps'')).
       e ''initiated_id'' = Some (VInt64 7) \<and> e ''data'' = Some (VBytes ''new''))"
    using t[THEN conjunct2, THEN conjunct2, THEN conjunct2, THEN conjunct2, THEN conjunct2]
    by (simp add: example_db_def example_signal_def signalInfoTableName_def signalInfoKey_def
        signalInfoColumns_def) blast
  show ?thesis
    by (rule conjI[OF wA conjI[OF wT conjI[OF wC conjI[OF wR wS]]]])
qed

theorem upsert_same_key_twice_counterexample:
  "fst (ReplaceIntoTimerInfoMaps example_db
         [example_timer\<lparr>TimerInfoMapsRow.Data := ''new''\<rparr>,
          example_timer\<lparr>TimerInfoMapsRow.Data := ''newer''\<rparr>] example_backend) =
     Inl CardinalityViolation \<and>
   tables (snd (ReplaceIntoTimerInfoMaps example_db
         [example_timer\<lparr>TimerInfoMapsRow.Data := ''new''\<rparr>,
          example_timer\<lparr>TimerInfoMapsRow.Data := ''newer''\<rparr>] example_backend))
       (0, ''timer_info_maps'') = [bindTimerInfoMapsRow example_timer] \<and>
   (bindTimerInfoMapsRow example_timer :: nat sqlrow) ''timer_id'' = Some (VString ''t1'') \<and>
   (bindTimerInfoMapsRow example_timer :: nat sqlrow) ''data'' = Some (VBytes ''blob'')"
  by (simp add: ReplaceIntoTimerInfoMaps_def Let_def NamedExecContext_def
      prepare_setKeyInTimerInfoMapSQLQuery upsert_stmt_def identity_columns_def timerInfoKey_def
      timerInfoColumns_def timerInfoTableName_def exec_insert_def proposed_def agree_def
      bindTimerInfoMapsRow_def example_timer_def example_db_def example_backend_def)

text \<open>
  Claim C8. For each of the five map kinds: after a replace call with rows of pairwise
  different primary keys, a select with the execution identity of one of these rows (routed
  to the shard the call wrote to, and with the rows already stored for that execution
  readable) returns no error and returns that row: equal to the input in every field for
  the timer, child-execution, request-cancel and signal kinds, and for the activity kind
  equal to the input except that its last-heartbeat time has gone through
  \<^verbatim>\<open>ToPostgresDateTime\<close>, the precision of the timestamp column, and
  \<^verbatim>\<open>FromPostgresDateTime\<close>.
\<close>

theorem select_after_replace_returns_row:
  "(rowsA \<noteq> [] \<and>
    distinct (map (\<lambda>rowA. (ActivityInfoMapsRow.ShardID rowA, ActivityInfoMapsRow.DomainID
        rowA, ActivityInfoMapsRow.WorkflowID rowA,
           ActivityInfoMapsRow.RunID rowA, ActivityInfoMapsRow.ScheduleID rowA)) rowsA) \<and>
    rowA \<in> set rowsA \<and>
    ActivityInfoMapsFilter.ShardID fA = ActivityInfoMapsRow.ShardID rowA \<and>
    ActivityInfoMapsFilter.DomainID fA = ActivityInfoMapsRow.DomainID rowA \<and>
    ActivityInfoMapsFilter.WorkflowID fA = ActivityInfoMapsRow.WorkflowID rowA \<and>
    ActivityInfoMapsFilter.RunID fA = ActivityInfoMapsRow.RunID rowA \<and>
    GetDBShardIDFromHistoryShardID pdb (ActivityInfoMapsRow.ShardID rowA) (GetTotalNumDBShards pdb)
        =
       GetDBShardIDFromHistoryShardID pdb (ActivityInfoMapsRow.ShardID (rowsA ! 0))
              (GetTotalNumDBShards pdb) \<and>
    (\<forall>e\<in>set (tables s
                (GetDBShardIDFromHistoryShardID pdb (ActivityInfoMapsRow.ShardID rowA)
                   (GetTotalNumDBShards pdb), activityInfoTableName)).
             in_execution (ActivityInfoMapsRow.ShardID rowA) (ActivityInfoMapsRow.DomainID rowA)
            (ActivityInfoMapsRow.WorkflowID rowA) (ActivityInfoMapsRow.RunID rowA) e
                \<longrightarrow>
             scanActivityInfoMapsRow (e |` set (activityInfoKey # activityInfoColumns)) \<noteq>
                 None) \<longrightarrow>
    snd (fst (SelectFromActivityInfoMaps pdb fA (snd (snd (ReplaceIntoActivityInfoMaps pdb rowsA
        s))))) = None \<and>
    rowA\<lparr>ActivityInfoMapsRow.LastHeartbeatUpdatedTime :=
          FromPostgresDateTime pdb (timestamp_column pdb
            (ToPostgresDateTime pdb (ActivityInfoMapsRow.LastHeartbeatUpdatedTime rowA)))\<rparr>
      \<in> set (fst (fst (SelectFromActivityInfoMaps pdb fA (snd (snd (ReplaceIntoActivityInfoMaps
          pdb rowsA s))))))) \<and>
   (rowsT \<noteq> [] \<and>
    distinct (map (\<lambda>rowT. (TimerInfoMapsRow.ShardID rowT, TimerInfoMapsRow.DomainID rowT,
        TimerInfoMapsRow.WorkflowID rowT,
           TimerInfoMapsRow.RunID rowT, TimerInfoMapsRow.TimerID rowT)) rowsT) \<and>
    rowT \<in> set rowsT \<and>
    TimerInfoMapsFilter.ShardID fT = TimerInfoMapsRow.ShardID rowT \<and>
    TimerInfoMapsFilter.DomainID fT = TimerInfoMapsRow.DomainID rowT \<and>
    TimerInfoMapsFilter.WorkflowID fT = TimerInfoMapsRow.WorkflowID rowT \<and>
    TimerInfoMapsFilter.RunID fT = TimerInfoMapsRow.RunID rowT \<and>
    GetDBShardIDFromHistoryShardID pdb (TimerInfoMapsRow.ShardID rowT) (GetTotalNumDBShards pdb) =
       GetDBShardIDFromHistoryShardID pdb (TimerInfoMapsRow.ShardID (rowsT ! 0))
              (GetTotalNumDBShards pdb) \<and>
    (\<forall>e\<in>set (tables s
                (GetDBShardIDFromHistoryShardID pdb (TimerInfoMapsRow.ShardID rowT)
                   (GetTotalNumDBShards pdb), timerInfoTableName)).
             in_execution (TimerInfoMapsRow.ShardID rowT) (TimerInfoMapsRow.DomainID rowT)
            (TimerInfoMapsRow.WorkflowID rowT) (TimerInfoMapsRow.RunID rowT) e \<longrightarrow>
             scanTimerInfoMapsRow (e |` set (timerInfoKey # timerInfoColumns)) \<noteq> None)
                 \<longrightarrow>
    snd (fst (SelectFromTimerInfoMaps pdb fT (snd (ReplaceIntoTimerInfoMaps pdb rowsT s)))) = None
        \<and>
    rowT
      \<in> set (fst (fst (SelectFromTimerInfoMaps pdb fT (snd (ReplaceIntoTimerInfoMaps pdb rowsT
          s)))))) \<and>
   (rowsC \<noteq> [] \<and>
    distinct (map (\<lambda>rowC. (ChildExecutionInfoMapsRow.ShardID rowC,
        ChildExecutionInfoMapsRow.DomainID rowC, ChildExecutionInfoMapsRow.WorkflowID rowC,
           ChildExecutionInfoMapsRow.RunID rowC, ChildExecutionInfoMapsRow.InitiatedID rowC)) rowsC)
               \<and>
    rowC \<in> set rowsC \<and>
    ChildExecutionInfoMapsFilter.ShardID fC = ChildExecutionInfoMapsRow.ShardID rowC \<and>
    ChildExecutionInfoMapsFilter.DomainID fC = ChildExecutionInfoMapsRow.DomainID rowC \<and>
    ChildExecutionInfoMapsFilter.WorkflowID fC = ChildExecutionInfoMapsRow.WorkflowID rowC \<and>
    ChildExecutionInfoMapsFilter.RunID fC = ChildExecutionInfoMapsRow.RunID rowC \<and>
    GetDBShardIDFromHistoryShardID pdb (ChildExecutionInfoMapsRow.ShardID rowC) (GetTotalNumDBShards
        pdb) =
       GetDBShardIDFromHistoryShardID pdb (ChildExecutionInfoMapsRow.ShardID (rowsC ! 0))
              (GetTotalNumDBShards pdb) \<and>
    (\<forall>e\<in>set (tables s
                (GetDBShardIDFromHistoryShardID pdb (ChildExecutionInfoMapsRow.ShardID rowC)
                   (GetTotalNumDBShards pdb), childExecutionInfoTableName)).
             in_execution (ChildExecutionInfoMapsRow.ShardID rowC)
                 (ChildExecutionInfoMapsRow.DomainID rowC)
            (ChildExecutionInfoMapsRow.WorkflowID rowC) (ChildExecutionInfoMapsRow.RunID rowC) e
                \<longrightarrow>
             scanChildExecutionInfoMapsRow (e |` set (childExecutionInfoKey #
                 childExecutionInfoColumns)) \<noteq> None) \<longrightarrow>
    snd (fst (SelectFromChildExecutionInfoMaps pdb fC (snd (ReplaceIntoChildExecutionInfoMaps pdb
        rowsC s)))) = None \<and>
    rowC
      \<in> set (fst (fst (SelectFromChildExecutionInfoMaps pdb fC (snd
          (ReplaceIntoChildExecutionInfoMaps pdb rowsC s)))))) \<and>
   (rowsR \<noteq> [] \<and>
    distinct (map (\<lambda>rowR. (RequestCancelInfoMapsRow.ShardID rowR,
        RequestCancelInfoMapsRow.DomainID rowR, RequestCancelInfoMapsRow.WorkflowID rowR,
           RequestCancelInfoMapsRow.RunID rowR, RequestCancelInfoMapsRow.InitiatedID rowR)) rowsR)
               \<and>
    rowR \<in> set rowsR \<and>
    RequestCancelInfoMapsFilter.ShardID fR = RequestCancelInfoMapsRow.ShardID rowR \<and>
    RequestCancelInfoMapsFilter.DomainID fR = RequestCancelInfoMapsRow.DomainID rowR \<and>
    RequestCancelInfoMapsFilter.WorkflowID fR = RequestCancelInfoMapsRow.WorkflowID rowR \<and>
    RequestCancelInfoMapsFilter.RunID fR = RequestCancelInfoMapsRow.RunID rowR \<and>
    GetDBShardIDFromHistoryShardID pdb (RequestCancelInfoMapsRow.ShardID rowR) (GetTotalNumDBShards
        pdb) =
       GetDBShardIDFromHistoryShardID pdb (RequestCancelInfoMapsRow.ShardID (rowsR ! 0))
              (GetTotalNumDBShards pdb) \<and>
    (\<forall>e\<in>set (tables s
                (GetDBShardIDFromHistoryShardID pdb (RequestCancelInfoMapsRow.ShardID rowR)
                   (GetTotalNumDBShards pdb), requestCancelInfoTableName)).
             in_execution (RequestCancelInfoMapsRow.ShardID rowR) (RequestCancelInfoMapsRow.DomainID
                 rowR)
            (RequestCancelInfoMapsRow.WorkflowID rowR) (RequestCancelInfoMapsRow.RunID rowR) e
                \<longrightarrow>
             scanRequestCancelInfoMapsRow (e |` set (requestCancelInfoKey #
                 requestCancelInfoColumns)) \<noteq> None) \<longrightarrow>
    snd (fst (SelectFromRequestCancelInfoMaps pdb fR (snd (ReplaceIntoRequestCancelInfoMaps pdb
        rowsR s)))) = None \<and>
    rowR
      \<in> set (fst (fst (SelectFromRequestCancelInfoMaps pdb fR (snd
          (ReplaceIntoRequestCancelInfoMaps pdb rowsR s)))))) \<and>
   (rowsS \<noteq> [] \<and>
    distinct (map (\<lambda>rowS. (SignalInfoMapsRow.ShardID rowS, SignalInfoMapsRow.DomainID rowS,
        SignalInfoMapsRow.WorkflowID rowS,
           SignalInfoMapsRow.RunID rowS, SignalInfoMapsRow.InitiatedID rowS)) rowsS) \<and>
    rowS \<in> set rowsS \<and>
    SignalInfoMapsFilter.ShardID fS = SignalInfoMapsRow.ShardID rowS \<and>
    SignalInfoMapsFilter.DomainID fS = SignalInfoMapsRow.DomainID rowS \<and>
    SignalInfoMapsFilter.WorkflowID fS = SignalInfoMapsRow.WorkflowID rowS \<and>
    SignalInfoMapsFilter.RunID fS = SignalInfoMapsRow.RunID rowS \<and>
    GetDBShardIDFromHistoryShardID pdb (SignalInfoMapsRow.ShardID rowS) (GetTotalNumDBShards pdb) =
       GetDBShardIDFromHistoryShardID pdb (SignalInfoMapsRow.ShardID (rowsS ! 0))
              (GetTotalNumDBShards pdb) \<and>
    (\<forall>e\<in>set (tables s
                (GetDBShardIDFromHistoryShardID pdb (SignalInfoMapsRow.ShardID rowS)
                   (GetTotalNumDBShards pdb), signalInfoTableName)).
             in_execution (SignalInfoMapsRow.ShardID rowS) (SignalInfoMapsRow.DomainID rowS)
            (SignalInfoMapsRow.WorkflowID rowS) (SignalInfoMapsRow.RunID rowS) e \<longrightarrow>
             scanSignalInfoMapsRow (e |` set (signalInfoKey # signalInfoColumns)) \<noteq> None)
                 \<longrightarrow>
    snd (fst (SelectFromSignalInfoMaps pdb fS (snd (ReplaceIntoSignalInfoMaps pdb rowsS s)))) = None
        \<and>
    rowS
      \<in> set (fst (fst (SelectFromSignalInfoMaps pdb fS (snd (ReplaceIntoSignalInfoMaps pdb rowsS
          s))))))"
proof -
  have kA: "rowsA \<noteq> [] \<and>
    distinct (map (\<lambda>rowA. (ActivityInfoMapsRow.ShardID rowA, ActivityInfoMapsRow.DomainID
        rowA, ActivityInfoMapsRow.WorkflowID rowA,
           ActivityInfoMapsRow.RunID rowA, ActivityInfoMapsRow.ScheduleID rowA)) rowsA) \<and>
    rowA \<in> set rowsA \<and>
    ActivityInfoMapsFilter.ShardID fA = ActivityInfoMapsRow.ShardID rowA \<and>
    ActivityInfoMapsFilter.DomainID fA = ActivityInfoMapsRow.DomainID rowA \<and>
    ActivityInfoMapsFilter.WorkflowID fA = ActivityInfoMapsRow.WorkflowID rowA \<and>
    ActivityInfoMapsFilter.RunID fA = ActivityInfoMapsRow.RunID rowA \<and>
    GetDBShardIDFromHistoryShardID pdb (ActivityInfoMapsRow.ShardID rowA) (GetTotalNumDBShards pdb)
        =
       GetDBShardIDFromHistoryShardID pdb (ActivityInfoMapsRow.ShardID (rowsA ! 0))
              (GetTotalNumDBShards pdb) \<and>
    (\<forall>e\<in>set (tables s
                (GetDBShardIDFromHistoryShardID pdb (ActivityInfoMapsRow.ShardID rowA)
                   (GetTotalNumDBShards pdb), activityInfoTableName)).
             in_execution (ActivityInfoMapsRow.ShardID rowA) (ActivityInfoMapsRow.DomainID rowA)
            (ActivityInfoMapsRow.WorkflowID rowA) (ActivityInfoMapsRow.RunID rowA) e
                \<longrightarrow>
             scanActivityInfoMapsRow (e |` set (activityInfoKey # activityInfoColumns)) \<noteq>
                 None) \<longrightarrow>
    snd (fst (SelectFromActivityInfoMaps pdb fA (snd (snd (ReplaceIntoActivityInfoMaps pdb rowsA
        s))))) = None \<and>
    rowA\<lparr>ActivityInfoMapsRow.LastHeartbeatUpdatedTime :=
          FromPostgresDateTime pdb (timestamp_column pdb
            (ToPostgresDateTime pdb (ActivityInfoMapsRow.LastHeartbeatUpdatedTime rowA)))\<rparr>
      \<in> set (fst (fst (SelectFromActivityInfoMaps pdb fA (snd (snd (ReplaceIntoActivityInfoMaps
          pdb rowsA s))))))"
    by (intro impI, elim conjE, rule roundtrip_ActivityInfoMaps) assumption+
  have kT: "rowsT \<noteq> [] \<and>
    distinct (map (\<lambda>rowT. (TimerInfoMapsRow.ShardID rowT, TimerInfoMapsRow.DomainID rowT,
        TimerInfoMapsRow.WorkflowID rowT,
           TimerInfoMapsRow.RunID rowT, TimerInfoMapsRow.TimerID rowT)) rowsT) \<and>
    rowT \<in> set rowsT \<and>
    TimerInfoMapsFilter.ShardID fT = TimerInfoMapsRow.ShardID rowT \<and>
    TimerInfoMapsFilter.DomainID fT = TimerInfoMapsRow.DomainID rowT \<and>
    TimerInfoMapsFilter.WorkflowID fT = TimerInfoMapsRow.WorkflowID rowT \<and>
    TimerInfoMapsFilter.RunID fT = TimerInfoMapsRow.RunID rowT \<and>
    GetDBShardIDFromHistoryShardID pdb (TimerInfoMapsRow.ShardID rowT) (GetTotalNumDBShards pdb) =
       GetDBShardIDFromHistoryShardID pdb (TimerInfoMapsRow.ShardID (rowsT ! 0))
              (GetTotalNumDBShards pdb) \<and>
    (\<forall>e\<in>set (tables s
                (GetDBShardIDFromHistoryShardID pdb (TimerInfoMapsRow.ShardID rowT)
                   (GetTotalNumDBShards pdb), timerInfoTableName)).
             in_execution (TimerInfoMapsRow.ShardID rowT) (TimerInfoMapsRow.DomainID rowT)
            (TimerInfoMapsRow.WorkflowID rowT) (TimerInfoMapsRow.RunID rowT) e \<longrightarrow>
             scanTimerInfoMapsRow (e |` set (timerInfoKey # timerInfoColumns)) \<noteq> None)
                 \<longrightarrow>
    snd (fst (SelectFromTimerInfoMaps pdb fT (snd (ReplaceIntoTimerInfoMaps pdb rowsT s)))) = None
        \<and>
    rowT
      \<in> set (fst (fst (SelectFromTimerInfoMaps pdb fT (snd (ReplaceIntoTimerInfoMaps pdb rowsT
          s)))))"
    by (intro impI, elim conjE, rule roundtrip_TimerInfoMaps) assumption+
  have kC: "rowsC \<noteq> [] \<and>
    distinct (map (\<lambda>rowC. (ChildExecutionInfoMapsRow.ShardID rowC,
        ChildExecutionInfoMapsRow.DomainID rowC, ChildExecutionInfoMapsRow.WorkflowID rowC,
           ChildExecutionInfoMapsRow.RunID rowC, ChildExecutionInfoMapsRow.InitiatedID rowC)) rowsC)
               \<and>
    rowC \<in> set rowsC \<and>
    ChildExecutionInfoMapsFilter.ShardID fC = ChildExecutionInfoMapsRow.ShardID rowC \<and>
    ChildExecutionInfoMapsFilter.DomainID fC = ChildExecutionInfoMapsRow.DomainID rowC \<and>
    ChildExecutionInfoMapsFilter.WorkflowID fC = ChildExecutionInfoMapsRow.WorkflowID rowC \<and>
    ChildExecutionInfoMapsFilter.RunID fC = ChildExecutionInfoMapsRow.RunID rowC \<and>
    GetDBShardIDFromHistoryShardID pdb (ChildExecutionInfoMapsRow.ShardID rowC) (GetTotalNumDBShards
        pdb) =
       GetDBShardIDFromHistoryShardID pdb (ChildExecutionInfoMapsRow.ShardID (rowsC ! 0))
              (GetTotalNumDBShards pdb) \<and>
    (\<forall>e\<in>set (tables s
                (GetDBShardIDFromHistoryShardID pdb (ChildExecutionInfoMapsRow.ShardID rowC)
                   (GetTotalNumDBShards pdb), childExecutionInfoTableName)).
             in_execution (ChildExecutionInfoMapsRow.ShardID rowC)
                 (ChildExecutionInfoMapsRow.DomainID rowC)
            (ChildExecutionInfoMapsRow.WorkflowID rowC) (ChildExecutionInfoMapsRow.RunID rowC) e
                \<longrightarrow>
             scanChildExecutionInfoMapsRow (e |` set (childExecutionInfoKey #
                 childExecutionInfoColumns)) \<noteq> None) \<longrightarrow>
    snd (fst (SelectFromChildExecutionInfoMaps pdb fC (snd (ReplaceIntoChildExecutionInfoMaps pdb
        rowsC s)))) = None \<and>
    rowC
      \<in> set (fst (fst (SelectFromChildExecutionInfoMaps pdb fC (snd
          (ReplaceIntoChildExecutionInfoMaps pdb rowsC s)))))"
    by (intro impI, elim conjE, rule roundtrip_ChildExecutionInfoMaps) assumption+
  have kR: "rowsR \<noteq> [] \<and>
    distinct (map (\<lambda>rowR. (RequestCancelInfoMapsRow.ShardID rowR,
        RequestCancelInfoMapsRow.DomainID rowR, RequestCancelInfoMapsRow.WorkflowID rowR,
           RequestCancelInfoMapsRow.RunID rowR, RequestCancelInfoMapsRow.InitiatedID rowR)) rowsR)
               \<and>
    rowR \<in> set rowsR \<and>
    RequestCancelInfoMapsFilter.ShardID fR = RequestCancelInfoMapsRow.ShardID rowR \<and>
    RequestCancelInfoMapsFilter.DomainID fR = RequestCancelInfoMapsRow.DomainID rowR \<and>
    RequestCancelInfoMapsFilter.WorkflowID fR = RequestCancelInfoMapsRow.WorkflowID rowR \<and>
    RequestCancelInfoMapsFilter.RunID fR = RequestCancelInfoMapsRow.RunID rowR \<and>
    GetDBShardIDFromHistoryShardID pdb (RequestCancelInfoMapsRow.ShardID rowR) (GetTotalNumDBShards
        pdb) =
       GetDBShardIDFromHistoryShardID pdb (RequestCancelInfoMapsRow.ShardID (rowsR ! 0))
              (GetTotalNumDBShards pdb) \<and>
    (\<forall>e\<in>set (tables s
                (GetDBShardIDFromHistoryShardID pdb (RequestCancelInfoMapsRow.ShardID rowR)
                   (GetTotalNumDBShards pdb), requestCancelInfoTableName)).
             in_execution (RequestCancelInfoMapsRow.ShardID rowR) (RequestCancelInfoMapsRow.DomainID
                 rowR)
            (RequestCancelInfoMapsRow.WorkflowID rowR) (RequestCancelInfoMapsRow.RunID rowR) e
                \<longrightarrow>
             scanRequestCancelInfoMapsRow (e |` set (requestCancelInfoKey #
                 requestCancelInfoColumns)) \<noteq> None) \<longrightarrow>
    snd (fst (SelectFromRequestCancelInfoMaps pdb fR (snd (ReplaceIntoRequestCancelInfoMaps pdb
        rowsR s)))) = None \<and>
    rowR
      \<in> set (fst (fst (SelectFromRequestCancelInfoMaps pdb fR (snd
          (ReplaceIntoRequestCancelInfoMaps pdb rowsR s)))))"
    by (intro impI, elim conjE, rule roundtrip_RequestCancelInfoMaps) assumption+
  have kS: "rowsS \<noteq> [] \<and>
    distinct (map (\<lambda>rowS. (SignalInfoMapsRow.ShardID rowS, SignalInfoMapsRow.DomainID rowS,
        SignalInfoMapsRow.WorkflowID rowS,
           SignalInfoMapsRow.RunID rowS, SignalInfoMapsRow.InitiatedID rowS)) rowsS) \<and>
    rowS \<in> set rowsS \<and>
    SignalInfoMapsFilter.ShardID fS = SignalInfoMapsRow.ShardID rowS \<and>
    SignalInfoMapsFilter.DomainID fS = SignalInfoMapsRow.DomainID rowS \<and>
    SignalInfoMapsFilter.WorkflowID fS = SignalInfoMapsRow.WorkflowID rowS \<and>
    SignalInfoMapsFilter.RunID fS = SignalInfoMapsRow.RunID rowS \<and>
    GetDBShardIDFromHistoryShardID pdb (SignalInfoMapsRow.ShardID rowS) (GetTotalNumDBShards pdb) =
       GetDBShardIDFromHistoryShardID pdb (SignalInfoMapsRow.ShardID (rowsS ! 0))
              (GetTotalNumDBShards pdb) \<and>
    (\<forall>e\<in>set (tables s
                (GetDBShardIDFromHistoryShardID pdb (SignalInfoMapsRow.ShardID rowS)
                   (GetTotalNumDBShards pdb), signalInfoTableName)).
             in_execution (SignalInfoMapsRow.ShardID rowS) (SignalInfoMapsRow.DomainID rowS)
            (SignalInfoMapsRow.WorkflowID rowS) (SignalInfoMapsRow.RunID rowS) e \<longrightarrow>
             scanSignalInfoMapsRow (e |` set (signalInfoKey # signalInfoColumns)) \<noteq> None)
                 \<longrightarrow>
    snd (fst (SelectFromSignalInfoMaps pdb fS (snd (ReplaceIntoSignalInfoMaps pdb rowsS s)))) = None
        \<and>
    rowS
      \<in> set (fst (fst (SelectFromSignalInfoMaps pdb fS (snd (ReplaceIntoSignalInfoMaps pdb rowsS
          s)))))"
    by (intro impI, elim conjE, rule roundtrip_SignalInfoMaps) assumption+
  show ?thesis
    by (rule conjI[OF kA conjI[OF kT conjI[OF kC conjI[OF kR kS]]]])
qed

theorem select_after_replace_returns_row_witness:
  "(example_activity\<lparr>ActivityInfoMapsRow.LastHeartbeatUpdatedTime := 1230\<rparr>
     \<in> set (fst (fst (SelectFromActivityInfoMaps example_db example_activity_filter (snd (snd
         (ReplaceIntoActivityInfoMaps example_db
         [example_activity\<lparr>ActivityInfoMapsRow.LastHeartbeatUpdatedTime := 1234\<rparr>]
         example_backend))))))) \<and>
   (example_timer\<lparr>TimerInfoMapsRow.Data := ''new''\<rparr>
     \<in> set (fst (fst (SelectFromTimerInfoMaps example_db example_timer_filter (snd
         (ReplaceIntoTimerInfoMaps example_db [example_timer\<lparr>TimerInfoMapsRow.Data :=
         ''new''\<rparr>] example_backend)))))) \<and>
   (example_child\<lparr>ChildExecutionInfoMapsRow.Data := ''new''\<rparr>
     \<in> set (fst (fst (SelectFromChildExecutionInfoMaps example_db example_child_filter (snd
         (ReplaceIntoChildExecutionInfoMaps example_db
         [example_child\<lparr>ChildExecutionInfoMapsRow.Data := ''new''\<rparr>]
         example_backend)))))) \<and>
   (example_cancel\<lparr>RequestCancelInfoMapsRow.Data := ''new''\<rparr>
     \<in> set (fst (fst (SelectFromRequestCancelInfoMaps example_db example_cancel_filter (snd
         (ReplaceIntoRequestCancelInfoMaps example_db
         [example_cancel\<lparr>RequestCancelInfoMapsRow.Data := ''new''\<rparr>]
         example_backend)))))) \<and>
   (example_signal\<lparr>SignalInfoMapsRow.Data := ''new''\<rparr>
     \<in> set (fst (fst (SelectFromSignalInfoMaps example_db example_signal_filter (snd
         (ReplaceIntoSignalInfoMaps example_db [example_signal\<lparr>SignalInfoMapsRow.Data :=
         ''new''\<rparr>] example_backend))))))"
proof -
  note t = select_after_replace_returns_row[where pdb = example_db and s = example_backend and
      rowsA = "[example_activity\<lparr>ActivityInfoMapsRow.LastHeartbeatUpdatedTime :=
          1234\<rparr>]" and rowA =
          "example_activity\<lparr>ActivityInfoMapsRow.LastHeartbeatUpdatedTime := 1234\<rparr>" and
          fA = example_activity_filter and
      rowsT = "[example_timer\<lparr>TimerInfoMapsRow.Data := ''new''\<rparr>]" and rowT =
          "example_timer\<lparr>TimerInfoMapsRow.Data := ''new''\<rparr>" and fT =
          example_timer_filter and
      rowsC = "[example_child\<lparr>ChildExecutionInfoMapsRow.Data := ''new''\<rparr>]" and rowC =
          "example_child\<lparr>ChildExecutionInfoMapsRow.Data := ''new''\<rparr>" and fC =
          example_child_filter and
      rowsR = "[example_cancel\<lparr>RequestCancelInfoMapsRow.Data := ''new''\<rparr>]" and rowR =
          "example_cancel\<lparr>RequestCancelInfoMapsRow.Data := ''new''\<rparr>" and fR =
          example_cancel_filter and
      rowsS = "[example_signal\<lparr>SignalInfoMapsRow.Data := ''new''\<rparr>]" and rowS =
          "example_signal\<lparr>SignalInfoMapsRow.Data := ''new''\<rparr>" and fS =
          example_signal_filter]
  have wA: "example_activity\<lparr>ActivityInfoMapsRow.LastHeartbeatUpdatedTime := 1230\<rparr>
     \<in> set (fst (fst (SelectFromActivityInfoMaps example_db example_activity_filter (snd (snd
         (ReplaceIntoActivityInfoMaps example_db
         [example_activity\<lparr>ActivityInfoMapsRow.LastHeartbeatUpdatedTime := 1234\<rparr>]
         example_backend))))))"
    using t[THEN conjunct1]
    by (simp add: example_db_def example_backend_def example_activity_def
        example_activity_filter_def
        activityInfoTableName_def activityInfoKey_def activityInfoColumns_def in_execution_def
            bindActivityInfoMapsRow_def scanActivityInfoMapsRow_def restrict_map_def)
  have wT: "example_timer\<lparr>TimerInfoMapsRow.Data := ''new''\<rparr>
     \<in> set (fst (fst (SelectFromTimerInfoMaps example_db example_timer_filter (snd
         (ReplaceIntoTimerInfoMaps example_db [example_timer\<lparr>TimerInfoMapsRow.Data :=
         ''new''\<rparr>] example_backend)))))"
    using t[THEN conjunct2, THEN conjunct1]
    by (simp add: example_db_def example_backend_def example_timer_def example_timer_filter_def
        timerInfoTableName_def timerInfoKey_def timerInfoColumns_def in_execution_def
            bindTimerInfoMapsRow_def scanTimerInfoMapsRow_def restrict_map_def)
  have wC: "example_child\<lparr>ChildExecutionInfoMapsRow.Data := ''new''\<rparr>
     \<in> set (fst (fst (SelectFromChildExecutionInfoMaps example_db example_child_filter (snd
         (ReplaceIntoChildExecutionInfoMaps example_db
         [example_child\<lparr>ChildExecutionInfoMapsRow.Data := ''new''\<rparr>]
         example_backend)))))"
    using t[THEN conjunct2, THEN conjunct2, THEN conjunct1]
    by (simp add: example_db_def example_backend_def example_child_def example_child_filter_def
        childExecutionInfoTableName_def childExecutionInfoKey_def childExecutionInfoColumns_def
            in_execution_def bindChildExecutionInfoMapsRow_def scanChildExecutionInfoMapsRow_def
            restrict_map_def)
  have wR: "example_cancel\<lparr>RequestCancelInfoMapsRow.Data := ''new''\<rparr>
     \<in> set (fst (fst (SelectFromRequestCancelInfoMaps example_db example_cancel_filter (snd
         (ReplaceIntoRequestCancelInfoMaps example_db
         [example_cancel\<lparr>RequestCancelInfoMapsRow.Data := ''new''\<rparr>]
         example_backend)))))"
    using t[THEN conjunct2, THEN conjunct2, THEN conjunct2, THEN conjunct1]
    by (simp add: example_db_def example_backend_def example_cancel_def example_cancel_filter_def
        requestCancelInfoTableName_def requestCancelInfoKey_def requestCancelInfoColumns_def
            in_execution_def bindRequestCancelInfoMapsRow_def scanRequestCancelInfoMapsRow_def
            restrict_map_def)
  have wS: "example_signal\<lparr>SignalInfoMapsRow.Data := ''new''\<rparr>
     \<in> set (fst (fst (SelectFromSignalInfoMaps example_db example_signal_filter (snd
         (ReplaceIntoSignalInfoMaps example_db [example_signal\<lparr>SignalInfoMapsRow.Data :=
         ''new''\<rparr>] example_backend)))))"
    using t[THEN conjunct2, THEN conjunct2, THEN conjunct2, THEN conjunct2]
    by (simp add: example_db_def example_backend_def example_signal_def example_signal_filter_def
        signalInfoTableName_def signalInfoKey_def signalInfoColumns_def in_execution_def
            bindSignalInfoMapsRow_def scanSignalInfoMapsRow_def restrict_map_def)
  show ?thesis
    by (rule conjI[OF wA conjI[OF wT conjI[OF wC conjI[OF wR wS]]]])
qed

text \<open>
  Claim C9. The backend reads the insert query of the signals-requested set as an insert
  with the action \<^verbatim>\<open>DO NOTHING\<close> on a conflict in the identity columns and the signal id.
  When every row of a non-empty insert call has a stored row with its shard, domain,
  workflow, run and signal id, the call returns success and the backend state afterwards
  differs from the state before only in the log of issued statements: every table, and so
  every column of the rows that were there, is as it was.
\<close>

theorem insert_requested_signal_is_idempotent:
  "prepare createSignalsRequestedSetQuery =
     Some (Insert ''signals_requested_sets'' (identity_columns @ [''signal_id''])
             (identity_columns @ [''signal_id'']) (identity_columns @ [''signal_id'']) DoNothing)
                 \<and>
   (rows \<noteq> [] \<and>
    (\<forall>row\<in>set rows.
       \<exists>e\<in>set (tables s
              (GetDBShardIDFromHistoryShardID pdb (SignalsRequestedSetsRow.ShardID (rows ! 0))
                 (GetTotalNumDBShards pdb), ''signals_requested_sets'')).
         in_execution (SignalsRequestedSetsRow.ShardID row) (SignalsRequestedSetsRow.DomainID row)
           (SignalsRequestedSetsRow.WorkflowID row) (SignalsRequestedSetsRow.RunID row) e \<and>
         e ''signal_id'' = Some (VString (SignalsRequestedSetsRow.SignalID row))) \<longrightarrow>
    InsertIntoSignalsRequestedSets pdb rows s =
      (Inr (Some Result),
       s\<lparr>issued := issued s @
          [NamedExecCall
             (GetDBShardIDFromHistoryShardID pdb (SignalsRequestedSetsRow.ShardID (rows ! 0))
                (GetTotalNumDBShards pdb))
             createSignalsRequestedSetQuery (map bindSignalsRequestedSetsRow rows)]\<rparr>))"
  using insert_existing_SignalsRequestedSets[of rows s pdb] prepare_createSignalsRequestedSetQuery
  by blast

theorem insert_requested_signal_is_idempotent_witness:
  "[example_requested] \<noteq> [] \<and>
   fst (InsertIntoSignalsRequestedSets example_db [example_requested] example_backend) =
     Inr (Some Result) \<and>
   tables (snd (InsertIntoSignalsRequestedSets example_db [example_requested] example_backend)) =
     tables example_backend"
  using insert_requested_signal_is_idempotent[where pdb = example_db and s = example_backend
      and rows = "[example_requested]"]
  by (simp add: example_db_def example_backend_def example_requested_def in_execution_def
      bindSignalsRequestedSetsRow_def)

end
